(* ===== verification/Ndpi_Prelude.thy ===== *)
theory Ndpi_Prelude
  imports "HOL-Library.Word" "HOL-Library.Monad_Syntax"
begin

text \<open>
  Shared vocabulary of the development: the machine types of the C sources, byte
  buffers with bounds-checked reads, C's short-circuit conjunction and disjunction over
  conditions that may read memory, and the generic lemmas the components rely on.

  Conventions. A C function that may read or write outside an object, or divide by zero,
  returns an \<open>option\<close> in the model: \<open>None\<close> is undefined behaviour of the C program, so a
  theorem \<open>f x = Some y\<close> or \<open>f x \<noteq> None\<close> is a memory-safety statement. Lengths and
  protocol identifiers, which the code only compares, adds and subtracts, are \<open>nat\<close>,
  with C's wrap-around written out wherever a value can leave its range; hashes,
  counters, keys, flags and masks are machine words.
\<close>

unbundle bit_operations_syntax

type_synonym u8 = "8 word"
type_synonym u16 = "16 word"
type_synonym u32 = "32 word"
type_synonym u64 = "64 word"
type_synonym bytes = "u8 list"

named_theorems rd_simps \<open>bounds-checked reads inside their bounds\<close>
named_theorems sc_simps \<open>short-circuit conditions\<close>

section \<open>Bounds-checked reads\<close>

text \<open>
  \<open>packet->payload[i]\<close> and the \<open>get_u_int16_t\<close>, \<open>get_u_int32_t\<close> macros composed with
  \<open>ntohs\<close> and \<open>ntohl\<close>: the value of the big-endian field at an offset, or \<open>None\<close> when
  some byte of it lies outside the buffer.
\<close>

definition rd8 :: "bytes \<Rightarrow> nat \<Rightarrow> u8 option" where
  "rd8 p i = (if i < length p then Some (p ! i) else None)"

definition be16 :: "u8 \<Rightarrow> u8 \<Rightarrow> nat" where
  "be16 a b = 256 * unat a + unat b"

definition be32 :: "u8 \<Rightarrow> u8 \<Rightarrow> u8 \<Rightarrow> u8 \<Rightarrow> nat" where
  "be32 a b c d = 65536 * be16 a b + be16 c d"

definition rd16 :: "bytes \<Rightarrow> nat \<Rightarrow> nat option" where
  "rd16 p i = do { a \<leftarrow> rd8 p i; b \<leftarrow> rd8 p (i + 1); Some (be16 a b) }"

definition rd32 :: "bytes \<Rightarrow> nat \<Rightarrow> nat option" where
  "rd32 p i = do {
     a \<leftarrow> rd8 p i; b \<leftarrow> rd8 p (i + 1); c \<leftarrow> rd8 p (i + 2); d \<leftarrow> rd8 p (i + 3);
     Some (be32 a b c d) }"

text \<open>Little-endian fields (\<open>le16toh\<close>, \<open>le32toh\<close>).\<close>

definition rdle16 :: "bytes \<Rightarrow> nat \<Rightarrow> nat option" where
  "rdle16 p i = do { a \<leftarrow> rd8 p i; b \<leftarrow> rd8 p (i + 1); Some (be16 b a) }"

definition rdle32 :: "bytes \<Rightarrow> nat \<Rightarrow> nat option" where
  "rdle32 p i = do {
     a \<leftarrow> rd8 p i; b \<leftarrow> rd8 p (i + 1); c \<leftarrow> rd8 p (i + 2); d \<leftarrow> rd8 p (i + 3);
     Some (be32 d c b a) }"

text \<open>\<open>memcmp(&payload[off], s, n) == 0\<close> with a literal of known length, and \<open>memcpy\<close>
  of \<open>n\<close> bytes: every byte of the range has to be readable.\<close>

definition rdn :: "bytes \<Rightarrow> nat \<Rightarrow> nat \<Rightarrow> bytes option" where
  "rdn p off n = (if off + n \<le> length p then Some (take n (drop off p)) else None)"

definition mem_eq :: "bytes \<Rightarrow> nat \<Rightarrow> bytes \<Rightarrow> bool option" where
  "mem_eq p off s = map_option (\<lambda>x. x = s) (rdn p off (length s))"

definition byte_of :: "char \<Rightarrow> u8" where
  "byte_of c = of_nat (of_char c)"

definition str :: "string \<Rightarrow> bytes" where
  "str s = map byte_of s"

lemma rd8_in [rd_simps]: "i < length p \<Longrightarrow> rd8 p i = Some (p ! i)"
  by (simp add: rd8_def)

lemma rd8_eq_None [simp]: "rd8 p i = None \<longleftrightarrow> length p \<le> i"
  by (simp add: rd8_def)

lemma rd16_in [rd_simps]: "i + 1 < length p \<Longrightarrow> rd16 p i = Some (be16 (p ! i) (p ! (i + 1)))"
  by (simp add: rd16_def rd8_def)

lemma rd32_in [rd_simps]:
  "i + 3 < length p \<Longrightarrow>
     rd32 p i = Some (be32 (p ! i) (p ! (i + 1)) (p ! (i + 2)) (p ! (i + 3)))"
  by (simp add: rd32_def rd8_def)

lemma rdle16_in [rd_simps]: "i + 1 < length p \<Longrightarrow> rdle16 p i = Some (be16 (p ! (i + 1)) (p ! i))"
  by (simp add: rdle16_def rd8_def)

lemma rdle32_in [rd_simps]:
  "i + 3 < length p \<Longrightarrow>
     rdle32 p i = Some (be32 (p ! (i + 3)) (p ! (i + 2)) (p ! (i + 1)) (p ! i))"
  by (simp add: rdle32_def rd8_def)

lemma rd16_eq_None [simp]: "rd16 p i = None \<longleftrightarrow> length p \<le> i + 1"
  by (auto simp: rd16_def rd8_def)

lemma rd32_eq_None [simp]: "rd32 p i = None \<longleftrightarrow> length p \<le> i + 3"
  by (auto simp: rd32_def rd8_def)

lemma rdle16_eq_None [simp]: "rdle16 p i = None \<longleftrightarrow> length p \<le> i + 1"
  by (auto simp: rdle16_def rd8_def)

lemma rdle32_eq_None [simp]: "rdle32 p i = None \<longleftrightarrow> length p \<le> i + 3"
  by (auto simp: rdle32_def rd8_def)

lemma rdn_in [rd_simps]: "off + n \<le> length p \<Longrightarrow> rdn p off n = Some (take n (drop off p))"
  by (simp add: rdn_def)

lemma rdn_eq_None [simp]: "rdn p off n = None \<longleftrightarrow> length p < off + n"
  by (auto simp: rdn_def)

lemma mem_eq_None [simp]: "mem_eq p off s = None \<longleftrightarrow> length p < off + length s"
  by (simp add: mem_eq_def)

lemma mem_eq_in [rd_simps]:
  "off + length s \<le> length p \<Longrightarrow> mem_eq p off s = Some (take (length s) (drop off p) = s)"
  by (simp add: mem_eq_def rdn_def)

lemma length_str [simp]: "length (str s) = length s"
  by (simp add: str_def)

lemma be16_less: "be16 a b < 65536"
proof -
  have "unat a < 256" "unat b < 256"
    using unsigned_less [of a, where ?'a = nat] unsigned_less [of b, where ?'a = nat] by simp_all
  then show ?thesis unfolding be16_def by linarith
qed

lemma be32_less: "be32 a b c d < 4294967296"
  using be16_less [of a b] be16_less [of c d] unfolding be32_def by linarith

lemma rd16_less: "rd16 p i = Some v \<Longrightarrow> v < 65536"
  by (auto simp: rd16_def be16_less split: bind_splits)

lemma rd32_less: "rd32 p i = Some v \<Longrightarrow> v < 4294967296"
  by (auto simp: rd32_def be32_less split: bind_splits)

section \<open>Short-circuit conditions\<close>

text \<open>
  \<open>a && b && c\<close> and \<open>a || b || c\<close> over conditions that may read memory. Evaluation stops
  at the first operand that decides the result, so a later operand may be out of bounds
  without being evaluated.
\<close>

primrec all_of :: "bool option list \<Rightarrow> bool option" where
  "all_of [] = Some True"
| "all_of (c # cs) = (case c of None \<Rightarrow> None | Some b \<Rightarrow> if b then all_of cs else Some False)"

primrec any_of :: "bool option list \<Rightarrow> bool option" where
  "any_of [] = Some False"
| "any_of (c # cs) = (case c of None \<Rightarrow> None | Some b \<Rightarrow> if b then Some True else any_of cs)"

definition byte_is :: "bytes \<Rightarrow> nat \<Rightarrow> u8 \<Rightarrow> bool option" where
  "byte_is p i v = map_option (\<lambda>b. b = v) (rd8 p i)"

definition byte_sat :: "bytes \<Rightarrow> nat \<Rightarrow> (u8 \<Rightarrow> bool) \<Rightarrow> bool option" where
  "byte_sat p i P = map_option P (rd8 p i)"

definition be16_is :: "bytes \<Rightarrow> nat \<Rightarrow> nat \<Rightarrow> bool option" where
  "be16_is p i v = map_option (\<lambda>b. b = v) (rd16 p i)"

definition be32_is :: "bytes \<Rightarrow> nat \<Rightarrow> nat \<Rightarrow> bool option" where
  "be32_is p i v = map_option (\<lambda>b. b = v) (rd32 p i)"

definition notc :: "bool option \<Rightarrow> bool option" where
  "notc c = map_option Not c"

definition ifc :: "bool option \<Rightarrow> 'a option \<Rightarrow> 'a option \<Rightarrow> 'a option" where
  "ifc c t e = (case c of None \<Rightarrow> None | Some b \<Rightarrow> if b then t else e)"

lemma all_of_eq_None [sc_simps]:
  "all_of (c # cs) = None \<longleftrightarrow> c = None \<or> (c = Some True \<and> all_of cs = None)"
  by (cases c) auto

lemma any_of_eq_None [sc_simps]:
  "any_of (c # cs) = None \<longleftrightarrow> c = None \<or> (c = Some False \<and> any_of cs = None)"
  by (cases c) auto

lemma all_of_eq_True [sc_simps]:
  "all_of cs = Some True \<longleftrightarrow> (\<forall>c \<in> set cs. c = Some True)"
  by (induction cs) (auto split: option.splits)

lemma any_of_eq_False [sc_simps]:
  "any_of cs = Some False \<longleftrightarrow> (\<forall>c \<in> set cs. c = Some False)"
  by (induction cs) (auto split: option.splits)

lemma ifc_Some [simp]: "ifc (Some b) t e = (if b then t else e)"
  by (simp add: ifc_def)

lemma ifc_eq_None [sc_simps]:
  "ifc c t e = None \<longleftrightarrow> c = None \<or> (c = Some True \<and> t = None) \<or> (c = Some False \<and> e = None)"
  by (cases c) (auto simp: ifc_def)

lemma notc_simps [simp]:
  "notc c = None \<longleftrightarrow> c = None"
  "notc c = Some b \<longleftrightarrow> c = Some (\<not> b)"
  by (cases c; auto simp: notc_def)+

lemma byte_is_None [simp]: "byte_is p i v = None \<longleftrightarrow> length p \<le> i"
  by (simp add: byte_is_def)

lemma byte_sat_None [simp]: "byte_sat p i P = None \<longleftrightarrow> length p \<le> i"
  by (simp add: byte_sat_def)

lemma be16_is_None [simp]: "be16_is p i v = None \<longleftrightarrow> length p \<le> i + 1"
  by (simp add: be16_is_def)

lemma be32_is_None [simp]: "be32_is p i v = None \<longleftrightarrow> length p \<le> i + 3"
  by (simp add: be32_is_def)

lemma byte_is_Some [simp]: "byte_is p i v = Some b \<longleftrightarrow> i < length p \<and> (p ! i = v \<longleftrightarrow> b)"
  by (auto simp: byte_is_def rd8_def)

lemma byte_sat_Some [simp]: "byte_sat p i P = Some b \<longleftrightarrow> i < length p \<and> (P (p ! i) \<longleftrightarrow> b)"
  by (auto simp: byte_sat_def rd8_def)

end
