(* ===== verification/Hashing.thy ===== *)
theory Hashing
  imports Ndpi_Prelude
begin

text \<open>
  The hash functions of \<open>src/lib/ndpi_hash.c\<close> at their C widths. A \<open>u_char\<close> buffer is
  zero-extended (\<open>ucast\<close>), a \<open>char\<close> buffer sign-extended (\<open>scast\<close>), as on the platforms
  the library is built for; multi-byte loads are little-endian. A C string is the list of
  its bytes before the terminating NUL.
\<close>

section \<open>Loads of integers from memory\<close>

text \<open>The object representation of a 64-bit integer, lowest byte first.\<close>

definition bytes_of_u64 :: "u64 \<Rightarrow> bytes" where
  "bytes_of_u64 k = map (\<lambda>i. ucast (drop_bit (8 * i) k)) [0..<8]"

definition u64_of_bytes :: "bytes \<Rightarrow> u64" where
  "u64_of_bytes bs = foldr (\<lambda>b acc. push_bit 8 acc OR ucast b) bs 0"

definition C_str :: "bytes \<Rightarrow> bytes" where
  "C_str s = takeWhile (\<lambda>b. b \<noteq> 0) s"

section \<open>The hash functions\<close>

fun ndpi_quick_hash_loop :: "u32 \<Rightarrow> bytes \<Rightarrow> u32" where
  "ndpi_quick_hash_loop hash [] = hash"
| "ndpi_quick_hash_loop hash (b # bs) = ndpi_quick_hash_loop ((push_bit 5 hash + hash) + ucast b) bs"

definition ndpi_quick_hash :: "bytes \<Rightarrow> u32" where
  "ndpi_quick_hash s = ndpi_quick_hash_loop 5381 s"

fun ndpi_quick_hash64_loop :: "u64 \<Rightarrow> bytes \<Rightarrow> u64" where
  "ndpi_quick_hash64_loop h [] = h"
| "ndpi_quick_hash64_loop h (b # bs) = ndpi_quick_hash64_loop (h * 31 + scast b) bs"

definition ndpi_quick_hash64 :: "bytes \<Rightarrow> u64" where
  "ndpi_quick_hash64 s = ndpi_quick_hash64_loop 177 s XOR of_nat (length s)"

text \<open>The mixing step and the final scramble of the Jenkins hash.\<close>

definition jenkins_step :: "u32 \<Rightarrow> u8 \<Rightarrow> u32" where
  "jenkins_step hash b =
     (let h1 = hash + scast b; h2 = h1 + push_bit 10 h1 in h2 XOR drop_bit 6 h2)"

definition jenkins_final :: "u32 \<Rightarrow> u32" where
  "jenkins_final hash =
     (let h1 = hash + push_bit 3 hash; h2 = h1 XOR drop_bit 11 h1 in h2 + push_bit 15 h2)"

text \<open>\<open>for(hash = i = 0; str[i] != 0; ++i)\<close>: reading past the buffer without meeting a NUL is
  undefined, hence \<open>None\<close>.\<close>

fun ndpi_hash_string_loop :: "u32 \<Rightarrow> bytes \<Rightarrow> u32 option" where
  "ndpi_hash_string_loop hash [] = None"
| "ndpi_hash_string_loop hash (b # bs) =
     (if b = 0 then Some hash else ndpi_hash_string_loop (jenkins_step hash b) bs)"

definition ndpi_hash_string :: "bytes \<Rightarrow> u32 option" where
  "ndpi_hash_string mem = map_option jenkins_final (ndpi_hash_string_loop 0 mem)"

text \<open>\<open>for(hash = i = 0; i < len; ++i)\<close>\<close>

fun ndpi_hash_string_len_loop :: "u32 \<Rightarrow> bytes \<Rightarrow> nat \<Rightarrow> nat \<Rightarrow> u32 option" where
  "ndpi_hash_string_len_loop hash s i 0 = Some hash"
| "ndpi_hash_string_len_loop hash s i (Suc n) =
     (case rd8 s i of None \<Rightarrow> None
      | Some b \<Rightarrow> ndpi_hash_string_len_loop (jenkins_step hash b) s (Suc i) n)"

definition ndpi_hash_string_len :: "bytes \<Rightarrow> nat \<Rightarrow> u32 option" where
  "ndpi_hash_string_len s len = map_option jenkins_final (ndpi_hash_string_len_loop 0 s 0 len)"

text \<open>The backward loop from \<open>len - 1\<close> down to 0 over a string of length \<open>len\<close>.\<close>

fun ndpi_rev_hash_loop :: "u32 \<Rightarrow> bytes \<Rightarrow> nat \<Rightarrow> u32" where
  "ndpi_rev_hash_loop hash s 0 = jenkins_step hash (s ! 0)"
| "ndpi_rev_hash_loop hash s (Suc n) = ndpi_rev_hash_loop (jenkins_step hash (s ! Suc n)) s n"

definition ndpi_rev_hash_string :: "bytes \<Rightarrow> u32" where
  "ndpi_rev_hash_string s =
     (if length s = 0 then 0 else jenkins_final (ndpi_rev_hash_loop 0 s (length s - 1)))"

definition ROR64 :: "u64 \<Rightarrow> nat \<Rightarrow> u64" where
  "ROR64 x r = drop_bit r x OR push_bit (64 - r) x"

definition ndpi_quick_16_byte_hash :: "bytes \<Rightarrow> u32 option" where
  "ndpi_quick_16_byte_hash s = do {
     lo \<leftarrow> rdn s 0 8;
     hi \<leftarrow> rdn s 8 8;
     let a = u64_of_bytes lo * 0x2c6fe96ee78b6955 + 0x9af64480a3486659;
     let c = u64_of_bytes hi * 0x369dea0f31a53f85 + 0xd0c6225445b76b5b;
     let a1 = a + c;
     let a2 = a1 XOR (ROR64 a1 13 XOR ROR64 a1 7);
     let a3 = a2 XOR drop_bit 32 a2;
     Some (ucast a3)
   }"

section \<open>Correctness\<close>

lemma hash_string_len_loop_total:
  "i + n \<le> length s \<Longrightarrow>
     ndpi_hash_string_len_loop h s i n = Some (foldl jenkins_step h (take n (drop i s)))"
proof (induction h s i n rule: ndpi_hash_string_len_loop.induct)
  case (2 h s i n)
  then have "i < length s" by simp
  with 2 show ?case
    by (simp add: rd8_def Cons_nth_drop_Suc [symmetric])
qed auto

lemma hash_string_loop_fold:
  "0 \<notin> set s \<Longrightarrow> ndpi_hash_string_loop h (s @ 0 # rest) = Some (foldl jenkins_step h s)"
  by (induction s arbitrary: h) auto

lemma rev_hash_loop_fold:
  "n < length s \<Longrightarrow> ndpi_rev_hash_loop h s n = foldl jenkins_step h (rev (take (Suc n) s))"
proof (induction n arbitrary: h)
  case 0
  then show ?case by (cases s) auto
next
  case (Suc n)
  then show ?case by (simp add: take_Suc_conv_app_nth [of "Suc n" s])
qed

lemma jenkins_final_0: "jenkins_final 0 = 0"
  by (simp add: jenkins_final_def)

lemma rev_hash_string_fold:
  "ndpi_rev_hash_string s = jenkins_final (foldl jenkins_step 0 (rev s))"
proof (cases s)
  case Nil
  then show ?thesis by (simp add: ndpi_rev_hash_string_def jenkins_final_0)
next
  case (Cons a as)
  then show ?thesis
    using rev_hash_loop_fold [of "length s - 1" s 0] by (simp add: ndpi_rev_hash_string_def)
qed

lemma quick_hash_loop_append:
  "ndpi_quick_hash_loop h (xs @ ys) = ndpi_quick_hash_loop (ndpi_quick_hash_loop h xs) ys"
  by (induction xs arbitrary: h) auto

lemma quick_hash_loop_poly:
  "ndpi_quick_hash_loop h s = h * 33 ^ length s + (\<Sum>i < length s. ucast (s ! i) * 33 ^ (length s - Suc i))"
proof (induction s arbitrary: h)
  case Nil
  then show ?case by simp
next
  case (Cons b s)
  have "push_bit 5 h + h = h * 33"
    by (simp add: push_bit_eq_mult)
  then show ?case
    by (simp add: Cons sum.lessThan_Suc_shift algebra_simps del: sum.lessThan_Suc)
qed

text \<open>
  The three Jenkins variants are one function. On a NUL-terminated string they read
  exactly the bytes before the terminator, and the reversed hash is the hash of the
  reversed string.
\<close>

lemma hash_string_variants:
  assumes "0 \<notin> set s"
  shows "ndpi_hash_string (s @ 0 # rest) = ndpi_hash_string_len (s @ 0 # rest) (length s)"
    and "ndpi_hash_string (rev s @ 0 # rest) = Some (ndpi_rev_hash_string s)"
  using assms hash_string_loop_fold [of s 0 rest] hash_string_loop_fold [of "rev s" 0 rest]
    hash_string_len_loop_total [of 0 "length s" "s @ 0 # rest" 0]
  by (simp_all add: ndpi_hash_string_def ndpi_hash_string_len_def rev_hash_string_fold)

lemma length_bytes_of_u64 [simp]: "length (bytes_of_u64 k) = 8"
  by (simp add: bytes_of_u64_def)

end
