(* ===== verification/Cache_Interface.thy ===== *)
theory Cache_Interface
  imports Ndpi_Prelude
begin

text \<open>
  What the classification code relies on when it uses one of its caches: a cache is a
  partial map from keys to a value and the time it was stored; storing a key may evict
  other keys it clashes with, never invents an entry, and a lookup returns an entry only
  while it is fresh. The laws are the assumptions of the locale \<open>expiring_cache\<close>; its
  clients' lemmas talk about arbitrary sequences of stores and lookups.
\<close>

datatype ('k, 'v, 't) cache_op =
    Cache_Add 'k 'v 't
  | Cache_Find 'k bool 't

fun cache_run ::
  "('c \<Rightarrow> 'k \<Rightarrow> 'v \<Rightarrow> 't \<Rightarrow> 'c option) \<Rightarrow> ('c \<Rightarrow> 'k \<Rightarrow> bool \<Rightarrow> 't \<Rightarrow> ('v option \<times> 'c) option) \<Rightarrow>
   'c \<Rightarrow> ('k, 'v, 't) cache_op list \<Rightarrow> 'c option" where
  "cache_run store lkup c [] = Some c"
| "cache_run store lkup c (Cache_Add k v t # ops) =
     (case store c k v t of None \<Rightarrow> None | Some c' \<Rightarrow> cache_run store lkup c' ops)"
| "cache_run store lkup c (Cache_Find k cl t # ops) =
     (case lkup c k cl t of None \<Rightarrow> None | Some (_, c') \<Rightarrow> cache_run store lkup c' ops)"

text \<open>The last store to a key in a sequence of operations.\<close>

fun last_add :: "('k, 'v, 't) cache_op list \<Rightarrow> 'k \<Rightarrow> ('v \<times> 't) option" where
  "last_add [] k = None"
| "last_add (Cache_Add k' v t # ops) k =
     (case last_add ops k of Some e \<Rightarrow> Some e | None \<Rightarrow> if k' = k then Some (v, t) else None)"
| "last_add (Cache_Find k' cl t # ops) k = last_add ops k"

locale expiring_cache =
  fixes invar :: "'c \<Rightarrow> bool"
    and entry :: "'c \<Rightarrow> 'k \<Rightarrow> ('v \<times> 't) option"
    and fresh :: "'c \<Rightarrow> 't \<Rightarrow> 't \<Rightarrow> bool"
    and store :: "'c \<Rightarrow> 'k \<Rightarrow> 'v \<Rightarrow> 't \<Rightarrow> 'c option"
    and lkup :: "'c \<Rightarrow> 'k \<Rightarrow> bool \<Rightarrow> 't \<Rightarrow> ('v option \<times> 'c) option"
  assumes add_total: "invar c \<Longrightarrow> \<exists>c'. store c k v t = Some c'"
    and add_invar: "invar c \<Longrightarrow> store c k v t = Some c' \<Longrightarrow> invar c'"
    and add_same: "invar c \<Longrightarrow> store c k v t = Some c' \<Longrightarrow> entry c' k = Some (v, t)"
    and add_other: "invar c \<Longrightarrow> store c k v t = Some c' \<Longrightarrow> k' \<noteq> k \<Longrightarrow>
          entry c' k' = None \<or> entry c' k' = entry c k'"
    and add_fresh: "store c k v t = Some c' \<Longrightarrow> fresh c' = fresh c"
    and find_total: "invar c \<Longrightarrow> \<exists>r. lkup c k cl now = Some r"
    and find_invar: "invar c \<Longrightarrow> lkup c k cl now = Some (r, c') \<Longrightarrow> invar c'"
    and find_result: "invar c \<Longrightarrow> lkup c k cl now = Some (r, c') \<Longrightarrow>
          r = (case entry c k of None \<Rightarrow> None
               | Some (v, t) \<Rightarrow> if fresh c t now then Some v else None)"
    and find_entry: "invar c \<Longrightarrow> lkup c k cl now = Some (r, c') \<Longrightarrow>
          entry c' = (if cl \<and> r \<noteq> None then (entry c)(k := None) else entry c)"
    and find_fresh: "lkup c k cl now = Some (r, c') \<Longrightarrow> fresh c' = fresh c"
begin

lemma run_total: "invar c \<Longrightarrow> \<exists>c'. cache_run store lkup c ops = Some c' \<and> invar c'"
proof (induction ops arbitrary: c)
  case Nil
  then show ?case by simp
next
  case (Cons x ops)
  show ?case
  proof (cases x)
    case (Cache_Add k v t)
    with Cons add_total [of c k v t] add_invar [of c k v t] show ?thesis by auto
  next
    case (Cache_Find k cl t)
    with Cons find_total [of c k cl t] find_invar [of c k cl t] show ?thesis by fastforce
  qed
qed

lemma run_fresh: "cache_run store lkup c ops = Some c' \<Longrightarrow> fresh c' = fresh c"
proof (induction ops arbitrary: c)
  case (Cons x ops)
  show ?case
  proof (cases x)
    case (Cache_Add k v t)
    with Cons show ?thesis by (auto split: option.splits dest: add_fresh)
  next
    case (Cache_Find k cl t)
    with Cons show ?thesis by (auto split: option.splits dest: find_fresh)
  qed
qed simp

text \<open>Every entry present after a run is the last store to its key, or was there before.\<close>

lemma run_entry:
  assumes "invar c" "cache_run store lkup c ops = Some c'" "entry c' k = Some e"
  shows "(case last_add ops k of Some e' \<Rightarrow> e = e' | None \<Rightarrow> entry c k = Some e)"
  using assms
proof (induction ops arbitrary: c)
  case Nil
  then show ?case by simp
next
  case (Cons x ops)
  show ?case
  proof (cases x)
    case (Cache_Add k2 v t)
    then obtain c1 where c1: "store c k2 v t = Some c1" "cache_run store lkup c1 ops = Some c'"
      using Cons.prems by (auto split: option.splits)
    note IH = Cons.IH [OF add_invar [OF Cons.prems(1) c1(1)] c1(2) Cons.prems(3)]
    show ?thesis
    proof (cases "k = k2")
      case True
      with IH add_same [OF Cons.prems(1) c1(1)] Cache_Add show ?thesis
        by (auto split: option.splits)
    next
      case False
      with IH add_other [OF Cons.prems(1) c1(1) False] Cache_Add show ?thesis
        by (auto split: option.splits)
    qed
  next
    case (Cache_Find k2 cl t)
    then obtain r c1 where c1: "lkup c k2 cl t = Some (r, c1)" "cache_run store lkup c1 ops = Some c'"
      using Cons.prems by (auto split: option.splits)
    note IH = Cons.IH [OF find_invar [OF Cons.prems(1) c1(1)] c1(2) Cons.prems(3)]
    with find_entry [OF Cons.prems(1) c1(1)] Cache_Find show ?thesis
      by (auto split: option.splits if_splits)
  qed
qed

text \<open>A hit after a run from an empty cache returns the value of the last store to the key,
  and that store is fresh.\<close>

lemma hit_is_last_add:
  assumes inv: "invar c" and emp: "\<And>k. entry c k = None"
    and run: "cache_run store lkup c ops = Some c'"
    and hit: "lkup c' k cl now = Some (Some v, c'')"
  shows "\<exists>t. last_add ops k = Some (v, t) \<and> fresh c t now"
proof -
  from run_total [OF inv, of ops] run have inv': "invar c'" by simp
  from find_result [OF inv' hit] obtain t where t: "entry c' k = Some (v, t)" "fresh c' t now"
    by (auto split: option.splits if_splits)
  with run_entry [OF inv run t(1)] emp run_fresh [OF run] show ?thesis
    by (auto split: option.splits)
qed

text \<open>A lookup right after a store returns what was stored, as long as it is fresh.\<close>

lemma find_after_add:
  assumes "invar c" "store c k v t = Some c1" "fresh c t now"
  shows "\<exists>c2. lkup c1 k cl now = Some (Some v, c2)"
proof -
  from add_invar [OF assms(1,2)] have i: "invar c1" .
  then obtain r c2 where f: "lkup c1 k cl now = Some (r, c2)"
    using find_total [of c1 k cl now] by auto
  from find_result [OF i f] add_same [OF assms(1,2)] add_fresh [OF assms(2)] assms(3)
  have "r = Some v" by simp
  with f show ?thesis by blast
qed

end

end
