(* ===== verification/Lru_Cache.thy ===== *)
theory Lru_Cache
  imports Hashing Cache_Interface
begin

text \<open>
  The LRU cache of \<open>src/lib/ndpi_cache.c\<close> (lines 37 to 206): a direct-mapped table of
  slots, indexed by the hash of the 64-bit key. A slot keeps the whole key, so a lookup
  never returns the value of a colliding key. The mutex of the shared mode only orders
  the calls and has no counterpart in the model. A division by \<open>num_entries = 0\<close> traps in
  C and is \<open>None\<close> here.
\<close>

section \<open>State and operations\<close>

record lru_cache_entry =
  le_key :: u64
  le_is_full :: bool
  le_value :: u16
  le_timestamp :: u32

record lru_cache_stats =
  n_insert :: u64
  n_search :: u64
  n_found :: u64

record lru_cache =
  lc_num_entries :: u32
  lc_ttl :: u32
  lc_shared :: bool
  lc_stats :: lru_cache_stats
  lc_entries :: "lru_cache_entry list"

definition empty_lru_entry :: lru_cache_entry where
  "empty_lru_entry = \<lparr>le_key = 0, le_is_full = False, le_value = 0, le_timestamp = 0\<rparr>"

text \<open>\<open>ndpi_lru_cache_init\<close>. The two booleans say whether the two \<open>ndpi_calloc\<close> calls succeed.\<close>

definition ndpi_lru_cache_init :: "bool \<Rightarrow> bool \<Rightarrow> u32 \<Rightarrow> u32 \<Rightarrow> bool \<Rightarrow> lru_cache option" where
  "ndpi_lru_cache_init alloc_cache alloc_entries num_entries ttl shared =
     (if \<not> alloc_cache then None
      else if \<not> alloc_entries then None
      else Some \<lparr>lc_num_entries = num_entries, lc_ttl = ttl AND 0x7FFFFFFF, lc_shared = shared,
                 lc_stats = \<lparr>n_insert = 0, n_search = 0, n_found = 0\<rparr>,
                 lc_entries = replicate (unat num_entries) empty_lru_entry\<rparr>)"

definition lru_slot :: "lru_cache \<Rightarrow> u64 \<Rightarrow> nat option" where
  "lru_slot c key =
     (if lc_num_entries c = 0 then None
      else Some (unat (ndpi_quick_hash (bytes_of_u64 key) mod lc_num_entries c)))"

definition rd_entry :: "lru_cache \<Rightarrow> nat \<Rightarrow> lru_cache_entry option" where
  "rd_entry c slot = (if slot < length (lc_entries c) then Some (lc_entries c ! slot) else None)"

text \<open>\<open>ndpi_lru_find_cache\<close>: the value when the function returns 1, with \<open>*value\<close> left alone
  when it returns 0.\<close>

definition ndpi_lru_find_cache ::
  "lru_cache \<Rightarrow> u64 \<Rightarrow> bool \<Rightarrow> u32 \<Rightarrow> (u16 option \<times> lru_cache) option" where
  "ndpi_lru_find_cache c key clean_key_when_found now_sec = do {
     slot \<leftarrow> lru_slot c key;
     e \<leftarrow> rd_entry c slot;
     let st = (lc_stats c)\<lparr>n_search := n_search (lc_stats c) + 1\<rparr>;
     if le_is_full e \<and> le_key e = key \<and> now_sec \<ge> le_timestamp e \<and>
        (lc_ttl c = 0 \<or> now_sec - le_timestamp e \<le> lc_ttl c)
     then Some (Some (le_value e),
            c\<lparr>lc_entries := (if clean_key_when_found
                             then (lc_entries c)[slot := e\<lparr>le_is_full := False\<rparr>]
                             else lc_entries c),
              lc_stats := st\<lparr>n_found := n_found st + 1\<rparr>\<rparr>)
     else Some (None, c\<lparr>lc_stats := st\<rparr>)
   }"

definition ndpi_lru_add_to_cache :: "lru_cache \<Rightarrow> u64 \<Rightarrow> u16 \<Rightarrow> u32 \<Rightarrow> lru_cache option" where
  "ndpi_lru_add_to_cache c key value now_sec = do {
     slot \<leftarrow> lru_slot c key;
     e \<leftarrow> rd_entry c slot;
     Some (c\<lparr>lc_stats := (lc_stats c)\<lparr>n_insert := n_insert (lc_stats c) + 1\<rparr>,
             lc_entries := (lc_entries c)[slot :=
               e\<lparr>le_is_full := True, le_key := key, le_value := value, le_timestamp := now_sec\<rparr>]\<rparr>)
   }"

definition ndpi_lru_get_stats :: "lru_cache option \<Rightarrow> lru_cache_stats" where
  "ndpi_lru_get_stats c =
     (case c of
        Some c \<Rightarrow> \<lparr>n_insert = n_insert (lc_stats c), n_search = n_search (lc_stats c),
                   n_found = n_found (lc_stats c)\<rparr>
      | None \<Rightarrow> \<lparr>n_insert = 0, n_search = 0, n_found = 0\<rparr>)"

section \<open>Invariant and abstraction\<close>

definition lru_invar :: "lru_cache \<Rightarrow> bool" where
  "lru_invar c \<longleftrightarrow> lc_num_entries c \<noteq> 0 \<and> length (lc_entries c) = unat (lc_num_entries c)"

definition lru_entry :: "lru_cache \<Rightarrow> u64 \<Rightarrow> (u16 \<times> u32) option" where
  "lru_entry c key =
     (case lru_slot c key of None \<Rightarrow> None
      | Some slot \<Rightarrow>
          let e = lc_entries c ! slot
          in if le_is_full e \<and> le_key e = key then Some (le_value e, le_timestamp e) else None)"

definition lru_fresh :: "lru_cache \<Rightarrow> u32 \<Rightarrow> u32 \<Rightarrow> bool" where
  "lru_fresh c t now \<longleftrightarrow> t \<le> now \<and> (lc_ttl c = 0 \<or> now - t \<le> lc_ttl c)"

lemma lru_slot_in: "lru_invar c \<Longrightarrow> \<exists>slot. lru_slot c key = Some slot \<and> slot < length (lc_entries c)"
  by (auto simp: lru_invar_def lru_slot_def unat_mod unat_gt_0)

lemma lru_slot_cong:
  "lc_num_entries c' = lc_num_entries c \<Longrightarrow> lru_slot c' key = lru_slot c key"
  by (simp add: lru_slot_def)

lemma lru_add_Some:
  assumes "lru_invar c"
  shows "\<exists>slot. lru_slot c key = Some slot \<and> slot < length (lc_entries c) \<and>
    ndpi_lru_add_to_cache c key v t = Some (c\<lparr>
       lc_stats := (lc_stats c)\<lparr>n_insert := n_insert (lc_stats c) + 1\<rparr>,
       lc_entries := (lc_entries c)[slot := (lc_entries c ! slot)\<lparr>le_is_full := True, le_key := key,
         le_value := v, le_timestamp := t\<rparr>]\<rparr>)"
  using lru_slot_in [OF assms, of key] by (auto simp: ndpi_lru_add_to_cache_def rd_entry_def)

lemma lru_add_laws:
  assumes "lru_invar c" "ndpi_lru_add_to_cache c k v t = Some c'"
  shows "lru_invar c'" "lru_entry c' k = Some (v, t)" "lru_fresh c' = lru_fresh c"
    and "k' \<noteq> k \<Longrightarrow> lru_entry c' k' = (if lru_slot c k' = lru_slot c k then None else lru_entry c k')"
proof -
  obtain slot where s: "lru_slot c k = Some slot" "slot < length (lc_entries c)"
    and c': "c' = c\<lparr>lc_stats := (lc_stats c)\<lparr>n_insert := n_insert (lc_stats c) + 1\<rparr>,
       lc_entries := (lc_entries c)[slot := (lc_entries c ! slot)\<lparr>le_is_full := True, le_key := k,
         le_value := v, le_timestamp := t\<rparr>]\<rparr>"
    using lru_add_Some [OF assms(1), of k v t] assms(2) by auto
  have sl: "lru_slot c' x = lru_slot c x" for x
    by (rule lru_slot_cong) (simp add: c')
  have en: "lc_entries c' = (lc_entries c)[slot := (lc_entries c ! slot)\<lparr>le_is_full := True,
      le_key := k, le_value := v, le_timestamp := t\<rparr>]"
    by (simp add: c')
  show "lru_invar c'" using assms(1) by (simp add: c' lru_invar_def)
  show "lru_entry c' k = Some (v, t)"
    using s by (simp add: lru_entry_def sl en)
  show "lru_fresh c' = lru_fresh c" by (simp add: lru_fresh_def c' fun_eq_iff)
  show "lru_entry c' k' = (if lru_slot c k' = lru_slot c k then None else lru_entry c k')"
    if "k' \<noteq> k"
    using that lru_slot_in [OF assms(1), of k'] s
    by (auto simp: lru_entry_def sl Let_def en)
qed

lemma lru_find_eq:
  assumes "lru_invar c"
  shows "\<exists>slot. lru_slot c key = Some slot \<and> slot < length (lc_entries c) \<and>
    ndpi_lru_find_cache c key cl now =
      (let e = lc_entries c ! slot; st = (lc_stats c)\<lparr>n_search := n_search (lc_stats c) + 1\<rparr> in
       if le_is_full e \<and> le_key e = key \<and> lru_fresh c (le_timestamp e) now
       then Some (Some (le_value e),
         c\<lparr>lc_entries := (if cl then (lc_entries c)[slot := e\<lparr>le_is_full := False\<rparr>] else lc_entries c),
           lc_stats := st\<lparr>n_found := n_found st + 1\<rparr>\<rparr>)
       else Some (None, c\<lparr>lc_stats := st\<rparr>))"
proof -
  obtain slot where s: "lru_slot c key = Some slot" "slot < length (lc_entries c)"
    using lru_slot_in [OF assms, of key] by blast
  show ?thesis
    unfolding ndpi_lru_find_cache_def rd_entry_def lru_fresh_def Let_def using s
    by (intro exI [of _ slot]) simp
qed

lemma lru_find_laws:
  assumes "lru_invar c" "ndpi_lru_find_cache c k cl now = Some (r, c')"
  shows "lru_invar c'" "lru_fresh c' = lru_fresh c"
    and "r = (case lru_entry c k of None \<Rightarrow> None
              | Some (v, t) \<Rightarrow> if lru_fresh c t now then Some v else None)"
    and "lru_entry c' = (if cl \<and> r \<noteq> None then (lru_entry c)(k := None) else lru_entry c)"
proof -
  obtain slot where s: "lru_slot c k = Some slot" "slot < length (lc_entries c)"
    and eq: "ndpi_lru_find_cache c k cl now =
      (let e = lc_entries c ! slot; st = (lc_stats c)\<lparr>n_search := n_search (lc_stats c) + 1\<rparr> in
       if le_is_full e \<and> le_key e = k \<and> lru_fresh c (le_timestamp e) now
       then Some (Some (le_value e),
         c\<lparr>lc_entries := (if cl then (lc_entries c)[slot := e\<lparr>le_is_full := False\<rparr>] else lc_entries c),
           lc_stats := st\<lparr>n_found := n_found st + 1\<rparr>\<rparr>)
       else Some (None, c\<lparr>lc_stats := st\<rparr>))"
    using lru_find_eq [OF assms(1), of k cl now] by auto
  have ne: "lc_num_entries c' = lc_num_entries c" and tt: "lc_ttl c' = lc_ttl c"
    and ln: "length (lc_entries c') = length (lc_entries c)"
    using assms(2) unfolding eq by (auto simp: Let_def split: if_splits)
  show "lru_invar c'" using assms(1) ne ln by (simp add: lru_invar_def)
  show "lru_fresh c' = lru_fresh c" using tt by (simp add: lru_fresh_def fun_eq_iff)
  show "r = (case lru_entry c k of None \<Rightarrow> None
              | Some (v, t) \<Rightarrow> if lru_fresh c t now then Some v else None)"
    using assms(2) s unfolding eq by (auto simp: Let_def lru_entry_def split: if_splits)
  have sl: "lru_slot c' x = lru_slot c x" for x
    by (rule lru_slot_cong) (rule ne)
  have en: "lc_entries c' = (if cl \<and> r \<noteq> None
      then (lc_entries c)[slot := (lc_entries c ! slot)\<lparr>le_is_full := False\<rparr>] else lc_entries c)"
    and hit: "r \<noteq> None \<Longrightarrow> le_key (lc_entries c ! slot) = k"
    using assms(2) unfolding eq by (auto simp: Let_def split: if_splits)
  show "lru_entry c' = (if cl \<and> r \<noteq> None then (lru_entry c)(k := None) else lru_entry c)"
  proof
    fix x
    obtain sx where "lru_slot c x = Some sx" "sx < length (lc_entries c)"
      using lru_slot_in [OF assms(1), of x] by auto
    then show "lru_entry c' x = (if cl \<and> r \<noteq> None then (lru_entry c)(k := None) else lru_entry c) x"
      using s hit by (cases r) (auto simp: Let_def lru_entry_def sl en nth_list_update)
  qed
qed

interpretation lru: expiring_cache lru_invar lru_entry lru_fresh ndpi_lru_add_to_cache ndpi_lru_find_cache
proof (unfold_locales, goal_cases)
  case (1 c k v t)
  then show ?case using lru_add_Some by blast
next
  case (4 c k v t c' k')
  then show ?case using lru_add_laws(4) [OF 4(1,2,3)] by simp
next
  case (5 c k v t c')
  then show ?case
    by (auto simp: ndpi_lru_add_to_cache_def lru_fresh_def fun_eq_iff split: bind_splits)
next
  case (6 c k cl now)
  then show ?case using lru_find_eq [OF 6, of k cl now] by (auto simp: Let_def)
next
  case (10 c k cl now r c')
  then show ?case
    by (auto simp: ndpi_lru_find_cache_def lru_fresh_def fun_eq_iff Let_def split: bind_splits if_splits)
next
  case (8 c k cl now r c')
  then show ?case by (rule lru_find_laws(3))
next
  case (9 c k cl now r c')
  then show ?case by (rule lru_find_laws(4))
qed (use lru_add_laws(1,2) lru_find_laws(1) in blast)+

lemma lru_init_empty:
  assumes "ndpi_lru_cache_init True True n ttl sh = Some c" "n \<noteq> 0"
  shows "lru_invar c" "lru_entry c k = None"
    and "lru_fresh c t now = (t \<le> now \<and> (ttl AND 0x7FFFFFFF = 0 \<or> now - t \<le> ttl AND 0x7FFFFFFF))"
proof -
  show i: "lru_invar c"
    using assms by (auto simp: ndpi_lru_cache_init_def lru_invar_def)
  show "lru_entry c k = None"
    using lru_slot_in [OF i, of k] assms
    by (auto simp: ndpi_lru_cache_init_def lru_entry_def Let_def empty_lru_entry_def)
  show "lru_fresh c t now = (t \<le> now \<and> (ttl AND 0x7FFFFFFF = 0 \<or> now - t \<le> ttl AND 0x7FFFFFFF))"
    using assms by (auto simp: ndpi_lru_cache_init_def lru_fresh_def)
qed

section \<open>Properties\<close>

text \<open>C4. Whatever sequence of stores and lookups a freshly created cache of at least one slot
  has gone through, every call returns without trapping, and a lookup that succeeds
  returns the value of the last store to exactly that key (never that of a colliding
  key), stored no later than now and, with a time to live set, at most that long ago.\<close>

theorem lru_hit_is_last_store:
  assumes "ndpi_lru_cache_init True True n ttl shared = Some c" and "n \<noteq> 0"
  shows "\<exists>c'. cache_run ndpi_lru_add_to_cache ndpi_lru_find_cache c ops = Some c' \<and>
    (\<forall>k clean now. \<exists>r c''. ndpi_lru_find_cache c' k clean now = Some (r, c'') \<and>
      (case r of None \<Rightarrow> True
       | Some v \<Rightarrow> \<exists>t. last_add ops k = Some (v, t) \<and> t \<le> now \<and>
           (ttl AND 0x7FFFFFFF = 0 \<or> now - t \<le> ttl AND 0x7FFFFFFF)))"
proof -
  note init = lru_init_empty [OF assms]
  obtain c' where c': "cache_run ndpi_lru_add_to_cache ndpi_lru_find_cache c ops = Some c'" "lru_invar c'"
    using lru.run_total [OF init(1)] by blast
  have "\<exists>r c''. ndpi_lru_find_cache c' k clean now = Some (r, c'') \<and>
      (case r of None \<Rightarrow> True
       | Some v \<Rightarrow> \<exists>t. last_add ops k = Some (v, t) \<and> lru_fresh c t now)" for k clean now
    using lru.find_total [OF c'(2), of k clean now]
      lru.hit_is_last_add [OF init(1) init(2) c'(1)] by (fastforce split: option.splits)
  then show ?thesis using c'(1) unfolding init(3) by blast
qed

theorem lru_hit_is_last_store_witness:
  "\<exists>c c'. ndpi_lru_cache_init True True 4 60 False = Some c \<and>
     cache_run ndpi_lru_add_to_cache ndpi_lru_find_cache c [Cache_Add 5 7 100] = Some c'"
proof -
  obtain c where c: "ndpi_lru_cache_init True True 4 60 False = Some c"
    by (simp add: ndpi_lru_cache_init_def)
  have "(4::u32) \<noteq> 0" by simp
  from lru_hit_is_last_store [OF c this, of "[Cache_Add 5 7 100]"] c show ?thesis by blast
qed

text \<open>C11. A store is visible to the next lookup of its key at the same or a later second within
  the time to live, whatever the cache held before; the store evicts exactly the keys that
  share its slot and leaves every other entry as it was.\<close>

theorem lru_store_then_find:
  assumes "lru_invar c" and "t \<le> now" and "lc_ttl c = 0 \<or> now - t \<le> lc_ttl c"
  shows "\<exists>c1 c2. ndpi_lru_add_to_cache c k v t = Some c1 \<and>
    ndpi_lru_find_cache c1 k clean now = Some (Some v, c2) \<and>
    (\<forall>k'. k' \<noteq> k \<longrightarrow>
       lru_entry c1 k' = (if lru_slot c k' = lru_slot c k then None else lru_entry c k'))"
proof -
  obtain c1 where c1: "ndpi_lru_add_to_cache c k v t = Some c1"
    using lru.add_total [OF assms(1)] by blast
  moreover have "lru_fresh c t now" using assms(2,3) by (simp add: lru_fresh_def)
  ultimately show ?thesis
    using lru.find_after_add [OF assms(1) c1, of now clean] lru_add_laws(4) [OF assms(1) c1] by blast
qed

theorem lru_store_then_find_witness:
  "\<exists>c c1 c2. ndpi_lru_cache_init True True 2 0 False = Some c \<and>
     ndpi_lru_add_to_cache c 9 3 10 = Some c1 \<and> ndpi_lru_find_cache c1 9 True 20 = Some (Some 3, c2)"
proof -
  obtain c where c: "ndpi_lru_cache_init True True 2 0 False = Some c"
    by (simp add: ndpi_lru_cache_init_def)
  then have "lru_invar c" "lc_ttl c = 0"
    by (auto simp: ndpi_lru_cache_init_def lru_invar_def)
  with lru_store_then_find [of c 10 20 9 3 True] c show ?thesis by auto
qed

end
