(* ===== verification/Address_Cache.thy ===== *)
theory Address_Cache
  imports Hashing
begin

text \<open>
  The cache of resolved addresses of \<open>src/lib/ndpi_cache.c\<close> (lines 211 to 500) and the
  hostname/address filter (lines 505 to 660). An address cache is a hash table of linked
  lists; a list is an Isabelle list, and the pointer that \<open>ndpi_address_cache_find\<close>
  returns is the first item of its bucket with the wanted address. Addresses are the 16
  bytes of the union \<open>ndpi_ip_addr_t\<close>, host names C strings without their NUL. Whether an
  allocation succeeds and the value of \<open>time(NULL)\<close> are arguments.
\<close>

section \<open>State and operations\<close>

record address_cache_item =
  ai_addr :: bytes
  ai_hostname :: bytes
  ai_expire_epoch :: u32

record address_cache =
  ac_num_cached_addresses :: u32
  ac_num_root_nodes :: u32
  ac_num_entries :: u32
  ac_max_num_entries :: u32
  ac_root :: "address_cache_item list list"

definition ndpi_init_address_cache :: "bool \<Rightarrow> u32 \<Rightarrow> address_cache option" where
  "ndpi_init_address_cache alloc max_num_entries =
     (let n = max 1 (min 512 (max_num_entries div 16))
      in if \<not> alloc then None
         else Some \<lparr>ac_num_cached_addresses = 0, ac_num_root_nodes = n, ac_num_entries = 0, ac_max_num_entries = max_num_entries,
                    ac_root = replicate (unat n) []\<rparr>)"

text \<open>
  \<open>ndpi_address_cache_flush_expired\<close>. The inner loop walks one list and unlinks every item
  with \<open>expire_epoch > epoch_now\<close>; it returns the items that stay and how many went.
\<close>

fun flush_bucket :: "u32 \<Rightarrow> address_cache_item list \<Rightarrow> address_cache_item list \<times> nat" where
  "flush_bucket epoch_now [] = ([], 0)"
| "flush_bucket epoch_now (x # xs) =
     (let (kept, n) = flush_bucket epoch_now xs
      in if ai_expire_epoch x > epoch_now then (kept, Suc n) else (x # kept, n))"

definition ndpi_address_cache_flush_expired :: "address_cache \<Rightarrow> u32 \<Rightarrow> address_cache \<times> u32" where
  "ndpi_address_cache_flush_expired c epoch_now =
     (let rs = map (flush_bucket epoch_now) (ac_root c);
          num_purged = of_nat (sum_list (map snd rs))
      in (c\<lparr>ac_root := map fst rs, ac_num_entries := ac_num_entries c - num_purged\<rparr>, num_purged))"

definition addr_hash_id :: "address_cache \<Rightarrow> bytes \<Rightarrow> nat option" where
  "addr_hash_id c ip_addr =
     (if ac_num_root_nodes c = 0 then None
      else Some (unat (ndpi_quick_hash ip_addr mod ac_num_root_nodes c)))"

text \<open>
  The loop of \<open>ndpi_address_cache_find\<close>: it unlinks the expired items it meets (only when
  \<open>epoch_now\<close> is not 0) and stops at the first live item with the wanted address. The
  result is the list afterwards, the item found, and the number of items unlinked.
\<close>

fun find_bucket ::
  "u32 \<Rightarrow> bytes \<Rightarrow> address_cache_item list \<Rightarrow> address_cache_item list \<times> address_cache_item option \<times> nat" where
  "find_bucket epoch_now ip_addr [] = ([], None, 0)"
| "find_bucket epoch_now ip_addr (root # nxt) =
     (if epoch_now \<noteq> 0 \<and> ai_expire_epoch root < epoch_now
      then (let (l, r, n) = find_bucket epoch_now ip_addr nxt in (l, r, Suc n))
      else if ai_addr root = ip_addr then (root # nxt, Some root, 0)
      else (let (l, r, n) = find_bucket epoch_now ip_addr nxt in (root # l, r, n)))"

definition ndpi_address_cache_find ::
  "address_cache \<Rightarrow> bytes \<Rightarrow> u32 \<Rightarrow> (address_cache_item option \<times> address_cache) option" where
  "ndpi_address_cache_find c ip_addr epoch_now = do {
     hash_id \<leftarrow> addr_hash_id c ip_addr;
     if hash_id < length (ac_root c)
     then (let (l, r, n) = find_bucket epoch_now ip_addr (ac_root c ! hash_id)
           in Some (r, c\<lparr>ac_root := (ac_root c)[hash_id := l],
                         ac_num_entries := ac_num_entries c - of_nat n\<rparr>))
     else None
   }"

text \<open>Update through the pointer returned by \<open>ndpi_address_cache_find\<close>.\<close>

fun update_item ::
  "bytes \<Rightarrow> (address_cache_item \<Rightarrow> address_cache_item) \<Rightarrow> address_cache_item list \<Rightarrow> address_cache_item list" where
  "update_item ip_addr f [] = []"
| "update_item ip_addr f (x # xs) =
     (if ai_addr x = ip_addr then f x # xs else x # update_item ip_addr f xs)"

text \<open>
  \<open>ndpi_address_cache_insert\<close>. \<open>alloc_item\<close> and \<open>alloc_name\<close> say whether the item and the
  copy of the host name can be allocated, \<open>clock\<close> is \<open>time(NULL)\<close>.
\<close>

definition ndpi_address_cache_insert ::
  "bool \<Rightarrow> bool \<Rightarrow> u32 \<Rightarrow> address_cache \<Rightarrow> bytes \<Rightarrow> bytes option \<Rightarrow> u32 \<Rightarrow> u32 \<Rightarrow>
   (bool \<times> address_cache) option" where
  "ndpi_address_cache_insert alloc_item alloc_name clock c ip_addr hostname epoch ttl = do {
     hash_id \<leftarrow> addr_hash_id c ip_addr;
     case hostname of
       None \<Rightarrow> Some (False, c)
     | Some hostname \<Rightarrow> do {
         let epoch_now = (if epoch = 0 then clock else epoch);
         (ret, c1) \<leftarrow> ndpi_address_cache_find c ip_addr epoch_now;
         let epoch_valid_until = epoch_now + ttl;
         case ret of
           None \<Rightarrow>
             (let c2 = (if ac_num_entries c1 = ac_max_num_entries c1
                        then fst (ndpi_address_cache_flush_expired c1 epoch_now) else c1)
              in if ac_num_entries c1 = ac_max_num_entries c1 \<and>
                    ac_num_entries c2 = ac_max_num_entries c2 then Some (False, c2)
                 else if \<not> alloc_item then Some (False, c2)
                 else if \<not> alloc_name then Some (False, c2)
                 else Some (True, c2\<lparr>ac_root := (ac_root c2)[hash_id :=
                         \<lparr>ai_addr = ip_addr, ai_hostname = hostname,
                          ai_expire_epoch = epoch_valid_until\<rparr> # ac_root c2 ! hash_id],
                       ac_num_entries := ac_num_entries c2 + 1\<rparr>))
         | Some it \<Rightarrow>
             Some (True, c1\<lparr>ac_root := (ac_root c1)[hash_id :=
                 update_item ip_addr
                   (\<lambda>x. x\<lparr>ai_expire_epoch := max (ai_expire_epoch x) epoch_valid_until,
                          ai_hostname := (if ai_hostname x \<noteq> hostname \<and> alloc_name
                                          then hostname else ai_hostname x)\<rparr>)
                   (ac_root c1 ! hash_id)],
               ac_num_entries := ac_num_entries c1 + 1\<rparr>)
       }
   }"

text \<open>The wrappers of the detection module: the configured size and the cache created on first use.\<close>

record address_module =
  cfg_address_cache_size :: u32
  m_address_cache :: "address_cache option"

definition ndpi_cache_address ::
  "bool \<Rightarrow> bool \<Rightarrow> bool \<Rightarrow> u32 \<Rightarrow> address_module \<Rightarrow> bytes \<Rightarrow> bytes option \<Rightarrow> u32 \<Rightarrow> u32 \<Rightarrow>
   (bool \<times> address_module) option" where
  "ndpi_cache_address alloc alloc_item alloc_name clock m ip_addr hostname epoch_now ttl =
     (if cfg_address_cache_size m = 0 then Some (False, m)
      else let m1 = (case m_address_cache m of
                 None \<Rightarrow> m\<lparr>m_address_cache := ndpi_init_address_cache alloc (cfg_address_cache_size m)\<rparr>
               | Some _ \<Rightarrow> m)
           in (case m_address_cache m1 of
                 None \<Rightarrow> Some (False, m1)
               | Some c \<Rightarrow>
                   map_option (\<lambda>(b, c'). (b, m1\<lparr>m_address_cache := Some c'\<rparr>))
                     (ndpi_address_cache_insert alloc_item alloc_name clock c ip_addr hostname epoch_now ttl)))"

definition ndpi_cache_address_find ::
  "address_module \<Rightarrow> bytes \<Rightarrow> (address_cache_item option \<times> address_module) option" where
  "ndpi_cache_address_find m ip_addr =
     (case m_address_cache m of
        None \<Rightarrow> Some (None, m)
      | Some c \<Rightarrow> map_option (\<lambda>(r, c'). (r, m\<lparr>m_address_cache := Some c'\<rparr>))
                    (ndpi_address_cache_find c ip_addr 0))"

definition ndpi_cache_address_flush_expired :: "address_module \<Rightarrow> u32 \<Rightarrow> u32 \<times> address_module" where
  "ndpi_cache_address_flush_expired m epoch_now =
     (case m_address_cache m of
        None \<Rightarrow> (0, m)
      | Some c \<Rightarrow> (let (c', n) = ndpi_address_cache_flush_expired c epoch_now
                   in (n, m\<lparr>m_address_cache := Some c'\<rparr>)))"

section \<open>Invariant\<close>

text \<open>
  Every item sits in the bucket of its address and no bucket holds an address twice, so
  the table is a partial map from addresses to items.
\<close>

definition addr_invar :: "address_cache \<Rightarrow> bool" where
  "addr_invar c \<longleftrightarrow> ac_num_root_nodes c \<noteq> 0 \<and> length (ac_root c) = unat (ac_num_root_nodes c) \<and>
     (\<forall>i < length (ac_root c).
        distinct (map ai_addr (ac_root c ! i)) \<and>
        (\<forall>x \<in> set (ac_root c ! i). addr_hash_id c (ai_addr x) = Some i))"

definition addr_item :: "address_cache \<Rightarrow> bytes \<Rightarrow> address_cache_item option" where
  "addr_item c ip = (case addr_hash_id c ip of None \<Rightarrow> None
     | Some i \<Rightarrow> List.find (\<lambda>x. ai_addr x = ip) (ac_root c ! i))"

lemma find_bucket_spec:
  "find_bucket now ip l = (l', r, n) \<Longrightarrow>
     set l' \<subseteq> set l \<and> (distinct (map ai_addr l) \<longrightarrow> distinct (map ai_addr l')) \<and>
     length l = length l' + n \<and>
     r = List.find (\<lambda>x. ai_addr x = ip \<and> \<not> (now \<noteq> 0 \<and> ai_expire_epoch x < now)) l \<and>
     r = List.find (\<lambda>x. ai_addr x = ip) l'"
proof (induction now ip l arbitrary: l' r n rule: find_bucket.induct)
  case (2 now ip x xs)
  obtain l1 r1 n1 where rec: "find_bucket now ip xs = (l1, r1, n1)"
    by (cases "find_bucket now ip xs") auto
  show ?case
  proof (cases "now \<noteq> 0 \<and> ai_expire_epoch x < now")
    case True
    then show ?thesis using 2 rec by auto
  next
    case False
    show ?thesis
    proof (cases "ai_addr x = ip")
      case True
      then show ?thesis using 2 False by auto
    next
      case neq: False
      have "set l1 \<subseteq> set xs" using 2(2) [OF False neq rec] by simp
      then have "ai_addr ` set l1 \<subseteq> ai_addr ` set xs" by blast
      then show ?thesis using 2(2) [OF False neq rec] 2(3) rec False neq by auto
    qed
  qed
qed auto

lemma flush_bucket_spec:
  "flush_bucket now l = (filter (\<lambda>x. \<not> ai_expire_epoch x > now) l,
     length (filter (\<lambda>x. ai_expire_epoch x > now) l))"
  by (induction l) auto

lemma update_item_addr: "(\<And>x. ai_addr (f x) = ai_addr x) \<Longrightarrow> map ai_addr (update_item ip f l) = map ai_addr l"
  by (induction l) auto

lemma update_item_find:
  "(\<And>x. ai_addr (f x) = ai_addr x) \<Longrightarrow>
     List.find (\<lambda>x. ai_addr x = ip) (update_item ip f l) = map_option f (List.find (\<lambda>x. ai_addr x = ip) l)"
  by (induction l) auto

lemma update_item_find_other:
  "(\<And>x. ai_addr (f x) = ai_addr x) \<Longrightarrow> k \<noteq> ip \<Longrightarrow>
     List.find (\<lambda>x. ai_addr x = k) (update_item ip f l) = List.find (\<lambda>x. ai_addr x = k) l"
  by (induction l) auto

lemma find_bucket_other:
  assumes "find_bucket now ip l = (l', r, n)" "distinct (map ai_addr l)"
  shows "List.find (\<lambda>x. ai_addr x = k) l' = List.find (\<lambda>x. ai_addr x = k) l \<or>
    (List.find (\<lambda>x. ai_addr x = k) l' = None \<and>
     (\<exists>x. List.find (\<lambda>x. ai_addr x = k) l = Some x \<and> now \<noteq> 0 \<and> ai_expire_epoch x < now))"
  using assms
proof (induction now ip l arbitrary: l' r n rule: find_bucket.induct)
  case (2 now ip x xs)
  obtain l1 r1 n1 where rec: "find_bucket now ip xs = (l1, r1, n1)"
    by (cases "find_bucket now ip xs") auto
  have "List.find (\<lambda>x. ai_addr x = k) l1 = None" if "ai_addr x = k"
  proof -
    from find_bucket_spec [OF rec] have "set l1 \<subseteq> set xs" by simp
    then have "ai_addr ` set l1 \<subseteq> ai_addr ` set xs" by blast
    with that 2(4) have "k \<notin> ai_addr ` set l1" by auto
    then show ?thesis by (force simp: find_None_iff)
  qed
  then show ?case using 2 rec by (auto split: if_splits)
qed auto

lemma find_live_distinct:
  "distinct (map ai_addr l) \<Longrightarrow>
     List.find (\<lambda>x. ai_addr x = ip \<and> P x) l =
       (case List.find (\<lambda>x. ai_addr x = ip) l of None \<Rightarrow> None | Some x \<Rightarrow> if P x then Some x else None)"
  by (induction l) (auto split: option.splits simp: find_None_iff find_Some_iff)

section \<open>The table as a partial map\<close>

definition addr_bucket_ok :: "address_cache \<Rightarrow> nat \<Rightarrow> address_cache_item list \<Rightarrow> bool" where
  "addr_bucket_ok c i l \<longleftrightarrow> distinct (map ai_addr l) \<and> (\<forall>x \<in> set l. addr_hash_id c (ai_addr x) = Some i)"

definition addr_live :: "u32 \<Rightarrow> address_cache_item \<Rightarrow> bool" where
  "addr_live now x \<longleftrightarrow> now = 0 \<or> now \<le> ai_expire_epoch x"

definition addr_count :: "address_cache \<Rightarrow> nat" where
  "addr_count c = sum_list (map length (ac_root c))"

lemma addr_hash_id_cong [simp]:
  "addr_hash_id (c\<lparr>ac_root := r\<rparr>) = addr_hash_id c"
  "addr_hash_id (c\<lparr>ac_num_entries := n\<rparr>) = addr_hash_id c"
  by (simp_all add: addr_hash_id_def fun_eq_iff)

lemma addr_hash_id_in:
  "addr_invar c \<Longrightarrow> \<exists>i. addr_hash_id c ip = Some i \<and> i < length (ac_root c)"
  by (auto simp: addr_invar_def addr_hash_id_def unat_mod unat_gt_0)

lemma addr_invar_alt:
  "addr_invar c \<longleftrightarrow> ac_num_root_nodes c \<noteq> 0 \<and> length (ac_root c) = unat (ac_num_root_nodes c) \<and>
     (\<forall>i < length (ac_root c). addr_bucket_ok c i (ac_root c ! i))"
  by (simp add: addr_invar_def addr_bucket_ok_def)

lemma addr_invar_upd:
  assumes "addr_invar c" "addr_bucket_ok c i l"
  shows "addr_invar (c\<lparr>ac_root := (ac_root c)[i := l], ac_num_entries := n\<rparr>)"
proof (cases "i < length (ac_root c)")
  case True
  with assms show ?thesis unfolding addr_invar_alt
    by (auto simp: addr_bucket_ok_def nth_list_update)
next
  case False
  with assms show ?thesis unfolding addr_invar_alt
    by (auto simp: addr_bucket_ok_def list_update_beyond)
qed

lemma addr_item_upd:
  assumes "addr_invar c" "i < length (ac_root c)"
  shows "addr_item (c\<lparr>ac_root := (ac_root c)[i := l], ac_num_entries := n\<rparr>) ip =
    (if addr_hash_id c ip = Some i then List.find (\<lambda>x. ai_addr x = ip) l else addr_item c ip)"
  using assms addr_hash_id_in [OF assms(1), of ip] by (auto simp: addr_item_def nth_list_update)

lemma addr_item_addr: "addr_item c ip = Some x \<Longrightarrow> ai_addr x = ip"
  by (auto simp: addr_item_def find_Some_iff split: option.splits)

lemma addr_count_upd:
  assumes "i < length (ac_root c)"
  shows "addr_count (c\<lparr>ac_root := (ac_root c)[i := l], ac_num_entries := n\<rparr>) + length (ac_root c ! i) =
    addr_count c + length l"
proof -
  have "sum_list ((map length (ac_root c))[i := length l]) + length (ac_root c ! i) =
      sum_list (map length (ac_root c)) + length l"
    using assms elem_le_sum_list [of i "map length (ac_root c)"]
    by (simp add: sum_list_update)
  then show ?thesis by (simp add: addr_count_def map_update)
qed

lemma addr_find_laws:
  assumes inv: "addr_invar c"
  obtains r c' where "ndpi_address_cache_find c ip now = Some (r, c')" "addr_invar c'"
    "ac_max_num_entries c' = ac_max_num_entries c" "addr_hash_id c' = addr_hash_id c"
    "length (ac_root c') = length (ac_root c)"
    "r = (case addr_item c ip of None \<Rightarrow> None | Some x \<Rightarrow> if addr_live now x then Some x else None)"
    "addr_item c' ip = r"
    "\<And>k. addr_item c' k = addr_item c k \<or>
       (addr_item c' k = None \<and> (\<exists>x. addr_item c k = Some x \<and> \<not> addr_live now x))"
    "ac_num_entries c' - of_nat (addr_count c') = ac_num_entries c - of_nat (addr_count c)"
    "addr_count c' \<le> addr_count c"
proof -
  obtain i where i: "addr_hash_id c ip = Some i" "i < length (ac_root c)"
    using addr_hash_id_in [OF inv, of ip] by blast
  obtain l r n where fb: "find_bucket now ip (ac_root c ! i) = (l, r, n)"
    by (cases "find_bucket now ip (ac_root c ! i)") auto
  define c' where "c' = c\<lparr>ac_root := (ac_root c)[i := l], ac_num_entries := ac_num_entries c - of_nat n\<rparr>"
  have ok: "addr_bucket_ok c i (ac_root c ! i)" using inv i(2) by (simp add: addr_invar_alt)
  note spec = find_bucket_spec [OF fb]
  have dist: "distinct (map ai_addr (ac_root c ! i))" using ok by (simp add: addr_bucket_ok_def)
  have "addr_bucket_ok c i l" using ok spec by (auto simp: addr_bucket_ok_def)
  then have inv': "addr_invar c'" unfolding c'_def by (rule addr_invar_upd [OF inv])
  have cnt: "addr_count c' + n = addr_count c"
    using addr_count_upd [OF i(2), of "ac_num_entries c - of_nat n" l] spec unfolding c'_def by simp
  show ?thesis
  proof (rule that [of r c'])
    show "ndpi_address_cache_find c ip now = Some (r, c')"
      using i fb by (simp add: ndpi_address_cache_find_def c'_def)
    show "r = (case addr_item c ip of None \<Rightarrow> None | Some x \<Rightarrow> if addr_live now x then Some x else None)"
      using spec find_live_distinct [OF dist, of ip "\<lambda>x. \<not> (now \<noteq> 0 \<and> ai_expire_epoch x < now)"] i(1)
      by (auto simp: addr_item_def addr_live_def not_less split: option.splits)
    show "addr_item c' ip = r" unfolding c'_def addr_item_upd [OF inv i(2)] using i spec by metis
    show "addr_item c' k = addr_item c k \<or>
       (addr_item c' k = None \<and> (\<exists>x. addr_item c k = Some x \<and> \<not> addr_live now x))" for k
      using find_bucket_other [OF fb dist, of k] unfolding c'_def addr_item_upd [OF inv i(2)]
      by (auto simp: addr_item_def addr_live_def not_le)
    show "ac_num_entries c' - of_nat (addr_count c') = ac_num_entries c - of_nat (addr_count c)"
      by (simp add: cnt [symmetric] c'_def)
  qed (use inv' cnt in \<open>simp_all add: c'_def\<close>)
qed

lemma find_filter_conj: "List.find P (filter Q l) = List.find (\<lambda>x. P x \<and> Q x) l"
  by (induction l) auto

lemma flush_root:
  "ac_root (fst (ndpi_address_cache_flush_expired c now)) =
     map (filter (\<lambda>x. \<not> ai_expire_epoch x > now)) (ac_root c)"
  by (simp add: ndpi_address_cache_flush_expired_def Let_def flush_bucket_spec)

lemma flush_hash_id [simp]:
  "addr_hash_id (fst (ndpi_address_cache_flush_expired c now)) = addr_hash_id c"
  by (simp add: ndpi_address_cache_flush_expired_def Let_def)

lemma addr_invar_flush:
  assumes "addr_invar c"
  shows "addr_invar (fst (ndpi_address_cache_flush_expired c now))"
proof -
  have "ac_num_root_nodes (fst (ndpi_address_cache_flush_expired c now)) = ac_num_root_nodes c"
    by (simp add: ndpi_address_cache_flush_expired_def Let_def)
  then show ?thesis using assms unfolding addr_invar_alt
    by (auto simp: flush_root addr_bucket_ok_def distinct_map inj_on_def)
qed

lemma addr_item_flush:
  assumes "addr_invar c"
  shows "addr_item (fst (ndpi_address_cache_flush_expired c now)) k =
    (case addr_item c k of None \<Rightarrow> None | Some x \<Rightarrow> if ai_expire_epoch x > now then None else Some x)"
proof -
  obtain i where i: "addr_hash_id c k = Some i" "i < length (ac_root c)"
    using addr_hash_id_in [OF assms, of k] by blast
  have "distinct (map ai_addr (ac_root c ! i))"
    using assms i(2) by (simp add: addr_invar_alt addr_bucket_ok_def)
  from find_live_distinct [OF this, of k "\<lambda>x. \<not> ai_expire_epoch x > now"]
  have "List.find (\<lambda>x. ai_addr x = k) (filter (\<lambda>x. \<not> ai_expire_epoch x > now) (ac_root c ! i)) =
      (case List.find (\<lambda>x. ai_addr x = k) (ac_root c ! i) of None \<Rightarrow> None
       | Some x \<Rightarrow> if ai_expire_epoch x > now then None else Some x)"
    by (simp add: find_filter_conj split: option.splits)
  with i show ?thesis by (simp add: addr_item_def flush_root)
qed

lemma flush_count:
  "ac_num_entries (fst (ndpi_address_cache_flush_expired c now)) -
     of_nat (addr_count (fst (ndpi_address_cache_flush_expired c now))) =
   ac_num_entries c - of_nat (addr_count c)"
proof -
  have "addr_count c = addr_count (fst (ndpi_address_cache_flush_expired c now)) +
      sum_list (map (\<lambda>l. length (filter (\<lambda>x. ai_expire_epoch x > now) l)) (ac_root c))"
    unfolding addr_count_def flush_root
    by (simp add: comp_def sum_list_addf [symmetric] sum_length_filter_compl add.commute)
  then show ?thesis
    by (simp add: ndpi_address_cache_flush_expired_def Let_def flush_bucket_spec comp_def)
qed

text \<open>
  What one insertion does, seen on the partial map: the update of a live item, and the
  insertion of a new one, with or without a flush before it.
\<close>

lemma addr_insert_hit:
  assumes inv: "addr_invar c" and now: "now = (if epoch = 0 then clock else epoch)"
    and item: "addr_item c ip = Some x" "addr_live now x"
  obtains c' where
    "ndpi_address_cache_insert ai an clock c ip (Some h) epoch ttl = Some (True, c')"
    "addr_invar c'"
    "addr_item c' ip = Some (x\<lparr>ai_expire_epoch := max (ai_expire_epoch x) (now + ttl),
        ai_hostname := (if ai_hostname x \<noteq> h \<and> an then h else ai_hostname x)\<rparr>)"
    "\<And>k. k \<noteq> ip \<Longrightarrow> addr_item c' k = addr_item c k \<or> addr_item c' k = None"
    "ac_num_entries c' - of_nat (addr_count c') = ac_num_entries c - of_nat (addr_count c) + 1"
    "addr_count c' \<le> addr_count c"
proof -
  obtain r c1 where f: "ndpi_address_cache_find c ip now = Some (r, c1)" "addr_invar c1"
    "addr_hash_id c1 = addr_hash_id c" "length (ac_root c1) = length (ac_root c)"
    "r = (case addr_item c ip of None \<Rightarrow> None | Some x \<Rightarrow> if addr_live now x then Some x else None)"
    "addr_item c1 ip = r"
    "\<And>k. addr_item c1 k = addr_item c k \<or>
       (addr_item c1 k = None \<and> (\<exists>x. addr_item c k = Some x \<and> \<not> addr_live now x))"
    "ac_num_entries c1 - of_nat (addr_count c1) = ac_num_entries c - of_nat (addr_count c)"
    "addr_count c1 \<le> addr_count c"
    by (rule addr_find_laws [OF inv, of ip now]) blast
  have r: "r = Some x" using f(5) item by simp
  obtain i where i: "addr_hash_id c1 ip = Some i" "i < length (ac_root c1)"
    using addr_hash_id_in [OF f(2), of ip] by blast
  define g where "g = (\<lambda>x :: address_cache_item. x\<lparr>ai_expire_epoch := max (ai_expire_epoch x) (now + ttl),
      ai_hostname := (if ai_hostname x \<noteq> h \<and> an then h else ai_hostname x)\<rparr>)"
  define l where "l = update_item ip g (ac_root c1 ! i)"
  define c' where "c' = c1\<lparr>ac_root := (ac_root c1)[i := l], ac_num_entries := ac_num_entries c1 + 1\<rparr>"
  have g: "ai_addr (g y) = ai_addr y" for y by (simp add: g_def)
  have ml: "map ai_addr l = map ai_addr (ac_root c1 ! i)" unfolding l_def by (rule update_item_addr) (rule g)
  have "addr_bucket_ok c1 i (ac_root c1 ! i)" using f(2) i(2) by (simp add: addr_invar_alt)
  then have ok: "addr_bucket_ok c1 i l"
    unfolding addr_bucket_ok_def ml using ml by (metis (no_types, lifting) image_iff list.set_map)
  have fl: "List.find (\<lambda>x. ai_addr x = k) l =
      (if k = ip then map_option g else id) (List.find (\<lambda>x. ai_addr x = k) (ac_root c1 ! i))" for k
    unfolding l_def using g by (auto simp: update_item_find update_item_find_other)
  have it: "addr_item c' k = (if k = ip then map_option g else id) (addr_item c1 k)" for k
    unfolding c'_def addr_item_upd [OF f(2) i(2)] fl using i(1) by (auto simp: addr_item_def)
  have cnt: "addr_count c' = addr_count c1"
    using addr_count_upd [OF i(2), of "ac_num_entries c1 + 1" l] map_eq_imp_length_eq [OF ml]
    unfolding c'_def by simp
  show ?thesis
  proof (rule that [of c'])
    show "ndpi_address_cache_insert ai an clock c ip (Some h) epoch ttl = Some (True, c')"
      using i(1) f(1,3) r unfolding now
      by (simp add: ndpi_address_cache_insert_def Let_def c'_def l_def g_def now)
    show "addr_invar c'" unfolding c'_def by (rule addr_invar_upd [OF f(2) ok])
    show "addr_item c' k = addr_item c k \<or> addr_item c' k = None" if "k \<noteq> ip" for k
      using it [of k] f(7) [of k] that by auto
    show "ac_num_entries c' - of_nat (addr_count c') = ac_num_entries c - of_nat (addr_count c) + 1"
      using f(8) by (simp add: cnt) (simp add: c'_def algebra_simps)
  qed (use it [of ip] f(6,9) r cnt in \<open>simp_all add: g_def\<close>)
qed

text \<open>The state in which a missing address is inserted: after the lookup, and after the flush
  when the table is full.\<close>

definition addr_make_room :: "u32 \<Rightarrow> address_cache \<Rightarrow> address_cache" where
  "addr_make_room now c =
     (if ac_num_entries c = ac_max_num_entries c
      then fst (ndpi_address_cache_flush_expired c now) else c)"

lemma addr_make_room_laws:
  assumes "addr_invar c"
  shows "addr_invar (addr_make_room now c)" "addr_hash_id (addr_make_room now c) = addr_hash_id c"
    and "ac_num_entries (addr_make_room now c) - of_nat (addr_count (addr_make_room now c)) =
           ac_num_entries c - of_nat (addr_count c)"
    and "addr_item (addr_make_room now c) k = None \<or> addr_item (addr_make_room now c) k = addr_item c k"
  using assms addr_invar_flush [OF assms] flush_count [of c now] addr_item_flush [OF assms, of now k]
  by (auto simp: addr_make_room_def split: option.splits)

lemma addr_insert_miss:
  assumes inv: "addr_invar c" and now: "now = (if epoch = 0 then clock else epoch)"
    and item: "\<And>x. addr_item c ip = Some x \<Longrightarrow> \<not> addr_live now x"
  obtains b c' where
    "ndpi_address_cache_insert ai an clock c ip (Some h) epoch ttl = Some (b, c')"
    "addr_invar c'"
    "addr_item c' ip = (if b then Some \<lparr>ai_addr = ip, ai_hostname = h, ai_expire_epoch = now + ttl\<rparr> else None)"
    "\<And>k. k \<noteq> ip \<Longrightarrow> addr_item c' k = addr_item c k \<or> addr_item c' k = None"
    "ac_num_entries c' - of_nat (addr_count c') = ac_num_entries c - of_nat (addr_count c)"
    "\<not> ai \<or> \<not> an \<Longrightarrow> \<not> b"
proof -
  obtain r c1 where f: "ndpi_address_cache_find c ip now = Some (r, c1)" "addr_invar c1"
    "addr_hash_id c1 = addr_hash_id c"
    "r = (case addr_item c ip of None \<Rightarrow> None | Some x \<Rightarrow> if addr_live now x then Some x else None)"
    "addr_item c1 ip = r"
    "\<And>k. addr_item c1 k = addr_item c k \<or>
       (addr_item c1 k = None \<and> (\<exists>x. addr_item c k = Some x \<and> \<not> addr_live now x))"
    "ac_num_entries c1 - of_nat (addr_count c1) = ac_num_entries c - of_nat (addr_count c)"
    by (rule addr_find_laws [OF inv, of ip now]) blast
  have r: "r = None" using f(4) item by (auto split: option.splits)
  define c2 where "c2 = addr_make_room now c1"
  note mr = addr_make_room_laws [OF f(2), of now, folded c2_def]
  obtain i where i: "addr_hash_id c2 ip = Some i" "i < length (ac_root c2)"
    using addr_hash_id_in [OF mr(1), of ip] by blast
  have no2: "addr_item c2 ip = None" using mr(4) [of ip] f(5) r by auto
  define b where "b \<longleftrightarrow> \<not> (ac_num_entries c1 = ac_max_num_entries c1 \<and>
      ac_num_entries c2 = ac_max_num_entries c2) \<and> ai \<and> an"
  define it where "it = \<lparr>ai_addr = ip, ai_hostname = h, ai_expire_epoch = now + ttl\<rparr>"
  define c' where "c' = (if b then c2\<lparr>ac_root := (ac_root c2)[i := it # ac_root c2 ! i],
      ac_num_entries := ac_num_entries c2 + 1\<rparr> else c2)"
  have "addr_bucket_ok c2 i (ac_root c2 ! i)" using mr(1) i(2) by (simp add: addr_invar_alt)
  then have ok: "addr_bucket_ok c2 i (it # ac_root c2 ! i)"
    using no2 i(1) by (auto simp: addr_bucket_ok_def it_def addr_item_def find_None_iff)
  have cnt: "of_nat (addr_count c') = (of_nat (addr_count c2) + (if b then 1 else 0) :: u32)"
    using addr_count_upd [OF i(2), of "ac_num_entries c2 + 1" "it # ac_root c2 ! i"]
    unfolding c'_def by auto
  have items: "addr_item c' k = (if b \<and> k = ip then Some it else addr_item c2 k)" for k
    using i(1) addr_item_upd [OF mr(1) i(2), of "ac_num_entries c2 + 1" "it # ac_root c2 ! i" k]
    unfolding c'_def by (auto simp: it_def) (auto simp: addr_item_def)
  show ?thesis
  proof (rule that [of b c'])
    show "ndpi_address_cache_insert ai an clock c ip (Some h) epoch ttl = Some (b, c')"
      using i(1) f(1,3) mr(2) r unfolding now
      by (auto simp: ndpi_address_cache_insert_def Let_def c'_def b_def it_def now c2_def addr_make_room_def)
    show "addr_invar c'" unfolding c'_def using addr_invar_upd [OF mr(1) ok] mr(1) by simp
    show "addr_item c' k = addr_item c k \<or> addr_item c' k = None" if "k \<noteq> ip" for k
      using items [of k] mr(4) [of k] f(6) [of k] that by auto
    show "ac_num_entries c' - of_nat (addr_count c') = ac_num_entries c - of_nat (addr_count c)"
      unfolding cnt using mr(3) f(7) by (simp add: c'_def algebra_simps)
  qed (use items [of ip] no2 in \<open>auto simp: it_def b_def\<close>)
qed

lemma addr_find_live:
  assumes "addr_invar c" "addr_item c ip = Some x" "addr_live t x"
  shows "\<exists>c'. ndpi_address_cache_find c ip t = Some (Some x, c')"
proof -
  obtain r c' where f: "ndpi_address_cache_find c ip t = Some (r, c')"
    "r = (case addr_item c ip of None \<Rightarrow> None | Some x \<Rightarrow> if addr_live t x then Some x else None)"
    by (rule addr_find_laws [OF assms(1), of ip t]) blast
  then show ?thesis using assms by simp
qed

lemma addr_live_mono: "addr_live t x \<Longrightarrow> ai_expire_epoch x \<le> ai_expire_epoch y \<Longrightarrow> addr_live t y"
  by (auto simp: addr_live_def)

text \<open>Both cases in one statement.\<close>

lemma addr_insert_laws:
  assumes inv: "addr_invar c" and now: "now = (if epoch = 0 then clock else epoch)"
  obtains b c' where
    "ndpi_address_cache_insert ai an clock c ip (Some h) epoch ttl = Some (b, c')"
    "addr_invar c'"
    "\<And>k. k \<noteq> ip \<Longrightarrow> addr_item c' k = addr_item c k \<or> addr_item c' k = None"
    "b \<and> an \<Longrightarrow> \<exists>x. addr_item c' ip = Some x \<and> ai_hostname x = h \<and> now + ttl \<le> ai_expire_epoch x"
    "ac_num_entries c' - of_nat (addr_count c') = ac_num_entries c - of_nat (addr_count c) +
      (case addr_item c ip of None \<Rightarrow> 0 | Some x \<Rightarrow> if addr_live now x then 1 else 0)"
proof (cases "\<exists>x. addr_item c ip = Some x \<and> addr_live now x")
  case True
  then obtain x where x: "addr_item c ip = Some x" "addr_live now x" by blast
  obtain c' where
    "ndpi_address_cache_insert ai an clock c ip (Some h) epoch ttl = Some (True, c')" "addr_invar c'"
    "addr_item c' ip = Some (x\<lparr>ai_expire_epoch := max (ai_expire_epoch x) (now + ttl),
        ai_hostname := (if ai_hostname x \<noteq> h \<and> an then h else ai_hostname x)\<rparr>)"
    "\<And>k. k \<noteq> ip \<Longrightarrow> addr_item c' k = addr_item c k \<or> addr_item c' k = None"
    "ac_num_entries c' - of_nat (addr_count c') = ac_num_entries c - of_nat (addr_count c) + 1"
    by (rule addr_insert_hit [OF inv now x, of ai an h ttl]) blast
  then show ?thesis by (intro that [of True c']) (simp_all add: x)
next
  case False
  then have n: "\<And>x. addr_item c ip = Some x \<Longrightarrow> \<not> addr_live now x" by blast
  obtain b c' where
    "ndpi_address_cache_insert ai an clock c ip (Some h) epoch ttl = Some (b, c')" "addr_invar c'"
    "addr_item c' ip = (if b then Some \<lparr>ai_addr = ip, ai_hostname = h, ai_expire_epoch = now + ttl\<rparr> else None)"
    "\<And>k. k \<noteq> ip \<Longrightarrow> addr_item c' k = addr_item c k \<or> addr_item c' k = None"
    "ac_num_entries c' - of_nat (addr_count c') = ac_num_entries c - of_nat (addr_count c)"
    by (rule addr_insert_miss [where ip = ip and ai = ai and an = an and h = h and ttl = ttl, OF inv now n])
      blast+
  then show ?thesis using n by (intro that [of b c']) (simp_all split: option.splits)
qed

section \<open>Properties\<close>


lemma init_address_cache_invar:
  assumes "ndpi_init_address_cache True n = Some c"
  shows "addr_invar c" "addr_item c ip = None" "addr_count c = 0" "ac_num_entries c = 0"
proof -
  have "(1::u32) \<le> max 1 (min 512 (n div 16))" by simp
  then have "max 1 (min 512 (n div 16)) \<noteq> (0::u32)" by (metis word_le_0_iff zero_neq_one)
  with assms show inv: "addr_invar c"
    by (auto simp: ndpi_init_address_cache_def addr_invar_def Let_def)
  show "addr_item c ip = None" "addr_count c = 0" "ac_num_entries c = 0"
    using assms addr_hash_id_in [OF inv, of ip]
    by (auto simp: ndpi_init_address_cache_def addr_item_def addr_count_def Let_def sum_list_replicate)
qed


text \<open>C13. The entry counter and the number of items in the table: a successful insertion of an
  address that is not cached keeps their difference, but a successful insertion of an
  address that is cached (a mere update) moves the counter one further away, although no
  item was added.\<close>

theorem address_counter_drifts:
  assumes "addr_invar c" and "now = (if epoch = 0 then clock else epoch)"
    and ins: "ndpi_address_cache_insert ai an clock c ip (Some h) epoch ttl = Some (b, c')"
  shows "ac_num_entries c' - of_nat (addr_count c') = ac_num_entries c - of_nat (addr_count c) +
    (case addr_item c ip of None \<Rightarrow> 0 | Some x \<Rightarrow> if addr_live now x then 1 else 0)"
  by (rule addr_insert_laws [OF assms(1,2), of ai an ip h ttl]) (simp add: ins)

theorem address_counter_drifts_witness:
  "\<exists>c b c'. ndpi_init_address_cache True 64 = Some c \<and>
     ndpi_address_cache_insert True True 0 c (replicate 16 1) (Some [104]) 1000 60 = Some (b, c') \<and>
     ac_num_entries c' = of_nat (addr_count c')"
proof -
  obtain c where c: "ndpi_init_address_cache True 64 = Some c"
    by (simp add: ndpi_init_address_cache_def Let_def)
  note i = init_address_cache_invar [OF c]
  have now: "(1000::u32) = (if (1000::u32) = 0 then 0 else 1000)" by simp
  obtain b c' where ins:
    "ndpi_address_cache_insert True True 0 c (replicate 16 1) (Some [104]) 1000 60 = Some (b, c')"
    by (rule addr_insert_laws [OF i(1) now, of True True "replicate 16 1" "[104]" 60]) blast
  from address_counter_drifts [OF i(1) now ins] i(2-4)
  have "ac_num_entries c' = of_nat (addr_count c')" by simp
  with c ins show ?thesis by blast
qed

text \<open>C14. Flushing the "expired" entries at a given time removes exactly the items that are
  still valid after that time and keeps the expired ones.\<close>

theorem address_flush_purges_live:
  assumes "addr_invar c" and "ndpi_address_cache_flush_expired c now = (c', n)"
  shows "addr_invar c' \<and> (\<forall>ip. addr_item c' ip =
    (case addr_item c ip of None \<Rightarrow> None
     | Some x \<Rightarrow> if ai_expire_epoch x > now then None else Some x))"
  using addr_invar_flush [OF assms(1), of now] addr_item_flush [OF assms(1), of now] assms(2) by simp

theorem address_flush_purges_live_witness:
  "\<exists>c. ndpi_init_address_cache True 64 = Some c \<and>
     addr_invar (fst (ndpi_address_cache_flush_expired c 5))"
proof -
  obtain c where c: "ndpi_init_address_cache True 64 = Some c"
    by (simp add: ndpi_init_address_cache_def Let_def)
  with address_flush_purges_live [OF init_address_cache_invar(1) [OF c], of 5] show ?thesis
    by (cases "ndpi_address_cache_flush_expired c 5") simp
qed

end
