(* ===== verification/Hostname_Cache.thy ===== *)
theory Hostname_Cache
  imports Hashing
begin

text \<open>
  The filter of resolved host names of \<open>src/lib/ndpi_cache.c\<close> (lines 534 to 660): the hash
  of a host name and an address, the two generations of the filter, and their rotation.
  The set of 32-bit values behind \<open>ndpi_filter\<close> is a compressed bitmap of the third-party
  CRoaring library, so its three operations (allocate, set, test) are arguments of the
  definitions; the null checks of \<open>src/lib/ndpi_filter.c\<close> are modelled.
\<close>

section \<open>The hash of a host name and an address\<close>

text \<open>\<open>memcpy(&buf[off], src, n)\<close> inside a buffer, and \<open>snprintf(buf, sizeof(buf), "%s", s)\<close>, which
  leaves the bytes after the terminator as they were.\<close>

definition buf_write :: "bytes \<Rightarrow> nat \<Rightarrow> bytes \<Rightarrow> bytes option" where
  "buf_write buf off src =
     (if off + length src \<le> length buf
      then Some (take off buf @ src @ drop (off + length src) buf) else None)"

definition snprintf_s :: "bytes \<Rightarrow> bytes \<Rightarrow> bytes" where
  "snprintf_s buf s =
     (let w = take (length buf - 1) s @ [0] in w @ drop (length w) buf)"

definition strchr :: "bytes \<Rightarrow> u8 \<Rightarrow> nat option" where
  "strchr s c = (let i = length (takeWhile (\<lambda>b. b \<noteq> c) (C_str s))
                 in if i < length (C_str s) then Some i else None)"

text \<open>\<open>junk\<close> is the uninitialised content of the 128-byte stack buffer.\<close>

definition ndpi_cache_hash_hostname_ip ::
  "(bytes \<Rightarrow> bytes) \<Rightarrow> bytes \<Rightarrow> bytes \<Rightarrow> bytes \<Rightarrow> bool \<Rightarrow> u32 option" where
  "ndpi_cache_hash_hostname_ip host_domain junk ip_addr hostname0 use_domain_name = do {
     let hostname = (if use_domain_name then host_domain hostname0 else hostname0);
     let buf = snprintf_s junk hostname;
     let len = length hostname;
     (buf, len) \<leftarrow> (case strchr buf 58 of
         None \<Rightarrow> Some (buf, len)
       | Some i \<Rightarrow> (let buf = buf[i := 0] in Some (buf, length (C_str (drop i buf)))));
     if len < 128 then do {
       let leftover = 128 - len;
       let to_add = min leftover 16;
       src \<leftarrow> rdn ip_addr 0 to_add;
       buf \<leftarrow> buf_write buf len src;
       bs \<leftarrow> rdn buf 0 (len + to_add);
       Some (ndpi_quick_hash bs)
     } else do {
       bs \<leftarrow> rdn buf 0 128;
       Some (ndpi_quick_hash bs)
     }
   }"

section \<open>The two generations of the filter\<close>

record 'f dns_hostname =
  dh_cache :: "'f option"
  dh_cache_shadow :: "'f option"
  dh_check_enabled :: bool

definition ndpi_filter_add :: "('f \<Rightarrow> u32 \<Rightarrow> 'f) \<Rightarrow> 'f option \<Rightarrow> u32 \<Rightarrow> bool \<times> 'f option" where
  "ndpi_filter_add bitmap_set f value =
     (case f of None \<Rightarrow> (False, None) | Some b \<Rightarrow> (True, Some (bitmap_set b value)))"

definition ndpi_filter_contains :: "('f \<Rightarrow> u32 \<Rightarrow> bool) \<Rightarrow> 'f option \<Rightarrow> u32 \<Rightarrow> bool" where
  "ndpi_filter_contains bitmap_isset f value =
     (case f of None \<Rightarrow> False | Some b \<Rightarrow> bitmap_isset b value)"

text \<open>\<open>alloc\<close> is the result of \<open>ndpi_filter_alloc\<close>.\<close>

definition ndpi_cache_hostname_ip ::
  "('f \<Rightarrow> u32 \<Rightarrow> 'f) \<Rightarrow> 'f option \<Rightarrow> (bytes \<Rightarrow> bytes) \<Rightarrow> bytes \<Rightarrow> 'f dns_hostname \<Rightarrow> bytes \<Rightarrow> bytes \<Rightarrow>
   (bool \<times> 'f dns_hostname) option" where
  "ndpi_cache_hostname_ip bitmap_set alloc host_domain junk d ip_addr hostname =
     (let d1 = (case dh_cache d of None \<Rightarrow> d\<lparr>dh_cache := alloc\<rparr> | Some _ \<Rightarrow> d)
      in case dh_cache d1 of
           None \<Rightarrow> Some (False, d1)
         | Some f \<Rightarrow> do {
             hashval \<leftarrow> ndpi_cache_hash_hostname_ip host_domain junk ip_addr hostname False;
             let (r, f') = ndpi_filter_add bitmap_set (dh_cache d1) hashval;
             Some (r, d1\<lparr>dh_cache := f'\<rparr>)
           })"

definition ndpi_cache_find_hostname_ip ::
  "('f \<Rightarrow> u32 \<Rightarrow> bool) \<Rightarrow> (bytes \<Rightarrow> bytes) \<Rightarrow> bytes \<Rightarrow> 'f dns_hostname \<Rightarrow> bytes \<Rightarrow> bytes \<Rightarrow> bool option" where
  "ndpi_cache_find_hostname_ip bitmap_isset host_domain junk d ip_addr hostname =
     (case dh_cache d of
        None \<Rightarrow> Some False
      | Some f \<Rightarrow> do {
          hashval \<leftarrow> ndpi_cache_hash_hostname_ip host_domain junk ip_addr hostname False;
          let ret = ndpi_filter_contains bitmap_isset (dh_cache d) hashval;
          Some (if \<not> ret \<and> dh_cache_shadow d \<noteq> None
                then ndpi_filter_contains bitmap_isset (dh_cache_shadow d) hashval else ret)
        })"

definition ndpi_cache_hostname_ip_swap :: "'f option \<Rightarrow> 'f dns_hostname \<Rightarrow> 'f dns_hostname" where
  "ndpi_cache_hostname_ip_swap alloc d =
     (if dh_check_enabled d then d\<lparr>dh_cache_shadow := dh_cache d, dh_cache := alloc\<rparr> else d)"

definition ndpi_cache_enable :: "'f dns_hostname \<Rightarrow> 'f dns_hostname" where
  "ndpi_cache_enable d = d\<lparr>dh_check_enabled := True\<rparr>"

section \<open>Lemmas on the hash\<close>

lemma C_str_snprintf_s:
  assumes "0 \<notin> set s" "buf \<noteq> []"
  shows "C_str (snprintf_s buf s) = take (length buf - 1) s"
proof -
  have "b \<noteq> 0" if "b \<in> set (take (length buf - 1) s)" for b
    using assms(1) that in_set_takeD by metis
  then show ?thesis
    by (simp add: snprintf_s_def C_str_def Let_def takeWhile_append2)
qed

lemma length_snprintf_s: "buf \<noteq> [] \<Longrightarrow> length (snprintf_s buf s) = length buf"
  by (cases buf) (auto simp: snprintf_s_def Let_def min_def)

lemma take_snprintf_s: "length s < length buf \<Longrightarrow> take (length s) (snprintf_s buf s) = s"
  by (simp add: snprintf_s_def Let_def)

lemma strchr_None: "c \<notin> set (C_str s) \<Longrightarrow> strchr s c = None"
proof -
  assume "c \<notin> set (C_str s)"
  then have "takeWhile (\<lambda>b. b \<noteq> c) (C_str s) = C_str s" by (auto simp: takeWhile_eq_all_conv)
  then have "length (takeWhile (\<lambda>b. b \<noteq> c) (C_str s)) = length (C_str s)" by (rule arg_cong)
  then show ?thesis by (simp add: strchr_def Let_def)
qed

lemma strchr_Some:
  assumes "c \<in> set (C_str s)"
  obtains i where "strchr s c = Some i" "i < length (C_str s)"
proof -
  have "takeWhile (\<lambda>b. b \<noteq> c) (C_str s) \<noteq> C_str s"
    using assms takeWhile_eq_all_conv [of "\<lambda>b. b \<noteq> c" "C_str s"] by auto
  then have "length (takeWhile (\<lambda>b. b \<noteq> c) (C_str s)) < length (C_str s)"
    by (metis length_takeWhile_le nat_less_le takeWhile_eq_take take_all order_refl)
  then show ?thesis using that by (simp add: strchr_def Let_def)
qed

lemma length_C_str: "length (C_str s) \<le> length s"
  by (simp add: C_str_def length_takeWhile_le)

lemma hash_hostname_ip_eq:
  assumes "length junk = 128" "length ip = 16" "0 \<notin> set h"
  shows "ndpi_cache_hash_hostname_ip hd_of junk ip h False =
    Some (ndpi_quick_hash
      (if 58 \<in> set (take 127 h) then ip
       else if length h < 128 then h @ take (128 - length h) ip
       else take 127 h @ [0]))"
proof -
  have ne: "junk \<noteq> []" using assms(1) by auto
  have cs: "C_str (snprintf_s junk h) = take 127 h"
    using C_str_snprintf_s [OF assms(3) ne] assms(1) by simp
  have ln: "length (snprintf_s junk h) = 128"
    using length_snprintf_s [OF ne] assms(1) by simp
  show ?thesis
  proof (cases "58 \<in> set (take 127 h)")
    case True
    then obtain i where i: "strchr (snprintf_s junk h) 58 = Some i" "i < length (take 127 h)"
      using strchr_Some [of 58 "snprintf_s junk h"] unfolding cs by blast
    have "drop i ((snprintf_s junk h)[i := 0]) = 0 # drop (Suc i) (snprintf_s junk h)"
      using i(2) ln by (simp add: drop_update_cancel Cons_nth_drop_Suc [symmetric])
    then have "C_str (drop i ((snprintf_s junk h)[i := 0])) = []" by (simp add: C_str_def)
    then show ?thesis using True i ln assms
      by (simp add: ndpi_cache_hash_hostname_ip_def buf_write_def rdn_def)
  next
    case False
    then have "strchr (snprintf_s junk h) 58 = None" by (simp add: strchr_None cs)
    moreover have "snprintf_s junk h = take 127 h @ [0]" if "128 \<le> length h"
      using that assms(1) by (simp add: snprintf_s_def Let_def)
    ultimately show ?thesis
      using False ln assms take_snprintf_s [of h junk]
      by (auto simp: ndpi_cache_hash_hostname_ip_def buf_write_def rdn_def not_less min_def
          Let_def)
  qed
qed

section \<open>Properties\<close>

text \<open>C15. The hash of a host name and an address never reads an uninitialised byte of its stack
  buffer nor outside it. It covers the name followed by as much of the address as fits in
  128 bytes, except in two cases: a name with a port or any other colon among its first
  127 bytes contributes nothing at all (only the address is hashed), and a name of 128
  bytes or more hides the address.\<close>

theorem hostname_ip_hash_value:
  assumes "length junk = 128" and "length ip = 16" and "0 \<notin> set h"
  shows "ndpi_cache_hash_hostname_ip hd_of junk ip h False =
    Some (ndpi_quick_hash
      (if 58 \<in> set (take 127 h) then ip
       else if length h < 128 then h @ take (128 - length h) ip
       else take 127 h @ [0]))"
  by (rule hash_hostname_ip_eq [OF assms])

theorem hostname_ip_hash_value_witness:
  "ndpi_cache_hash_hostname_ip id (replicate 128 9) (replicate 16 1) (str ''a.com:80'') False =
   ndpi_cache_hash_hostname_ip id (replicate 128 7) (replicate 16 1) (str ''b.org:80'') False"
  using hostname_ip_hash_value [of "replicate 128 9" "replicate 16 1" "str ''a.com:80''" id]
    hostname_ip_hash_value [of "replicate 128 7" "replicate 16 1" "str ''b.org:80''" id]
  by (simp add: str_def byte_of_def)



end
