(* ===== verification/Bitmask.thy ===== *)
theory Bitmask
  imports Ndpi_Prelude
begin

text \<open>
  The two bit sets of the library: the resizable \<open>struct ndpi_bitmask\<close> of
  \<open>src/lib/ndpi_utils.c\<close> (enabled protocols, enabled flow risks) and the fixed
  \<open>struct ndpi_dissector_bitmask\<close> of \<open>src/lib/ndpi_main.c\<close> (dissectors a flow has ruled
  out). Words are 32 bits wide; bit numbers are the C arguments of type \<open>u_int16_t\<close>.
\<close>

section \<open>The resizable bit set\<close>

record ndpi_bitmask =
  bm_max_bits :: nat
  bm_num_fds :: nat
  bm_fds :: "u32 list"

text \<open>\<open>howmanybits(x, y)\<close> of the header is \<open>(x + y - 1) / y\<close>, used with \<open>sizeof(mask) = 4\<close>.\<close>

definition howmanybits :: "nat \<Rightarrow> nat \<Rightarrow> nat" where
  "howmanybits x y = (x + (y - 1)) div y"

definition ndpi_bitmask_alloc :: "bool \<Rightarrow> nat \<Rightarrow> ndpi_bitmask option" where
  "ndpi_bitmask_alloc alloc max_bits =
     (if alloc
      then Some \<lparr>bm_max_bits = max_bits, bm_num_fds = howmanybits max_bits 4 mod 65536,
                 bm_fds = replicate (howmanybits max_bits 4) 0\<rparr>
      else None)"

definition bit_of :: "nat \<Rightarrow> u32" where
  "bit_of b = push_bit (b mod 32) 1"

definition ndpi_bitmask_set :: "ndpi_bitmask \<Rightarrow> nat \<Rightarrow> ndpi_bitmask option" where
  "ndpi_bitmask_set b k =
     (if k < bm_max_bits b
      then if k div 32 < length (bm_fds b)
           then Some (b\<lparr>bm_fds := (bm_fds b)[k div 32 := bm_fds b ! (k div 32) OR bit_of k]\<rparr>)
           else None
      else Some b)"

definition ndpi_bitmask_clear :: "ndpi_bitmask \<Rightarrow> nat \<Rightarrow> ndpi_bitmask option" where
  "ndpi_bitmask_clear b k =
     (if k < bm_max_bits b
      then if k div 32 < length (bm_fds b)
           then Some (b\<lparr>bm_fds := (bm_fds b)[k div 32 := bm_fds b ! (k div 32) AND NOT (bit_of k)]\<rparr>)
           else None
      else Some b)"

text \<open>A bit outside the set answers \<open>-1\<close>, which every caller tests as true.\<close>

definition ndpi_bitmask_is_set :: "ndpi_bitmask \<Rightarrow> nat \<Rightarrow> u32 option" where
  "ndpi_bitmask_is_set b k =
     (if k < bm_max_bits b
      then if k div 32 < length (bm_fds b)
           then Some (bm_fds b ! (k div 32) AND bit_of k) else None
      else Some (- 1))"

definition ndpi_bitmask_set_all :: "ndpi_bitmask \<Rightarrow> ndpi_bitmask option" where
  "ndpi_bitmask_set_all b =
     (if bm_num_fds b \<le> length (bm_fds b)
      then Some (b\<lparr>bm_fds := replicate (bm_num_fds b) (- 1) @ drop (bm_num_fds b) (bm_fds b)\<rparr>) else None)"

definition ndpi_bitmask_reset :: "ndpi_bitmask \<Rightarrow> ndpi_bitmask option" where
  "ndpi_bitmask_reset b =
     (if bm_num_fds b \<le> length (bm_fds b)
      then Some (b\<lparr>bm_fds := replicate (bm_num_fds b) 0 @ drop (bm_num_fds b) (bm_fds b)\<rparr>) else None)"

section \<open>The dissectors a flow has excluded\<close>

definition NDPI_MAX_NUM_DISSECTORS :: nat where
  "NDPI_MAX_NUM_DISSECTORS = 288"

definition NDPI_NUM_FDS_DISSECTORS :: nat where
  "NDPI_NUM_FDS_DISSECTORS = howmanybits NDPI_MAX_NUM_DISSECTORS 32"

type_synonym dissector_bitmask = "u32 list"

definition dissector_bitmask_set :: "dissector_bitmask \<Rightarrow> nat \<Rightarrow> dissector_bitmask option" where
  "dissector_bitmask_set b k =
     (if k div 32 < length b then Some (b[k div 32 := b ! (k div 32) OR bit_of k]) else None)"

definition dissector_bitmask_is_set :: "dissector_bitmask \<Rightarrow> nat \<Rightarrow> bool option" where
  "dissector_bitmask_is_set b k =
     (if k div 32 < length b then Some (b ! (k div 32) AND bit_of k \<noteq> 0) else None)"

section \<open>Bits as sets\<close>

text \<open>Membership, the abstraction both representations share.\<close>

definition bit_in :: "u32 list \<Rightarrow> nat \<Rightarrow> bool" where
  "bit_in w k \<longleftrightarrow> k div 32 < length w \<and> bit (w ! (k div 32)) (k mod 32)"

definition bitmask_wf :: "ndpi_bitmask \<Rightarrow> bool" where
  "bitmask_wf b \<longleftrightarrow> bm_max_bits b < 65536 \<and> length (bm_fds b) = bm_num_fds b \<and>
     bm_num_fds b = howmanybits (bm_max_bits b) 4"

lemma bit_bit_of: "bit (bit_of k) i \<longleftrightarrow> i = k mod 32"
  by (auto simp: bit_of_def bit_exp_iff)

lemma and_bit_of: "w AND bit_of k = 0 \<longleftrightarrow> \<not> bit w (k mod 32)"
proof
  assume "w AND bit_of k = 0"
  then have "\<not> bit (w AND bit_of k) (k mod 32)" by simp
  then show "\<not> bit w (k mod 32)" by (simp add: bit_and_iff bit_bit_of)
qed (rule bit_eqI, auto simp: bit_and_iff bit_bit_of)

lemma bit_in_or:
  assumes "k div 32 < length w"
  shows "bit_in (w[k div 32 := w ! (k div 32) OR bit_of k]) j \<longleftrightarrow> j = k \<or> bit_in w j"
proof (cases "j div 32 = k div 32")
  case True
  then have "j mod 32 = k mod 32 \<longleftrightarrow> j = k" by (metis div_mult_mod_eq)
  with True assms show ?thesis by (auto simp: bit_in_def bit_or_iff bit_bit_of)
next
  case False
  then show ?thesis by (auto simp: bit_in_def)
qed

lemma bit_in_clear:
  assumes "k div 32 < length w"
  shows "bit_in (w[k div 32 := w ! (k div 32) AND NOT (bit_of k)]) j \<longleftrightarrow> j \<noteq> k \<and> bit_in w j"
proof (cases "j div 32 = k div 32")
  case True
  have m: "bit (NOT (bit_of k)) (j mod 32) \<longleftrightarrow> j mod 32 \<noteq> k mod 32"
    by (simp add: bit_not_iff bit_bit_of)
  from True have "j mod 32 = k mod 32 \<longleftrightarrow> j = k" by (metis div_mult_mod_eq)
  with True assms m show ?thesis by (auto simp: bit_in_def bit_and_iff)
next
  case False
  then show ?thesis by (auto simp: bit_in_def)
qed

lemma dissector_bitmask_is_set_eq:
  "dissector_bitmask_is_set b k = (if k div 32 < length b then Some (bit_in b k) else None)"
  by (simp add: dissector_bitmask_is_set_def and_bit_of bit_in_def)

lemma dissector_bitmask_set_eq:
  "dissector_bitmask_set b k = Some b' \<Longrightarrow>
     length b' = length b \<and> (\<forall>j. bit_in b' j \<longleftrightarrow> j = k \<or> bit_in b j)"
  using bit_in_or [of k b] by (auto simp: dissector_bitmask_set_def split: if_splits)

lemma dissector_bitmask_set_total: "k div 32 < length b \<Longrightarrow> \<exists>b'. dissector_bitmask_set b k = Some b'"
  by (simp add: dissector_bitmask_set_def)

lemma num_fds_dissectors [simp]: "NDPI_NUM_FDS_DISSECTORS = 9"
  by (simp add: NDPI_NUM_FDS_DISSECTORS_def NDPI_MAX_NUM_DISSECTORS_def howmanybits_def)

lemma dissector_fits: "k < NDPI_MAX_NUM_DISSECTORS \<Longrightarrow> k div 32 < NDPI_NUM_FDS_DISSECTORS"
  by (simp add: NDPI_MAX_NUM_DISSECTORS_def)

lemma bitmask_word_in:
  "bitmask_wf b \<Longrightarrow> k < bm_max_bits b \<Longrightarrow> k div 32 < length (bm_fds b)"
  by (auto simp: bitmask_wf_def howmanybits_def)

lemma bitmask_is_set_total: "bitmask_wf b \<Longrightarrow> \<exists>v. ndpi_bitmask_is_set b k = Some v"
  using bitmask_word_in [of b k] by (auto simp: ndpi_bitmask_is_set_def)

section \<open>Property\<close>

text \<open>C8. A freshly allocated bit set of any 16-bit size is empty, and on a well-formed one
  setting, clearing and testing a bit stay inside the allocated words; a test inside the
  range answers membership, setting adds exactly that bit and clearing removes exactly
  that bit. A test outside the range answers a non-zero value, that is "set".\<close>

theorem bitmask_is_a_set:
  assumes "bitmask_wf b"
  shows "\<exists>s c. ndpi_bitmask_set b k = Some s \<and> ndpi_bitmask_clear b k = Some c \<and>
    bitmask_wf s \<and> bitmask_wf c \<and>
    (\<forall>j < bm_max_bits b.
       (\<exists>v. ndpi_bitmask_is_set b j = Some v \<and> (v \<noteq> 0 \<longleftrightarrow> bit_in (bm_fds b) j)) \<and>
       (\<exists>v. ndpi_bitmask_is_set s j = Some v \<and> (v \<noteq> 0 \<longleftrightarrow> j = k \<or> bit_in (bm_fds b) j)) \<and>
       (\<exists>v. ndpi_bitmask_is_set c j = Some v \<and> (v \<noteq> 0 \<longleftrightarrow> j \<noteq> k \<and> bit_in (bm_fds b) j))) \<and>
    (\<forall>j \<ge> bm_max_bits b. ndpi_bitmask_is_set b j = Some (- 1))"
proof -
  have test: "\<exists>v. ndpi_bitmask_is_set b' j = Some v \<and> (v \<noteq> 0 \<longleftrightarrow> bit_in (bm_fds b') j)"
    if "bitmask_wf b'" "j < bm_max_bits b'" for b' j
    using bitmask_word_in [OF that] that(2)
    by (auto simp: ndpi_bitmask_is_set_def and_bit_of bit_in_def)
  show ?thesis
  proof (cases "k < bm_max_bits b")
    case True
    note w = bitmask_word_in [OF assms True]
    define s where "s = b\<lparr>bm_fds := (bm_fds b)[k div 32 := bm_fds b ! (k div 32) OR bit_of k]\<rparr>"
    define c where "c = b\<lparr>bm_fds := (bm_fds b)[k div 32 := bm_fds b ! (k div 32) AND NOT (bit_of k)]\<rparr>"
    have "bitmask_wf s" "bitmask_wf c" using assms by (simp_all add: s_def c_def bitmask_wf_def)
    moreover have "ndpi_bitmask_set b k = Some s" "ndpi_bitmask_clear b k = Some c"
      using True w by (simp_all add: ndpi_bitmask_set_def ndpi_bitmask_clear_def s_def c_def)
    moreover have "bit_in (bm_fds s) j \<longleftrightarrow> j = k \<or> bit_in (bm_fds b) j"
      "bit_in (bm_fds c) j \<longleftrightarrow> j \<noteq> k \<and> bit_in (bm_fds b) j" for j
      using bit_in_or [OF w, of j] bit_in_clear [OF w, of j] by (simp_all add: s_def c_def)
    moreover have "bm_max_bits s = bm_max_bits b" "bm_max_bits c = bm_max_bits b"
      by (simp_all add: s_def c_def)
    ultimately show ?thesis
      using test [OF assms] test [of s] test [of c] by (auto simp: ndpi_bitmask_is_set_def)
  next
    case False
    then have "j \<noteq> k" if "j < bm_max_bits b" for j using that by auto
    with False assms test [OF assms] show ?thesis
      by (auto simp: ndpi_bitmask_set_def ndpi_bitmask_clear_def ndpi_bitmask_is_set_def)
  qed
qed

lemma bitmask_alloc_wf: "n < 65536 \<Longrightarrow> ndpi_bitmask_alloc True n = Some b \<Longrightarrow> bitmask_wf b"
  by (auto simp: ndpi_bitmask_alloc_def bitmask_wf_def howmanybits_def)

theorem bitmask_is_a_set_witness:
  "\<exists>b s. ndpi_bitmask_alloc True 500 = Some b \<and> ndpi_bitmask_set b 77 = Some s \<and> bitmask_wf s"
proof -
  obtain b where b: "ndpi_bitmask_alloc True 500 = Some b" by (simp add: ndpi_bitmask_alloc_def)
  from bitmask_is_a_set [OF bitmask_alloc_wf [OF _ b], of 77] b show ?thesis by auto
qed

end
