(* ===== verification/Flow_Types.thy ===== *)
theory Flow_Types
  imports Lru_Cache Bitmask
begin

text \<open>
  The state the detection engine works on: the current packet, the flow and the
  detection module, with the fields of \<open>struct ndpi_packet_struct\<close>,
  \<open>struct ndpi_flow_struct\<close> and \<open>struct ndpi_detection_module_struct\<close> that the modelled
  code reads or writes. A pointer that may be \<open>NULL\<close> is an \<open>option\<close>. Ports and IPv4
  addresses are kept in host byte order (the code compares them through \<open>ntohs\<close>,
  \<open>htons\<close>, \<open>ntohl\<close>). The payload has exactly \<open>payload_packet_len\<close> bytes.
\<close>

section \<open>Enumerations\<close>

datatype ndpi_classification_state =
    NDPI_STATE_INSPECTING | NDPI_STATE_PARTIAL | NDPI_STATE_MONITORING | NDPI_STATE_CLASSIFIED

datatype ndpi_confidence =
    NDPI_CONFIDENCE_UNKNOWN | NDPI_CONFIDENCE_MATCH_BY_PORT | NDPI_CONFIDENCE_NBPF
  | NDPI_CONFIDENCE_DPI_PARTIAL | NDPI_CONFIDENCE_DPI_PARTIAL_CACHE | NDPI_CONFIDENCE_DPI_CACHE
  | NDPI_CONFIDENCE_DPI | NDPI_CONFIDENCE_MATCH_BY_IP | NDPI_CONFIDENCE_DPI_AGGRESSIVE
  | NDPI_CONFIDENCE_CUSTOM_RULE

datatype ndpi_protocol_breed =
    NDPI_PROTOCOL_UNRATED | NDPI_PROTOCOL_SAFE | NDPI_PROTOCOL_ACCEPTABLE | NDPI_PROTOCOL_FUN
  | NDPI_PROTOCOL_UNSAFE | NDPI_PROTOCOL_POTENTIALLY_DANGEROUS | NDPI_PROTOCOL_DANGEROUS
  | NDPI_PROTOCOL_TRACKER_ADS

section \<open>The packet\<close>

record ndpi_tcphdr =
  th_source :: nat
  th_dest :: nat
  th_seq :: u32
  th_ack_seq :: u32
  th_doff :: nat
  th_fin :: bool
  th_syn :: bool
  th_rst :: bool
  th_psh :: bool
  th_ack :: bool
  th_window :: nat

record ndpi_udphdr =
  uh_source :: nat
  uh_dest :: nat
  uh_len :: nat

record ndpi_iphdr =
  ip_ihl :: nat
  ip_tot_len :: nat
  ip_frag_off :: nat
  ip_ttl :: nat
  ip_protocol :: nat
  ip_saddr :: u32
  ip_daddr :: u32

record ndpi_ipv6hdr =
  ip6_hlim :: nat
  ip6_src :: bytes
  ip6_dst :: bytes

text \<open>A parsed header line: \<open>ptr\<close> as an offset into the payload, and its length.\<close>

record ndpi_int_one_line =
  ol_ptr :: "nat option"
  ol_len :: nat

record ndpi_packet =
  pk_iph :: "ndpi_iphdr option"
  pk_iphv6 :: "ndpi_ipv6hdr option"
  pk_tcp :: "ndpi_tcphdr option"
  pk_udp :: "ndpi_udphdr option"
  pk_payload :: bytes
  pk_current_time_ms :: u64
  pk_l3_packet_len :: nat
  pk_tcp_retransmission :: bool
  pk_packet_direction :: nat
  pk_content_line :: ndpi_int_one_line
  pk_http_url_name :: ndpi_int_one_line
  pk_user_agent_line :: ndpi_int_one_line

section \<open>The flow\<close>

record ndpi_proto_stack =
  ps_protos :: "nat list"
  ps_protos_num :: nat

record ndpi_flow_tcp =
  ft_syn_time :: u64
  ft_syn_ack_time :: u64
  ft_ack_time :: u64
  ft_next_tcp_seq_nr :: "u32 \<times> u32"
  ft_last_tcp_pkt_payload_len :: nat
  ft_cli2srv_tcp_flags :: u8
  ft_srv2cli_tcp_flags :: u8
  ft_seen_syn :: bool
  ft_seen_syn_ack :: bool
  ft_seen_ack :: bool
  ft_hcl_notes_packet_id :: u8
  ft_nest_log_sink_matches :: u8
  ft_vnc_stage :: nat
  ft_radmin_stage :: nat
  ft_z3950_stage :: nat
  ft_usenet_stage :: nat
  ft_wa_matched_so_far :: nat
  ft_memcached_matches :: u8
  ft_rtmp_stage :: nat
  ft_rtmp_client_buffer_len :: nat
  ft_postgres_stage :: nat
  ft_socks5_stage :: nat
  ft_socks4_stage :: nat

record ndpi_flow_udp =
  fu_mumble_stage :: nat
  fu_mumble_ident :: u64
  fu_imo_last_one_byte_pkt :: u8
  fu_imo_last_byte :: u8
  fu_xbox_stage :: nat
  fu_lolwildrift_stage :: nat
  fu_epicgames_stage :: nat
  fu_epicgames_word :: u32
  fu_eaq_pkt_id :: u8
  fu_eaq_sequence :: u32
  fu_memcached_matches :: u8
  fu_wireguard_stage :: nat
  fu_wireguard_peer_index :: "u32 \<times> u32"
  fu_line_pkts :: "u8 \<times> u8"
  fu_line_base_cnt :: "u8 \<times> u8"

text \<open>The risk fields: \<open>risk_infos\<close> is the used prefix of the array of \<open>MAX_NUM_RISK_INFOS\<close>
  entries, each a risk number and a message that may be \<open>NULL\<close>.\<close>

record ndpi_flow_risk =
  fr_risk :: u64
  fr_risk_shadow :: u64
  fr_risk_mask :: u64
  fr_risk_infos :: "(nat \<times> bytes option) list"
  fr_host_risk_mask_evaluated :: bool
  fr_ip_risk_mask_evaluated :: bool

record ndpi_flow =
  fl_detected_protocol_stack0 :: nat
  fl_detected_protocol_stack1 :: nat
  fl_protocol_stack :: ndpi_proto_stack
  fl_state :: ndpi_classification_state
  fl_confidence :: ndpi_confidence
  fl_guessed_protocol_id :: nat
  fl_guessed_protocol_id_by_ip :: nat
  fl_fast_callback_protocol_id :: nat
  fl_protocol_id_already_guessed :: bool
  fl_already_gaveup :: bool
  fl_l4_proto :: nat
  fl_is_ipv6 :: bool
  fl_client_packet_direction :: nat
  fl_c_address :: bytes
  fl_s_address :: bytes
  fl_c_port :: nat
  fl_s_port :: nat
  fl_num_processed_pkts :: nat
  fl_num_dissector_calls :: nat
  fl_extra_packets_func :: "nat option"
  fl_last_packet_time_ms :: u64
  fl_packet_counter :: nat
  fl_packet_direction_counter :: "nat \<times> nat"
  fl_all_packets_counter :: nat
  fl_packet_direction_complete_counter :: "nat \<times> nat"
  fl_tcp :: ndpi_flow_tcp
  fl_udp :: ndpi_flow_udp
  fl_rsk :: ndpi_flow_risk
  fl_host_server_name :: bytes
  fl_http_method :: nat
  fl_flow_multimedia_types :: u8
  fl_excluded_dissectors_bitmask :: dissector_bitmask
  fl_teamviewer_stage :: nat
  fl_ookla_stage :: nat
  fl_bt_check_performed :: bool

section \<open>The detection module\<close>

record ndpi_port_range =
  pr_port_low :: nat
  pr_port_high :: nat
  pr_is_custom :: bool

record ndpi_proto_defaults =
  pd_protoName :: bytes
  pd_protoCategory :: nat
  pd_isClearTextProto :: bool
  pd_isAppProtocol :: bool
  pd_isCustomProto :: bool
  pd_performIPcheck :: bool
  pd_subprotocols :: "nat list"
  pd_protoId :: nat
  pd_dissector_idx :: nat
  pd_tcp_default_ports :: "ndpi_port_range list"
  pd_udp_default_ports :: "ndpi_port_range list"
  pd_protoBreed :: ndpi_protocol_breed
  pd_qoeCategory :: nat

text \<open>A callback: the function pointer is the number of a dissector, \<open>None\<close> for \<open>NULL\<close>.\<close>

record call_function =
  cf_name :: bytes
  cf_func :: "nat option"
  cf_ndpi_selection_bitmask :: u32
  cf_dissector_idx :: nat
  cf_first_protocol_id :: nat

record ndpi_config =
  cfg_flowrisk_bitmask :: ndpi_bitmask
  cfg_flowrisk_info_bitmask :: ndpi_bitmask
  cfg_detection_bitmask :: ndpi_bitmask

text \<open>
  The four arrays of callbacks per kind of packet are lists with exactly
  \<open>callback_buffer_size_x\<close> entries.
  \<open>nd_strdup_ok\<close> is not a field of the C structure: it says whether the allocations of
  message copies (\<open>ndpi_strdup\<close>) made through the module succeed.
  The lookups in the third-party containers the risk code consults: the Aho-Corasick
  automaton of host exceptions (the mask of a match) and the two Patricia trees of
  address exceptions (the mask of the best match).
\<close>

record risk_exceptions =
  rx_host :: "bytes \<Rightarrow> u64 option"
  rx_v4 :: "bytes \<Rightarrow> u64 option"
  rx_v6 :: "bytes \<Rightarrow> u64 option"

record ndpi_module =
  nd_packet :: ndpi_packet
  nd_cfg :: ndpi_config
  nd_proto_defaults :: "ndpi_proto_defaults list"
  nd_num_internal_protocols :: nat
  nd_num_supported_protocols :: nat
  nd_num_custom_protocols :: nat
  nd_ndpi_to_user_proto_id :: "nat list"
  nd_callback_buffer :: "call_function list"
  nd_callback_buffer_num :: nat
  nd_callback_buffer_size :: nat
  nd_callback_buffer_tcp_payload :: "call_function list"
  nd_callback_buffer_tcp_no_payload :: "call_function list"
  nd_callback_buffer_udp :: "call_function list"
  nd_callback_buffer_non_tcp_udp :: "call_function list"
  nd_current_dissector_idx :: nat
  nd_msteams_cache :: "lru_cache option"
  nd_mining_cache :: "lru_cache option"
  nd_risk_exceptions :: risk_exceptions
  nd_strdup_ok :: bool

section \<open>Accessors\<close>

text \<open>A dereference of a header pointer: \<open>None\<close> when the pointer is \<open>NULL\<close>.\<close>

definition tcp_source :: "ndpi_packet \<Rightarrow> nat option" where
  "tcp_source p = map_option th_source (pk_tcp p)"

definition tcp_dest :: "ndpi_packet \<Rightarrow> nat option" where
  "tcp_dest p = map_option th_dest (pk_tcp p)"

definition udp_source :: "ndpi_packet \<Rightarrow> nat option" where
  "udp_source p = map_option uh_source (pk_udp p)"

definition udp_dest :: "ndpi_packet \<Rightarrow> nat option" where
  "udp_dest p = map_option uh_dest (pk_udp p)"

definition iph_saddr :: "ndpi_packet \<Rightarrow> u32 option" where
  "iph_saddr p = map_option ip_saddr (pk_iph p)"

definition iph_daddr :: "ndpi_packet \<Rightarrow> u32 option" where
  "iph_daddr p = map_option ip_daddr (pk_iph p)"

text \<open>An array of two counters, one per direction.\<close>

definition at_dir :: "nat \<Rightarrow> 'a \<times> 'a \<Rightarrow> 'a" where
  "at_dir d p = (if d = 0 then fst p else snd p)"

definition upd_dir :: "nat \<Rightarrow> 'a \<Rightarrow> 'a \<times> 'a \<Rightarrow> 'a \<times> 'a" where
  "upd_dir d x p = (if d = 0 then (x, snd p) else (fst p, x))"

definition IPPROTO_TCP :: nat where "IPPROTO_TCP = 6"
definition IPPROTO_UDP :: nat where "IPPROTO_UDP = 17"

definition ndpi_get_current_time :: "ndpi_flow \<Rightarrow> u32" where
  "ndpi_get_current_time flow = ucast (fl_last_packet_time_ms flow div 1000)"

definition flow_is_proto :: "ndpi_flow \<Rightarrow> nat \<Rightarrow> bool" where
  "flow_is_proto flow p \<longleftrightarrow> fl_detected_protocol_stack0 flow = p \<or> fl_detected_protocol_stack1 flow = p"

definition ndpi_seen_flow_beginning :: "ndpi_flow \<Rightarrow> bool" where
  "ndpi_seen_flow_beginning flow \<longleftrightarrow>
     \<not> (fl_l4_proto flow = IPPROTO_TCP \<and>
        (\<not> ft_seen_syn (fl_tcp flow) \<or> \<not> ft_seen_syn_ack (fl_tcp flow) \<or> \<not> ft_seen_ack (fl_tcp flow)))"

definition current_pkt_from_client_to_server :: "ndpi_module \<Rightarrow> ndpi_flow \<Rightarrow> bool" where
  "current_pkt_from_client_to_server m flow \<longleftrightarrow>
     pk_packet_direction (nd_packet m) = fl_client_packet_direction flow"

definition current_pkt_from_server_to_client :: "ndpi_module \<Rightarrow> ndpi_flow \<Rightarrow> bool" where
  "current_pkt_from_server_to_client m flow \<longleftrightarrow>
     pk_packet_direction (nd_packet m) \<noteq> fl_client_packet_direction flow"

section \<open>Zeroed objects\<close>

text \<open>A flow, a packet and a module as \<open>calloc\<close> leaves them, with the word arrays of the bit
  sets and of the dissector mask in place.\<close>

definition empty_line :: ndpi_int_one_line where
  "empty_line = \<lparr>ol_ptr = None, ol_len = 0\<rparr>"

definition empty_packet :: ndpi_packet where
  "empty_packet = \<lparr>pk_iph = None, pk_iphv6 = None, pk_tcp = None, pk_udp = None, pk_payload = [],
     pk_current_time_ms = 0, pk_l3_packet_len = 0, pk_tcp_retransmission = False, pk_packet_direction = 0,
     pk_content_line = empty_line, pk_http_url_name = empty_line, pk_user_agent_line = empty_line\<rparr>"

definition empty_flow_tcp :: ndpi_flow_tcp where
  "empty_flow_tcp = \<lparr>ft_syn_time = 0, ft_syn_ack_time = 0, ft_ack_time = 0, ft_next_tcp_seq_nr = (0, 0),
     ft_last_tcp_pkt_payload_len = 0, ft_cli2srv_tcp_flags = 0, ft_srv2cli_tcp_flags = 0,
     ft_seen_syn = False, ft_seen_syn_ack = False, ft_seen_ack = False, ft_hcl_notes_packet_id = 0,
     ft_nest_log_sink_matches = 0, ft_vnc_stage = 0, ft_radmin_stage = 0, ft_z3950_stage = 0,
     ft_usenet_stage = 0, ft_wa_matched_so_far = 0, ft_memcached_matches = 0, ft_rtmp_stage = 0,
     ft_rtmp_client_buffer_len = 0, ft_postgres_stage = 0, ft_socks5_stage = 0, ft_socks4_stage = 0\<rparr>"

definition empty_flow_udp :: ndpi_flow_udp where
  "empty_flow_udp = \<lparr>fu_mumble_stage = 0, fu_mumble_ident = 0, fu_imo_last_one_byte_pkt = 0,
     fu_imo_last_byte = 0, fu_xbox_stage = 0, fu_lolwildrift_stage = 0, fu_epicgames_stage = 0,
     fu_epicgames_word = 0, fu_eaq_pkt_id = 0, fu_eaq_sequence = 0, fu_memcached_matches = 0,
     fu_wireguard_stage = 0, fu_wireguard_peer_index = (0, 0), fu_line_pkts = (0, 0),
     fu_line_base_cnt = (0, 0)\<rparr>"

definition empty_flow_risk :: ndpi_flow_risk where
  "empty_flow_risk = \<lparr>fr_risk = 0, fr_risk_shadow = 0, fr_risk_mask = 0, fr_risk_infos = [],
     fr_host_risk_mask_evaluated = False, fr_ip_risk_mask_evaluated = False\<rparr>"

definition empty_flow :: ndpi_flow where
  "empty_flow = \<lparr>fl_detected_protocol_stack0 = 0, fl_detected_protocol_stack1 = 0,
     fl_protocol_stack = \<lparr>ps_protos = replicate 8 0, ps_protos_num = 0\<rparr>,
     fl_state = NDPI_STATE_INSPECTING, fl_confidence = NDPI_CONFIDENCE_UNKNOWN,
     fl_guessed_protocol_id = 0, fl_guessed_protocol_id_by_ip = 0, fl_fast_callback_protocol_id = 0,
     fl_protocol_id_already_guessed = False, fl_already_gaveup = False, fl_l4_proto = 0,
     fl_is_ipv6 = False, fl_client_packet_direction = 0, fl_c_address = replicate 16 0,
     fl_s_address = replicate 16 0, fl_c_port = 0, fl_s_port = 0, fl_num_processed_pkts = 0,
     fl_num_dissector_calls = 0, fl_extra_packets_func = None, fl_last_packet_time_ms = 0,
     fl_packet_counter = 0, fl_packet_direction_counter = (0, 0), fl_all_packets_counter = 0,
     fl_packet_direction_complete_counter = (0, 0), fl_tcp = empty_flow_tcp, fl_udp = empty_flow_udp,
     fl_rsk = empty_flow_risk, fl_host_server_name = [], fl_http_method = 0,
     fl_flow_multimedia_types = 0, fl_excluded_dissectors_bitmask = replicate NDPI_NUM_FDS_DISSECTORS 0,
     fl_teamviewer_stage = 0, fl_ookla_stage = 0, fl_bt_check_performed = False\<rparr>"

definition empty_bitmask :: "nat \<Rightarrow> ndpi_bitmask" where
  "empty_bitmask n = \<lparr>bm_max_bits = n, bm_num_fds = howmanybits n 4, bm_fds = replicate (howmanybits n 4) 0\<rparr>"

definition empty_module :: ndpi_module where
  "empty_module = \<lparr>nd_packet = empty_packet,
     nd_cfg = \<lparr>cfg_flowrisk_bitmask = empty_bitmask 64, cfg_flowrisk_info_bitmask = empty_bitmask 64,
               cfg_detection_bitmask = empty_bitmask 512\<rparr>,
     nd_proto_defaults = [], nd_num_internal_protocols = 0, nd_num_supported_protocols = 0,
     nd_num_custom_protocols = 0, nd_ndpi_to_user_proto_id = [], nd_callback_buffer = [],
     nd_callback_buffer_num = 0, nd_callback_buffer_size = 0, nd_callback_buffer_tcp_payload = [],
     nd_callback_buffer_tcp_no_payload = [], nd_callback_buffer_udp = [], nd_callback_buffer_non_tcp_udp = [],
     nd_current_dissector_idx = 0, nd_msteams_cache = None,
     nd_mining_cache = None,
     nd_risk_exceptions = \<lparr>rx_host = (\<lambda>_. None), rx_v4 = (\<lambda>_. None), rx_v6 = (\<lambda>_. None)\<rparr>,
     nd_strdup_ok = True\<rparr>"

end
