(* ===== verification/Protocol_Ids.thy ===== *)
theory Protocol_Ids
  imports Main
begin

text \<open>
  The protocol identifiers of \<open>src/include/ndpi_protocol_ids.h\<close> and the risk numbers of the
  enumeration \<open>ndpi_risk_enum\<close> of \<open>src/include/ndpi_typedefs.h\<close> as
  numbers. They are abbreviations, so that two different identifiers are different numerals.
\<close>

abbreviation (input) NDPI_PROTOCOL_UNKNOWN :: nat where "NDPI_PROTOCOL_UNKNOWN \<equiv> 0"
abbreviation (input) NDPI_PROTOCOL_FTP_CONTROL :: nat where "NDPI_PROTOCOL_FTP_CONTROL \<equiv> 1"
abbreviation (input) NDPI_PROTOCOL_MAIL_POP :: nat where "NDPI_PROTOCOL_MAIL_POP \<equiv> 2"
abbreviation (input) NDPI_PROTOCOL_MAIL_SMTP :: nat where "NDPI_PROTOCOL_MAIL_SMTP \<equiv> 3"
abbreviation (input) NDPI_PROTOCOL_MAIL_IMAP :: nat where "NDPI_PROTOCOL_MAIL_IMAP \<equiv> 4"
abbreviation (input) NDPI_PROTOCOL_DNS :: nat where "NDPI_PROTOCOL_DNS \<equiv> 5"
abbreviation (input) NDPI_PROTOCOL_IPP :: nat where "NDPI_PROTOCOL_IPP \<equiv> 6"
abbreviation (input) NDPI_PROTOCOL_HTTP :: nat where "NDPI_PROTOCOL_HTTP \<equiv> 7"
abbreviation (input) NDPI_PROTOCOL_MDNS :: nat where "NDPI_PROTOCOL_MDNS \<equiv> 8"
abbreviation (input) NDPI_PROTOCOL_NTP :: nat where "NDPI_PROTOCOL_NTP \<equiv> 9"
abbreviation (input) NDPI_PROTOCOL_NETBIOS :: nat where "NDPI_PROTOCOL_NETBIOS \<equiv> 10"
abbreviation (input) NDPI_PROTOCOL_NFS :: nat where "NDPI_PROTOCOL_NFS \<equiv> 11"
abbreviation (input) NDPI_PROTOCOL_SSDP :: nat where "NDPI_PROTOCOL_SSDP \<equiv> 12"
abbreviation (input) NDPI_PROTOCOL_BGP :: nat where "NDPI_PROTOCOL_BGP \<equiv> 13"
abbreviation (input) NDPI_PROTOCOL_SNMP :: nat where "NDPI_PROTOCOL_SNMP \<equiv> 14"
abbreviation (input) NDPI_PROTOCOL_XDMCP :: nat where "NDPI_PROTOCOL_XDMCP \<equiv> 15"
abbreviation (input) NDPI_PROTOCOL_SMBV1 :: nat where "NDPI_PROTOCOL_SMBV1 \<equiv> 16"
abbreviation (input) NDPI_PROTOCOL_SYSLOG :: nat where "NDPI_PROTOCOL_SYSLOG \<equiv> 17"
abbreviation (input) NDPI_PROTOCOL_DHCP :: nat where "NDPI_PROTOCOL_DHCP \<equiv> 18"
abbreviation (input) NDPI_PROTOCOL_POSTGRES :: nat where "NDPI_PROTOCOL_POSTGRES \<equiv> 19"
abbreviation (input) NDPI_PROTOCOL_MYSQL :: nat where "NDPI_PROTOCOL_MYSQL \<equiv> 20"
abbreviation (input) NDPI_PROTOCOL_MS_OUTLOOK :: nat where "NDPI_PROTOCOL_MS_OUTLOOK \<equiv> 21"
abbreviation (input) NDPI_PROTOCOL_VK :: nat where "NDPI_PROTOCOL_VK \<equiv> 22"
abbreviation (input) NDPI_PROTOCOL_MAIL_POPS :: nat where "NDPI_PROTOCOL_MAIL_POPS \<equiv> 23"
abbreviation (input) NDPI_PROTOCOL_TAILSCALE :: nat where "NDPI_PROTOCOL_TAILSCALE \<equiv> 24"
abbreviation (input) NDPI_PROTOCOL_YANDEX :: nat where "NDPI_PROTOCOL_YANDEX \<equiv> 25"
abbreviation (input) NDPI_PROTOCOL_NTOP :: nat where "NDPI_PROTOCOL_NTOP \<equiv> 26"
abbreviation (input) NDPI_PROTOCOL_COAP :: nat where "NDPI_PROTOCOL_COAP \<equiv> 27"
abbreviation (input) NDPI_PROTOCOL_VMWARE :: nat where "NDPI_PROTOCOL_VMWARE \<equiv> 28"
abbreviation (input) NDPI_PROTOCOL_MAIL_SMTPS :: nat where "NDPI_PROTOCOL_MAIL_SMTPS \<equiv> 29"
abbreviation (input) NDPI_PROTOCOL_DTLS :: nat where "NDPI_PROTOCOL_DTLS \<equiv> 30"
abbreviation (input) NDPI_PROTOCOL_UBNTAC2 :: nat where "NDPI_PROTOCOL_UBNTAC2 \<equiv> 31"
abbreviation (input) NDPI_PROTOCOL_BFCP :: nat where "NDPI_PROTOCOL_BFCP \<equiv> 32"
abbreviation (input) NDPI_PROTOCOL_YANDEX_MAIL :: nat where "NDPI_PROTOCOL_YANDEX_MAIL \<equiv> 33"
abbreviation (input) NDPI_PROTOCOL_YANDEX_MUSIC :: nat where "NDPI_PROTOCOL_YANDEX_MUSIC \<equiv> 34"
abbreviation (input) NDPI_PROTOCOL_GNUTELLA :: nat where "NDPI_PROTOCOL_GNUTELLA \<equiv> 35"
abbreviation (input) NDPI_PROTOCOL_EDONKEY :: nat where "NDPI_PROTOCOL_EDONKEY \<equiv> 36"
abbreviation (input) NDPI_PROTOCOL_BITTORRENT :: nat where "NDPI_PROTOCOL_BITTORRENT \<equiv> 37"
abbreviation (input) NDPI_PROTOCOL_MSTEAMS_CALL :: nat where "NDPI_PROTOCOL_MSTEAMS_CALL \<equiv> 38"
abbreviation (input) NDPI_PROTOCOL_SIGNAL :: nat where "NDPI_PROTOCOL_SIGNAL \<equiv> 39"
abbreviation (input) NDPI_PROTOCOL_MEMCACHED :: nat where "NDPI_PROTOCOL_MEMCACHED \<equiv> 40"
abbreviation (input) NDPI_PROTOCOL_SMBV23 :: nat where "NDPI_PROTOCOL_SMBV23 \<equiv> 41"
abbreviation (input) NDPI_PROTOCOL_MINING :: nat where "NDPI_PROTOCOL_MINING \<equiv> 42"
abbreviation (input) NDPI_PROTOCOL_NEST_LOG_SINK :: nat where "NDPI_PROTOCOL_NEST_LOG_SINK \<equiv> 43"
abbreviation (input) NDPI_PROTOCOL_MODBUS :: nat where "NDPI_PROTOCOL_MODBUS \<equiv> 44"
abbreviation (input) NDPI_PROTOCOL_WHATSAPP_CALL :: nat where "NDPI_PROTOCOL_WHATSAPP_CALL \<equiv> 45"
abbreviation (input) NDPI_PROTOCOL_DATASAVER :: nat where "NDPI_PROTOCOL_DATASAVER \<equiv> 46"
abbreviation (input) NDPI_PROTOCOL_XBOX :: nat where "NDPI_PROTOCOL_XBOX \<equiv> 47"
abbreviation (input) NDPI_PROTOCOL_QQ :: nat where "NDPI_PROTOCOL_QQ \<equiv> 48"
abbreviation (input) NDPI_PROTOCOL_TIKTOK :: nat where "NDPI_PROTOCOL_TIKTOK \<equiv> 49"
abbreviation (input) NDPI_PROTOCOL_RTSP :: nat where "NDPI_PROTOCOL_RTSP \<equiv> 50"
abbreviation (input) NDPI_PROTOCOL_MAIL_IMAPS :: nat where "NDPI_PROTOCOL_MAIL_IMAPS \<equiv> 51"
abbreviation (input) NDPI_PROTOCOL_ICECAST :: nat where "NDPI_PROTOCOL_ICECAST \<equiv> 52"
abbreviation (input) NDPI_PROTOCOL_CPHA :: nat where "NDPI_PROTOCOL_CPHA \<equiv> 53"
abbreviation (input) NDPI_PROTOCOL_IQIYI :: nat where "NDPI_PROTOCOL_IQIYI \<equiv> 54"
abbreviation (input) NDPI_PROTOCOL_ZATTOO :: nat where "NDPI_PROTOCOL_ZATTOO \<equiv> 55"
abbreviation (input) NDPI_PROTOCOL_YANDEX_MARKET :: nat where "NDPI_PROTOCOL_YANDEX_MARKET \<equiv> 56"
abbreviation (input) NDPI_PROTOCOL_YANDEX_DISK :: nat where "NDPI_PROTOCOL_YANDEX_DISK \<equiv> 57"
abbreviation (input) NDPI_PROTOCOL_DISCORD :: nat where "NDPI_PROTOCOL_DISCORD \<equiv> 58"
abbreviation (input) NDPI_PROTOCOL_ADOBE_CONNECT :: nat where "NDPI_PROTOCOL_ADOBE_CONNECT \<equiv> 59"
abbreviation (input) NDPI_PROTOCOL_MONGODB :: nat where "NDPI_PROTOCOL_MONGODB \<equiv> 60"
abbreviation (input) NDPI_PROTOCOL_PLURALSIGHT :: nat where "NDPI_PROTOCOL_PLURALSIGHT \<equiv> 61"
abbreviation (input) NDPI_PROTOCOL_YANDEX_CLOUD :: nat where "NDPI_PROTOCOL_YANDEX_CLOUD \<equiv> 62"
abbreviation (input) NDPI_PROTOCOL_OCSP :: nat where "NDPI_PROTOCOL_OCSP \<equiv> 63"
abbreviation (input) NDPI_PROTOCOL_VXLAN :: nat where "NDPI_PROTOCOL_VXLAN \<equiv> 64"
abbreviation (input) NDPI_PROTOCOL_IRC :: nat where "NDPI_PROTOCOL_IRC \<equiv> 65"
abbreviation (input) NDPI_PROTOCOL_MERAKI_CLOUD :: nat where "NDPI_PROTOCOL_MERAKI_CLOUD \<equiv> 66"
abbreviation (input) NDPI_PROTOCOL_JABBER :: nat where "NDPI_PROTOCOL_JABBER \<equiv> 67"
abbreviation (input) NDPI_PROTOCOL_NATS :: nat where "NDPI_PROTOCOL_NATS \<equiv> 68"
abbreviation (input) NDPI_PROTOCOL_AMONG_US :: nat where "NDPI_PROTOCOL_AMONG_US \<equiv> 69"
abbreviation (input) NDPI_PROTOCOL_YAHOO :: nat where "NDPI_PROTOCOL_YAHOO \<equiv> 70"
abbreviation (input) NDPI_PROTOCOL_DISNEYPLUS :: nat where "NDPI_PROTOCOL_DISNEYPLUS \<equiv> 71"
abbreviation (input) NDPI_PROTOCOL_HART_IP :: nat where "NDPI_PROTOCOL_HART_IP \<equiv> 72"
abbreviation (input) NDPI_PROTOCOL_IP_VRRP :: nat where "NDPI_PROTOCOL_IP_VRRP \<equiv> 73"
abbreviation (input) NDPI_PROTOCOL_STEAM :: nat where "NDPI_PROTOCOL_STEAM \<equiv> 74"
abbreviation (input) NDPI_PROTOCOL_MELSEC :: nat where "NDPI_PROTOCOL_MELSEC \<equiv> 75"
abbreviation (input) NDPI_PROTOCOL_WORLDOFWARCRAFT :: nat where "NDPI_PROTOCOL_WORLDOFWARCRAFT \<equiv> 76"
abbreviation (input) NDPI_PROTOCOL_TELNET :: nat where "NDPI_PROTOCOL_TELNET \<equiv> 77"
abbreviation (input) NDPI_PROTOCOL_STUN :: nat where "NDPI_PROTOCOL_STUN \<equiv> 78"
abbreviation (input) NDPI_PROTOCOL_IPSEC :: nat where "NDPI_PROTOCOL_IPSEC \<equiv> 79"
abbreviation (input) NDPI_PROTOCOL_IP_GRE :: nat where "NDPI_PROTOCOL_IP_GRE \<equiv> 80"
abbreviation (input) NDPI_PROTOCOL_IP_ICMP :: nat where "NDPI_PROTOCOL_IP_ICMP \<equiv> 81"
abbreviation (input) NDPI_PROTOCOL_IP_IGMP :: nat where "NDPI_PROTOCOL_IP_IGMP \<equiv> 82"
abbreviation (input) NDPI_PROTOCOL_IP_EGP :: nat where "NDPI_PROTOCOL_IP_EGP \<equiv> 83"
abbreviation (input) NDPI_PROTOCOL_IP_SCTP :: nat where "NDPI_PROTOCOL_IP_SCTP \<equiv> 84"
abbreviation (input) NDPI_PROTOCOL_IP_OSPF :: nat where "NDPI_PROTOCOL_IP_OSPF \<equiv> 85"
abbreviation (input) NDPI_PROTOCOL_IP_IP_IN_IP :: nat where "NDPI_PROTOCOL_IP_IP_IN_IP \<equiv> 86"
abbreviation (input) NDPI_PROTOCOL_RTP :: nat where "NDPI_PROTOCOL_RTP \<equiv> 87"
abbreviation (input) NDPI_PROTOCOL_RDP :: nat where "NDPI_PROTOCOL_RDP \<equiv> 88"
abbreviation (input) NDPI_PROTOCOL_VNC :: nat where "NDPI_PROTOCOL_VNC \<equiv> 89"
abbreviation (input) NDPI_PROTOCOL_TUMBLR :: nat where "NDPI_PROTOCOL_TUMBLR \<equiv> 90"
abbreviation (input) NDPI_PROTOCOL_TLS :: nat where "NDPI_PROTOCOL_TLS \<equiv> 91"
abbreviation (input) NDPI_PROTOCOL_SSH :: nat where "NDPI_PROTOCOL_SSH \<equiv> 92"
abbreviation (input) NDPI_PROTOCOL_USENET :: nat where "NDPI_PROTOCOL_USENET \<equiv> 93"
abbreviation (input) NDPI_PROTOCOL_MGCP :: nat where "NDPI_PROTOCOL_MGCP \<equiv> 94"
abbreviation (input) NDPI_PROTOCOL_IAX :: nat where "NDPI_PROTOCOL_IAX \<equiv> 95"
abbreviation (input) NDPI_PROTOCOL_TFTP :: nat where "NDPI_PROTOCOL_TFTP \<equiv> 96"
abbreviation (input) NDPI_PROTOCOL_AFP :: nat where "NDPI_PROTOCOL_AFP \<equiv> 97"
abbreviation (input) NDPI_PROTOCOL_YANDEX_METRIKA :: nat where "NDPI_PROTOCOL_YANDEX_METRIKA \<equiv> 98"
abbreviation (input) NDPI_PROTOCOL_YANDEX_DIRECT :: nat where "NDPI_PROTOCOL_YANDEX_DIRECT \<equiv> 99"
abbreviation (input) NDPI_PROTOCOL_SIP :: nat where "NDPI_PROTOCOL_SIP \<equiv> 100"
abbreviation (input) NDPI_PROTOCOL_TRUPHONE :: nat where "NDPI_PROTOCOL_TRUPHONE \<equiv> 101"
abbreviation (input) NDPI_PROTOCOL_IP_ICMPV6 :: nat where "NDPI_PROTOCOL_IP_ICMPV6 \<equiv> 102"
abbreviation (input) NDPI_PROTOCOL_DHCPV6 :: nat where "NDPI_PROTOCOL_DHCPV6 \<equiv> 103"
abbreviation (input) NDPI_PROTOCOL_ARMAGETRON :: nat where "NDPI_PROTOCOL_ARMAGETRON \<equiv> 104"
abbreviation (input) NDPI_PROTOCOL_CROSSFIRE :: nat where "NDPI_PROTOCOL_CROSSFIRE \<equiv> 105"
abbreviation (input) NDPI_PROTOCOL_DOFUS :: nat where "NDPI_PROTOCOL_DOFUS \<equiv> 106"
abbreviation (input) NDPI_PROTOCOL_BLACKNUT :: nat where "NDPI_PROTOCOL_BLACKNUT \<equiv> 107"
abbreviation (input) NDPI_PROTOCOL_BOOSTEROID :: nat where "NDPI_PROTOCOL_BOOSTEROID \<equiv> 108"
abbreviation (input) NDPI_PROTOCOL_GUILDWARS2 :: nat where "NDPI_PROTOCOL_GUILDWARS2 \<equiv> 109"
abbreviation (input) NDPI_PROTOCOL_AMAZON_ALEXA :: nat where "NDPI_PROTOCOL_AMAZON_ALEXA \<equiv> 110"
abbreviation (input) NDPI_PROTOCOL_KERBEROS :: nat where "NDPI_PROTOCOL_KERBEROS \<equiv> 111"
abbreviation (input) NDPI_PROTOCOL_LDAP :: nat where "NDPI_PROTOCOL_LDAP \<equiv> 112"
abbreviation (input) NDPI_PROTOCOL_NEXON :: nat where "NDPI_PROTOCOL_NEXON \<equiv> 113"
abbreviation (input) NDPI_PROTOCOL_MSSQL_TDS :: nat where "NDPI_PROTOCOL_MSSQL_TDS \<equiv> 114"
abbreviation (input) NDPI_PROTOCOL_PPTP :: nat where "NDPI_PROTOCOL_PPTP \<equiv> 115"
abbreviation (input) NDPI_PROTOCOL_IP_AH :: nat where "NDPI_PROTOCOL_IP_AH \<equiv> 116"
abbreviation (input) NDPI_PROTOCOL_IP_ESP :: nat where "NDPI_PROTOCOL_IP_ESP \<equiv> 117"
abbreviation (input) NDPI_PROTOCOL_SLACK :: nat where "NDPI_PROTOCOL_SLACK \<equiv> 118"
abbreviation (input) NDPI_PROTOCOL_FACEBOOK :: nat where "NDPI_PROTOCOL_FACEBOOK \<equiv> 119"
abbreviation (input) NDPI_PROTOCOL_TWITTER :: nat where "NDPI_PROTOCOL_TWITTER \<equiv> 120"
abbreviation (input) NDPI_PROTOCOL_DROPBOX :: nat where "NDPI_PROTOCOL_DROPBOX \<equiv> 121"
abbreviation (input) NDPI_PROTOCOL_GMAIL :: nat where "NDPI_PROTOCOL_GMAIL \<equiv> 122"
abbreviation (input) NDPI_PROTOCOL_GOOGLE_MAPS :: nat where "NDPI_PROTOCOL_GOOGLE_MAPS \<equiv> 123"
abbreviation (input) NDPI_PROTOCOL_YOUTUBE :: nat where "NDPI_PROTOCOL_YOUTUBE \<equiv> 124"
abbreviation (input) NDPI_PROTOCOL_MOZILLA :: nat where "NDPI_PROTOCOL_MOZILLA \<equiv> 125"
abbreviation (input) NDPI_PROTOCOL_GOOGLE :: nat where "NDPI_PROTOCOL_GOOGLE \<equiv> 126"
abbreviation (input) NDPI_PROTOCOL_MS_RPCH :: nat where "NDPI_PROTOCOL_MS_RPCH \<equiv> 127"
abbreviation (input) NDPI_PROTOCOL_NETFLOW :: nat where "NDPI_PROTOCOL_NETFLOW \<equiv> 128"
abbreviation (input) NDPI_PROTOCOL_SFLOW :: nat where "NDPI_PROTOCOL_SFLOW \<equiv> 129"
abbreviation (input) NDPI_PROTOCOL_HTTP_CONNECT :: nat where "NDPI_PROTOCOL_HTTP_CONNECT \<equiv> 130"
abbreviation (input) NDPI_PROTOCOL_HTTP_PROXY :: nat where "NDPI_PROTOCOL_HTTP_PROXY \<equiv> 131"
abbreviation (input) NDPI_PROTOCOL_CITRIX :: nat where "NDPI_PROTOCOL_CITRIX \<equiv> 132"
abbreviation (input) NDPI_PROTOCOL_NETFLIX :: nat where "NDPI_PROTOCOL_NETFLIX \<equiv> 133"
abbreviation (input) NDPI_PROTOCOL_LASTFM :: nat where "NDPI_PROTOCOL_LASTFM \<equiv> 134"
abbreviation (input) NDPI_PROTOCOL_WAZE :: nat where "NDPI_PROTOCOL_WAZE \<equiv> 135"
abbreviation (input) NDPI_PROTOCOL_YOUTUBE_UPLOAD :: nat where "NDPI_PROTOCOL_YOUTUBE_UPLOAD \<equiv> 136"
abbreviation (input) NDPI_PROTOCOL_HULU :: nat where "NDPI_PROTOCOL_HULU \<equiv> 137"
abbreviation (input) NDPI_PROTOCOL_CHECKMK :: nat where "NDPI_PROTOCOL_CHECKMK \<equiv> 138"
abbreviation (input) NDPI_PROTOCOL_AJP :: nat where "NDPI_PROTOCOL_AJP \<equiv> 139"
abbreviation (input) NDPI_PROTOCOL_APPLE :: nat where "NDPI_PROTOCOL_APPLE \<equiv> 140"
abbreviation (input) NDPI_PROTOCOL_WEBEX :: nat where "NDPI_PROTOCOL_WEBEX \<equiv> 141"
abbreviation (input) NDPI_PROTOCOL_WHATSAPP :: nat where "NDPI_PROTOCOL_WHATSAPP \<equiv> 142"
abbreviation (input) NDPI_PROTOCOL_APPLE_ICLOUD :: nat where "NDPI_PROTOCOL_APPLE_ICLOUD \<equiv> 143"
abbreviation (input) NDPI_PROTOCOL_VIBER :: nat where "NDPI_PROTOCOL_VIBER \<equiv> 144"
abbreviation (input) NDPI_PROTOCOL_APPLE_ITUNES :: nat where "NDPI_PROTOCOL_APPLE_ITUNES \<equiv> 145"
abbreviation (input) NDPI_PROTOCOL_RADIUS :: nat where "NDPI_PROTOCOL_RADIUS \<equiv> 146"
abbreviation (input) NDPI_PROTOCOL_WINDOWS_UPDATE :: nat where "NDPI_PROTOCOL_WINDOWS_UPDATE \<equiv> 147"
abbreviation (input) NDPI_PROTOCOL_TEAMVIEWER :: nat where "NDPI_PROTOCOL_TEAMVIEWER \<equiv> 148"
abbreviation (input) NDPI_PROTOCOL_EGD :: nat where "NDPI_PROTOCOL_EGD \<equiv> 149"
abbreviation (input) NDPI_PROTOCOL_HCL_NOTES :: nat where "NDPI_PROTOCOL_HCL_NOTES \<equiv> 150"
abbreviation (input) NDPI_PROTOCOL_SAP :: nat where "NDPI_PROTOCOL_SAP \<equiv> 151"
abbreviation (input) NDPI_PROTOCOL_GTP :: nat where "NDPI_PROTOCOL_GTP \<equiv> 152"
abbreviation (input) NDPI_PROTOCOL_WSD :: nat where "NDPI_PROTOCOL_WSD \<equiv> 153"
abbreviation (input) NDPI_PROTOCOL_LLMNR :: nat where "NDPI_PROTOCOL_LLMNR \<equiv> 154"
abbreviation (input) NDPI_PROTOCOL_TOCA_BOCA :: nat where "NDPI_PROTOCOL_TOCA_BOCA \<equiv> 155"
abbreviation (input) NDPI_PROTOCOL_SPOTIFY :: nat where "NDPI_PROTOCOL_SPOTIFY \<equiv> 156"
abbreviation (input) NDPI_PROTOCOL_FACEBOOK_MESSENGER :: nat where "NDPI_PROTOCOL_FACEBOOK_MESSENGER \<equiv> 157"
abbreviation (input) NDPI_PROTOCOL_H323 :: nat where "NDPI_PROTOCOL_H323 \<equiv> 158"
abbreviation (input) NDPI_PROTOCOL_OPENVPN :: nat where "NDPI_PROTOCOL_OPENVPN \<equiv> 159"
abbreviation (input) NDPI_PROTOCOL_NOE :: nat where "NDPI_PROTOCOL_NOE \<equiv> 160"
abbreviation (input) NDPI_PROTOCOL_CISCOVPN :: nat where "NDPI_PROTOCOL_CISCOVPN \<equiv> 161"
abbreviation (input) NDPI_PROTOCOL_TEAMSPEAK :: nat where "NDPI_PROTOCOL_TEAMSPEAK \<equiv> 162"
abbreviation (input) NDPI_PROTOCOL_TOR :: nat where "NDPI_PROTOCOL_TOR \<equiv> 163"
abbreviation (input) NDPI_PROTOCOL_SKINNY :: nat where "NDPI_PROTOCOL_SKINNY \<equiv> 164"
abbreviation (input) NDPI_PROTOCOL_RTCP :: nat where "NDPI_PROTOCOL_RTCP \<equiv> 165"
abbreviation (input) NDPI_PROTOCOL_RSYNC :: nat where "NDPI_PROTOCOL_RSYNC \<equiv> 166"
abbreviation (input) NDPI_PROTOCOL_ORACLE :: nat where "NDPI_PROTOCOL_ORACLE \<equiv> 167"
abbreviation (input) NDPI_PROTOCOL_CORBA :: nat where "NDPI_PROTOCOL_CORBA \<equiv> 168"
abbreviation (input) NDPI_PROTOCOL_CANONICAL :: nat where "NDPI_PROTOCOL_CANONICAL \<equiv> 169"
abbreviation (input) NDPI_PROTOCOL_WHOIS_DAS :: nat where "NDPI_PROTOCOL_WHOIS_DAS \<equiv> 170"
abbreviation (input) NDPI_PROTOCOL_SD_RTN :: nat where "NDPI_PROTOCOL_SD_RTN \<equiv> 171"
abbreviation (input) NDPI_PROTOCOL_SOCKS :: nat where "NDPI_PROTOCOL_SOCKS \<equiv> 172"
abbreviation (input) NDPI_PROTOCOL_NINTENDO :: nat where "NDPI_PROTOCOL_NINTENDO \<equiv> 173"
abbreviation (input) NDPI_PROTOCOL_RTMP :: nat where "NDPI_PROTOCOL_RTMP \<equiv> 174"
abbreviation (input) NDPI_PROTOCOL_FTP_DATA :: nat where "NDPI_PROTOCOL_FTP_DATA \<equiv> 175"
abbreviation (input) NDPI_PROTOCOL_WIKIPEDIA :: nat where "NDPI_PROTOCOL_WIKIPEDIA \<equiv> 176"
abbreviation (input) NDPI_PROTOCOL_ZMQ :: nat where "NDPI_PROTOCOL_ZMQ \<equiv> 177"
abbreviation (input) NDPI_PROTOCOL_AMAZON :: nat where "NDPI_PROTOCOL_AMAZON \<equiv> 178"
abbreviation (input) NDPI_PROTOCOL_EBAY :: nat where "NDPI_PROTOCOL_EBAY \<equiv> 179"
abbreviation (input) NDPI_PROTOCOL_CNN :: nat where "NDPI_PROTOCOL_CNN \<equiv> 180"
abbreviation (input) NDPI_PROTOCOL_MEGACO :: nat where "NDPI_PROTOCOL_MEGACO \<equiv> 181"
abbreviation (input) NDPI_PROTOCOL_RESP :: nat where "NDPI_PROTOCOL_RESP \<equiv> 182"
abbreviation (input) NDPI_PROTOCOL_PINTEREST :: nat where "NDPI_PROTOCOL_PINTEREST \<equiv> 183"
abbreviation (input) NDPI_PROTOCOL_OSPF :: nat where "NDPI_PROTOCOL_OSPF \<equiv> 184"
abbreviation (input) NDPI_PROTOCOL_TELEGRAM :: nat where "NDPI_PROTOCOL_TELEGRAM \<equiv> 185"
abbreviation (input) NDPI_PROTOCOL_COD_MOBILE :: nat where "NDPI_PROTOCOL_COD_MOBILE \<equiv> 186"
abbreviation (input) NDPI_PROTOCOL_PANDORA :: nat where "NDPI_PROTOCOL_PANDORA \<equiv> 187"
abbreviation (input) NDPI_PROTOCOL_QUIC :: nat where "NDPI_PROTOCOL_QUIC \<equiv> 188"
abbreviation (input) NDPI_PROTOCOL_ZOOM :: nat where "NDPI_PROTOCOL_ZOOM \<equiv> 189"
abbreviation (input) NDPI_PROTOCOL_EAQ :: nat where "NDPI_PROTOCOL_EAQ \<equiv> 190"
abbreviation (input) NDPI_PROTOCOL_OOKLA :: nat where "NDPI_PROTOCOL_OOKLA \<equiv> 191"
abbreviation (input) NDPI_PROTOCOL_AMQP :: nat where "NDPI_PROTOCOL_AMQP \<equiv> 192"
abbreviation (input) NDPI_PROTOCOL_KAKAOTALK :: nat where "NDPI_PROTOCOL_KAKAOTALK \<equiv> 193"
abbreviation (input) NDPI_PROTOCOL_KAKAOTALK_VOICE :: nat where "NDPI_PROTOCOL_KAKAOTALK_VOICE \<equiv> 194"
abbreviation (input) NDPI_PROTOCOL_TWITCH :: nat where "NDPI_PROTOCOL_TWITCH \<equiv> 195"
abbreviation (input) NDPI_PROTOCOL_DOH_DOT :: nat where "NDPI_PROTOCOL_DOH_DOT \<equiv> 196"
abbreviation (input) NDPI_PROTOCOL_WECHAT :: nat where "NDPI_PROTOCOL_WECHAT \<equiv> 197"
abbreviation (input) NDPI_PROTOCOL_MPEGTS :: nat where "NDPI_PROTOCOL_MPEGTS \<equiv> 198"
abbreviation (input) NDPI_PROTOCOL_SNAPCHAT :: nat where "NDPI_PROTOCOL_SNAPCHAT \<equiv> 199"
abbreviation (input) NDPI_PROTOCOL_SINA :: nat where "NDPI_PROTOCOL_SINA \<equiv> 200"
abbreviation (input) NDPI_PROTOCOL_GOOGLE_MEET :: nat where "NDPI_PROTOCOL_GOOGLE_MEET \<equiv> 201"
abbreviation (input) NDPI_PROTOCOL_IFLIX :: nat where "NDPI_PROTOCOL_IFLIX \<equiv> 202"
abbreviation (input) NDPI_PROTOCOL_GITHUB :: nat where "NDPI_PROTOCOL_GITHUB \<equiv> 203"
abbreviation (input) NDPI_PROTOCOL_BJNP :: nat where "NDPI_PROTOCOL_BJNP \<equiv> 204"
abbreviation (input) NDPI_PROTOCOL_REDDIT :: nat where "NDPI_PROTOCOL_REDDIT \<equiv> 205"
abbreviation (input) NDPI_PROTOCOL_WIREGUARD :: nat where "NDPI_PROTOCOL_WIREGUARD \<equiv> 206"
abbreviation (input) NDPI_PROTOCOL_SMPP :: nat where "NDPI_PROTOCOL_SMPP \<equiv> 207"
abbreviation (input) NDPI_PROTOCOL_DNSCRYPT :: nat where "NDPI_PROTOCOL_DNSCRYPT \<equiv> 208"
abbreviation (input) NDPI_PROTOCOL_TINC :: nat where "NDPI_PROTOCOL_TINC \<equiv> 209"
abbreviation (input) NDPI_PROTOCOL_DEEZER :: nat where "NDPI_PROTOCOL_DEEZER \<equiv> 210"
abbreviation (input) NDPI_PROTOCOL_INSTAGRAM :: nat where "NDPI_PROTOCOL_INSTAGRAM \<equiv> 211"
abbreviation (input) NDPI_PROTOCOL_MICROSOFT :: nat where "NDPI_PROTOCOL_MICROSOFT \<equiv> 212"
abbreviation (input) NDPI_PROTOCOL_BLIZZARD :: nat where "NDPI_PROTOCOL_BLIZZARD \<equiv> 213"
abbreviation (input) NDPI_PROTOCOL_TEREDO :: nat where "NDPI_PROTOCOL_TEREDO \<equiv> 214"
abbreviation (input) NDPI_PROTOCOL_HOTSPOT_SHIELD :: nat where "NDPI_PROTOCOL_HOTSPOT_SHIELD \<equiv> 215"
abbreviation (input) NDPI_PROTOCOL_IMO :: nat where "NDPI_PROTOCOL_IMO \<equiv> 216"
abbreviation (input) NDPI_PROTOCOL_GOOGLE_DRIVE :: nat where "NDPI_PROTOCOL_GOOGLE_DRIVE \<equiv> 217"
abbreviation (input) NDPI_PROTOCOL_OCS :: nat where "NDPI_PROTOCOL_OCS \<equiv> 218"
abbreviation (input) NDPI_PROTOCOL_MICROSOFT_365 :: nat where "NDPI_PROTOCOL_MICROSOFT_365 \<equiv> 219"
abbreviation (input) NDPI_PROTOCOL_CLOUDFLARE :: nat where "NDPI_PROTOCOL_CLOUDFLARE \<equiv> 220"
abbreviation (input) NDPI_PROTOCOL_MS_ONE_DRIVE :: nat where "NDPI_PROTOCOL_MS_ONE_DRIVE \<equiv> 221"
abbreviation (input) NDPI_PROTOCOL_MQTT :: nat where "NDPI_PROTOCOL_MQTT \<equiv> 222"
abbreviation (input) NDPI_PROTOCOL_RX :: nat where "NDPI_PROTOCOL_RX \<equiv> 223"
abbreviation (input) NDPI_PROTOCOL_APPLESTORE :: nat where "NDPI_PROTOCOL_APPLESTORE \<equiv> 224"
abbreviation (input) NDPI_PROTOCOL_OPENDNS :: nat where "NDPI_PROTOCOL_OPENDNS \<equiv> 225"
abbreviation (input) NDPI_PROTOCOL_GIT :: nat where "NDPI_PROTOCOL_GIT \<equiv> 226"
abbreviation (input) NDPI_PROTOCOL_DRDA :: nat where "NDPI_PROTOCOL_DRDA \<equiv> 227"
abbreviation (input) NDPI_PROTOCOL_PLAYSTORE :: nat where "NDPI_PROTOCOL_PLAYSTORE \<equiv> 228"
abbreviation (input) NDPI_PROTOCOL_SOMEIP :: nat where "NDPI_PROTOCOL_SOMEIP \<equiv> 229"
abbreviation (input) NDPI_PROTOCOL_FIX :: nat where "NDPI_PROTOCOL_FIX \<equiv> 230"
abbreviation (input) NDPI_PROTOCOL_PLAYSTATION :: nat where "NDPI_PROTOCOL_PLAYSTATION \<equiv> 231"
abbreviation (input) NDPI_PROTOCOL_PASTEBIN :: nat where "NDPI_PROTOCOL_PASTEBIN \<equiv> 232"
abbreviation (input) NDPI_PROTOCOL_LINKEDIN :: nat where "NDPI_PROTOCOL_LINKEDIN \<equiv> 233"
abbreviation (input) NDPI_PROTOCOL_SOUNDCLOUD :: nat where "NDPI_PROTOCOL_SOUNDCLOUD \<equiv> 234"
abbreviation (input) NDPI_PROTOCOL_VALVE_SDR :: nat where "NDPI_PROTOCOL_VALVE_SDR \<equiv> 235"
abbreviation (input) NDPI_PROTOCOL_LISP :: nat where "NDPI_PROTOCOL_LISP \<equiv> 236"
abbreviation (input) NDPI_PROTOCOL_DIAMETER :: nat where "NDPI_PROTOCOL_DIAMETER \<equiv> 237"
abbreviation (input) NDPI_PROTOCOL_APPLE_PUSH :: nat where "NDPI_PROTOCOL_APPLE_PUSH \<equiv> 238"
abbreviation (input) NDPI_PROTOCOL_GOOGLE_SERVICES :: nat where "NDPI_PROTOCOL_GOOGLE_SERVICES \<equiv> 239"
abbreviation (input) NDPI_PROTOCOL_AMAZON_VIDEO :: nat where "NDPI_PROTOCOL_AMAZON_VIDEO \<equiv> 240"
abbreviation (input) NDPI_PROTOCOL_GOOGLE_DOCS :: nat where "NDPI_PROTOCOL_GOOGLE_DOCS \<equiv> 241"
abbreviation (input) NDPI_PROTOCOL_WHATSAPP_FILES :: nat where "NDPI_PROTOCOL_WHATSAPP_FILES \<equiv> 242"
abbreviation (input) NDPI_PROTOCOL_TARGUS_GETDATA :: nat where "NDPI_PROTOCOL_TARGUS_GETDATA \<equiv> 243"
abbreviation (input) NDPI_PROTOCOL_DNP3 :: nat where "NDPI_PROTOCOL_DNP3 \<equiv> 244"
abbreviation (input) NDPI_PROTOCOL_IEC60870 :: nat where "NDPI_PROTOCOL_IEC60870 \<equiv> 245"
abbreviation (input) NDPI_PROTOCOL_BLOOMBERG :: nat where "NDPI_PROTOCOL_BLOOMBERG \<equiv> 246"
abbreviation (input) NDPI_PROTOCOL_CAPWAP :: nat where "NDPI_PROTOCOL_CAPWAP \<equiv> 247"
abbreviation (input) NDPI_PROTOCOL_ZABBIX :: nat where "NDPI_PROTOCOL_ZABBIX \<equiv> 248"
abbreviation (input) NDPI_PROTOCOL_S7COMM :: nat where "NDPI_PROTOCOL_S7COMM \<equiv> 249"
abbreviation (input) NDPI_PROTOCOL_MSTEAMS :: nat where "NDPI_PROTOCOL_MSTEAMS \<equiv> 250"
abbreviation (input) NDPI_PROTOCOL_WEBSOCKET :: nat where "NDPI_PROTOCOL_WEBSOCKET \<equiv> 251"
abbreviation (input) NDPI_PROTOCOL_ANYDESK :: nat where "NDPI_PROTOCOL_ANYDESK \<equiv> 252"
abbreviation (input) NDPI_PROTOCOL_SOAP :: nat where "NDPI_PROTOCOL_SOAP \<equiv> 253"
abbreviation (input) NDPI_PROTOCOL_APPLE_SIRI :: nat where "NDPI_PROTOCOL_APPLE_SIRI \<equiv> 254"
abbreviation (input) NDPI_PROTOCOL_SNAPCHAT_CALL :: nat where "NDPI_PROTOCOL_SNAPCHAT_CALL \<equiv> 255"
abbreviation (input) NDPI_PROTOCOL_HPVIRTGRP :: nat where "NDPI_PROTOCOL_HPVIRTGRP \<equiv> 256"
abbreviation (input) NDPI_PROTOCOL_GENSHIN_IMPACT :: nat where "NDPI_PROTOCOL_GENSHIN_IMPACT \<equiv> 257"
abbreviation (input) NDPI_PROTOCOL_ACTIVISION :: nat where "NDPI_PROTOCOL_ACTIVISION \<equiv> 258"
abbreviation (input) NDPI_PROTOCOL_FORTICLIENT :: nat where "NDPI_PROTOCOL_FORTICLIENT \<equiv> 259"
abbreviation (input) NDPI_PROTOCOL_Z3950 :: nat where "NDPI_PROTOCOL_Z3950 \<equiv> 260"
abbreviation (input) NDPI_PROTOCOL_LIKEE :: nat where "NDPI_PROTOCOL_LIKEE \<equiv> 261"
abbreviation (input) NDPI_PROTOCOL_GITLAB :: nat where "NDPI_PROTOCOL_GITLAB \<equiv> 262"
abbreviation (input) NDPI_PROTOCOL_AVAST_SECUREDNS :: nat where "NDPI_PROTOCOL_AVAST_SECUREDNS \<equiv> 263"
abbreviation (input) NDPI_PROTOCOL_CASSANDRA :: nat where "NDPI_PROTOCOL_CASSANDRA \<equiv> 264"
abbreviation (input) NDPI_PROTOCOL_AMAZON_AWS :: nat where "NDPI_PROTOCOL_AMAZON_AWS \<equiv> 265"
abbreviation (input) NDPI_PROTOCOL_SALESFORCE :: nat where "NDPI_PROTOCOL_SALESFORCE \<equiv> 266"
abbreviation (input) NDPI_PROTOCOL_VIMEO :: nat where "NDPI_PROTOCOL_VIMEO \<equiv> 267"
abbreviation (input) NDPI_PROTOCOL_FACEBOOK_VOIP :: nat where "NDPI_PROTOCOL_FACEBOOK_VOIP \<equiv> 268"
abbreviation (input) NDPI_PROTOCOL_SIGNAL_VOIP :: nat where "NDPI_PROTOCOL_SIGNAL_VOIP \<equiv> 269"
abbreviation (input) NDPI_PROTOCOL_FUZE :: nat where "NDPI_PROTOCOL_FUZE \<equiv> 270"
abbreviation (input) NDPI_PROTOCOL_GTP_U :: nat where "NDPI_PROTOCOL_GTP_U \<equiv> 271"
abbreviation (input) NDPI_PROTOCOL_GTP_C :: nat where "NDPI_PROTOCOL_GTP_C \<equiv> 272"
abbreviation (input) NDPI_PROTOCOL_GTP_PRIME :: nat where "NDPI_PROTOCOL_GTP_PRIME \<equiv> 273"
abbreviation (input) NDPI_PROTOCOL_ALIBABA :: nat where "NDPI_PROTOCOL_ALIBABA \<equiv> 274"
abbreviation (input) NDPI_PROTOCOL_CRASHLYSTICS :: nat where "NDPI_PROTOCOL_CRASHLYSTICS \<equiv> 275"
abbreviation (input) NDPI_PROTOCOL_MICROSOFT_AZURE :: nat where "NDPI_PROTOCOL_MICROSOFT_AZURE \<equiv> 276"
abbreviation (input) NDPI_PROTOCOL_ICLOUD_PRIVATE_RELAY :: nat where "NDPI_PROTOCOL_ICLOUD_PRIVATE_RELAY \<equiv> 277"
abbreviation (input) NDPI_PROTOCOL_ETHERNET_IP :: nat where "NDPI_PROTOCOL_ETHERNET_IP \<equiv> 278"
abbreviation (input) NDPI_PROTOCOL_BADOO :: nat where "NDPI_PROTOCOL_BADOO \<equiv> 279"
abbreviation (input) NDPI_PROTOCOL_ACCUWEATHER :: nat where "NDPI_PROTOCOL_ACCUWEATHER \<equiv> 280"
abbreviation (input) NDPI_PROTOCOL_GOOGLE_CLASSROOM :: nat where "NDPI_PROTOCOL_GOOGLE_CLASSROOM \<equiv> 281"
abbreviation (input) NDPI_PROTOCOL_HSRP :: nat where "NDPI_PROTOCOL_HSRP \<equiv> 282"
abbreviation (input) NDPI_PROTOCOL_CYBERSECURITY :: nat where "NDPI_PROTOCOL_CYBERSECURITY \<equiv> 283"
abbreviation (input) NDPI_PROTOCOL_GOOGLE_CLOUD :: nat where "NDPI_PROTOCOL_GOOGLE_CLOUD \<equiv> 284"
abbreviation (input) NDPI_PROTOCOL_TENCENT :: nat where "NDPI_PROTOCOL_TENCENT \<equiv> 285"
abbreviation (input) NDPI_PROTOCOL_RAKNET :: nat where "NDPI_PROTOCOL_RAKNET \<equiv> 286"
abbreviation (input) NDPI_PROTOCOL_XIAOMI :: nat where "NDPI_PROTOCOL_XIAOMI \<equiv> 287"
abbreviation (input) NDPI_PROTOCOL_EDGECAST :: nat where "NDPI_PROTOCOL_EDGECAST \<equiv> 288"
abbreviation (input) NDPI_PROTOCOL_CACHEFLY :: nat where "NDPI_PROTOCOL_CACHEFLY \<equiv> 289"
abbreviation (input) NDPI_PROTOCOL_SOFTETHER :: nat where "NDPI_PROTOCOL_SOFTETHER \<equiv> 290"
abbreviation (input) NDPI_PROTOCOL_MPEGDASH :: nat where "NDPI_PROTOCOL_MPEGDASH \<equiv> 291"
abbreviation (input) NDPI_PROTOCOL_DAZN :: nat where "NDPI_PROTOCOL_DAZN \<equiv> 292"
abbreviation (input) NDPI_PROTOCOL_GOTO :: nat where "NDPI_PROTOCOL_GOTO \<equiv> 293"
abbreviation (input) NDPI_PROTOCOL_RSH :: nat where "NDPI_PROTOCOL_RSH \<equiv> 294"
abbreviation (input) NDPI_PROTOCOL_1KXUN :: nat where "NDPI_PROTOCOL_1KXUN \<equiv> 295"
abbreviation (input) NDPI_PROTOCOL_IP_PGM :: nat where "NDPI_PROTOCOL_IP_PGM \<equiv> 296"
abbreviation (input) NDPI_PROTOCOL_IP_PIM :: nat where "NDPI_PROTOCOL_IP_PIM \<equiv> 297"
abbreviation (input) NDPI_PROTOCOL_COLLECTD :: nat where "NDPI_PROTOCOL_COLLECTD \<equiv> 298"
abbreviation (input) NDPI_PROTOCOL_TUNNELBEAR :: nat where "NDPI_PROTOCOL_TUNNELBEAR \<equiv> 299"
abbreviation (input) NDPI_PROTOCOL_CLOUDFLARE_WARP :: nat where "NDPI_PROTOCOL_CLOUDFLARE_WARP \<equiv> 300"
abbreviation (input) NDPI_PROTOCOL_I3D :: nat where "NDPI_PROTOCOL_I3D \<equiv> 301"
abbreviation (input) NDPI_PROTOCOL_RIOTGAMES :: nat where "NDPI_PROTOCOL_RIOTGAMES \<equiv> 302"
abbreviation (input) NDPI_PROTOCOL_PSIPHON :: nat where "NDPI_PROTOCOL_PSIPHON \<equiv> 303"
abbreviation (input) NDPI_PROTOCOL_ULTRASURF :: nat where "NDPI_PROTOCOL_ULTRASURF \<equiv> 304"
abbreviation (input) NDPI_PROTOCOL_THREEMA :: nat where "NDPI_PROTOCOL_THREEMA \<equiv> 305"
abbreviation (input) NDPI_PROTOCOL_ALICLOUD :: nat where "NDPI_PROTOCOL_ALICLOUD \<equiv> 306"
abbreviation (input) NDPI_PROTOCOL_AVAST :: nat where "NDPI_PROTOCOL_AVAST \<equiv> 307"
abbreviation (input) NDPI_PROTOCOL_TIVOCONNECT :: nat where "NDPI_PROTOCOL_TIVOCONNECT \<equiv> 308"
abbreviation (input) NDPI_PROTOCOL_KISMET :: nat where "NDPI_PROTOCOL_KISMET \<equiv> 309"
abbreviation (input) NDPI_PROTOCOL_FASTCGI :: nat where "NDPI_PROTOCOL_FASTCGI \<equiv> 310"
abbreviation (input) NDPI_PROTOCOL_FTPS :: nat where "NDPI_PROTOCOL_FTPS \<equiv> 311"
abbreviation (input) NDPI_PROTOCOL_NATPMP :: nat where "NDPI_PROTOCOL_NATPMP \<equiv> 312"
abbreviation (input) NDPI_PROTOCOL_SYNCTHING :: nat where "NDPI_PROTOCOL_SYNCTHING \<equiv> 313"
abbreviation (input) NDPI_PROTOCOL_CRYNET :: nat where "NDPI_PROTOCOL_CRYNET \<equiv> 314"
abbreviation (input) NDPI_PROTOCOL_LINE :: nat where "NDPI_PROTOCOL_LINE \<equiv> 315"
abbreviation (input) NDPI_PROTOCOL_LINE_CALL :: nat where "NDPI_PROTOCOL_LINE_CALL \<equiv> 316"
abbreviation (input) NDPI_PROTOCOL_APPLETVPLUS :: nat where "NDPI_PROTOCOL_APPLETVPLUS \<equiv> 317"
abbreviation (input) NDPI_PROTOCOL_DIRECTV :: nat where "NDPI_PROTOCOL_DIRECTV \<equiv> 318"
abbreviation (input) NDPI_PROTOCOL_HBO :: nat where "NDPI_PROTOCOL_HBO \<equiv> 319"
abbreviation (input) NDPI_PROTOCOL_VUDU :: nat where "NDPI_PROTOCOL_VUDU \<equiv> 320"
abbreviation (input) NDPI_PROTOCOL_SHOWTIME :: nat where "NDPI_PROTOCOL_SHOWTIME \<equiv> 321"
abbreviation (input) NDPI_PROTOCOL_DAILYMOTION :: nat where "NDPI_PROTOCOL_DAILYMOTION \<equiv> 322"
abbreviation (input) NDPI_PROTOCOL_LIVESTREAM :: nat where "NDPI_PROTOCOL_LIVESTREAM \<equiv> 323"
abbreviation (input) NDPI_PROTOCOL_TENCENTVIDEO :: nat where "NDPI_PROTOCOL_TENCENTVIDEO \<equiv> 324"
abbreviation (input) NDPI_PROTOCOL_IHEARTRADIO :: nat where "NDPI_PROTOCOL_IHEARTRADIO \<equiv> 325"
abbreviation (input) NDPI_PROTOCOL_TIDAL :: nat where "NDPI_PROTOCOL_TIDAL \<equiv> 326"
abbreviation (input) NDPI_PROTOCOL_TUNEIN :: nat where "NDPI_PROTOCOL_TUNEIN \<equiv> 327"
abbreviation (input) NDPI_PROTOCOL_SIRIUSXMRADIO :: nat where "NDPI_PROTOCOL_SIRIUSXMRADIO \<equiv> 328"
abbreviation (input) NDPI_PROTOCOL_MUNIN :: nat where "NDPI_PROTOCOL_MUNIN \<equiv> 329"
abbreviation (input) NDPI_PROTOCOL_ELASTICSEARCH :: nat where "NDPI_PROTOCOL_ELASTICSEARCH \<equiv> 330"
abbreviation (input) NDPI_PROTOCOL_TUYA_LP :: nat where "NDPI_PROTOCOL_TUYA_LP \<equiv> 331"
abbreviation (input) NDPI_PROTOCOL_TPLINK_SHP :: nat where "NDPI_PROTOCOL_TPLINK_SHP \<equiv> 332"
abbreviation (input) NDPI_PROTOCOL_SOURCE_ENGINE :: nat where "NDPI_PROTOCOL_SOURCE_ENGINE \<equiv> 333"
abbreviation (input) NDPI_PROTOCOL_BACNET :: nat where "NDPI_PROTOCOL_BACNET \<equiv> 334"
abbreviation (input) NDPI_PROTOCOL_OICQ :: nat where "NDPI_PROTOCOL_OICQ \<equiv> 335"
abbreviation (input) NDPI_PROTOCOL_HOTS :: nat where "NDPI_PROTOCOL_HOTS \<equiv> 336"
abbreviation (input) NDPI_PROTOCOL_FACEBOOK_REEL_STORY :: nat where "NDPI_PROTOCOL_FACEBOOK_REEL_STORY \<equiv> 337"
abbreviation (input) NDPI_PROTOCOL_SRTP :: nat where "NDPI_PROTOCOL_SRTP \<equiv> 338"
abbreviation (input) NDPI_PROTOCOL_OPERA_VPN :: nat where "NDPI_PROTOCOL_OPERA_VPN \<equiv> 339"
abbreviation (input) NDPI_PROTOCOL_EPICGAMES :: nat where "NDPI_PROTOCOL_EPICGAMES \<equiv> 340"
abbreviation (input) NDPI_PROTOCOL_GEFORCENOW :: nat where "NDPI_PROTOCOL_GEFORCENOW \<equiv> 341"
abbreviation (input) NDPI_PROTOCOL_NVIDIA :: nat where "NDPI_PROTOCOL_NVIDIA \<equiv> 342"
abbreviation (input) NDPI_PROTOCOL_BITCOIN :: nat where "NDPI_PROTOCOL_BITCOIN \<equiv> 343"
abbreviation (input) NDPI_PROTOCOL_PROTONVPN :: nat where "NDPI_PROTOCOL_PROTONVPN \<equiv> 344"
abbreviation (input) NDPI_PROTOCOL_APACHE_THRIFT :: nat where "NDPI_PROTOCOL_APACHE_THRIFT \<equiv> 345"
abbreviation (input) NDPI_PROTOCOL_ROBLOX :: nat where "NDPI_PROTOCOL_ROBLOX \<equiv> 346"
abbreviation (input) NDPI_PROTOCOL_SERVICE_LOCATION :: nat where "NDPI_PROTOCOL_SERVICE_LOCATION \<equiv> 347"
abbreviation (input) NDPI_PROTOCOL_MULLVAD :: nat where "NDPI_PROTOCOL_MULLVAD \<equiv> 348"
abbreviation (input) NDPI_PROTOCOL_HTTP2 :: nat where "NDPI_PROTOCOL_HTTP2 \<equiv> 349"
abbreviation (input) NDPI_PROTOCOL_HAPROXY :: nat where "NDPI_PROTOCOL_HAPROXY \<equiv> 350"
abbreviation (input) NDPI_PROTOCOL_RMCP :: nat where "NDPI_PROTOCOL_RMCP \<equiv> 351"
abbreviation (input) NDPI_PROTOCOL_CAN :: nat where "NDPI_PROTOCOL_CAN \<equiv> 352"
abbreviation (input) NDPI_PROTOCOL_PROTOBUF :: nat where "NDPI_PROTOCOL_PROTOBUF \<equiv> 353"
abbreviation (input) NDPI_PROTOCOL_ETHEREUM :: nat where "NDPI_PROTOCOL_ETHEREUM \<equiv> 354"
abbreviation (input) NDPI_PROTOCOL_TELEGRAM_VOIP :: nat where "NDPI_PROTOCOL_TELEGRAM_VOIP \<equiv> 355"
abbreviation (input) NDPI_PROTOCOL_SINA_WEIBO :: nat where "NDPI_PROTOCOL_SINA_WEIBO \<equiv> 356"
abbreviation (input) NDPI_PROTOCOL_TESLA_SERVICES :: nat where "NDPI_PROTOCOL_TESLA_SERVICES \<equiv> 357"
abbreviation (input) NDPI_PROTOCOL_PTPV2 :: nat where "NDPI_PROTOCOL_PTPV2 \<equiv> 358"
abbreviation (input) NDPI_PROTOCOL_RTPS :: nat where "NDPI_PROTOCOL_RTPS \<equiv> 359"
abbreviation (input) NDPI_PROTOCOL_OPC_UA :: nat where "NDPI_PROTOCOL_OPC_UA \<equiv> 360"
abbreviation (input) NDPI_PROTOCOL_S7COMM_PLUS :: nat where "NDPI_PROTOCOL_S7COMM_PLUS \<equiv> 361"
abbreviation (input) NDPI_PROTOCOL_FINS :: nat where "NDPI_PROTOCOL_FINS \<equiv> 362"
abbreviation (input) NDPI_PROTOCOL_ETHERSIO :: nat where "NDPI_PROTOCOL_ETHERSIO \<equiv> 363"
abbreviation (input) NDPI_PROTOCOL_UMAS :: nat where "NDPI_PROTOCOL_UMAS \<equiv> 364"
abbreviation (input) NDPI_PROTOCOL_BECKHOFF_ADS :: nat where "NDPI_PROTOCOL_BECKHOFF_ADS \<equiv> 365"
abbreviation (input) NDPI_PROTOCOL_ISO9506_1_MMS :: nat where "NDPI_PROTOCOL_ISO9506_1_MMS \<equiv> 366"
abbreviation (input) NDPI_PROTOCOL_IEEE_C37118 :: nat where "NDPI_PROTOCOL_IEEE_C37118 \<equiv> 367"
abbreviation (input) NDPI_PROTOCOL_ETHERSBUS :: nat where "NDPI_PROTOCOL_ETHERSBUS \<equiv> 368"
abbreviation (input) NDPI_PROTOCOL_MONERO :: nat where "NDPI_PROTOCOL_MONERO \<equiv> 369"
abbreviation (input) NDPI_PROTOCOL_DCERPC :: nat where "NDPI_PROTOCOL_DCERPC \<equiv> 370"
abbreviation (input) NDPI_PROTOCOL_PROFINET_IO :: nat where "NDPI_PROTOCOL_PROFINET_IO \<equiv> 371"
abbreviation (input) NDPI_PROTOCOL_HISLIP :: nat where "NDPI_PROTOCOL_HISLIP \<equiv> 372"
abbreviation (input) NDPI_PROTOCOL_UFTP :: nat where "NDPI_PROTOCOL_UFTP \<equiv> 373"
abbreviation (input) NDPI_PROTOCOL_OPENFLOW :: nat where "NDPI_PROTOCOL_OPENFLOW \<equiv> 374"
abbreviation (input) NDPI_PROTOCOL_JSON_RPC :: nat where "NDPI_PROTOCOL_JSON_RPC \<equiv> 375"
abbreviation (input) NDPI_PROTOCOL_WEBDAV :: nat where "NDPI_PROTOCOL_WEBDAV \<equiv> 376"
abbreviation (input) NDPI_PROTOCOL_APACHE_KAFKA :: nat where "NDPI_PROTOCOL_APACHE_KAFKA \<equiv> 377"
abbreviation (input) NDPI_PROTOCOL_NOMACHINE :: nat where "NDPI_PROTOCOL_NOMACHINE \<equiv> 378"
abbreviation (input) NDPI_PROTOCOL_IEC62056 :: nat where "NDPI_PROTOCOL_IEC62056 \<equiv> 379"
abbreviation (input) NDPI_PROTOCOL_HL7 :: nat where "NDPI_PROTOCOL_HL7 \<equiv> 380"
abbreviation (input) NDPI_PROTOCOL_CEPH :: nat where "NDPI_PROTOCOL_CEPH \<equiv> 381"
abbreviation (input) NDPI_PROTOCOL_GOOGLE_CHAT :: nat where "NDPI_PROTOCOL_GOOGLE_CHAT \<equiv> 382"
abbreviation (input) NDPI_PROTOCOL_ROUGHTIME :: nat where "NDPI_PROTOCOL_ROUGHTIME \<equiv> 383"
abbreviation (input) NDPI_PROTOCOL_PIA :: nat where "NDPI_PROTOCOL_PIA \<equiv> 384"
abbreviation (input) NDPI_PROTOCOL_KCP :: nat where "NDPI_PROTOCOL_KCP \<equiv> 385"
abbreviation (input) NDPI_PROTOCOL_DOTA2 :: nat where "NDPI_PROTOCOL_DOTA2 \<equiv> 386"
abbreviation (input) NDPI_PROTOCOL_MUMBLE :: nat where "NDPI_PROTOCOL_MUMBLE \<equiv> 387"
abbreviation (input) NDPI_PROTOCOL_YOJIMBO :: nat where "NDPI_PROTOCOL_YOJIMBO \<equiv> 388"
abbreviation (input) NDPI_PROTOCOL_ELECTRONICARTS :: nat where "NDPI_PROTOCOL_ELECTRONICARTS \<equiv> 389"
abbreviation (input) NDPI_PROTOCOL_STOMP :: nat where "NDPI_PROTOCOL_STOMP \<equiv> 390"
abbreviation (input) NDPI_PROTOCOL_RADMIN :: nat where "NDPI_PROTOCOL_RADMIN \<equiv> 391"
abbreviation (input) NDPI_PROTOCOL_RAFT :: nat where "NDPI_PROTOCOL_RAFT \<equiv> 392"
abbreviation (input) NDPI_PROTOCOL_CIP :: nat where "NDPI_PROTOCOL_CIP \<equiv> 393"
abbreviation (input) NDPI_PROTOCOL_GEARMAN :: nat where "NDPI_PROTOCOL_GEARMAN \<equiv> 394"
abbreviation (input) NDPI_PROTOCOL_TENCENTGAMES :: nat where "NDPI_PROTOCOL_TENCENTGAMES \<equiv> 395"
abbreviation (input) NDPI_PROTOCOL_GAIJIN :: nat where "NDPI_PROTOCOL_GAIJIN \<equiv> 396"
abbreviation (input) NDPI_PROTOCOL_C1222 :: nat where "NDPI_PROTOCOL_C1222 \<equiv> 397"
abbreviation (input) NDPI_PROTOCOL_HUAWEI :: nat where "NDPI_PROTOCOL_HUAWEI \<equiv> 398"
abbreviation (input) NDPI_PROTOCOL_HUAWEI_CLOUD :: nat where "NDPI_PROTOCOL_HUAWEI_CLOUD \<equiv> 399"
abbreviation (input) NDPI_PROTOCOL_DLEP :: nat where "NDPI_PROTOCOL_DLEP \<equiv> 400"
abbreviation (input) NDPI_PROTOCOL_BFD :: nat where "NDPI_PROTOCOL_BFD \<equiv> 401"
abbreviation (input) NDPI_PROTOCOL_NETEASE_GAMES :: nat where "NDPI_PROTOCOL_NETEASE_GAMES \<equiv> 402"
abbreviation (input) NDPI_PROTOCOL_PATHOFEXILE :: nat where "NDPI_PROTOCOL_PATHOFEXILE \<equiv> 403"
abbreviation (input) NDPI_PROTOCOL_GOOGLE_CALL :: nat where "NDPI_PROTOCOL_GOOGLE_CALL \<equiv> 404"
abbreviation (input) NDPI_PROTOCOL_PFCP :: nat where "NDPI_PROTOCOL_PFCP \<equiv> 405"
abbreviation (input) NDPI_PROTOCOL_FLUTE :: nat where "NDPI_PROTOCOL_FLUTE \<equiv> 406"
abbreviation (input) NDPI_PROTOCOL_LOLWILDRIFT :: nat where "NDPI_PROTOCOL_LOLWILDRIFT \<equiv> 407"
abbreviation (input) NDPI_PROTOCOL_TESO :: nat where "NDPI_PROTOCOL_TESO \<equiv> 408"
abbreviation (input) NDPI_PROTOCOL_LDP :: nat where "NDPI_PROTOCOL_LDP \<equiv> 409"
abbreviation (input) NDPI_PROTOCOL_KNXNET_IP :: nat where "NDPI_PROTOCOL_KNXNET_IP \<equiv> 410"
abbreviation (input) NDPI_PROTOCOL_BLUESKY :: nat where "NDPI_PROTOCOL_BLUESKY \<equiv> 411"
abbreviation (input) NDPI_PROTOCOL_MASTODON :: nat where "NDPI_PROTOCOL_MASTODON \<equiv> 412"
abbreviation (input) NDPI_PROTOCOL_THREADS :: nat where "NDPI_PROTOCOL_THREADS \<equiv> 413"
abbreviation (input) NDPI_PROTOCOL_VIBER_VOIP :: nat where "NDPI_PROTOCOL_VIBER_VOIP \<equiv> 414"
abbreviation (input) NDPI_PROTOCOL_ZUG :: nat where "NDPI_PROTOCOL_ZUG \<equiv> 415"
abbreviation (input) NDPI_PROTOCOL_JRMI :: nat where "NDPI_PROTOCOL_JRMI \<equiv> 416"
abbreviation (input) NDPI_PROTOCOL_RIPE_ATLAS :: nat where "NDPI_PROTOCOL_RIPE_ATLAS \<equiv> 417"
abbreviation (input) NDPI_PROTOCOL_HLS :: nat where "NDPI_PROTOCOL_HLS \<equiv> 418"
abbreviation (input) NDPI_PROTOCOL_CLICKHOUSE :: nat where "NDPI_PROTOCOL_CLICKHOUSE \<equiv> 419"
abbreviation (input) NDPI_PROTOCOL_NANO :: nat where "NDPI_PROTOCOL_NANO \<equiv> 420"
abbreviation (input) NDPI_PROTOCOL_OPENWIRE :: nat where "NDPI_PROTOCOL_OPENWIRE \<equiv> 421"
abbreviation (input) NDPI_PROTOCOL_CNP_IP :: nat where "NDPI_PROTOCOL_CNP_IP \<equiv> 422"
abbreviation (input) NDPI_PROTOCOL_ATG :: nat where "NDPI_PROTOCOL_ATG \<equiv> 423"
abbreviation (input) NDPI_PROTOCOL_TRDP :: nat where "NDPI_PROTOCOL_TRDP \<equiv> 424"
abbreviation (input) NDPI_PROTOCOL_LUSTRE :: nat where "NDPI_PROTOCOL_LUSTRE \<equiv> 425"
abbreviation (input) NDPI_PROTOCOL_NORDVPN :: nat where "NDPI_PROTOCOL_NORDVPN \<equiv> 426"
abbreviation (input) NDPI_PROTOCOL_SURFSHARK :: nat where "NDPI_PROTOCOL_SURFSHARK \<equiv> 427"
abbreviation (input) NDPI_PROTOCOL_CACTUSVPN :: nat where "NDPI_PROTOCOL_CACTUSVPN \<equiv> 428"
abbreviation (input) NDPI_PROTOCOL_WINDSCRIBE :: nat where "NDPI_PROTOCOL_WINDSCRIBE \<equiv> 429"
abbreviation (input) NDPI_PROTOCOL_SONOS :: nat where "NDPI_PROTOCOL_SONOS \<equiv> 430"
abbreviation (input) NDPI_PROTOCOL_DINGTALK :: nat where "NDPI_PROTOCOL_DINGTALK \<equiv> 431"
abbreviation (input) NDPI_PROTOCOL_PALTALK :: nat where "NDPI_PROTOCOL_PALTALK \<equiv> 432"
abbreviation (input) NDPI_PROTOCOL_NAVER :: nat where "NDPI_PROTOCOL_NAVER \<equiv> 433"
abbreviation (input) NDPI_PROTOCOL_SHEIN :: nat where "NDPI_PROTOCOL_SHEIN \<equiv> 434"
abbreviation (input) NDPI_PROTOCOL_TEMU :: nat where "NDPI_PROTOCOL_TEMU \<equiv> 435"
abbreviation (input) NDPI_PROTOCOL_TAOBAO :: nat where "NDPI_PROTOCOL_TAOBAO \<equiv> 436"
abbreviation (input) NDPI_PROTOCOL_MIKROTIK :: nat where "NDPI_PROTOCOL_MIKROTIK \<equiv> 437"
abbreviation (input) NDPI_PROTOCOL_DICOM :: nat where "NDPI_PROTOCOL_DICOM \<equiv> 438"
abbreviation (input) NDPI_PROTOCOL_PARAMOUNTPLUS :: nat where "NDPI_PROTOCOL_PARAMOUNTPLUS \<equiv> 439"
abbreviation (input) NDPI_PROTOCOL_YANDEX_ALICE :: nat where "NDPI_PROTOCOL_YANDEX_ALICE \<equiv> 440"
abbreviation (input) NDPI_PROTOCOL_VIVOX :: nat where "NDPI_PROTOCOL_VIVOX \<equiv> 441"
abbreviation (input) NDPI_PROTOCOL_DIGITALOCEAN :: nat where "NDPI_PROTOCOL_DIGITALOCEAN \<equiv> 442"
abbreviation (input) NDPI_PROTOCOL_RUTUBE :: nat where "NDPI_PROTOCOL_RUTUBE \<equiv> 443"
abbreviation (input) NDPI_PROTOCOL_LAGOFAST :: nat where "NDPI_PROTOCOL_LAGOFAST \<equiv> 444"
abbreviation (input) NDPI_PROTOCOL_GEARUP_BOOSTER :: nat where "NDPI_PROTOCOL_GEARUP_BOOSTER \<equiv> 445"
abbreviation (input) NDPI_PROTOCOL_RUMBLE :: nat where "NDPI_PROTOCOL_RUMBLE \<equiv> 446"
abbreviation (input) NDPI_PROTOCOL_UBIQUITY :: nat where "NDPI_PROTOCOL_UBIQUITY \<equiv> 447"
abbreviation (input) NDPI_PROTOCOL_MSDO :: nat where "NDPI_PROTOCOL_MSDO \<equiv> 448"
abbreviation (input) NDPI_PROTOCOL_ROCKSTAR_GAMES :: nat where "NDPI_PROTOCOL_ROCKSTAR_GAMES \<equiv> 449"
abbreviation (input) NDPI_PROTOCOL_KICK :: nat where "NDPI_PROTOCOL_KICK \<equiv> 450"
abbreviation (input) NDPI_PROTOCOL_HAMACHI :: nat where "NDPI_PROTOCOL_HAMACHI \<equiv> 451"
abbreviation (input) NDPI_PROTOCOL_GLBP :: nat where "NDPI_PROTOCOL_GLBP \<equiv> 452"
abbreviation (input) NDPI_PROTOCOL_EASYWEATHER :: nat where "NDPI_PROTOCOL_EASYWEATHER \<equiv> 453"
abbreviation (input) NDPI_PROTOCOL_MUDFISH :: nat where "NDPI_PROTOCOL_MUDFISH \<equiv> 454"
abbreviation (input) NDPI_PROTOCOL_TRISTATION :: nat where "NDPI_PROTOCOL_TRISTATION \<equiv> 455"
abbreviation (input) NDPI_PROTOCOL_SAMSUNG_SDP :: nat where "NDPI_PROTOCOL_SAMSUNG_SDP \<equiv> 456"
abbreviation (input) NDPI_PROTOCOL_MATTER :: nat where "NDPI_PROTOCOL_MATTER \<equiv> 457"
abbreviation (input) NDPI_PROTOCOL_AWS_COGNITO :: nat where "NDPI_PROTOCOL_AWS_COGNITO \<equiv> 458"
abbreviation (input) NDPI_PROTOCOL_AWS_API_GATEWAY :: nat where "NDPI_PROTOCOL_AWS_API_GATEWAY \<equiv> 459"
abbreviation (input) NDPI_PROTOCOL_AWS_KINESIS :: nat where "NDPI_PROTOCOL_AWS_KINESIS \<equiv> 460"
abbreviation (input) NDPI_PROTOCOL_AWS_EC2 :: nat where "NDPI_PROTOCOL_AWS_EC2 \<equiv> 461"
abbreviation (input) NDPI_PROTOCOL_AWS_EMR :: nat where "NDPI_PROTOCOL_AWS_EMR \<equiv> 462"
abbreviation (input) NDPI_PROTOCOL_AWS_S3 :: nat where "NDPI_PROTOCOL_AWS_S3 \<equiv> 463"
abbreviation (input) NDPI_PROTOCOL_AWS_CLOUDFRONT :: nat where "NDPI_PROTOCOL_AWS_CLOUDFRONT \<equiv> 464"
abbreviation (input) NDPI_PROTOCOL_AWS_DYNAMODB :: nat where "NDPI_PROTOCOL_AWS_DYNAMODB \<equiv> 465"
abbreviation (input) NDPI_PROTOCOL_ESPN :: nat where "NDPI_PROTOCOL_ESPN \<equiv> 466"
abbreviation (input) NDPI_PROTOCOL_AKAMAI :: nat where "NDPI_PROTOCOL_AKAMAI \<equiv> 467"
abbreviation (input) NDPI_PROTOCOL_JSON :: nat where "NDPI_PROTOCOL_JSON \<equiv> 468"
abbreviation (input) NDPI_PROTOCOL_MSGPACK :: nat where "NDPI_PROTOCOL_MSGPACK \<equiv> 469"
abbreviation (input) NDPI_PROTOCOL_GITHUB_COPILOT :: nat where "NDPI_PROTOCOL_GITHUB_COPILOT \<equiv> 470"
abbreviation (input) NDPI_PROTOCOL_GITHUB_PACKAGES :: nat where "NDPI_PROTOCOL_GITHUB_PACKAGES \<equiv> 471"
abbreviation (input) NDPI_PROTOCOL_GITHUB_ACTIONS :: nat where "NDPI_PROTOCOL_GITHUB_ACTIONS \<equiv> 472"

abbreviation (input) NDPI_NO_RISK :: nat where "NDPI_NO_RISK \<equiv> 0"
abbreviation (input) NDPI_URL_POSSIBLE_XSS :: nat where "NDPI_URL_POSSIBLE_XSS \<equiv> 1"
abbreviation (input) NDPI_URL_POSSIBLE_SQL_INJECTION :: nat where "NDPI_URL_POSSIBLE_SQL_INJECTION \<equiv> 2"
abbreviation (input) NDPI_URL_POSSIBLE_RCE_INJECTION :: nat where "NDPI_URL_POSSIBLE_RCE_INJECTION \<equiv> 3"
abbreviation (input) NDPI_BINARY_APPLICATION_TRANSFER :: nat where "NDPI_BINARY_APPLICATION_TRANSFER \<equiv> 4"
abbreviation (input) NDPI_KNOWN_PROTOCOL_ON_NON_STANDARD_PORT :: nat where "NDPI_KNOWN_PROTOCOL_ON_NON_STANDARD_PORT \<equiv> 5"
abbreviation (input) NDPI_TLS_SELFSIGNED_CERTIFICATE :: nat where "NDPI_TLS_SELFSIGNED_CERTIFICATE \<equiv> 6"
abbreviation (input) NDPI_TLS_OBSOLETE_VERSION :: nat where "NDPI_TLS_OBSOLETE_VERSION \<equiv> 7"
abbreviation (input) NDPI_TLS_WEAK_CIPHER :: nat where "NDPI_TLS_WEAK_CIPHER \<equiv> 8"
abbreviation (input) NDPI_TLS_CERTIFICATE_EXPIRED :: nat where "NDPI_TLS_CERTIFICATE_EXPIRED \<equiv> 9"
abbreviation (input) NDPI_TLS_CERTIFICATE_MISMATCH :: nat where "NDPI_TLS_CERTIFICATE_MISMATCH \<equiv> 10"
abbreviation (input) NDPI_HTTP_SUSPICIOUS_USER_AGENT :: nat where "NDPI_HTTP_SUSPICIOUS_USER_AGENT \<equiv> 11"
abbreviation (input) NDPI_NUMERIC_IP_HOST :: nat where "NDPI_NUMERIC_IP_HOST \<equiv> 12"
abbreviation (input) NDPI_HTTP_SUSPICIOUS_URL :: nat where "NDPI_HTTP_SUSPICIOUS_URL \<equiv> 13"
abbreviation (input) NDPI_HTTP_SUSPICIOUS_HEADER :: nat where "NDPI_HTTP_SUSPICIOUS_HEADER \<equiv> 14"
abbreviation (input) NDPI_TLS_NOT_CARRYING_HTTPS :: nat where "NDPI_TLS_NOT_CARRYING_HTTPS \<equiv> 15"
abbreviation (input) NDPI_SUSPICIOUS_DGA_DOMAIN :: nat where "NDPI_SUSPICIOUS_DGA_DOMAIN \<equiv> 16"
abbreviation (input) NDPI_MALFORMED_PACKET :: nat where "NDPI_MALFORMED_PACKET \<equiv> 17"
abbreviation (input) NDPI_SSH_OBSOLETE_CLIENT_VERSION_OR_CIPHER :: nat where "NDPI_SSH_OBSOLETE_CLIENT_VERSION_OR_CIPHER \<equiv> 18"
abbreviation (input) NDPI_SSH_OBSOLETE_SERVER_VERSION_OR_CIPHER :: nat where "NDPI_SSH_OBSOLETE_SERVER_VERSION_OR_CIPHER \<equiv> 19"
abbreviation (input) NDPI_SMB_INSECURE_VERSION :: nat where "NDPI_SMB_INSECURE_VERSION \<equiv> 20"
abbreviation (input) NDPI_MISMATCHING_PROTOCOL_WITH_IP :: nat where "NDPI_MISMATCHING_PROTOCOL_WITH_IP \<equiv> 21"
abbreviation (input) NDPI_UNSAFE_PROTOCOL :: nat where "NDPI_UNSAFE_PROTOCOL \<equiv> 22"
abbreviation (input) NDPI_DNS_SUSPICIOUS_TRAFFIC :: nat where "NDPI_DNS_SUSPICIOUS_TRAFFIC \<equiv> 23"
abbreviation (input) NDPI_TLS_MISSING_SNI :: nat where "NDPI_TLS_MISSING_SNI \<equiv> 24"
abbreviation (input) NDPI_HTTP_SUSPICIOUS_CONTENT :: nat where "NDPI_HTTP_SUSPICIOUS_CONTENT \<equiv> 25"
abbreviation (input) NDPI_RISKY_ASN :: nat where "NDPI_RISKY_ASN \<equiv> 26"
abbreviation (input) NDPI_RISKY_DOMAIN :: nat where "NDPI_RISKY_DOMAIN \<equiv> 27"
abbreviation (input) NDPI_MALICIOUS_FINGERPRINT :: nat where "NDPI_MALICIOUS_FINGERPRINT \<equiv> 28"
abbreviation (input) NDPI_MALICIOUS_SHA1_CERTIFICATE :: nat where "NDPI_MALICIOUS_SHA1_CERTIFICATE \<equiv> 29"
abbreviation (input) NDPI_DESKTOP_OR_FILE_SHARING_SESSION :: nat where "NDPI_DESKTOP_OR_FILE_SHARING_SESSION \<equiv> 30"
abbreviation (input) NDPI_TLS_UNCOMMON_ALPN :: nat where "NDPI_TLS_UNCOMMON_ALPN \<equiv> 31"
abbreviation (input) NDPI_TLS_CERT_VALIDITY_TOO_LONG :: nat where "NDPI_TLS_CERT_VALIDITY_TOO_LONG \<equiv> 32"
abbreviation (input) NDPI_TLS_SUSPICIOUS_EXTENSION :: nat where "NDPI_TLS_SUSPICIOUS_EXTENSION \<equiv> 33"
abbreviation (input) NDPI_TLS_FATAL_ALERT :: nat where "NDPI_TLS_FATAL_ALERT \<equiv> 34"
abbreviation (input) NDPI_SUSPICIOUS_ENTROPY :: nat where "NDPI_SUSPICIOUS_ENTROPY \<equiv> 35"
abbreviation (input) NDPI_CLEAR_TEXT_CREDENTIALS :: nat where "NDPI_CLEAR_TEXT_CREDENTIALS \<equiv> 36"
abbreviation (input) NDPI_DNS_LARGE_PACKET :: nat where "NDPI_DNS_LARGE_PACKET \<equiv> 37"
abbreviation (input) NDPI_DNS_FRAGMENTED :: nat where "NDPI_DNS_FRAGMENTED \<equiv> 38"
abbreviation (input) NDPI_INVALID_CHARACTERS :: nat where "NDPI_INVALID_CHARACTERS \<equiv> 39"
abbreviation (input) NDPI_POSSIBLE_EXPLOIT :: nat where "NDPI_POSSIBLE_EXPLOIT \<equiv> 40"
abbreviation (input) NDPI_TLS_CERTIFICATE_ABOUT_TO_EXPIRE :: nat where "NDPI_TLS_CERTIFICATE_ABOUT_TO_EXPIRE \<equiv> 41"
abbreviation (input) NDPI_PUNYCODE_IDN :: nat where "NDPI_PUNYCODE_IDN \<equiv> 42"
abbreviation (input) NDPI_ERROR_CODE_DETECTED :: nat where "NDPI_ERROR_CODE_DETECTED \<equiv> 43"
abbreviation (input) NDPI_HTTP_CRAWLER_BOT :: nat where "NDPI_HTTP_CRAWLER_BOT \<equiv> 44"
abbreviation (input) NDPI_ANONYMOUS_SUBSCRIBER :: nat where "NDPI_ANONYMOUS_SUBSCRIBER \<equiv> 45"
abbreviation (input) NDPI_UNIDIRECTIONAL_TRAFFIC :: nat where "NDPI_UNIDIRECTIONAL_TRAFFIC \<equiv> 46"
abbreviation (input) NDPI_HTTP_OBSOLETE_SERVER :: nat where "NDPI_HTTP_OBSOLETE_SERVER \<equiv> 47"
abbreviation (input) NDPI_PERIODIC_FLOW :: nat where "NDPI_PERIODIC_FLOW \<equiv> 48"
abbreviation (input) NDPI_MINOR_ISSUES :: nat where "NDPI_MINOR_ISSUES \<equiv> 49"
abbreviation (input) NDPI_TCP_ISSUES :: nat where "NDPI_TCP_ISSUES \<equiv> 50"
abbreviation (input) NDPI_UNRESOLVED_HOSTNAME :: nat where "NDPI_UNRESOLVED_HOSTNAME \<equiv> 51"
abbreviation (input) NDPI_TLS_ALPN_SNI_MISMATCH :: nat where "NDPI_TLS_ALPN_SNI_MISMATCH \<equiv> 52"
abbreviation (input) NDPI_MALWARE_HOST_CONTACTED :: nat where "NDPI_MALWARE_HOST_CONTACTED \<equiv> 53"
abbreviation (input) NDPI_BINARY_DATA_TRANSFER :: nat where "NDPI_BINARY_DATA_TRANSFER \<equiv> 54"
abbreviation (input) NDPI_PROBING_ATTEMPT :: nat where "NDPI_PROBING_ATTEMPT \<equiv> 55"
abbreviation (input) NDPI_OBFUSCATED_TRAFFIC :: nat where "NDPI_OBFUSCATED_TRAFFIC \<equiv> 56"
abbreviation (input) NDPI_SLOW_DOS :: nat where "NDPI_SLOW_DOS \<equiv> 57"
abbreviation (input) NDPI_MAX_RISK :: nat where "NDPI_MAX_RISK \<equiv> 58"

text \<open>The number of protocol identifiers of the header: identifiers of custom protocols follow them.\<close>

abbreviation (input) num_protocol_ids :: nat where "num_protocol_ids \<equiv> 473"

end
