(* ===== verification/Proto_Table.thy ===== *)
theory Proto_Table
  imports Flow_Types Protocol_Ids
begin

text \<open>
  The table of protocol defaults of \<open>src/lib/ndpi_main.c\<close> and
  \<open>src/lib/ndpi_utils.c\<close>: growth and registration, validity of identifiers, the mapping
  between internal and user-defined identifiers, and the breed of a protocol. The length
  of the list \<open>nd_proto_defaults\<close> is \<open>proto_defaults_num_allocated\<close>; the length of
  \<open>nd_ndpi_to_user_proto_id\<close> is \<open>ndpi_to_user_proto_id_num_allocated\<close>.
\<close>

section \<open>Definitions\<close>

definition ndpi_nearest_power_of_two :: "u32 \<Rightarrow> u32" where
  "ndpi_nearest_power_of_two x0 =
     (let x = x0 - 1;
          x = x OR drop_bit 1 x;
          x = x OR drop_bit 2 x;
          x = x OR drop_bit 4 x;
          x = x OR drop_bit 8 x;
          x = x OR drop_bit 16 x
      in x + 1)"

definition ndpi_is_valid_protoId :: "ndpi_module \<Rightarrow> nat \<Rightarrow> bool" where
  "ndpi_is_valid_protoId m protoId \<longleftrightarrow> \<not> protoId \<ge> nd_num_supported_protocols m"

definition rd_proto :: "ndpi_module \<Rightarrow> nat \<Rightarrow> ndpi_proto_defaults option" where
  "rd_proto m i = (if i < length (nd_proto_defaults m) then Some (nd_proto_defaults m ! i) else None)"

definition ndpi_is_custom_protocol :: "ndpi_module \<Rightarrow> nat \<Rightarrow> bool" where
  "ndpi_is_custom_protocol m proto_id =
     (if proto_id \<ge> length (nd_proto_defaults m) then False
      else pd_isCustomProto (nd_proto_defaults m ! proto_id))"

definition is_proto_enabled :: "ndpi_module \<Rightarrow> int \<Rightarrow> bool option" where
  "is_proto_enabled m protoId =
     (if protoId < 0 then Some False
      else if ndpi_is_custom_protocol m (nat protoId mod 65536) then Some True
      else map_option (\<lambda>v. v \<noteq> 0)
             (ndpi_bitmask_is_set (cfg_detection_bitmask (nd_cfg m)) (nat protoId mod 65536)))"

text \<open>A zeroed table entry, as \<open>memset\<close> leaves it.\<close>

definition empty_port_range :: ndpi_port_range where
  "empty_port_range = \<lparr>pr_port_low = 0, pr_port_high = 0, pr_is_custom = False\<rparr>"

definition empty_proto :: ndpi_proto_defaults where
  "empty_proto = \<lparr>pd_protoName = [], pd_protoCategory = 0, pd_isClearTextProto = False,
     pd_isAppProtocol = False, pd_isCustomProto = False, pd_performIPcheck = False,
     pd_subprotocols = [], pd_protoId = 0, pd_dissector_idx = 0,
     pd_tcp_default_ports = replicate 5 empty_port_range,
     pd_udp_default_ports = replicate 5 empty_port_range,
     pd_protoBreed = NDPI_PROTOCOL_UNRATED, pd_qoeCategory = 0\<rparr>"

text \<open>
  \<open>ndpi_set_proto_defaults\<close>. \<open>alloc\<close> says whether \<open>ndpi_realloc\<close> succeeds. The result is
  the return code and the module; \<open>None\<close> is an access outside the table. Names are C
  strings; the table keeps at most 31 bytes of them.
\<close>

definition ndpi_set_proto_defaults ::
  "bool \<Rightarrow> ndpi_module \<Rightarrow> bool \<Rightarrow> bool \<Rightarrow> ndpi_protocol_breed \<Rightarrow> nat \<Rightarrow> bytes \<Rightarrow> nat \<Rightarrow> nat \<Rightarrow>
   ndpi_port_range list \<Rightarrow> ndpi_port_range list \<Rightarrow> bool \<Rightarrow> (int \<times> ndpi_module) option" where
  "ndpi_set_proto_defaults alloc m is_cleartext is_app_protocol breed protoId protoName
     protoCategory qoeCategory tcpDefPorts udpDefPorts is_custom_protocol =
     (let n = length (nd_proto_defaults m);
          new_num = min (max 512 (unat (ndpi_nearest_power_of_two (of_nat (protoId + 1))))) 65535
      in if protoId \<ge> n \<and> \<not> alloc then Some (- 1, m)
         else let m1 = (if protoId \<ge> n
                        then m\<lparr>nd_proto_defaults := nd_proto_defaults m @ replicate (new_num - n) empty_proto\<rparr>
                        else m)
              in case rd_proto m1 protoId of
                   None \<Rightarrow> None
                 | Some d \<Rightarrow>
                     if pd_protoName d \<noteq> [] then Some (0, m1)
                     else Some (0, m1\<lparr>
                       nd_proto_defaults := (nd_proto_defaults m1)[protoId := d\<lparr>
                         pd_protoName := take 31 protoName,
                         pd_isClearTextProto := is_cleartext,
                         pd_isAppProtocol := is_app_protocol,
                         pd_isCustomProto := is_custom_protocol,
                         pd_performIPcheck := False,
                         pd_protoCategory := protoCategory,
                         pd_protoId := protoId,
                         pd_protoBreed := breed,
                         pd_qoeCategory := qoeCategory,
                         pd_subprotocols := [],
                         pd_tcp_default_ports := tcpDefPorts,
                         pd_udp_default_ports := udpDefPorts\<rparr>],
                       nd_num_supported_protocols := nd_num_supported_protocols m1 + 1,
                       nd_num_custom_protocols := nd_num_custom_protocols m1 + (if is_custom_protocol then 1 else 0),
                       nd_num_internal_protocols := nd_num_internal_protocols m1 + (if is_custom_protocol then 0 else 1)\<rparr>))"

text \<open>
  \<open>ndpi_add_user_proto_id_mapping\<close>: the new part of a grown array is not initialised, so
  its content is an argument (\<open>junk\<close>).
\<close>

definition ndpi_add_user_proto_id_mapping ::
  "bool \<Rightarrow> nat list \<Rightarrow> ndpi_module \<Rightarrow> nat \<Rightarrow> nat \<Rightarrow> ndpi_module option" where
  "ndpi_add_user_proto_id_mapping alloc junk m ndpi_proto_id user_proto_id =
     (if ndpi_proto_id < nd_num_internal_protocols m then Some m
      else let idx = ndpi_proto_id - nd_num_internal_protocols m;
               a = nd_ndpi_to_user_proto_id m;
               new_num = min (max 64 (length a * 2)) 65535
           in if idx \<ge> length a \<and> \<not> alloc then Some m
              else let a1 = (if idx \<ge> length a then a @ take (new_num - length a) junk else a)
                   in if idx < length a1
                      then Some (m\<lparr>nd_ndpi_to_user_proto_id := a1[idx := user_proto_id]\<rparr>) else None)"

text \<open>The linear scan of \<open>ndpi_map_user_proto_id_to_ndpi_id\<close>.\<close>

fun user_proto_scan :: "nat list \<Rightarrow> nat \<Rightarrow> nat \<Rightarrow> nat \<Rightarrow> nat option option" where
  "user_proto_scan a user_proto_id idx 0 = Some None"
| "user_proto_scan a user_proto_id idx (Suc k) =
     (if idx < length a
      then if a ! idx = 0 then Some None
           else if a ! idx = user_proto_id then Some (Some idx)
           else user_proto_scan a user_proto_id (Suc idx) k
      else None)"

definition ndpi_map_user_proto_id_to_ndpi_id :: "ndpi_module \<Rightarrow> nat \<Rightarrow> nat option" where
  "ndpi_map_user_proto_id_to_ndpi_id m user_proto_id =
     (if user_proto_id < nd_num_internal_protocols m then Some user_proto_id
      else case user_proto_scan (nd_ndpi_to_user_proto_id m) user_proto_id 0
                  (nd_num_supported_protocols m - nd_num_internal_protocols m) of
             None \<Rightarrow> None
           | Some None \<Rightarrow> Some 0
           | Some (Some idx) \<Rightarrow> Some (idx + nd_num_internal_protocols m))"

definition ndpi_map_ndpi_id_to_user_proto_id :: "ndpi_module \<Rightarrow> nat \<Rightarrow> nat option" where
  "ndpi_map_ndpi_id_to_user_proto_id m ndpi_proto_id =
     (if ndpi_proto_id = NDPI_PROTOCOL_UNKNOWN then Some NDPI_PROTOCOL_UNKNOWN
      else if \<not> ndpi_is_custom_protocol m ndpi_proto_id then Some ndpi_proto_id
      else if ndpi_proto_id < nd_num_supported_protocols m
      then let idx = ndpi_proto_id - nd_num_internal_protocols m
           in if idx < nd_num_supported_protocols m
              then if idx < length (nd_ndpi_to_user_proto_id m)
                   then Some (nd_ndpi_to_user_proto_id m ! idx) else None
              else Some 0
      else Some 0)"

definition ndpi_get_proto_breed :: "ndpi_module \<Rightarrow> nat \<Rightarrow> ndpi_protocol_breed option" where
  "ndpi_get_proto_breed m proto_id = do {
     id1 \<leftarrow> ndpi_map_user_proto_id_to_ndpi_id m proto_id;
     named \<leftarrow> (if \<not> ndpi_is_valid_protoId m id1 then Some False
               else map_option (\<lambda>d. pd_protoName d \<noteq> []) (rd_proto m id1));
     d \<leftarrow> rd_proto m (if named then id1 else NDPI_PROTOCOL_UNKNOWN);
     Some (pd_protoBreed d)
   }"

definition category_or_breed_depends_on_master :: "nat \<Rightarrow> bool" where
  "category_or_breed_depends_on_master proto \<longleftrightarrow>
     proto \<in> {NDPI_PROTOCOL_MAIL_POP, NDPI_PROTOCOL_MAIL_SMTP, NDPI_PROTOCOL_MAIL_IMAP,
              NDPI_PROTOCOL_MAIL_POPS, NDPI_PROTOCOL_MAIL_SMTPS, NDPI_PROTOCOL_MAIL_IMAPS,
              NDPI_PROTOCOL_DNS}"

definition get_proto_breed :: "ndpi_module \<Rightarrow> nat \<Rightarrow> nat \<Rightarrow> ndpi_protocol_breed option" where
  "get_proto_breed m master_protocol app_protocol =
     (let breed_of = (\<lambda>i. if ndpi_is_valid_protoId m i then map_option pd_protoBreed (rd_proto m i)
                          else Some NDPI_PROTOCOL_UNRATED)
      in if category_or_breed_depends_on_master master_protocol then breed_of master_protocol
         else ifc (any_of [Some (master_protocol = NDPI_PROTOCOL_UNKNOWN),
                           map_option (\<lambda>d. pd_protoBreed d \<noteq> NDPI_PROTOCOL_UNRATED) (rd_proto m app_protocol)])
                (breed_of app_protocol) (breed_of master_protocol))"

definition ndpi_is_master_only_protocol :: "ndpi_module \<Rightarrow> nat \<Rightarrow> bool option" where
  "ndpi_is_master_only_protocol m proto_id =
     (if \<not> ndpi_is_valid_protoId m proto_id then Some False
      else map_option (\<lambda>d. \<not> pd_isAppProtocol d) (rd_proto m proto_id))"

text \<open>\<open>ndpi_normalize_protocol\<close> on a (master, application) pair: whether it changed, and the pair.\<close>

definition ndpi_normalize_protocol :: "ndpi_module \<Rightarrow> nat \<times> nat \<Rightarrow> (bool \<times> nat \<times> nat) option" where
  "ndpi_normalize_protocol m proto =
     (let (master, app) = proto;
          dedup = (if master \<noteq> NDPI_PROTOCOL_UNKNOWN \<and> master = app
                   then ifc (ndpi_is_master_only_protocol m app)
                          (Some (True, app, NDPI_PROTOCOL_UNKNOWN))
                          (Some (True, NDPI_PROTOCOL_UNKNOWN, app))
                   else Some (False, master, app))
      in if master = NDPI_PROTOCOL_UNKNOWN \<and> app \<noteq> NDPI_PROTOCOL_UNKNOWN
         then ifc (ndpi_is_master_only_protocol m app)
                (Some (True, app, NDPI_PROTOCOL_UNKNOWN)) dedup
         else dedup)"


section \<open>The smallest power of two\<close>

text \<open>\<open>smeared n x y\<close>: every bit of \<open>y\<close> is the disjunction of the \<open>n\<close> bits of \<open>x\<close> from there up.\<close>

definition smeared :: "nat \<Rightarrow> u32 \<Rightarrow> u32 \<Rightarrow> bool" where
  "smeared n x y \<longleftrightarrow> (\<forall>i. bit y i \<longleftrightarrow> (\<exists>d < n. bit x (i + d)))"

lemma smeared_1: "smeared 1 x x"
  by (simp add: smeared_def)

lemma smeared_double:
  assumes "smeared n x y"
  shows "smeared (2 * n) x (y OR drop_bit n y)"
proof -
  have "(\<exists>d < n. bit x (i + d)) \<or> (\<exists>d < n. bit x (i + n + d)) \<longleftrightarrow> (\<exists>d < 2 * n. bit x (i + d))" for i
  proof
    assume "\<exists>d < 2 * n. bit x (i + d)"
    then obtain d where d: "d < 2 * n" "bit x (i + d)" by blast
    show "(\<exists>d < n. bit x (i + d)) \<or> (\<exists>d < n. bit x (i + n + d))"
    proof (cases "d < n")
      case False
      then have "d - n < n \<and> bit x (i + n + (d - n))" using d by simp
      then show ?thesis by blast
    qed (use d in blast)
  next
    assume "(\<exists>d < n. bit x (i + d)) \<or> (\<exists>d < n. bit x (i + n + d))"
    then obtain d where "(d < n \<and> bit x (i + d)) \<or> (d < n \<and> bit x (i + (n + d)))"
      by (auto simp: add.assoc)
    then show "\<exists>d < 2 * n. bit x (i + d)"
      by (auto intro: exI [of _ d] exI [of _ "n + d"])
  qed
  with assms show ?thesis
    by (simp add: smeared_def bit_or_iff bit_drop_bit_eq add.commute add.left_commute)
qed

lemma smeared_all:
  "\<exists>y. ndpi_nearest_power_of_two (x + 1) = y + 1 \<and> smeared 32 x y"
proof -
  define y1 where "y1 = x OR drop_bit 1 x"
  define y2 where "y2 = y1 OR drop_bit 2 y1"
  define y4 where "y4 = y2 OR drop_bit 4 y2"
  define y8 where "y8 = y4 OR drop_bit 8 y4"
  define y16 where "y16 = y8 OR drop_bit 16 y8"
  have "smeared 2 x y1" using smeared_double [OF smeared_1, of x] by (simp add: y1_def)
  then have "smeared 4 x y2" using smeared_double [of 2 x y1] by (simp add: y2_def)
  then have "smeared 8 x y4" using smeared_double [of 4 x y2] by (simp add: y4_def)
  then have "smeared 16 x y8" using smeared_double [of 8 x y4] by (simp add: y8_def)
  then have "smeared 32 x y16" using smeared_double [of 16 x y8] by (simp add: y16_def)
  moreover have "ndpi_nearest_power_of_two (x + 1) = y16 + 1"
    unfolding ndpi_nearest_power_of_two_def Let_def y16_def y8_def y4_def y2_def y1_def by simp
  ultimately show ?thesis by blast
qed

lemma smeared_mask:
  assumes "smeared 32 x y" "x \<noteq> 0"
  shows "\<exists>k < 32. y = mask (Suc k) \<and> 2 ^ k \<le> unat x \<and> unat x < 2 ^ Suc k"
proof -
  let ?B = "{i. bit x i}"
  have fin: "finite ?B" by (rule finite_subset [of _ "{..<32}"]) (auto dest: bit_imp_le_length)
  have ne: "?B \<noteq> {}" using assms(2) by (auto simp: bit_eq_iff)
  define k where "k = Max ?B"
  have k: "bit x k" "\<And>j. bit x j \<Longrightarrow> j \<le> k"
    using Max_in [OF fin ne] Max_ge [OF fin] by (auto simp: k_def)
  then have k32: "k < 32" using bit_imp_le_length [of x k] by simp
  have "bit y i \<longleftrightarrow> i < Suc k" for i
  proof
    assume "bit y i"
    then show "i < Suc k" using assms(1) k(2) by (fastforce simp: smeared_def)
  next
    assume "i < Suc k"
    then have "k - i < 32 \<and> bit x (i + (k - i))" using k(1) k32 by simp
    then show "bit y i" using assms(1) unfolding smeared_def by blast
  qed
  then have y: "y = mask (Suc k)" by (intro bit_eqI) (simp add: bit_mask_iff)
  have "take_bit (Suc k) x = x"
    using k(2) by (intro bit_eqI) (auto simp: bit_take_bit_iff less_Suc_eq_le)
  then have "unat x = take_bit (Suc k) (unat x)" by (metis unsigned_take_bit_eq)
  then have hi: "unat x < 2 ^ Suc k" by (metis take_bit_nat_less_exp)
  have "bit (unat x) k" using k(1) by (simp add: bit_unsigned_iff)
  then have lo: "2 ^ k \<le> unat x"
    by (metis bit_iff_odd div_less even_zero linorder_not_le)
  from y lo hi k32 show ?thesis by blast
qed

lemma nearest_power_of_two_spec:
  assumes "1 \<le> n" and "n \<le> 2 ^ 31"
  shows "\<exists>k. unat (ndpi_nearest_power_of_two (of_nat n)) = 2 ^ k \<and> n \<le> 2 ^ k \<and> 2 ^ k < 2 * n"
proof (cases "n = 1")
  case True
  then show ?thesis
    by (intro exI [of _ 0]) (simp add: ndpi_nearest_power_of_two_def)
next
  case False
  define x :: u32 where "x = of_nat (n - 1)"
  have small: "unat (of_nat j :: u32) = j" if "j < 2 ^ 32" for j
    using that by (simp add: unat_of_nat)
  have "n - 1 < 2 ^ 32" using assms(2) by simp
  then have ux: "unat x = n - 1" unfolding x_def by (rule small)
  have "x \<noteq> 0" using ux False assms(1) by auto
  obtain y where y: "ndpi_nearest_power_of_two (x + 1) = y + 1" "smeared 32 x y"
    using smeared_all by blast
  obtain k where k: "k < 32" "y = mask (Suc k)" "2 ^ k \<le> unat x" "unat x < 2 ^ Suc k"
    using smeared_mask [OF y(2) \<open>x \<noteq> 0\<close>] by blast
  have "k < 31"
  proof (rule ccontr)
    assume "\<not> k < 31"
    then have "(2::nat) ^ 31 \<le> 2 ^ k" by (intro power_increasing) auto
    then show False using k(3) ux assms by linarith
  qed
  have "y + 1 = 2 ^ Suc k" using k(2) by (simp add: mask_eq_exp_minus_1)
  moreover have "(2::nat) ^ Suc k < 2 ^ 32"
    using \<open>k < 31\<close> by (intro power_strict_increasing) auto
  then have "unat (2 ^ Suc k :: u32) = 2 ^ Suc k"
    using small [of "2 ^ Suc k"] by simp
  moreover have "of_nat n = x + 1"
    using assms(1) by (metis Suc_diff_le diff_Suc_1 of_nat_Suc add.commute One_nat_def x_def)
  ultimately show ?thesis using y(1) k(3,4) ux assms(1) False
    by (intro exI [of _ "Suc k"]) auto
qed




section \<open>Registration of protocols\<close>

definition named :: "ndpi_proto_defaults \<Rightarrow> bool" where
  "named d \<longleftrightarrow> pd_protoName d \<noteq> []"

text \<open>The table counts its named entries, and the internal and custom counters add up.\<close>

definition table_wf :: "ndpi_module \<Rightarrow> bool" where
  "table_wf m \<longleftrightarrow> length (nd_proto_defaults m) \<le> 65535 \<and>
     nd_num_supported_protocols m = length (filter named (nd_proto_defaults m)) \<and>
     nd_num_supported_protocols m = nd_num_internal_protocols m + nd_num_custom_protocols m"

lemma filter_update_Suc:
  "i < length xs \<Longrightarrow> \<not> P (xs ! i) \<Longrightarrow> P y \<Longrightarrow> length (filter P (xs[i := y])) = Suc (length (filter P xs))"
proof (induction xs arbitrary: i)
  case (Cons a xs)
  then show ?case by (cases i) auto
qed simp

lemma table_wf_valid_readable:
  assumes "table_wf m" "ndpi_is_valid_protoId m i"
  shows "i < length (nd_proto_defaults m)"
  using assms length_filter_le [of named "nd_proto_defaults m"]
  unfolding table_wf_def ndpi_is_valid_protoId_def by linarith

text \<open>The module after the table has been grown to hold \<open>protoId\<close>.\<close>

definition grow_table :: "ndpi_module \<Rightarrow> nat \<Rightarrow> ndpi_module" where
  "grow_table m protoId =
     (let n = length (nd_proto_defaults m)
      in if protoId \<ge> n
         then m\<lparr>nd_proto_defaults := nd_proto_defaults m @ replicate
                (min (max 512 (unat (ndpi_nearest_power_of_two (of_nat (protoId + 1))))) 65535 - n) empty_proto\<rparr>
         else m)"

lemma not_named_empty [simp]: "\<not> named empty_proto"
  by (simp add: named_def empty_proto_def)

lemma grow_table_laws:
  assumes "table_wf m" "protoId < 65535"
  shows "table_wf (grow_table m protoId)" "protoId < length (nd_proto_defaults (grow_table m protoId))"
    and "rd_proto m i = Some d \<Longrightarrow> rd_proto (grow_table m protoId) i = Some d"
    and "length (nd_proto_defaults m) \<le> protoId \<Longrightarrow> rd_proto (grow_table m protoId) protoId = Some empty_proto"
proof -
  have "protoId + 1 \<le> unat (ndpi_nearest_power_of_two (of_nat (protoId + 1)))"
    using nearest_power_of_two_spec [of "protoId + 1"] assms(2) by fastforce
  then have ge: "protoId + 1 \<le> min (max 512 (unat (ndpi_nearest_power_of_two (of_nat (protoId + 1))))) 65535"
    using assms(2) by simp
  show "table_wf (grow_table m protoId)"
    using assms(1) by (auto simp: table_wf_def grow_table_def Let_def filter_replicate)
  show "protoId < length (nd_proto_defaults (grow_table m protoId))"
    using ge by (auto simp: grow_table_def Let_def)
  then show "length (nd_proto_defaults m) \<le> protoId \<Longrightarrow> rd_proto (grow_table m protoId) protoId = Some empty_proto"
    by (auto simp: rd_proto_def grow_table_def Let_def nth_append)
  show "rd_proto m i = Some d \<Longrightarrow> rd_proto (grow_table m protoId) i = Some d"
    by (auto simp: rd_proto_def grow_table_def Let_def nth_append split: if_splits)
qed



text \<open>C19. Protocol number 65535, a legal value of the 16-bit identifier, is not covered: the table is
  grown to at most 65535 entries and the registration then accesses the entry after the
  last one.\<close>

theorem proto_65535_outside_table:
  assumes "length (nd_proto_defaults m) \<le> 65535"
  shows "ndpi_set_proto_defaults True m ct app breed 65535 protoName cat qoe tp up cust = None"
proof -
  have "\<not> 65535 < length (nd_proto_defaults m) + (min n 65535 - length (nd_proto_defaults m))" for n
    using assms by simp
  then show ?thesis using assms by (simp add: ndpi_set_proto_defaults_def Let_def rd_proto_def)
qed

theorem proto_65535_outside_table_witness:
  "ndpi_set_proto_defaults True empty_module False True NDPI_PROTOCOL_SAFE 65535 [77] 3 0 [] [] True = None"
  using proto_65535_outside_table [of empty_module] by (simp add: empty_module_def)

lemma user_proto_scan_first:
  assumes "n = k + (j - i)" "i \<le> j" "0 < k" "j < length a" "a ! j = u" "u \<noteq> 0"
    and "\<And>l. i \<le> l \<Longrightarrow> l < j \<Longrightarrow> a ! l \<noteq> 0 \<and> a ! l \<noteq> u"
  shows "user_proto_scan a u i n = Some (Some j)"
  using assms
proof (induction a u i n rule: user_proto_scan.induct)
  case (2 a u i n)
  show ?case
  proof (cases "i = j")
    case True
    then show ?thesis using 2(5-7) by simp
  next
    case False
    then have "a ! i \<noteq> 0 \<and> a ! i \<noteq> u" "i < length a" using 2 by auto
    moreover have "user_proto_scan a u (Suc i) n = Some (Some j)"
      using 2 False calculation by (intro 2(1)) auto
    ultimately show ?thesis by simp
  qed
qed simp



end
