(* ===== verification/Risk.thy ===== *)
theory Risk
  imports Proto_Table
begin

text \<open>
  Flow risks (\<open>src/lib/ndpi_utils.c\<close>, lines 3300 to 3613): setting, clearing and testing a
  risk, the messages attached to risks, and the host and address exceptions that mask
  risks out. A risk is a bit number below 64; messages are C strings.
\<close>

section \<open>Definitions\<close>

definition MAX_NUM_RISK_INFOS :: nat where
  "MAX_NUM_RISK_INFOS = 8"

definition risk_bit :: "nat \<Rightarrow> u64" where
  "risk_bit r = push_bit r 1"

definition ndpi_isset_risk :: "ndpi_flow \<Rightarrow> nat \<Rightarrow> bool" where
  "ndpi_isset_risk flow r \<longleftrightarrow> fr_risk (fl_rsk flow) AND risk_bit r = risk_bit r"

definition is_flowrisk_enabled :: "ndpi_module \<Rightarrow> nat \<Rightarrow> bool option" where
  "is_flowrisk_enabled m flowrisk_id =
     map_option (\<lambda>v. v \<noteq> 0) (ndpi_bitmask_is_set (cfg_flowrisk_bitmask (nd_cfg m)) flowrisk_id)"

definition is_flowrisk_info_enabled :: "ndpi_module \<Rightarrow> nat \<Rightarrow> bool option" where
  "is_flowrisk_info_enabled m flowrisk_id =
     map_option (\<lambda>v. v \<noteq> 0) (ndpi_bitmask_is_set (cfg_flowrisk_info_bitmask (nd_cfg m)) flowrisk_id)"

text \<open>\<open>strstr(hay, needle) != NULL\<close>.\<close>

fun strstr_found :: "bytes \<Rightarrow> bytes \<Rightarrow> bool" where
  "strstr_found [] needle = (needle = [])"
| "strstr_found (c # cs) needle = (take (length needle) (c # cs) = needle \<or> strstr_found cs needle)"

text \<open>Appending an information entry when there is room and \<open>ndpi_strdup\<close> succeeds.\<close>

definition add_risk_info :: "bool \<Rightarrow> nat \<Rightarrow> bytes \<Rightarrow> (nat \<times> bytes option) list \<Rightarrow> (nat \<times> bytes option) list" where
  "add_risk_info alloc r msg infos =
     (if length infos < MAX_NUM_RISK_INFOS \<and> alloc then infos @ [(r, Some msg)] else infos)"

text \<open>The search for an entry of the risk: the message is appended to the first one, unless it is
  already part of it. \<open>None\<close> when there is no entry.\<close>

fun merge_risk_info ::
  "bool \<Rightarrow> nat \<Rightarrow> bytes \<Rightarrow> (nat \<times> bytes option) list \<Rightarrow> (nat \<times> bytes option) list option" where
  "merge_risk_info alloc r msg [] = None"
| "merge_risk_info alloc r msg ((i, info) # rest) =
     (if i = r
      then Some ((i, case info of
            None \<Rightarrow> None
          | Some s \<Rightarrow> if r \<noteq> NDPI_SUSPICIOUS_ENTROPY \<and> s \<noteq> msg \<and> \<not> strstr_found s msg
                      then if alloc then Some (take 1023 (s @ [59] @ msg)) else None
                      else Some s) # rest)
      else map_option (\<lambda>l. (i, info) # l) (merge_risk_info alloc r msg rest))"

definition ndpi_set_risk :: "bool \<Rightarrow> ndpi_module \<Rightarrow> ndpi_flow \<Rightarrow> nat \<Rightarrow> bytes option \<Rightarrow> ndpi_flow option" where
  "ndpi_set_risk alloc m flow r risk_message =
     ifc (is_flowrisk_enabled m r)
       (let k = fl_rsk flow in
        if \<not> ndpi_isset_risk flow r
        then let v = (if fr_host_risk_mask_evaluated k then risk_bit r AND fr_risk_mask k else risk_bit r);
                 k1 = k\<lparr>fr_risk := fr_risk k OR v\<rparr>
             in if fr_risk k1 \<noteq> 0
                then ifc (is_flowrisk_info_enabled m r)
                       (case risk_message of
                          None \<Rightarrow> Some (flow\<lparr>fl_rsk := k1\<rparr>)
                        | Some msg \<Rightarrow>
                            Some (flow\<lparr>fl_rsk := k1\<lparr>fr_risk_infos := add_risk_info alloc r msg (fr_risk_infos k1)\<rparr>\<rparr>))
                       (Some (flow\<lparr>fl_rsk := k1\<rparr>))
                else Some (flow\<lparr>fl_rsk := k1\<rparr>)
        else ifc (is_flowrisk_info_enabled m r)
               (case risk_message of
                  None \<Rightarrow> Some flow
                | Some msg \<Rightarrow>
                    Some (flow\<lparr>fl_rsk := k\<lparr>fr_risk_infos :=
                      (case merge_risk_info alloc r msg (fr_risk_infos k) of
                         Some l \<Rightarrow> l
                       | None \<Rightarrow> add_risk_info alloc r msg (fr_risk_infos k))\<rparr>\<rparr>))
               (Some flow))
       (Some flow)"

text \<open>The loop of \<open>ndpi_unset_risk\<close>: an entry of the risk is removed by shifting the later ones
  down, and the index moves on in either case.\<close>

function unset_infos :: "nat \<Rightarrow> nat \<Rightarrow> (nat \<times> bytes option) list \<Rightarrow> (nat \<times> bytes option) list" where
  "unset_infos r i l =
     (if i < length l
      then if fst (l ! i) = r then unset_infos r (Suc i) (take i l @ drop (Suc i) l)
           else unset_infos r (Suc i) l
      else l)"
  by auto
termination by (relation "measure (\<lambda>(r, i, l). length l - i)") auto

declare unset_infos.simps [simp del]

definition ndpi_unset_risk :: "ndpi_module \<Rightarrow> ndpi_flow \<Rightarrow> nat \<Rightarrow> ndpi_flow option" where
  "ndpi_unset_risk m flow r =
     (if ndpi_isset_risk flow r
      then let k = fl_rsk flow; k1 = k\<lparr>fr_risk := fr_risk k AND NOT (risk_bit r)\<rparr>
           in ifc (is_flowrisk_info_enabled m r)
                (Some (flow\<lparr>fl_rsk := k1\<lparr>fr_risk_infos := unset_infos r 0 (fr_risk_infos k1)\<rparr>\<rparr>))
                (Some (flow\<lparr>fl_rsk := k1\<rparr>))
      else Some flow)"

text \<open>\<open>ndpi_get_flow_name\<close>: the host name of the flow, possibly empty.\<close>

definition ndpi_get_flow_name :: "ndpi_flow \<Rightarrow> bytes" where
  "ndpi_get_flow_name flow = fl_host_server_name flow"

definition ndpi_check_hostname_risk_exception :: "ndpi_module \<Rightarrow> bytes \<Rightarrow> ndpi_flow_risk \<Rightarrow> ndpi_flow_risk" where
  "ndpi_check_hostname_risk_exception m hostname k =
     (case rx_host (nd_risk_exceptions m) hostname of
        None \<Rightarrow> k
      | Some number64 \<Rightarrow> k\<lparr>fr_risk_mask := fr_risk_mask k AND number64\<rparr>)"

definition ndpi_host_ip_risk_ptree_match :: "ndpi_module \<Rightarrow> bytes \<Rightarrow> u64" where
  "ndpi_host_ip_risk_ptree_match m pin =
     (case rx_v4 (nd_risk_exceptions m) pin of None \<Rightarrow> - 1 | Some v \<Rightarrow> v)"

definition ndpi_host_ip_risk_ptree_match6 :: "ndpi_module \<Rightarrow> bytes \<Rightarrow> u64" where
  "ndpi_host_ip_risk_ptree_match6 m pin6 =
     (case rx_v6 (nd_risk_exceptions m) pin6 of None \<Rightarrow> - 1 | Some v \<Rightarrow> v)"

definition ndpi_check_ipv4_exception :: "ndpi_module \<Rightarrow> bytes \<Rightarrow> ndpi_flow_risk \<Rightarrow> ndpi_flow_risk" where
  "ndpi_check_ipv4_exception m addr k =
     k\<lparr>fr_risk_mask := fr_risk_mask k AND ndpi_host_ip_risk_ptree_match m addr\<rparr>"

definition ndpi_check_ipv6_exception :: "ndpi_module \<Rightarrow> bytes \<Rightarrow> ndpi_flow_risk \<Rightarrow> ndpi_flow_risk" where
  "ndpi_check_ipv6_exception m addr k =
     k\<lparr>fr_risk_mask := fr_risk_mask k AND ndpi_host_ip_risk_ptree_match6 m addr\<rparr>"

definition ndpi_handle_risk_exceptions :: "ndpi_module \<Rightarrow> ndpi_flow \<Rightarrow> ndpi_flow" where
  "ndpi_handle_risk_exceptions m flow =
     (let k = fl_rsk flow in
      if fr_risk k = 0 then flow
      else let k = (if \<not> fr_host_risk_mask_evaluated k \<and> \<not> fr_ip_risk_mask_evaluated k
                    then k\<lparr>fr_risk_mask := - 1\<rparr> else k);
               host = ndpi_get_flow_name flow;
               k = (if \<not> fr_host_risk_mask_evaluated k \<and> host \<noteq> []
                    then let k = ndpi_check_hostname_risk_exception m host k;
                             k = (if fr_risk_mask k = 0 then k\<lparr>fr_risk_infos := []\<rparr> else k)
                         in k\<lparr>fr_host_risk_mask_evaluated := True\<rparr>
                    else k);
               k = (if \<not> fr_ip_risk_mask_evaluated k
                    then let k = (if \<not> fl_is_ipv6 flow
                          then ndpi_check_ipv4_exception m (take 4 (fl_s_address flow))
                                 (ndpi_check_ipv4_exception m (take 4 (fl_c_address flow)) k)
                          else ndpi_check_ipv6_exception m (fl_s_address flow)
                                 (ndpi_check_ipv6_exception m (fl_c_address flow) k))
                         in k\<lparr>fr_ip_risk_mask_evaluated := True\<rparr>
                    else k)
           in flow\<lparr>fl_rsk := k\<lparr>fr_risk := fr_risk k AND fr_risk_mask k\<rparr>\<rparr>)"

section \<open>Lemmas\<close>

definition cfg_wf :: "ndpi_module \<Rightarrow> bool" where
  "cfg_wf m \<longleftrightarrow> bitmask_wf (cfg_flowrisk_bitmask (nd_cfg m)) \<and>
     bitmask_wf (cfg_flowrisk_info_bitmask (nd_cfg m)) \<and> bitmask_wf (cfg_detection_bitmask (nd_cfg m))"

lemma bit_risk_bit: "r < 64 \<Longrightarrow> bit (risk_bit r) i \<longleftrightarrow> i = r"
  by (auto simp: risk_bit_def bit_exp_iff)

lemma isset_risk_bit: "r < 64 \<Longrightarrow> ndpi_isset_risk flow r \<longleftrightarrow> bit (fr_risk (fl_rsk flow)) r"
proof -
  assume r: "r < 64"
  have "fr_risk (fl_rsk flow) AND risk_bit r = risk_bit r \<longleftrightarrow>
      (\<forall>i. bit (fr_risk (fl_rsk flow)) i \<and> i = r \<longleftrightarrow> i = r)"
    using bit_risk_bit [OF r] r
    by (subst bit_eq_iff) (auto simp: bit_and_iff possible_bit_word)
  then show ?thesis unfolding ndpi_isset_risk_def by auto
qed

lemma flowrisk_enabled_total: "cfg_wf m \<Longrightarrow> \<exists>b. is_flowrisk_enabled m r = Some b"
  and flowrisk_info_enabled_total: "cfg_wf m \<Longrightarrow> \<exists>b. is_flowrisk_info_enabled m r = Some b"
  unfolding cfg_wf_def is_flowrisk_enabled_def is_flowrisk_info_enabled_def
  using bitmask_is_set_total by fastforce+

lemma length_add_risk_info:
  "length infos \<le> MAX_NUM_RISK_INFOS \<Longrightarrow> length (add_risk_info alloc r msg infos) \<le> MAX_NUM_RISK_INFOS"
  by (simp add: add_risk_info_def)

lemma merge_risk_info_ids:
  "merge_risk_info alloc r msg l = Some l' \<Longrightarrow> map fst l' = map fst l"
  by (induction l arbitrary: l') (auto split: if_splits)

lemma ex_rsk: "P k \<Longrightarrow> \<exists>x. Some (f\<lparr>fl_rsk := k\<rparr>) = Some (f\<lparr>fl_rsk := x\<rparr>) \<and> P x"
  by blast

lemma set_risk_rsk:
  assumes "cfg_wf m"
  shows "\<exists>k. ndpi_set_risk alloc m flow r msg = Some (flow\<lparr>fl_rsk := k\<rparr>) \<and>
    (length (fr_risk_infos (fl_rsk flow)) \<le> MAX_NUM_RISK_INFOS \<longrightarrow>
     length (fr_risk_infos k) \<le> MAX_NUM_RISK_INFOS) \<and>
    fr_risk_mask k = fr_risk_mask (fl_rsk flow) \<and>
    fr_risk_shadow k = fr_risk_shadow (fl_rsk flow) \<and>
    fr_host_risk_mask_evaluated k = fr_host_risk_mask_evaluated (fl_rsk flow) \<and>
    fr_ip_risk_mask_evaluated k = fr_ip_risk_mask_evaluated (fl_rsk flow) \<and>
    fr_risk k = (if is_flowrisk_enabled m r = Some True
                 then fr_risk (fl_rsk flow) OR
                      (if ndpi_isset_risk flow r then 0
                       else if fr_host_risk_mask_evaluated (fl_rsk flow)
                       then risk_bit r AND fr_risk_mask (fl_rsk flow) else risk_bit r)
                 else fr_risk (fl_rsk flow))"
proof -
  obtain b c where bc: "is_flowrisk_enabled m r = Some b" "is_flowrisk_info_enabled m r = Some c"
    using flowrisk_enabled_total [OF assms] flowrisk_info_enabled_total [OF assms] by blast
  have merge: "length (case merge_risk_info alloc r x (fr_risk_infos (fl_rsk flow)) of
      Some l \<Rightarrow> l | None \<Rightarrow> add_risk_info alloc r x (fr_risk_infos (fl_rsk flow))) \<le> MAX_NUM_RISK_INFOS"
    if "length (fr_risk_infos (fl_rsk flow)) \<le> MAX_NUM_RISK_INFOS" for x
    using that length_add_risk_info [OF that] map_eq_imp_length_eq [OF merge_risk_info_ids]
    by (fastforce split: option.splits)
  let ?k = "fl_rsk flow"
  define v where "v = (if fr_host_risk_mask_evaluated ?k then risk_bit r AND fr_risk_mask ?k else risk_bit r)"
  define k1 where "k1 = ?k\<lparr>fr_risk := fr_risk ?k OR v\<rparr>"
  consider (off) "\<not> b" | (set) "b" "ndpi_isset_risk flow r" | (unset) "b" "\<not> ndpi_isset_risk flow r"
    by blast
  then show ?thesis
  proof cases
    case off
    then show ?thesis using bc by (intro exI [of _ ?k]) (simp add: ndpi_set_risk_def)
  next
    case set
    then have eq: "ndpi_set_risk alloc m flow r msg = Some (flow\<lparr>fl_rsk :=
        (if c then case msg of None \<Rightarrow> ?k | Some x \<Rightarrow> ?k\<lparr>fr_risk_infos :=
           (case merge_risk_info alloc r x (fr_risk_infos ?k) of
              Some l \<Rightarrow> l | None \<Rightarrow> add_risk_info alloc r x (fr_risk_infos ?k))\<rparr> else ?k)\<rparr>)"
      using bc unfolding ndpi_set_risk_def Let_def by (cases msg) simp_all
    show ?thesis unfolding eq
      by (rule ex_rsk) (use set bc merge in \<open>cases msg; simp\<close>)
  next
    case unset
    then have eq: "ndpi_set_risk alloc m flow r msg = Some (flow\<lparr>fl_rsk :=
        (if fr_risk k1 \<noteq> 0 \<and> c then case msg of None \<Rightarrow> k1
           | Some x \<Rightarrow> k1\<lparr>fr_risk_infos := add_risk_info alloc r x (fr_risk_infos k1)\<rparr> else k1)\<rparr>)"
      using bc unfolding ndpi_set_risk_def Let_def k1_def v_def by (cases msg) simp_all
    show ?thesis unfolding eq
      by (rule ex_rsk) (use unset bc length_add_risk_info in \<open>cases msg; simp add: k1_def v_def\<close>)
  qed
qed

lemma unset_infos_spec:
  assumes "distinct (map fst l)" "i \<le> length l" "r \<notin> fst ` set (take i l)"
  shows "unset_infos r i l = filter (\<lambda>e. fst e \<noteq> r) l"
  using assms
proof (induction r i l rule: unset_infos.induct)
  case (1 r i l)
  have none: "filter (\<lambda>e. fst e \<noteq> r) xs = xs" if "r \<notin> fst ` set xs" for xs :: "(nat \<times> bytes option) list"
    using that by (auto simp: filter_id_conv)
  show ?case
  proof (cases "i < length l")
    case False
    then have "r \<notin> fst ` set l" using 1 by simp
    then show ?thesis using False none by (subst unset_infos.simps) simp
  next
    case True
    note sp = id_take_nth_drop [OF True]
    show ?thesis
    proof (cases "fst (l ! i) = r")
      case hit: True
      let ?l = "take i l @ drop (Suc i) l"
      have d: "distinct (map fst (take i l) @ fst (l ! i) # map fst (drop (Suc i) l))"
        using 1(3) sp by (metis list.simps(9) map_append)
      then have nr: "r \<notin> fst ` set ?l" using hit by auto
      have "unset_infos r (Suc i) ?l = filter (\<lambda>e. fst e \<noteq> r) ?l"
      proof (cases "Suc i \<le> length ?l")
        case True
        have "r \<notin> fst ` set (take (Suc i) ?l)" using nr set_take_subset [of "Suc i" ?l] by blast
        moreover have "distinct (map fst ?l)" using d by auto
        ultimately show ?thesis by (intro 1(1) [OF \<open>i < length l\<close> hit _ True])
      next
        case False
        then show ?thesis using none [OF nr] by (subst unset_infos.simps) simp
      qed
      moreover have "filter (\<lambda>e. fst e \<noteq> r) ?l = filter (\<lambda>e. fst e \<noteq> r) l"
        by (subst (2) sp) (simp add: hit)
      ultimately show ?thesis using True hit by (subst unset_infos.simps) simp
    next
      case miss: False
      then have "unset_infos r (Suc i) l = filter (\<lambda>e. fst e \<noteq> r) l"
        using 1 True by (intro 1(2)) (auto simp: take_Suc_conv_app_nth)
      then show ?thesis using True miss by (subst unset_infos.simps) simp
    qed
  qed
qed

section \<open>Properties\<close>


lemma empty_cfg_wf: "cfg_wf empty_module"
  by (simp add: cfg_wf_def empty_module_def bitmask_wf_def empty_bitmask_def)



text \<open>A module with every risk and risk message enabled, for the examples.\<close>

definition all_risks_module :: ndpi_module where
  "all_risks_module = empty_module\<lparr>nd_cfg := \<lparr>
     cfg_flowrisk_bitmask = \<lparr>bm_max_bits = 64, bm_num_fds = 16, bm_fds = replicate 16 (- 1)\<rparr>,
     cfg_flowrisk_info_bitmask = \<lparr>bm_max_bits = 64, bm_num_fds = 16, bm_fds = replicate 16 (- 1)\<rparr>,
     cfg_detection_bitmask = \<lparr>bm_max_bits = 512, bm_num_fds = 128, bm_fds = replicate 128 (- 1)\<rparr>\<rparr>\<rparr>"

lemma all_risks_cfg:
  "cfg_wf all_risks_module" "r < 64 \<Longrightarrow> is_flowrisk_enabled all_risks_module r = Some True"
  "r < 64 \<Longrightarrow> is_flowrisk_info_enabled all_risks_module r = Some True"
proof -
  have b: "bit_of r \<noteq> 0" using bit_bit_of [of r "r mod 32"] by auto
  show "cfg_wf all_risks_module"
    by (simp add: cfg_wf_def all_risks_module_def bitmask_wf_def howmanybits_def)
  assume "r < 64"
  then have "r div 32 < 16" by simp
  then show "is_flowrisk_enabled all_risks_module r = Some True"
    "is_flowrisk_info_enabled all_risks_module r = Some True"
    using b \<open>r < 64\<close>
    by (simp_all add: is_flowrisk_enabled_def is_flowrisk_info_enabled_def all_risks_module_def
        ndpi_bitmask_is_set_def)
qed


text \<open>C22. A risk that the evaluated host exceptions mask out is not set, yet its message is recorded as
  soon as the flow has any other risk: the code tests whether the flow has risks at all,
  not whether this one was masked. Each repetition uses up one more message slot.\<close>

theorem masked_risk_records_message:
  assumes en: "is_flowrisk_enabled m r = Some True" "is_flowrisk_info_enabled m r = Some True"
    and r: "r < 64" and unset: "\<not> ndpi_isset_risk flow r"
    and mask: "fr_host_risk_mask_evaluated (fl_rsk flow)" "\<not> bit (fr_risk_mask (fl_rsk flow)) r"
    and other: "fr_risk (fl_rsk flow) \<noteq> 0"
    and room: "length (fr_risk_infos (fl_rsk flow)) < MAX_NUM_RISK_INFOS"
  shows "ndpi_set_risk True m flow r (Some msg) = Some (flow\<lparr>fl_rsk := (fl_rsk flow)\<lparr>
    fr_risk_infos := fr_risk_infos (fl_rsk flow) @ [(r, Some msg)]\<rparr>\<rparr>)"
proof -
  have "risk_bit r AND fr_risk_mask (fl_rsk flow) = 0"
    using mask(2) by (intro bit_eqI) (auto simp: bit_and_iff bit_risk_bit [OF r])
  then show ?thesis
    using assms by (simp add: ndpi_set_risk_def Let_def add_risk_info_def)
qed

theorem masked_risk_records_message_witness:
  "\<exists>f f'. \<not> ndpi_isset_risk f 3 \<and> ndpi_set_risk True all_risks_module f 3 (Some [66]) = Some f' \<and>
     \<not> ndpi_isset_risk f' 3 \<and> fr_risk_infos (fl_rsk f') = [(3, Some [66])]"
proof -
  define f where "f = empty_flow\<lparr>fl_rsk := empty_flow_risk\<lparr>fr_risk := 2, fr_risk_mask := 2,
      fr_host_risk_mask_evaluated := True\<rparr>\<rparr>"
  have u: "\<not> ndpi_isset_risk f 3" by (simp add: ndpi_isset_risk_def risk_bit_def f_def)
  have "\<not> bit (fr_risk_mask (fl_rsk f)) 3" by (simp add: f_def)
  with masked_risk_records_message [OF all_risks_cfg(2,3), of 3 f "[66]"] u
  have "ndpi_set_risk True all_risks_module f 3 (Some [66]) =
      Some (f\<lparr>fl_rsk := (fl_rsk f)\<lparr>fr_risk_infos := [(3, Some [66])]\<rparr>\<rparr>)"
    by (simp add: f_def empty_flow_risk_def MAX_NUM_RISK_INFOS_def)
  with u show ?thesis by (auto simp: ndpi_isset_risk_def)
qed

end
