(* ===== verification/Proto_Stack.thy ===== *)
theory Proto_Stack
  imports Flow_Types Protocol_Ids
begin

text \<open>
  The protocol stack of a flow (\<open>src/lib/ndpi_main.c\<close>, lines 11178 to 11370): an array of
  eight protocol numbers of which at most seven are used, updated with each
  classification step.
\<close>

section \<open>Definitions\<close>

definition NDPI_PROTOCOL_STACK_SIZE :: nat where
  "NDPI_PROTOCOL_STACK_SIZE = 8"

definition stack_rd :: "ndpi_proto_stack \<Rightarrow> nat \<Rightarrow> nat option" where
  "stack_rd s i = (if i < length (ps_protos s) then Some (ps_protos s ! i) else None)"

definition proto_stack_push :: "ndpi_proto_stack \<Rightarrow> nat \<Rightarrow> ndpi_proto_stack option" where
  "proto_stack_push s proto =
     (if ps_protos_num s < NDPI_PROTOCOL_STACK_SIZE - 1
      then ifc (all_of [Some (ps_protos_num s > 0),
                        map_option (\<lambda>t. t = proto) (stack_rd s (ps_protos_num s - 1))])
             (Some s)
             (if ps_protos_num s < length (ps_protos s)
              then Some \<lparr>ps_protos = (ps_protos s)[ps_protos_num s := proto],
                         ps_protos_num = ps_protos_num s + 1\<rparr>
              else None)
      else Some s)"

text \<open>The loop that clears the used entries; it stops at the end of the array only if the count does.\<close>

definition proto_stack_reset :: "ndpi_proto_stack \<Rightarrow> ndpi_proto_stack option" where
  "proto_stack_reset s =
     (if ps_protos_num s \<le> length (ps_protos s)
      then Some \<lparr>ps_protos = replicate (ps_protos_num s) NDPI_PROTOCOL_UNKNOWN @ drop (ps_protos_num s) (ps_protos s),
                 ps_protos_num = 0\<rparr>
      else None)"

definition proto_stack_update :: "ndpi_proto_stack \<Rightarrow> nat \<Rightarrow> nat \<Rightarrow> ndpi_proto_stack option" where
  "proto_stack_update s lower_proto upper_proto = do {
     let (lower, upper) = (if lower_proto = NDPI_PROTOCOL_SRTP then (upper_proto, NDPI_PROTOCOL_SRTP)
                           else (lower_proto, upper_proto));
     (lower, upper) \<leftarrow>
       (if lower = NDPI_PROTOCOL_UNKNOWN \<and> (upper = NDPI_PROTOCOL_TLS \<or> upper = NDPI_PROTOCOL_DTLS) \<and>
           ps_protos_num s \<ge> 2
        then map_option (\<lambda>t. (upper, t)) (stack_rd s (ps_protos_num s - 1))
        else Some (lower, upper));
     s \<leftarrow> ifc (all_of [Some (ps_protos_num s = 1),
                       map_option (\<lambda>t. t = NDPI_PROTOCOL_RTP \<or> t = NDPI_PROTOCOL_RTCP) (stack_rd s (ps_protos_num s - 1)),
                       Some (lower = NDPI_PROTOCOL_STUN)])
            (Some (s\<lparr>ps_protos_num := ps_protos_num s - 1\<rparr>)) (Some s);
     s \<leftarrow> ifc (all_of [Some (ps_protos_num s \<ge> 2),
                       map_option (\<lambda>t. t = upper) (stack_rd s (ps_protos_num s - 1))])
            (Some (s\<lparr>ps_protos_num := ps_protos_num s - 1\<rparr>)) (Some s);
     (lower, upper) \<leftarrow>
       ifc (all_of [Some (ps_protos_num s = 1),
                    map_option (\<lambda>t. t = upper) (stack_rd s (ps_protos_num s - 1)),
                    Some (lower = NDPI_PROTOCOL_TLS)])
         (Some (NDPI_PROTOCOL_UNKNOWN, NDPI_PROTOCOL_TLS)) (Some (lower, upper));
     ifc (all_of [Some (ps_protos_num s > 0), map_option (\<lambda>t. t = lower) (stack_rd s 0)])
       (proto_stack_push s upper)
       (do {
          s \<leftarrow> (if lower \<noteq> NDPI_PROTOCOL_UNKNOWN then proto_stack_push s lower else Some s);
          proto_stack_push s upper
        })
   }"

definition ndpi_stack_get_upper_proto :: "ndpi_proto_stack \<Rightarrow> nat option" where
  "ndpi_stack_get_upper_proto s =
     (if ps_protos_num s = 0 then Some NDPI_PROTOCOL_UNKNOWN
      else if ps_protos_num s = 1 then stack_rd s 0
      else do {
        top \<leftarrow> stack_rd s (ps_protos_num s - 1);
        below \<leftarrow> stack_rd s (ps_protos_num s - 2);
        Some (if top = NDPI_PROTOCOL_TLS then below
              else if top = NDPI_PROTOCOL_SRTP \<and> below \<noteq> NDPI_PROTOCOL_DTLS then below
              else top)
      })"

definition is_tls_like_proto :: "nat \<Rightarrow> bool" where
  "is_tls_like_proto p \<longleftrightarrow>
     p = NDPI_PROTOCOL_TLS \<or> p = NDPI_PROTOCOL_DTLS \<or> p = NDPI_PROTOCOL_QUIC \<or>
     p = NDPI_PROTOCOL_MAIL_POPS \<or> p = NDPI_PROTOCOL_MAIL_IMAPS \<or> p = NDPI_PROTOCOL_MAIL_SMTPS \<or>
     p = NDPI_PROTOCOL_FTPS"

text \<open>The used part of the array, when the count is inside it.\<close>

definition stack_used :: "ndpi_proto_stack \<Rightarrow> nat list option" where
  "stack_used s = (if ps_protos_num s \<le> length (ps_protos s) then Some (take (ps_protos_num s) (ps_protos s)) else None)"

definition ndpi_stack_get_lower_proto :: "ndpi_proto_stack \<Rightarrow> nat option" where
  "ndpi_stack_get_lower_proto s =
     (if ps_protos_num s = 0 then Some NDPI_PROTOCOL_UNKNOWN
      else if ps_protos_num s = 1 then stack_rd s 0
      else do {
        used \<leftarrow> stack_used s;
        case List.find is_tls_like_proto used of
          Some p \<Rightarrow> Some p
        | None \<Rightarrow> (case List.find (\<lambda>p. p = NDPI_PROTOCOL_SRTP) used of
              Some p \<Rightarrow> Some p
            | None \<Rightarrow> (case List.find (\<lambda>p. p = NDPI_PROTOCOL_STUN) used of
                  Some p \<Rightarrow> Some p
                | None \<Rightarrow> stack_rd s 0))
      })"

definition ndpi_stack_contains :: "ndpi_proto_stack \<Rightarrow> nat \<Rightarrow> bool option" where
  "ndpi_stack_contains s proto_id = map_option (\<lambda>used. proto_id \<in> set used) (stack_used s)"

definition ndpi_stack_is_tls_like :: "ndpi_proto_stack \<Rightarrow> bool option" where
  "ndpi_stack_is_tls_like s = map_option (list_ex is_tls_like_proto) (stack_used s)"

definition ndpi_stack_is_http_like :: "ndpi_proto_stack \<Rightarrow> bool option" where
  "ndpi_stack_is_http_like s = map_option (list_ex (\<lambda>p.
     p = NDPI_PROTOCOL_HTTP \<or> p = NDPI_PROTOCOL_HTTP_CONNECT \<or> p = NDPI_PROTOCOL_HTTP_PROXY)) (stack_used s)"

section \<open>The stack as a list\<close>

definition stack_wf :: "ndpi_proto_stack \<Rightarrow> bool" where
  "stack_wf s \<longleftrightarrow> length (ps_protos s) = NDPI_PROTOCOL_STACK_SIZE \<and> ps_protos_num s < NDPI_PROTOCOL_STACK_SIZE"

definition stk :: "ndpi_proto_stack \<Rightarrow> nat list" where
  "stk s = take (ps_protos_num s) (ps_protos s)"

text \<open>Push and update on lists, without bounds.\<close>

definition push_list :: "nat list \<Rightarrow> nat \<Rightarrow> nat list" where
  "push_list l p = (if length l < 7 \<and> (l = [] \<or> last l \<noteq> p) then l @ [p] else l)"

definition fix_protos :: "nat list \<Rightarrow> nat \<Rightarrow> nat \<Rightarrow> nat \<times> nat" where
  "fix_protos l lo up =
     (let (lo, up) = (if lo = NDPI_PROTOCOL_SRTP then (up, NDPI_PROTOCOL_SRTP) else (lo, up))
      in if lo = NDPI_PROTOCOL_UNKNOWN \<and> (up = NDPI_PROTOCOL_TLS \<or> up = NDPI_PROTOCOL_DTLS) \<and> length l \<ge> 2
         then (up, last l) else (lo, up))"

definition drop_media :: "nat list \<Rightarrow> nat \<Rightarrow> nat list" where
  "drop_media l lo =
     (if length l = 1 \<and> (last l = NDPI_PROTOCOL_RTP \<or> last l = NDPI_PROTOCOL_RTCP) \<and> lo = NDPI_PROTOCOL_STUN
      then butlast l else l)"

definition drop_upper :: "nat list \<Rightarrow> nat \<Rightarrow> nat list" where
  "drop_upper l up = (if length l \<ge> 2 \<and> last l = up then butlast l else l)"

definition push_both :: "nat list \<Rightarrow> nat \<Rightarrow> nat \<Rightarrow> nat list" where
  "push_both l lo up =
     (let (lo, up) = (if length l = 1 \<and> last l = up \<and> lo = NDPI_PROTOCOL_TLS
                      then (NDPI_PROTOCOL_UNKNOWN, NDPI_PROTOCOL_TLS) else (lo, up))
      in push_list (if l \<noteq> [] \<and> hd l = lo then l
                    else if lo \<noteq> NDPI_PROTOCOL_UNKNOWN then push_list l lo else l) up)"

definition update_list :: "nat list \<Rightarrow> nat \<Rightarrow> nat \<Rightarrow> nat list" where
  "update_list l lo up =
     (let (lo, up) = fix_protos l lo up; l = drop_upper (drop_media l lo) up in push_both l lo up)"

lemma stack_rd_last:
  "stack_wf s \<Longrightarrow> 0 < ps_protos_num s \<Longrightarrow>
     stack_rd s (ps_protos_num s - 1) = Some (last (stk s)) \<and> stk s \<noteq> []"
proof -
  assume "stack_wf s" "0 < ps_protos_num s"
  then have "stk s \<noteq> []" "length (stk s) = ps_protos_num s" "ps_protos_num s - 1 < length (ps_protos s)"
    by (auto simp: stack_wf_def stk_def NDPI_PROTOCOL_STACK_SIZE_def)
  then show ?thesis by (simp add: stack_rd_def last_conv_nth) (simp add: stk_def)
qed

lemma stack_rd_0: "stack_wf s \<Longrightarrow> stack_rd s 0 = Some (ps_protos s ! 0)"
  by (auto simp: stack_wf_def stack_rd_def NDPI_PROTOCOL_STACK_SIZE_def)

lemma length_stk: "stack_wf s \<Longrightarrow> length (stk s) = ps_protos_num s"
  by (simp add: stk_def stack_wf_def)

lemma push_laws:
  assumes "stack_wf s"
  shows "\<exists>s'. proto_stack_push s p = Some s' \<and> stack_wf s' \<and> stk s' = push_list (stk s) p"
proof (cases "ps_protos_num s < 7 \<and> (stk s = [] \<or> last (stk s) \<noteq> p)")
  case True
  then have n: "ps_protos_num s < 7" "ps_protos_num s < length (ps_protos s)"
    using assms by (auto simp: stack_wf_def NDPI_PROTOCOL_STACK_SIZE_def)
  let ?s = "\<lparr>ps_protos = (ps_protos s)[ps_protos_num s := p], ps_protos_num = ps_protos_num s + 1\<rparr>"
  have "proto_stack_push s p = Some ?s"
  proof (cases "ps_protos_num s = 0")
    case False
    then show ?thesis using True n stack_rd_last [OF assms]
      by (simp add: proto_stack_push_def NDPI_PROTOCOL_STACK_SIZE_def)
  qed (use n in \<open>simp add: proto_stack_push_def NDPI_PROTOCOL_STACK_SIZE_def\<close>)
  moreover have "stk ?s = push_list (stk s) p"
    using True n length_stk [OF assms] by (simp add: stk_def push_list_def take_Suc_conv_app_nth)
  moreover have "stack_wf ?s" using assms n by (simp add: stack_wf_def NDPI_PROTOCOL_STACK_SIZE_def)
  ultimately show ?thesis by blast
next
  case False
  then have "push_list (stk s) p = stk s" using length_stk [OF assms] by (auto simp: push_list_def)
  moreover have "proto_stack_push s p = Some s"
  proof (cases "ps_protos_num s < 7")
    case True
    then have "stk s \<noteq> []" "last (stk s) = p" using False by auto
    moreover from this have "0 < ps_protos_num s" by (auto simp: stk_def)
    ultimately show ?thesis using True stack_rd_last [OF assms]
      by (simp add: proto_stack_push_def NDPI_PROTOCOL_STACK_SIZE_def)
  qed (simp add: proto_stack_push_def NDPI_PROTOCOL_STACK_SIZE_def)
  ultimately show ?thesis using assms by simp
qed

lemma pop_laws:
  assumes "stack_wf s" "0 < ps_protos_num s"
  shows "stack_wf (s\<lparr>ps_protos_num := ps_protos_num s - 1\<rparr>)"
    and "stk (s\<lparr>ps_protos_num := ps_protos_num s - 1\<rparr>) = butlast (stk s)"
  using assms by (auto simp: stack_wf_def stk_def butlast_take)

lemma stk_hd: "stack_wf s \<Longrightarrow> 0 < ps_protos_num s \<Longrightarrow> stack_rd s 0 = Some (hd (stk s))"
  using stack_rd_last [of s] by (auto simp: stack_rd_0 stk_def hd_take hd_conv_nth stack_wf_def NDPI_PROTOCOL_STACK_SIZE_def)

lemma stk_empty: "stack_wf s \<Longrightarrow> stk s = [] \<longleftrightarrow> ps_protos_num s = 0"
  using length_stk by fastforce

text \<open>Each pop, and the two pushes, on the array do what they do on the list.\<close>

lemma array_drop_media:
  assumes "stack_wf s"
  shows "\<exists>s'. ifc (all_of [Some (ps_protos_num s = 1),
       map_option (\<lambda>t. t = NDPI_PROTOCOL_RTP \<or> t = NDPI_PROTOCOL_RTCP) (stack_rd s (ps_protos_num s - 1)),
       Some (lo = NDPI_PROTOCOL_STUN)])
     (Some (s\<lparr>ps_protos_num := ps_protos_num s - 1\<rparr>)) (Some s) = Some s' \<and>
     stack_wf s' \<and> stk s' = drop_media (stk s) lo"
  using assms stack_rd_last [OF assms] pop_laws [OF assms] length_stk [OF assms]
  by (cases "ps_protos_num s = 1") (auto simp: drop_media_def)

lemma array_drop_upper:
  assumes "stack_wf s"
  shows "\<exists>s'. ifc (all_of [Some (ps_protos_num s \<ge> 2),
       map_option (\<lambda>t. t = up) (stack_rd s (ps_protos_num s - 1))])
     (Some (s\<lparr>ps_protos_num := ps_protos_num s - 1\<rparr>)) (Some s) = Some s' \<and>
     stack_wf s' \<and> stk s' = drop_upper (stk s) up"
  using assms stack_rd_last [OF assms] pop_laws [OF assms] length_stk [OF assms]
  by (cases "ps_protos_num s \<ge> 2") (auto simp: drop_upper_def)

lemma array_push_both:
  assumes wf: "stack_wf s"
  shows "\<exists>s'. ifc (all_of [Some (ps_protos_num s > 0), map_option (\<lambda>t. t = lo) (stack_rd s 0)])
       (proto_stack_push s up)
       (do { s \<leftarrow> (if lo \<noteq> NDPI_PROTOCOL_UNKNOWN then proto_stack_push s lo else Some s);
             proto_stack_push s up }) = Some s' \<and> stack_wf s' \<and>
     stk s' = push_list (if stk s \<noteq> [] \<and> hd (stk s) = lo then stk s
                         else if lo \<noteq> NDPI_PROTOCOL_UNKNOWN then push_list (stk s) lo else stk s) up"
proof -
  obtain s1 where s1: "proto_stack_push s lo = Some s1" "stack_wf s1" "stk s1 = push_list (stk s) lo"
    using push_laws [OF wf] by blast
  have c: "all_of [Some (ps_protos_num s > 0), map_option (\<lambda>t. t = lo) (stack_rd s 0)]
      = Some (stk s \<noteq> [] \<and> hd (stk s) = lo)"
    using stk_hd [OF wf] stk_empty [OF wf] by auto
  show ?thesis unfolding c
    using push_laws [OF wf, of up] push_laws [OF s1(2), of up] s1 by auto
qed

lemma array_fix_protos:
  assumes "stack_wf s"
  shows "(let (lower, upper) = (if lo = NDPI_PROTOCOL_SRTP then (up, NDPI_PROTOCOL_SRTP) else (lo, up))
     in (if lower = NDPI_PROTOCOL_UNKNOWN \<and> (upper = NDPI_PROTOCOL_TLS \<or> upper = NDPI_PROTOCOL_DTLS) \<and>
           ps_protos_num s \<ge> 2
        then map_option (\<lambda>t. (upper, t)) (stack_rd s (ps_protos_num s - 1))
        else Some (lower, upper)) \<bind> k) = k (fix_protos (stk s) lo up)"
  using stack_rd_last [OF assms] length_stk [OF assms] by (auto simp: fix_protos_def Let_def)

lemma update_refines:
  assumes wf: "stack_wf s"
  shows "\<exists>s'. proto_stack_update s lo up = Some s' \<and> stack_wf s' \<and> stk s' = update_list (stk s) lo up"
proof -
  obtain lo' up' where f: "fix_protos (stk s) lo up = (lo', up')" by fastforce
  obtain s1 where s1: "ifc (all_of [Some (ps_protos_num s = 1),
       map_option (\<lambda>t. t = NDPI_PROTOCOL_RTP \<or> t = NDPI_PROTOCOL_RTCP) (stack_rd s (ps_protos_num s - 1)),
       Some (lo' = NDPI_PROTOCOL_STUN)])
     (Some (s\<lparr>ps_protos_num := ps_protos_num s - 1\<rparr>)) (Some s) = Some s1" "stack_wf s1"
     "stk s1 = drop_media (stk s) lo'"
    using array_drop_media [OF wf] by blast
  obtain s2 where s2: "ifc (all_of [Some (ps_protos_num s1 \<ge> 2),
       map_option (\<lambda>t. t = up') (stack_rd s1 (ps_protos_num s1 - 1))])
     (Some (s1\<lparr>ps_protos_num := ps_protos_num s1 - 1\<rparr>)) (Some s1) = Some s2" "stack_wf s2"
     "stk s2 = drop_upper (stk s1) up'"
    using array_drop_upper [OF s1(2)] by blast
  let ?c = "length (stk s2) = 1 \<and> last (stk s2) = up' \<and> lo' = NDPI_PROTOCOL_TLS"
  have c: "all_of [Some (ps_protos_num s2 = 1),
                    map_option (\<lambda>t. t = up') (stack_rd s2 (ps_protos_num s2 - 1)),
                    Some (lo' = NDPI_PROTOCOL_TLS)] = Some ?c"
    using stack_rd_last [OF s2(2)] length_stk [OF s2(2)] by auto
  obtain lo2 up2 where lu: "(if ?c then (NDPI_PROTOCOL_UNKNOWN, NDPI_PROTOCOL_TLS) else (lo', up')) = (lo2, up2)"
    by fastforce
  then have lu': "(if ?c then Some (NDPI_PROTOCOL_UNKNOWN, NDPI_PROTOCOL_TLS) else Some (lo', up')) = Some (lo2, up2)"
    by (simp split: if_splits)
  have l: "update_list (stk s) lo up =
      push_list (if stk s2 \<noteq> [] \<and> hd (stk s2) = lo2 then stk s2
                 else if lo2 \<noteq> NDPI_PROTOCOL_UNKNOWN then push_list (stk s2) lo2 else stk s2) up2"
    unfolding update_list_def f Let_def prod.case s1(3) [symmetric] s2(3) [symmetric] push_both_def lu ..
  show ?thesis
    unfolding proto_stack_update_def array_fix_protos [OF wf] f l prod.case s1(1) s2(1) Option.bind.simps
      c ifc_Some lu'
    by (rule array_push_both [OF s2(2)])
qed

section \<open>What an update keeps\<close>

lemma push_list_set: "set (push_list l p) \<subseteq> insert p (set l)" "set l \<subseteq> set (push_list l p)"
  by (auto simp: push_list_def)

lemma push_list_in: "length l < 7 \<Longrightarrow> p \<in> set (push_list l p)"
  using last_in_set [of l] by (auto simp: push_list_def)

lemma push_list_len: "length (push_list l p) \<le> Suc (length l)" "length l \<le> 7 \<Longrightarrow> length (push_list l p) \<le> 7"
  by (auto simp: push_list_def)

lemma push_list_adj: "distinct_adj l \<Longrightarrow> distinct_adj (push_list l p)"
  by (auto simp: push_list_def distinct_adj_append_iff)

lemma distinct_adj_butlast: "distinct_adj l \<Longrightarrow> distinct_adj (butlast l)"
  by (cases l rule: rev_cases) (auto simp: distinct_adj_append_iff)

lemma update_list_adj: "distinct_adj l \<Longrightarrow> distinct_adj (update_list l lo up)"
  by (auto simp: update_list_def push_both_def drop_upper_def drop_media_def Let_def split_beta
      intro!: push_list_adj distinct_adj_butlast)

text \<open>With two free places the pushes are not refused, so nothing that is pushed is lost.\<close>

lemma push_both_in:
  assumes "length l \<le> 5"
  shows "up \<in> set (push_both l lo up)" and "lo \<noteq> NDPI_PROTOCOL_UNKNOWN \<Longrightarrow> lo \<in> set (push_both l lo up)"
    and "set l \<subseteq> set (push_both l lo up)"
proof -
  define l' where "l' lo = (if l \<noteq> [] \<and> hd l = lo then l
      else if lo \<noteq> NDPI_PROTOCOL_UNKNOWN then push_list l lo else l)" for lo
  have len: "length (l' x) < 7" for x
    using assms push_list_len(1) [of l x] by (auto simp: l'_def)
  have sub0: "set l \<subseteq> set (l' x)" for x using push_list_set(2) by (auto simp: l'_def)
  have sub: "set l \<subseteq> set (push_list (l' x) p)" for x p using sub0 push_list_set(2) by blast
  have low: "x \<noteq> NDPI_PROTOCOL_UNKNOWN \<Longrightarrow> x \<in> set (l' x)" for x
    using assms push_list_in [of l x] hd_in_set [of l] by (auto simp: l'_def)
  let ?c = "length l = 1 \<and> last l = up \<and> lo = NDPI_PROTOCOL_TLS"
  have eq: "push_both l lo up = (if ?c then push_list (l' NDPI_PROTOCOL_UNKNOWN) NDPI_PROTOCOL_TLS
      else push_list (l' lo) up)"
    by (simp add: push_both_def l'_def Let_def)
  note facts = push_list_in [OF len] push_list_set(2) sub low sub0
  show "set l \<subseteq> set (push_both l lo up)" unfolding eq using sub by simp
  show "up \<in> set (push_both l lo up)"
  proof (cases ?c)
    case True
    then have "up \<in> set l" using last_in_set [of l] by fastforce
    then show ?thesis unfolding eq using True sub by auto
  qed (use facts(1) in \<open>auto simp: eq\<close>)
  show "lo \<in> set (push_both l lo up)" if "lo \<noteq> NDPI_PROTOCOL_UNKNOWN"
    unfolding eq using facts(1) low [OF that] push_list_set(2) [of "l' lo" up] that by auto
qed

lemma update_list_keeps:
  assumes "length l \<le> 5"
  shows "up \<noteq> NDPI_PROTOCOL_UNKNOWN \<Longrightarrow> up \<in> set (update_list l lo up)"
    and "lo \<noteq> NDPI_PROTOCOL_UNKNOWN \<Longrightarrow> lo \<in> set (update_list l lo up)"
    and "set l - {NDPI_PROTOCOL_RTP, NDPI_PROTOCOL_RTCP} \<subseteq> set (update_list l lo up)"
proof -
  obtain lo' up' where f: "fix_protos l lo up = (lo', up')" by fastforce
  let ?l = "drop_upper (drop_media l lo') up'"
  have u: "update_list l lo up = push_both ?l lo' up'" by (simp add: update_list_def f)
  have len: "length ?l \<le> 5" using assms by (auto simp: drop_upper_def drop_media_def)
  have given: "{lo, up} - {NDPI_PROTOCOL_UNKNOWN} \<subseteq> {lo', up'}" using f by (auto simp: fix_protos_def Let_def split: if_splits)
  note pb = push_both_in [OF len, where up = up' and lo = lo']
  have "p \<in> set (push_both ?l lo' up')" if "p = lo' \<or> p = up'" "p \<noteq> NDPI_PROTOCOL_UNKNOWN" for p
    using that pb(1,2) by blast
  then show "up \<noteq> NDPI_PROTOCOL_UNKNOWN \<Longrightarrow> up \<in> set (update_list l lo up)"
    and "lo \<noteq> NDPI_PROTOCOL_UNKNOWN \<Longrightarrow> lo \<in> set (update_list l lo up)"
    unfolding u using given by blast+
  have "set l - {NDPI_PROTOCOL_RTP, NDPI_PROTOCOL_RTCP} \<subseteq> insert up' (set ?l)"
  proof -
    have "set l - {NDPI_PROTOCOL_RTP, NDPI_PROTOCOL_RTCP} \<subseteq> set (drop_media l lo')"
      by (cases l rule: rev_cases) (auto simp: drop_media_def)
    moreover have "set k \<subseteq> insert up' (set (drop_upper k up'))" for k
      by (cases k rule: rev_cases) (auto simp: drop_upper_def)
    ultimately show ?thesis by blast
  qed
  then show "set l - {NDPI_PROTOCOL_RTP, NDPI_PROTOCOL_RTCP} \<subseteq> set (update_list l lo up)"
    unfolding u using pb(1,3) by blast
qed

section \<open>Properties\<close>

text \<open>C23. Updating the protocol stack never leaves the array of eight entries, keeps at least one
  entry free, and acts on the used entries exactly as the list specification does.\<close>

theorem stack_update_refines_list:
  assumes "stack_wf s"
  shows "\<exists>s'. proto_stack_update s lower_proto upper_proto = Some s' \<and> stack_wf s' \<and>
    stk s' = update_list (stk s) lower_proto upper_proto"
  using update_refines [OF assms] .

lemma empty_stack_wf: "stack_wf \<lparr>ps_protos = replicate 8 0, ps_protos_num = 0\<rparr>"
  by (simp add: stack_wf_def NDPI_PROTOCOL_STACK_SIZE_def)

theorem stack_update_refines_list_witness:
  "\<exists>s'. proto_stack_update \<lparr>ps_protos = replicate 8 0, ps_protos_num = 0\<rparr> NDPI_PROTOCOL_TLS NDPI_PROTOCOL_WHATSAPP
     = Some s' \<and> stk s' = [NDPI_PROTOCOL_TLS, NDPI_PROTOCOL_WHATSAPP]"
  using stack_update_refines_list [OF empty_stack_wf, of NDPI_PROTOCOL_TLS NDPI_PROTOCOL_WHATSAPP]
  by (auto simp: stk_def update_list_def fix_protos_def drop_media_def drop_upper_def push_both_def push_list_def)

text \<open>C24. While the stack has two free places an update records both protocols it is given and
  forgets no recorded protocol but RTP and RTCP; it never creates two equal neighbours.\<close>

theorem stack_update_keeps_protocols:
  assumes "stack_wf s" "ps_protos_num s \<le> 5"
  shows "\<exists>s'. proto_stack_update s lower_proto upper_proto = Some s' \<and>
    (\<forall>p. p \<noteq> NDPI_PROTOCOL_UNKNOWN \<longrightarrow>
       p \<in> {lower_proto, upper_proto} \<or>
         (ndpi_stack_contains s p = Some True \<and> p \<noteq> NDPI_PROTOCOL_RTP \<and> p \<noteq> NDPI_PROTOCOL_RTCP) \<longrightarrow>
       ndpi_stack_contains s' p = Some True) \<and>
    (distinct_adj (stk s) \<longrightarrow> distinct_adj (stk s'))"
proof -
  obtain s' where s': "proto_stack_update s lower_proto upper_proto = Some s'" "stack_wf s'"
    "stk s' = update_list (stk s) lower_proto upper_proto"
    using update_refines [OF assms(1)] by blast
  have mem: "ndpi_stack_contains t p = Some (p \<in> set (stk t))" if "stack_wf t" for t p
    using that by (simp add: ndpi_stack_contains_def stack_used_def stk_def stack_wf_def)
  have "length (stk s) \<le> 5" using assms length_stk by simp
  note k = update_list_keeps [OF this]
  show ?thesis
    using s' update_list_adj [of "stk s"] k(1) [of upper_proto lower_proto] k(2) [of lower_proto upper_proto]
      k(3) [of lower_proto upper_proto]
    by (auto simp: mem [OF s'(2)] mem [OF assms(1)])
qed

theorem stack_update_keeps_protocols_witness:
  "\<exists>s'. proto_stack_update \<lparr>ps_protos = replicate 8 0, ps_protos_num = 0\<rparr> NDPI_PROTOCOL_TLS NDPI_PROTOCOL_WHATSAPP
     = Some s' \<and> ndpi_stack_contains s' NDPI_PROTOCOL_TLS = Some True"
  using stack_update_keeps_protocols [OF empty_stack_wf, of NDPI_PROTOCOL_TLS NDPI_PROTOCOL_WHATSAPP] by auto

end
