(* ===== verification/C_Strings.thy ===== *)
theory C_Strings
  imports Ndpi_Prelude
begin

text \<open>
  Searching and comparing memory and C strings: the string functions of the C library that the
  sources call, and the library's own \<open>ndpi_memmem\<close>, \<open>ndpi_memcasecmp\<close>
  (\<open>src/lib/ndpi_utils.c\<close>), \<open>ndpi_strnstr\<close>, \<open>ndpi_strncasestr\<close> and \<open>ndpi_match_prefix\<close>
  (\<open>src/lib/ndpi_main.c\<close>). A buffer is a list of bytes; a read outside it is \<open>None\<close>. A
  literal or pattern is the list of its characters without the final NUL.
\<close>

section \<open>The C library\<close>

definition tolower :: "u8 \<Rightarrow> u8" where
  "tolower b = (if 65 \<le> b \<and> b \<le> 90 then b + 32 else b)"

text \<open>\<open>strncmp(&p[off], s, strlen(s)) == 0\<close> and \<open>strncasecmp\<close>: bytes are read one at a time up to
  the first difference.\<close>

fun strn_eq :: "bytes \<Rightarrow> nat \<Rightarrow> bytes \<Rightarrow> bool option" where
  "strn_eq p off [] = Some True"
| "strn_eq p off (c # cs) =
     (case rd8 p off of None \<Rightarrow> None | Some b \<Rightarrow> if b = c then strn_eq p (Suc off) cs else Some False)"

fun strncase_eq :: "bytes \<Rightarrow> nat \<Rightarrow> bytes \<Rightarrow> bool option" where
  "strncase_eq p off [] = Some True"
| "strncase_eq p off (c # cs) =
     (case rd8 p off of None \<Rightarrow> None
      | Some b \<Rightarrow> if tolower b = tolower c then strncase_eq p (Suc off) cs else Some False)"

definition strnlen :: "bytes \<Rightarrow> nat \<Rightarrow> nat option" where
  "strnlen s n =
     (let w = takeWhile (\<lambda>b. b \<noteq> 0) (take n s)
      in if length w < length s \<or> n \<le> length s then Some (length w) else None)"

text \<open>\<open>memchr(&p[i], c, n)\<close>: the index of the first \<open>c\<close>, over a range that has to be readable.\<close>

definition memchr :: "bytes \<Rightarrow> u8 \<Rightarrow> nat \<Rightarrow> nat \<Rightarrow> nat option option" where
  "memchr p c i n =
     (if i + n \<le> length p then Some (List.find (\<lambda>j. p ! j = c) [i ..< i + n]) else None)"

section \<open>The library's search functions\<close>

lemma memchr_range: "memchr p c i n = Some (Some j) \<Longrightarrow> i \<le> j \<and> j < i + n \<and> p ! j = c"
  by (auto simp: memchr_def find_Some_iff split: if_splits)

text \<open>The loop of \<open>ndpi_memmem\<close> from position \<open>current\<close>.\<close>

function memmem_loop :: "bytes \<Rightarrow> bytes \<Rightarrow> nat \<Rightarrow> nat \<Rightarrow> nat option option" where
  "memmem_loop haystack needle end_of_search current =
     (if current > end_of_search then None
      else case memchr haystack (hd needle) current (end_of_search - current) of
             None \<Rightarrow> None
           | Some None \<Rightarrow> Some None
           | Some (Some j) \<Rightarrow>
               ifc (mem_eq haystack j needle) (Some (Some j)) (memmem_loop haystack needle end_of_search (Suc j)))"
  by auto
termination
proof (relation "measure (\<lambda>(h, s, e, c). e - c)", goal_cases)
  case (2 h s e c x j)
  then show ?case using memchr_range [of h "hd s" c "e - c" j] by auto
qed simp

declare memmem_loop.simps [simp del]

definition ndpi_memmem :: "bytes \<Rightarrow> bytes \<Rightarrow> nat option option" where
  "ndpi_memmem haystack needle =
     (if length haystack < length needle then Some None
      else if length needle = 0 then Some (Some 0)
      else if length needle = 1 then memchr haystack (hd needle) 0 (length haystack)
      else memmem_loop haystack needle (length haystack - length needle + 1) 0)"

definition ndpi_strnstr :: "bytes \<Rightarrow> bytes \<Rightarrow> nat \<Rightarrow> nat option option" where
  "ndpi_strnstr haystack needle len =
     do { n \<leftarrow> strnlen haystack len; ndpi_memmem (take n haystack) needle }"

fun strncasestr_loop :: "bytes \<Rightarrow> bytes \<Rightarrow> nat list \<Rightarrow> nat option option" where
  "strncasestr_loop s pat [] = Some None"
| "strncasestr_loop s pat (i # is) =
     ifc (all_of [map_option (\<lambda>b. tolower b = tolower (hd pat)) (rd8 s i), strncase_eq s (i + 1) (tl pat)])
       (Some (Some i)) (strncasestr_loop s pat is)"

definition ndpi_strncasestr :: "bytes \<Rightarrow> bytes \<Rightarrow> nat \<Rightarrow> nat option option" where
  "ndpi_strncasestr s pat len =
     (if length pat = 0 then Some (Some 0)
      else do {
        s_len \<leftarrow> strnlen s len;
        if length pat > s_len then Some None
        else strncasestr_loop s pat [0 ..< s_len - length pat + 1]
      })"

definition ndpi_match_prefix :: "bytes \<Rightarrow> bytes \<Rightarrow> bool option" where
  "ndpi_match_prefix p s = (if length s \<le> length p then mem_eq p 0 s else Some False)"

text \<open>\<open>ndpi_memcasecmp\<close> on the first \<open>n\<close> bytes of two buffers; \<open>None\<close> inside is a \<open>NULL\<close> pointer.
  The middle bytes are compared after the first and the last one.\<close>

definition cmp_at :: "bytes \<Rightarrow> bytes \<Rightarrow> nat \<Rightarrow> int option" where
  "cmp_at p1 p2 i = do { a \<leftarrow> rd8 p1 i; b \<leftarrow> rd8 p2 i; Some (uint (tolower a) - uint (tolower b)) }"

fun first_nonzero :: "(nat \<Rightarrow> int option) \<Rightarrow> nat list \<Rightarrow> int option" where
  "first_nonzero g [] = Some 0"
| "first_nonzero g (i # is) = do { c \<leftarrow> g i; if c \<noteq> 0 then Some c else first_nonzero g is }"

definition ndpi_memcasecmp :: "bytes option \<Rightarrow> bytes option \<Rightarrow> nat \<Rightarrow> int option" where
  "ndpi_memcasecmp s1 s2 n =
     (case (s1, s2) of
        (None, None) \<Rightarrow> Some 0
      | (None, Some _) \<Rightarrow> Some (- 1)
      | (Some _, None) \<Rightarrow> Some 1
      | (Some p1, Some p2) \<Rightarrow>
          if n = 0 then Some 0
          else if n = 1 then cmp_at p1 p2 0
          else do {
            first_cmp \<leftarrow> cmp_at p1 p2 0;
            if first_cmp \<noteq> 0 then Some first_cmp
            else do {
              last_cmp \<leftarrow> cmp_at p1 p2 (n - 1);
              if last_cmp \<noteq> 0 then Some last_cmp
              else first_nonzero (cmp_at p1 p2) [1 ..< n - 1]
            }
          })"

section \<open>What they compute\<close>

lemma strn_eq_None [simp]: "off + length s \<le> length p \<Longrightarrow> strn_eq p off s \<noteq> None"
  by (induction p off s rule: strn_eq.induct) (auto split: option.split)

lemma strncase_eq_None [simp]: "off + length s \<le> length p \<Longrightarrow> strncase_eq p off s \<noteq> None"
  by (induction p off s rule: strncase_eq.induct) (auto split: option.split)

lemma take_drop_Suc: "i < length p \<Longrightarrow> take (Suc n) (drop i p) = p ! i # take n (drop (Suc i) p)"
  by (simp add: Cons_nth_drop_Suc [symmetric])

lemma strn_eq_in [rd_simps]:
  "off + length s \<le> length p \<Longrightarrow> strn_eq p off s = Some (take (length s) (drop off p) = s)"
  by (induction p off s rule: strn_eq.induct) (auto simp: rd_simps take_drop_Suc)

lemma strncase_eq_in [rd_simps]:
  "off + length s \<le> length p \<Longrightarrow>
     strncase_eq p off s = Some (map tolower (take (length s) (drop off p)) = map tolower s)"
  by (induction p off s rule: strncase_eq.induct) (auto simp: rd_simps take_drop_Suc)

text \<open>The position of the first occurrence of a pattern.\<close>

definition occurs_at :: "bytes \<Rightarrow> bytes \<Rightarrow> nat \<Rightarrow> bool" where
  "occurs_at h s i \<longleftrightarrow> i + length s \<le> length h \<and> take (length s) (drop i h) = s"

definition first_occurrence :: "bytes \<Rightarrow> bytes \<Rightarrow> nat option" where
  "first_occurrence h s = List.find (occurs_at h s) [0 ..< length h + 1]"

lemma find_upt_Suc: "i < n \<Longrightarrow> List.find P [i ..< n] = (if P i then Some i else List.find P [Suc i ..< n])"
  by (simp add: upt_conv_Cons)

lemma find_skip: "(\<And>j. i \<le> j \<Longrightarrow> j < k \<Longrightarrow> \<not> P j) \<Longrightarrow> i \<le> k \<Longrightarrow> List.find P [i ..< n] = List.find P [k ..< n]"
proof (induction "k - i" arbitrary: i)
  case (Suc d)
  show ?case
  proof (cases "i < n")
    case True
    with Suc(2-4) show ?thesis using Suc(1) [of "Suc i"] by (simp add: find_upt_Suc)
  next
    case False
    with Suc(2) show ?thesis by simp
  qed
qed simp

lemma find_append: "List.find P (xs @ ys) = (case List.find P xs of None \<Rightarrow> List.find P ys | Some x \<Rightarrow> Some x)"
  by (induction xs) auto

lemma find_none: "(\<And>x. x \<in> set xs \<Longrightarrow> \<not> P x) \<Longrightarrow> List.find P xs = None"
  by (simp add: find_None_iff)

lemma find_truncate: "(\<And>j. e \<le> j \<Longrightarrow> \<not> P j) \<Longrightarrow> e \<le> n \<Longrightarrow> List.find P [0 ..< n] = List.find P [0 ..< e]"
  using upt_add_eq_append [of 0 e "n - e"] find_none [of "[e ..< n]" P]
  by (auto simp: find_append split: option.split)

lemma find_cong: "(\<And>x. x \<in> set xs \<Longrightarrow> P x \<longleftrightarrow> Q x) \<Longrightarrow> List.find P xs = List.find Q xs"
  by (induction xs) auto

lemma first_occurrence_eq:
  "length s \<le> length h \<Longrightarrow> first_occurrence h s = List.find (occurs_at h s) [0 ..< length h - length s + 1]"
  unfolding first_occurrence_def by (rule find_truncate) (auto simp: occurs_at_def)

lemma occurs_hd:
  assumes "occurs_at h s i" "s \<noteq> []"
  shows "h ! i = hd s"
proof -
  have "0 < length s" using assms(2) by simp
  then have i: "i < length h" using assms(1) unfolding occurs_at_def by linarith
  have "hd s = hd (take (length s) (drop i h))" using assms(1) by (simp add: occurs_at_def)
  with i \<open>0 < length s\<close> show ?thesis by (simp add: hd_take hd_drop_conv_nth)
qed

lemma find_upt_first:
  assumes "List.find P [i ..< n] = Some j"
  shows "i \<le> j" "j < n" "P j" "\<And>k. i \<le> k \<Longrightarrow> k < j \<Longrightarrow> \<not> P k"
proof -
  obtain d where d: "d < n - i" "P (i + d)" "j = i + d" "\<And>k. k < d \<Longrightarrow> \<not> P (i + k)"
    using assms by (auto simp: find_Some_iff)
  then show "i \<le> j" "j < n" "P j" by auto
  show "\<not> P k" if "i \<le> k" "k < j" for k using d(3) d(4) [of "k - i"] that by auto
qed

lemma memmem_loop_eq:
  assumes "s \<noteq> []" "length s \<le> length h" "e = length h - length s + 1" "cur \<le> e"
  shows "memmem_loop h s e cur = Some (List.find (occurs_at h s) [cur ..< e])"
  using assms
proof (induction h s e cur rule: memmem_loop.induct)
  case (1 h s e cur)
  let ?c = "List.find (\<lambda>j. h ! j = hd s) [cur ..< e]"
  have len: "0 < length s" using 1(2) by simp
  have chr: "memchr h (hd s) cur (e - cur) = Some ?c"
  proof -
    have "cur + (e - cur) = e" "e \<le> length h" using 1(3-5) len by linarith+
    then show ?thesis by (simp add: memchr_def)
  qed
  show ?case
  proof (cases ?c)
    case None
    then have "\<not> occurs_at h s j" if "j \<in> set [cur ..< e]" for j
      using that occurs_hd [of h s j] 1(2) by (auto simp: find_None_iff)
    then have "List.find (occurs_at h s) [cur ..< e] = None" by (simp add: find_None_iff)
    with None chr 1(5) show ?thesis by (simp add: memmem_loop.simps [of h s e cur])
  next
    case (Some j)
    note j = find_upt_first [OF Some]
    have none: "\<not> occurs_at h s i" if "cur \<le> i" "i < j" for i
      using j(4) [OF that] occurs_hd [of h s i] 1(2) by auto
    have m: "mem_eq h j s = Some (occurs_at h s j)"
      using j(2) 1(3,4) by (auto simp: mem_eq_def rdn_def occurs_at_def)
    have skip: "List.find (occurs_at h s) [cur ..< e] = List.find (occurs_at h s) [j ..< e]"
      using j(1) none by (intro find_skip) auto
    have ih: "memmem_loop h s e (Suc j) = Some (List.find (occurs_at h s) [Suc j ..< e])"
      using 1(1) [OF _ chr Some] 1(2-5) j(2) by (simp del: upt_Suc)
    show ?thesis
      unfolding memmem_loop.simps [of h s e cur] chr skip
      using leD [OF 1(5)] by (simp add: Some m ih find_upt_Suc [OF j(2)] del: upt_Suc)
  qed
qed

lemma memmem_eq: "ndpi_memmem h s = Some (first_occurrence h s)"
proof (cases "length h < length s")
  case True
  then have "first_occurrence h s = None"
    unfolding first_occurrence_def by (intro find_none) (auto simp: occurs_at_def)
  with True show ?thesis by (simp add: ndpi_memmem_def)
next
  case False
  then have le: "length s \<le> length h" by simp
  consider "s = []" | c where "s = [c]" | "length s \<ge> 2"
  proof (cases s)
    case (Cons c t)
    then show ?thesis using that(2) [of c] that(3) by (cases t) auto
  qed (use that(1) in simp)
  then show ?thesis
  proof cases
    case 1
    then have "first_occurrence h s = Some 0"
      by (simp add: first_occurrence_def occurs_at_def upt_conv_Cons del: upt_Suc)
    with 1 show ?thesis by (simp add: ndpi_memmem_def)
  next
    case (2 c)
    have "List.find (occurs_at h s) [0 ..< length h] = List.find (\<lambda>j. h ! j = c) [0 ..< length h]"
      by (rule find_cong) (auto simp: occurs_at_def 2 take_Suc hd_drop_conv_nth)
    moreover have "length h - length s + 1 = length h" using 2 le by simp
    ultimately show ?thesis
      unfolding first_occurrence_eq [OF le] using 2 le by (simp add: ndpi_memmem_def memchr_def del: upt_Suc)
  next
    case 3
    then have "s \<noteq> []" by auto
    with 3 le show ?thesis
      using memmem_loop_eq [of s h "length h - length s + 1" 0]
      by (simp add: ndpi_memmem_def first_occurrence_eq del: upt_Suc)
  qed
qed

lemma strncasestr_loop_eq:
  assumes "pat \<noteq> []" "\<forall>i \<in> set is. i + length pat \<le> n" "n \<le> length s"
  shows "strncasestr_loop s pat is =
    Some (List.find (occurs_at (map tolower (take n s)) (map tolower pat)) is)"
  using assms(2)
proof (induction "is")
  case (Cons i "is")
  obtain c t where pat: "pat = c # t" using assms(1) by (cases pat) auto
  have i: "i < length s" "Suc i + length t \<le> length s" "i + Suc (length t) \<le> n"
    using Cons(2) assms(3) by (auto simp: pat)
  have td: "take (Suc (length t)) (drop i (take n s)) = take (Suc (length t)) (drop i s)"
    using i(3) assms(3) by (simp add: drop_take min_def)
  have "all_of [map_option (\<lambda>b. tolower b = tolower (hd pat)) (rd8 s i), strncase_eq s (i + 1) (tl pat)]
      = Some (occurs_at (map tolower (take n s)) (map tolower pat) i)"
    using i assms(3) by (auto simp: pat rd_simps occurs_at_def drop_map take_map td take_drop_Suc)
  with Cons show ?case by simp
qed simp

lemma strncasestr_eq:
  assumes "strnlen s len = Some n"
  shows "ndpi_strncasestr s pat len = ndpi_memmem (map tolower (take n s)) (map tolower pat)"
proof -
  let ?h = "map tolower (take n s)" and ?p = "map tolower pat"
  have n: "n \<le> length s"
    using assms length_takeWhile_le [of "\<lambda>b. b \<noteq> 0" "take len s"] by (auto simp: strnlen_def Let_def split: if_splits)
  show ?thesis
  proof (cases "pat = [] \<or> length pat > n")
    case True
    then show ?thesis using assms n by (auto simp: ndpi_strncasestr_def ndpi_memmem_def)
  next
    case False
    then have "strncasestr_loop s pat [0 ..< n - length pat + 1] =
        Some (List.find (occurs_at ?h ?p) [0 ..< n - length pat + 1])"
      using n by (intro strncasestr_loop_eq) auto
    moreover have "first_occurrence ?h ?p = List.find (occurs_at ?h ?p) [0 ..< n - length pat + 1]"
      using False n first_occurrence_eq [of ?p ?h] by (simp add: min_def del: upt_Suc)
    ultimately show ?thesis
      using False assms by (simp add: ndpi_strncasestr_def memmem_eq del: upt_Suc)
  qed
qed

lemma cmp_at_in: "i < length p1 \<Longrightarrow> i < length p2 \<Longrightarrow>
  \<exists>c. cmp_at p1 p2 i = Some c \<and> (c = 0 \<longleftrightarrow> tolower (p1 ! i) = tolower (p2 ! i))"
  by (auto simp: cmp_at_def rd_simps word_uint_eq_iff)

lemma first_nonzero_cmp:
  assumes "\<forall>i \<in> set is. i < length p1 \<and> i < length p2"
  shows "\<exists>c. first_nonzero (cmp_at p1 p2) is = Some c \<and>
    (c = 0 \<longleftrightarrow> (\<forall>i \<in> set is. tolower (p1 ! i) = tolower (p2 ! i)))"
  using assms
proof (induction "is")
  case (Cons i "is")
  then show ?case using cmp_at_in [of i p1 p2] by auto
qed simp

section \<open>Properties\<close>

text \<open>C25. \<open>ndpi_memmem\<close> never reads outside the two buffers, ends, and returns the position of the
  first occurrence of the needle, or nothing when there is none.\<close>

theorem memmem_finds_first:
  "ndpi_memmem haystack needle = Some (first_occurrence haystack needle)"
  by (rule memmem_eq)

text \<open>C26. The case-insensitive search \<open>ndpi_strncasestr\<close>, which scans with a cached first
  character, finds what \<open>ndpi_memmem\<close> finds in the lower-case text before the terminator.\<close>

theorem strncasestr_is_memmem_of_lowercase:
  assumes "strnlen s len = Some n"
  shows "ndpi_strncasestr s pat len = ndpi_memmem (map tolower (take n s)) (map tolower pat)"
  by (rule strncasestr_eq [OF assms])

theorem strncasestr_is_memmem_of_lowercase_witness:
  "strnlen [72, 105, 33, 0] 9 = Some 3 \<and>
   ndpi_strncasestr [72, 105, 33, 0] [73, 33] 9 = ndpi_memmem [104, 105, 33] [105, 33]"
proof -
  have n: "strnlen [72, 105, 33, 0] 9 = Some 3" by (simp add: strnlen_def)
  from strncasestr_is_memmem_of_lowercase [OF n, of "[73, 33]"] n show ?thesis
    by (simp add: tolower_def)
qed

text \<open>C27. \<open>ndpi_memcasecmp\<close>, which looks at the first and last bytes before the middle ones, stays
  inside two buffers of at least \<open>n\<close> bytes and returns zero exactly when the first \<open>n\<close>
  bytes agree up to case.\<close>

theorem memcasecmp_zero_iff_equal:
  assumes "n \<le> length p1" "n \<le> length p2"
  shows "\<exists>c. ndpi_memcasecmp (Some p1) (Some p2) n = Some c \<and>
    (c = 0 \<longleftrightarrow> map tolower (take n p1) = map tolower (take n p2))"
proof -
  let ?same = "\<lambda>i. tolower (p1 ! i) = tolower (p2 ! i)"
  have eq: "map tolower (take n p1) = map tolower (take n p2) \<longleftrightarrow> (\<forall>i < n. ?same i)"
    using assms by (auto simp: list_eq_iff_nth_eq)
  consider "n = 0" | "n = 1" | "n \<ge> 2" by linarith
  then show ?thesis
  proof cases
    case 2
    then have "0 < length p1" "0 < length p2" using assms by linarith+
    from cmp_at_in [OF this] 2 show ?thesis unfolding eq by (simp add: ndpi_memcasecmp_def)
  next
    case 3
    have cover: "i = 0 \<or> i = n - 1 \<or> i \<in> set [1 ..< n - 1]" if "i < n" for i using that by auto
    have all: "(\<forall>i < n. ?same i) \<longleftrightarrow> ?same 0 \<and> ?same (n - 1) \<and> (\<forall>i \<in> set [1 ..< n - 1]. ?same i)"
      (is "?l \<longleftrightarrow> ?r")
    proof
      show "?l \<Longrightarrow> ?r" using 3 by auto
      show "?r \<Longrightarrow> ?l" using cover by blast
    qed
    have len: "0 < length p1" "0 < length p2" "n - 1 < length p1" "n - 1 < length p2" using 3 assms by linarith+
    obtain c0 where c0: "cmp_at p1 p2 0 = Some c0" "c0 = 0 \<longleftrightarrow> ?same 0"
      using cmp_at_in [of 0 p1 p2, OF len(1,2)] by blast
    obtain c1 where c1: "cmp_at p1 p2 (n - 1) = Some c1" "c1 = 0 \<longleftrightarrow> ?same (n - 1)"
      using cmp_at_in [of "n - 1" p1 p2, OF len(3,4)] by blast
    have "\<forall>i \<in> set [1 ..< n - 1]. i < length p1 \<and> i < length p2" using assms by auto
    from first_nonzero_cmp [OF this] obtain c2 where c2: "first_nonzero (cmp_at p1 p2) [1 ..< n - 1] = Some c2"
        "c2 = 0 \<longleftrightarrow> (\<forall>i \<in> set [1 ..< n - 1]. ?same i)" by blast
    show ?thesis unfolding eq all c0(2) [symmetric] c1(2) [symmetric] c2(2) [symmetric]
      using 3 c0(1) c1(1) c2(1) by (simp add: ndpi_memcasecmp_def)
  qed (simp add: ndpi_memcasecmp_def)
qed

theorem memcasecmp_zero_iff_equal_witness:
  "ndpi_memcasecmp (Some [72, 105]) (Some [104, 73]) 2 = Some 0"
  using memcasecmp_zero_iff_equal [of 2 "[72, 105]" "[104, 73]"] by (auto simp: tolower_def)

end
