(* ===== verification/Classification.thy ===== *)
theory Classification
  imports Risk Proto_Stack C_Strings
begin

text \<open>
  How a flow gets its protocol (\<open>src/lib/ndpi_main.c\<close>): \<open>ndpi_set_detected_protocol\<close> with the
  reconciliation it triggers, the exclusion of a dissector, and the contract every
  dissector keeps. The functions return the module and the flow, or \<open>None\<close> for undefined
  behaviour. Copies of messages are allocated through the module (\<open>nd_strdup_ok\<close>).
\<close>

section \<open>Changing the protocol of a flow\<close>

definition ndpi_int_change_flow_protocol :: "ndpi_flow \<Rightarrow> nat \<Rightarrow> nat \<Rightarrow> ndpi_confidence \<Rightarrow> ndpi_flow" where
  "ndpi_int_change_flow_protocol flow upper lower confidence =
     flow\<lparr>fl_detected_protocol_stack0 := upper, fl_detected_protocol_stack1 := lower,
          fl_confidence := confidence\<rparr>"

definition ndpi_int_change_protocol :: "ndpi_flow \<Rightarrow> nat \<Rightarrow> nat \<Rightarrow> ndpi_confidence \<Rightarrow> ndpi_flow" where
  "ndpi_int_change_protocol flow upper lower confidence =
     (let upper = (if upper = NDPI_PROTOCOL_UNKNOWN \<and> lower \<noteq> NDPI_PROTOCOL_UNKNOWN then lower else upper);
          lower = (if upper = lower then NDPI_PROTOCOL_UNKNOWN else lower)
      in ndpi_int_change_flow_protocol flow upper lower confidence)"

definition reset_detected_protocol :: "ndpi_flow \<Rightarrow> ndpi_flow" where
  "reset_detected_protocol flow =
     flow\<lparr>fl_detected_protocol_stack1 := NDPI_PROTOCOL_UNKNOWN,
          fl_detected_protocol_stack0 := NDPI_PROTOCOL_UNKNOWN,
          fl_confidence := NDPI_CONFIDENCE_UNKNOWN\<rparr>"

section \<open>Microsoft Teams\<close>

definition make_msteams_key :: "ndpi_flow \<Rightarrow> bool \<Rightarrow> u64 option" where
  "make_msteams_key flow use_client =
     (let address = (if use_client then fl_c_address flow else fl_s_address flow)
      in if fl_is_ipv6 flow then map_option ndpi_quick_hash64 (rdn address 0 16)
         else map_option of_nat (rd32 address 0))"

definition msteams_cache_add :: "ndpi_module \<Rightarrow> ndpi_flow \<Rightarrow> bool \<Rightarrow> ndpi_module option" where
  "msteams_cache_add m flow use_client =
     (case nd_msteams_cache m of
        None \<Rightarrow> Some m
      | Some c \<Rightarrow> do {
          key \<leftarrow> make_msteams_key flow use_client;
          c' \<leftarrow> ndpi_lru_add_to_cache c key 0 (ndpi_get_current_time flow);
          Some (m\<lparr>nd_msteams_cache := Some c'\<rparr>)
        })"

definition ndpi_reconcile_msteams_udp ::
  "ndpi_module \<Rightarrow> ndpi_flow \<Rightarrow> nat \<Rightarrow> (ndpi_module \<times> ndpi_flow) option" where
  "ndpi_reconcile_msteams_udp m flow master =
     (if fl_l4_proto flow = IPPROTO_UDP
      then let sport = fl_c_port flow;
               dport = fl_s_port flow;
               s_match = (3478 \<le> sport \<and> sport \<le> 3481);
               d_match = (3478 \<le> dport \<and> dport \<le> 3481)
           in if s_match \<or> d_match
              then do {
                let flow = ndpi_int_change_protocol flow NDPI_PROTOCOL_MSTEAMS_CALL master (fl_confidence flow);
                m \<leftarrow> msteams_cache_add m flow (\<not> s_match);
                Some (m, flow)
              }
              else Some (m, flow)
      else Some (m, flow))"

definition ndpi_reconcile_msteams_call_udp_port :: "ndpi_flow \<Rightarrow> nat \<Rightarrow> nat \<Rightarrow> bool \<times> ndpi_flow" where
  "ndpi_reconcile_msteams_call_udp_port flow sport dport =
     (let add = (\<lambda>t. flow\<lparr>fl_flow_multimedia_types := fl_flow_multimedia_types flow OR t\<rparr>)
      in if dport = 3478 \<or> dport = 3479 \<or> (50000 \<le> sport \<and> sport \<le> 50019) then (True, add 1)
         else if dport = 3480 \<or> (50020 \<le> sport \<and> sport \<le> 50039) then (True, add 2)
         else if dport = 3481 \<or> (50040 \<le> sport \<and> sport \<le> 50059) then (True, add 4)
         else (False, flow\<lparr>fl_flow_multimedia_types := 0\<rparr>))"

definition ndpi_reconcile_msteams_call_udp :: "ndpi_flow \<Rightarrow> ndpi_flow" where
  "ndpi_reconcile_msteams_call_udp flow =
     (if fl_detected_protocol_stack0 flow = NDPI_PROTOCOL_MSTEAMS_CALL \<and> fl_l4_proto flow = IPPROTO_UDP
      then let sport = fl_c_port flow; dport = fl_s_port flow;
               (found, flow) = ndpi_reconcile_msteams_call_udp_port flow sport dport
           in if \<not> found then snd (ndpi_reconcile_msteams_call_udp_port flow dport sport) else flow
      else flow)"

section \<open>Reconciliation\<close>

text \<open>The exceptions are evaluated only when the risks changed since the last time.\<close>

definition reconcile_risk :: "ndpi_module \<Rightarrow> ndpi_flow \<Rightarrow> ndpi_flow" where
  "reconcile_risk m flow =
     (if fr_risk (fl_rsk flow) \<noteq> 0 \<and> fr_risk (fl_rsk flow) \<noteq> fr_risk_shadow (fl_rsk flow)
      then let flow = ndpi_handle_risk_exceptions m flow
           in flow\<lparr>fl_rsk := (fl_rsk flow)\<lparr>fr_risk_shadow := fr_risk (fl_rsk flow)\<rparr>\<rparr>
      else flow)"

text \<open>The first \<open>switch\<close>, skipped for a classification by port or address.\<close>

definition reconcile_subprotocol :: "ndpi_module \<Rightarrow> ndpi_flow \<Rightarrow> (ndpi_module \<times> ndpi_flow) option" where
  "reconcile_subprotocol m flow =
     (let proto = fl_detected_protocol_stack0 flow;
          master = fl_detected_protocol_stack1 flow;
          by_ip = fl_guessed_protocol_id_by_ip flow
      in if proto = NDPI_PROTOCOL_MICROSOFT_AZURE then ndpi_reconcile_msteams_udp m flow master
         else if proto = NDPI_PROTOCOL_MSTEAMS
         then if fl_l4_proto flow = IPPROTO_TCP
              then map_option (\<lambda>m. (m, flow)) (msteams_cache_add m flow True)
              else Some (m, flow)
         else if proto = NDPI_PROTOCOL_STUN
         then if by_ip = NDPI_PROTOCOL_MICROSOFT_AZURE
              then ndpi_reconcile_msteams_udp m flow NDPI_PROTOCOL_STUN
              else Some (m, flow)
         else if proto = NDPI_PROTOCOL_TLS
         then (case (if by_ip = NDPI_PROTOCOL_MICROSOFT_AZURE \<and> master = NDPI_PROTOCOL_UNKNOWN
                     then nd_msteams_cache m else None) of
                 Some c \<Rightarrow> do {
                   key \<leftarrow> make_msteams_key flow True;
                   (hit, c') \<leftarrow> ndpi_lru_find_cache c key False (ndpi_get_current_time flow);
                   Some (m\<lparr>nd_msteams_cache := Some c'\<rparr>,
                     case hit of
                       Some dummy \<Rightarrow> ndpi_int_change_protocol flow NDPI_PROTOCOL_MSTEAMS NDPI_PROTOCOL_TLS
                                       NDPI_CONFIDENCE_DPI_PARTIAL
                     | None \<Rightarrow> flow)
                 }
               | None \<Rightarrow>
                   if by_ip = NDPI_PROTOCOL_TELEGRAM
                   then Some (m, ndpi_int_change_protocol flow by_ip proto NDPI_CONFIDENCE_DPI_PARTIAL)
                   else Some (m, flow))
         else if proto = NDPI_PROTOCOL_MSTEAMS_CALL then Some (m, ndpi_reconcile_msteams_call_udp flow)
         else if proto = NDPI_PROTOCOL_MICROSOFT
         then if by_ip \<in> {NDPI_PROTOCOL_MICROSOFT_365, NDPI_PROTOCOL_MS_ONE_DRIVE, NDPI_PROTOCOL_MS_OUTLOOK,
                          NDPI_PROTOCOL_MSTEAMS}
              then Some (m, ndpi_int_change_protocol flow by_ip master NDPI_CONFIDENCE_DPI_PARTIAL)
              else Some (m, flow)
         else Some (m, flow))"

definition reconcile_desktop :: "ndpi_module \<Rightarrow> ndpi_flow \<Rightarrow> ndpi_flow option" where
  "reconcile_desktop m flow =
     (if fl_detected_protocol_stack0 flow = NDPI_PROTOCOL_RDP
      then ndpi_set_risk (nd_strdup_ok m) m flow NDPI_DESKTOP_OR_FILE_SHARING_SESSION (Some (str ''Found RDP''))
      else if fl_detected_protocol_stack0 flow = NDPI_PROTOCOL_ANYDESK \<and> fl_l4_proto flow = IPPROTO_TCP
      then ndpi_set_risk (nd_strdup_ok m) m flow NDPI_DESKTOP_OR_FILE_SHARING_SESSION (Some (str ''Found AnyDesk''))
      else Some flow)"

text \<open>One round of the loop over the two protocols; \<open>skip_risk\<close> is not cleared between rounds.\<close>

definition reconcile_unsafe :: "ndpi_module \<Rightarrow> nat \<Rightarrow> ndpi_flow \<times> bool \<Rightarrow> (ndpi_flow \<times> bool) option" where
  "reconcile_unsafe m proto st = do {
     let (flow, skip_risk) = st;
     breed \<leftarrow> ndpi_get_proto_breed m proto;
     if breed \<in> {NDPI_PROTOCOL_UNSAFE, NDPI_PROTOCOL_POTENTIALLY_DANGEROUS, NDPI_PROTOCOL_DANGEROUS}
     then do {
       let payload = pk_payload (nd_packet m);
       trans \<leftarrow> all_of [Some (proto = NDPI_PROTOCOL_SMBV1), Some (length payload > 86), byte_is payload 86 0x25];
       let skip_risk = (skip_risk \<or> trans);
       flow \<leftarrow> (if \<not> skip_risk then ndpi_set_risk (nd_strdup_ok m) m flow NDPI_UNSAFE_PROTOCOL None else Some flow);
       Some (flow, skip_risk)
     }
     else Some (flow, skip_risk)
   }"

definition ndpi_reconcile_protocols :: "ndpi_module \<Rightarrow> ndpi_flow \<Rightarrow> (ndpi_module \<times> ndpi_flow) option" where
  "ndpi_reconcile_protocols m flow = do {
     let flow = reconcile_risk m flow;
     (m, flow) \<leftarrow> (if fl_confidence flow \<noteq> NDPI_CONFIDENCE_MATCH_BY_PORT \<and>
                      fl_confidence flow \<noteq> NDPI_CONFIDENCE_MATCH_BY_IP
                   then reconcile_subprotocol m flow else Some (m, flow));
     flow \<leftarrow> reconcile_desktop m flow;
     (flow, skip_risk) \<leftarrow> reconcile_unsafe m (fl_detected_protocol_stack0 flow) (flow, False);
     (flow, skip_risk) \<leftarrow> reconcile_unsafe m (fl_detected_protocol_stack1 flow) (flow, skip_risk);
     Some (m, flow)
   }"

section \<open>Detection and exclusion\<close>

definition ndpi_set_detected_protocol ::
  "ndpi_module \<Rightarrow> ndpi_flow \<Rightarrow> nat \<Rightarrow> nat \<Rightarrow> ndpi_confidence \<Rightarrow> (ndpi_module \<times> ndpi_flow) option" where
  "ndpi_set_detected_protocol m flow upper lower confidence =
     (if fl_state flow = NDPI_STATE_MONITORING then Some (m, flow)
      else do {
        (m, flow) \<leftarrow> ndpi_reconcile_protocols m (ndpi_int_change_protocol flow upper lower confidence);
        s \<leftarrow> proto_stack_update (fl_protocol_stack flow)
               (fl_detected_protocol_stack1 flow) (fl_detected_protocol_stack0 flow);
        Some (m, flow\<lparr>fl_protocol_stack := s, fl_state := NDPI_STATE_PARTIAL\<rparr>)
      })"

definition ndpi_set_detected_protocol_keeping_master ::
  "ndpi_module \<Rightarrow> ndpi_flow \<Rightarrow> nat \<Rightarrow> ndpi_confidence \<Rightarrow> (ndpi_module \<times> ndpi_flow) option" where
  "ndpi_set_detected_protocol_keeping_master m flow detected_protocol confidence =
     (let master = (if fl_detected_protocol_stack1 flow \<noteq> 0 then fl_detected_protocol_stack1 flow
                    else fl_detected_protocol_stack0 flow)
      in if master \<noteq> NDPI_PROTOCOL_UNKNOWN
         then ndpi_set_detected_protocol m flow detected_protocol master confidence
         else ndpi_set_detected_protocol m flow NDPI_PROTOCOL_UNKNOWN detected_protocol confidence)"

definition exclude_dissector :: "ndpi_flow \<Rightarrow> nat \<Rightarrow> ndpi_flow option" where
  "exclude_dissector flow dissector_idx =
     map_option (\<lambda>b. flow\<lparr>fl_excluded_dissectors_bitmask := b\<rparr>)
       (dissector_bitmask_set (fl_excluded_dissectors_bitmask flow) dissector_idx)"

text \<open>The macro \<open>NDPI_EXCLUDE_DISSECTOR\<close>: the dissector being run excludes itself.\<close>

definition NDPI_EXCLUDE_DISSECTOR :: "ndpi_module \<Rightarrow> ndpi_flow \<Rightarrow> (ndpi_module \<times> ndpi_flow) option" where
  "NDPI_EXCLUDE_DISSECTOR m flow =
     map_option (\<lambda>flow. (m, flow)) (exclude_dissector flow (nd_current_dissector_idx m))"

section \<open>The contract of a dissector\<close>

text \<open>
  A well-formed module: the bit sets of the configuration, parsed lines that lie in the payload, a protocol table that holds every
  valid identifier, a mapping array for the custom protocols, and caches with at least one
  slot. A well-formed flow: room in its fixed-size arrays, and a classification whose
  master protocol differs from its application protocol and is absent when that is.
\<close>

definition cache_ok :: "lru_cache option \<Rightarrow> bool" where
  "cache_ok c \<longleftrightarrow> (case c of None \<Rightarrow> True | Some c \<Rightarrow> lru_invar c)"

definition line_ok :: "bytes \<Rightarrow> ndpi_int_one_line \<Rightarrow> bool" where
  "line_ok p l \<longleftrightarrow> (case ol_ptr l of None \<Rightarrow> True | Some o' \<Rightarrow> o' + ol_len l \<le> length p)"

definition wf_packet :: "ndpi_packet \<Rightarrow> bool" where
  "wf_packet p \<longleftrightarrow> line_ok (pk_payload p) (pk_content_line p) \<and> line_ok (pk_payload p) (pk_http_url_name p) \<and>
     line_ok (pk_payload p) (pk_user_agent_line p) \<and>
     (case pk_iphv6 p of None \<Rightarrow> True | Some h \<Rightarrow> length (ip6_src h) = 16 \<and> length (ip6_dst h) = 16)"

definition wf_module :: "ndpi_module \<Rightarrow> bool" where
  "wf_module m \<longleftrightarrow> cfg_wf m \<and> wf_packet (nd_packet m) \<and> num_protocol_ids \<le> nd_num_supported_protocols m \<and>
     nd_num_supported_protocols m \<le> length (nd_proto_defaults m) \<and>
     nd_num_supported_protocols m - nd_num_internal_protocols m \<le> length (nd_ndpi_to_user_proto_id m) \<and>
     cache_ok (nd_msteams_cache m) \<and> cache_ok (nd_mining_cache m)"

definition class_wf :: "nat \<Rightarrow> nat \<Rightarrow> bool" where
  "class_wf upper lower \<longleftrightarrow> (if upper = NDPI_PROTOCOL_UNKNOWN then lower = NDPI_PROTOCOL_UNKNOWN else lower \<noteq> upper)"

definition wf_flow :: "ndpi_flow \<Rightarrow> bool" where
  "wf_flow f \<longleftrightarrow> length (fl_excluded_dissectors_bitmask f) = NDPI_NUM_FDS_DISSECTORS \<and>
     stack_wf (fl_protocol_stack f) \<and>
     length (fr_risk_infos (fl_rsk f)) \<le> MAX_NUM_RISK_INFOS \<and>
     length (fl_c_address f) = 16 \<and> length (fl_s_address f) = 16 \<and>
     class_wf (fl_detected_protocol_stack0 f) (fl_detected_protocol_stack1 f)"

text \<open>What a dissector leaves alone: the module but for its caches, and the fields of the flow
  that belong to the engine.\<close>

definition module_frame :: "ndpi_module \<Rightarrow> ndpi_module \<Rightarrow> bool" where
  "module_frame m m' \<longleftrightarrow>
     m'\<lparr>nd_msteams_cache := nd_msteams_cache m, nd_mining_cache := nd_mining_cache m\<rparr> = m"

definition engine_view :: "ndpi_flow \<Rightarrow> (nat \<times> bool \<times> bytes \<times> bytes \<times> nat \<times> nat) \<times> nat list \<times> u64 \<times> (nat \<times> nat) list" where
  "engine_view f = ((fl_l4_proto f, fl_is_ipv6 f, fl_c_address f, fl_s_address f, fl_c_port f, fl_s_port f),
     [fl_guessed_protocol_id f, fl_guessed_protocol_id_by_ip f, fl_num_processed_pkts f,
      fl_num_dissector_calls f, fl_packet_counter f, fl_all_packets_counter f, fl_client_packet_direction f],
     fl_last_packet_time_ms f, [fl_packet_direction_counter f, fl_packet_direction_complete_counter f])"

definition class_view :: "ndpi_flow \<Rightarrow> nat \<times> nat \<times> ndpi_classification_state \<times> ndpi_confidence \<times> ndpi_proto_stack" where
  "class_view f = (fl_detected_protocol_stack0 f, fl_detected_protocol_stack1 f, fl_state f, fl_confidence f,
     fl_protocol_stack f)"

text \<open>Where a reported protocol may come from: the identifiers of the library, or the flow itself.
  Then the classification stays inside every table that holds those identifiers.\<close>

definition ids_below :: "nat \<Rightarrow> ndpi_flow \<Rightarrow> bool" where
  "ids_below n f \<longleftrightarrow> fl_detected_protocol_stack0 f < n \<and> fl_detected_protocol_stack1 f < n \<and>
     fl_fast_callback_protocol_id f < n"

definition ids_kept :: "ndpi_flow \<Rightarrow> ndpi_flow \<Rightarrow> bool" where
  "ids_kept f f' \<longleftrightarrow> (\<forall>n. num_protocol_ids \<le> n \<longrightarrow> ids_below n f \<longrightarrow> ids_below n f')"

definition id_from :: "ndpi_flow \<Rightarrow> nat \<Rightarrow> bool" where
  "id_from f x \<longleftrightarrow> x < num_protocol_ids \<or> x = fl_detected_protocol_stack0 f \<or> x = fl_detected_protocol_stack1 f"

text \<open>
  The contract: well-formedness and the frame are kept, at most the running dissector is
  excluded and no exclusion is lost, and the classification is either untouched or a
  proper one (never back to unknown), which never happens in the monitoring state.
\<close>

definition dissector_step :: "ndpi_module \<Rightarrow> ndpi_flow \<Rightarrow> ndpi_module \<Rightarrow> ndpi_flow \<Rightarrow> bool" where
  "dissector_step m f m' f' \<longleftrightarrow>
     wf_module m' \<and> wf_flow f' \<and> module_frame m m' \<and> engine_view f' = engine_view f \<and> ids_kept f f' \<and>
     (\<forall>k. bit_in (fl_excluded_dissectors_bitmask f') k \<longrightarrow>
        bit_in (fl_excluded_dissectors_bitmask f) k \<or> k = nd_current_dissector_idx m) \<and>
     (\<forall>k. bit_in (fl_excluded_dissectors_bitmask f) k \<longrightarrow> bit_in (fl_excluded_dissectors_bitmask f') k) \<and>
     (class_view f' = class_view f \<or>
      (fl_state f \<noteq> NDPI_STATE_MONITORING \<and> fl_state f' = NDPI_STATE_PARTIAL \<and>
       fl_detected_protocol_stack0 f' \<noteq> NDPI_PROTOCOL_UNKNOWN))"

definition safe_step :: "ndpi_module \<Rightarrow> ndpi_flow \<Rightarrow> (ndpi_module \<times> ndpi_flow) option \<Rightarrow> bool" where
  "safe_step m f r \<longleftrightarrow> (\<exists>m' f'. r = Some (m', f') \<and> dissector_step m f m' f')"

section \<open>The engine keeps the contract\<close>

lemma ids_kept_same [simp]:
  "fl_detected_protocol_stack0 f' = fl_detected_protocol_stack0 f \<Longrightarrow>
   fl_detected_protocol_stack1 f' = fl_detected_protocol_stack1 f \<Longrightarrow>
   fl_fast_callback_protocol_id f' = fl_fast_callback_protocol_id f \<Longrightarrow> ids_kept f f'"
  by (simp add: ids_kept_def ids_below_def)

lemma ids_kept_fast [simp]: "q < num_protocol_ids \<Longrightarrow> ids_kept f (f\<lparr>fl_fast_callback_protocol_id := q\<rparr>)"
  by (simp add: ids_kept_def ids_below_def)

lemma ids_kept_trans: "ids_kept f f' \<Longrightarrow> ids_kept f' f'' \<Longrightarrow> ids_kept f f''"
  by (simp add: ids_kept_def)

lemma id_from_simps [simp]:
  "x < num_protocol_ids \<Longrightarrow> id_from f x"
  "id_from f (fl_detected_protocol_stack0 f)" "id_from f (fl_detected_protocol_stack1 f)"
  by (simp_all add: id_from_def)

lemma ids_kept_change:
  "id_from f up \<Longrightarrow> id_from f lo \<Longrightarrow> ids_kept f (ndpi_int_change_protocol f up lo c)"
  by (auto simp: ids_kept_def ids_below_def id_from_def ndpi_int_change_protocol_def
      ndpi_int_change_flow_protocol_def Let_def)

lemma module_frame_refl [simp]: "module_frame m m"
  by (simp add: module_frame_def)

lemma module_frame_trans: "module_frame m m' \<Longrightarrow> module_frame m' m'' \<Longrightarrow> module_frame m m''"
  by (cases m; cases m'; cases m'') (simp add: module_frame_def)

lemma module_frame_fields:
  "module_frame m m' \<Longrightarrow> nd_packet m' = nd_packet m \<and> nd_cfg m' = nd_cfg m \<and>
     nd_proto_defaults m' = nd_proto_defaults m \<and> nd_callback_buffer m' = nd_callback_buffer m \<and>
     nd_current_dissector_idx m' = nd_current_dissector_idx m \<and>
     nd_num_supported_protocols m' = nd_num_supported_protocols m"
  by (cases m; cases m') (simp add: module_frame_def)

lemma module_frame_cache [simp]:
  "module_frame m (m\<lparr>nd_msteams_cache := c\<rparr>)" "module_frame m (m\<lparr>nd_mining_cache := c\<rparr>)"
  by (cases m; simp add: module_frame_def)+

lemma wf_module_cache [simp]:
  "wf_module m \<Longrightarrow> lru_invar c \<Longrightarrow> wf_module (m\<lparr>nd_msteams_cache := Some c\<rparr>)"
  "wf_module m \<Longrightarrow> lru_invar c \<Longrightarrow> wf_module (m\<lparr>nd_mining_cache := Some c\<rparr>)"
  by (simp_all add: wf_module_def cfg_wf_def cache_ok_def)

text \<open>The steps inside a reconciliation leave the stack, the state and the exclusions alone.\<close>

definition inner_step :: "ndpi_module \<Rightarrow> ndpi_flow \<Rightarrow> ndpi_module \<Rightarrow> ndpi_flow \<Rightarrow> bool" where
  "inner_step m f m' f' \<longleftrightarrow>
     wf_module m' \<and> wf_flow f' \<and> module_frame m m' \<and> engine_view f' = engine_view f \<and>
     fl_excluded_dissectors_bitmask f' = fl_excluded_dissectors_bitmask f \<and> ids_kept f f' \<and>
     fl_protocol_stack f' = fl_protocol_stack f \<and> fl_state f' = fl_state f \<and>
     (fl_detected_protocol_stack0 f' = NDPI_PROTOCOL_UNKNOWN \<longrightarrow>
      fl_detected_protocol_stack0 f = NDPI_PROTOCOL_UNKNOWN)"

lemma inner_refl: "wf_module m \<Longrightarrow> wf_flow f \<Longrightarrow> inner_step m f m f"
  by (simp add: inner_step_def)

lemma inner_trans: "inner_step m f m' f' \<Longrightarrow> inner_step m' f' m'' f'' \<Longrightarrow> inner_step m f m'' f''"
  unfolding inner_step_def using module_frame_trans [of m m' m''] ids_kept_trans [of f f' f''] by simp

lemma inner_wf: "inner_step m f m' f' \<Longrightarrow> wf_module m'" "inner_step m f m' f' \<Longrightarrow> wf_flow f'"
  by (simp_all add: inner_step_def)

lemma inner_cache:
  "wf_module m \<Longrightarrow> wf_flow f \<Longrightarrow> lru_invar c \<Longrightarrow> inner_step m f (m\<lparr>nd_msteams_cache := Some c\<rparr>) f"
  by (simp add: inner_step_def)

lemma inner_rsk:
  "wf_module m \<Longrightarrow> wf_flow f \<Longrightarrow> length (fr_risk_infos k) \<le> MAX_NUM_RISK_INFOS \<Longrightarrow>
     inner_step m f m (f\<lparr>fl_rsk := k\<rparr>)"
  by (simp add: inner_step_def wf_flow_def engine_view_def)

lemma inner_media:
  "wf_module m \<Longrightarrow> wf_flow f \<Longrightarrow> inner_step m f m (f\<lparr>fl_flow_multimedia_types := t\<rparr>)"
  by (simp add: inner_step_def wf_flow_def engine_view_def)

lemma inner_change:
  assumes "wf_module m" "wf_flow f" "up \<noteq> NDPI_PROTOCOL_UNKNOWN \<or> lo \<noteq> NDPI_PROTOCOL_UNKNOWN"
    "id_from f up" "id_from f lo"
  shows "inner_step m f m (ndpi_int_change_protocol f up lo c)"
  using assms(1-3) ids_kept_change [OF assms(4,5)]
  by (auto simp: inner_step_def wf_flow_def engine_view_def ndpi_int_change_protocol_def
      ndpi_int_change_flow_protocol_def Let_def class_wf_def)

lemma change_detects:
  "up \<noteq> NDPI_PROTOCOL_UNKNOWN \<or> lo \<noteq> NDPI_PROTOCOL_UNKNOWN \<Longrightarrow>
     fl_detected_protocol_stack0 (ndpi_int_change_protocol f up lo c) \<noteq> NDPI_PROTOCOL_UNKNOWN"
  by (auto simp: ndpi_int_change_protocol_def ndpi_int_change_flow_protocol_def Let_def)

lemma user_proto_scan_total: "idx + n \<le> length a \<Longrightarrow> \<exists>r. user_proto_scan a u idx n = Some r"
  by (induction a u idx n rule: user_proto_scan.induct) auto

lemma proto_breed_total:
  assumes "wf_module m"
  shows "\<exists>b. ndpi_get_proto_breed m proto = Some b"
proof -
  have len: "0 < length (nd_proto_defaults m)" using assms by (auto simp: wf_module_def)
  obtain r where "user_proto_scan (nd_ndpi_to_user_proto_id m) proto 0
      (nd_num_supported_protocols m - nd_num_internal_protocols m) = Some r"
    using user_proto_scan_total [of 0 "nd_num_supported_protocols m - nd_num_internal_protocols m"
        "nd_ndpi_to_user_proto_id m" proto] assms by (auto simp: wf_module_def)
  then have "\<exists>i. ndpi_map_user_proto_id_to_ndpi_id m proto = Some i"
    by (cases r) (simp_all add: ndpi_map_user_proto_id_to_ndpi_id_def)
  then obtain i where i: "ndpi_map_user_proto_id_to_ndpi_id m proto = Some i" by blast
  moreover have "i < length (nd_proto_defaults m)" if "ndpi_is_valid_protoId m i"
    using that assms by (auto simp: ndpi_is_valid_protoId_def wf_module_def)
  ultimately show ?thesis using len
    by (auto simp: ndpi_get_proto_breed_def rd_proto_def)
qed

lemma inner_set_risk:
  assumes "wf_module m" "wf_flow f"
  shows "\<exists>f'. ndpi_set_risk a m f r msg = Some f' \<and> inner_step m f m f'"
proof -
  from assms have "cfg_wf m" "length (fr_risk_infos (fl_rsk f)) \<le> MAX_NUM_RISK_INFOS"
    by (simp_all add: wf_module_def wf_flow_def)
  with set_risk_rsk [of m a f r msg] obtain k
    where "ndpi_set_risk a m f r msg = Some (f\<lparr>fl_rsk := k\<rparr>)" "length (fr_risk_infos k) \<le> MAX_NUM_RISK_INFOS"
    by blast
  then show ?thesis using inner_rsk [OF assms] by blast
qed

lemma exceptions_rsk:
  "\<exists>k. ndpi_handle_risk_exceptions m f = f\<lparr>fl_rsk := k\<rparr> \<and>
     (fr_risk_infos k = fr_risk_infos (fl_rsk f) \<or> fr_risk_infos k = [])"
proof (cases "fr_risk (fl_rsk f) = 0")
  case True
  then show ?thesis by (intro exI [of _ "fl_rsk f"]) (simp add: ndpi_handle_risk_exceptions_def)
next
  case False
  let ?h = "\<lambda>k. ndpi_check_hostname_risk_exception m (ndpi_get_flow_name f) k"
  define k1 where "k1 = (let k = fl_rsk f in if \<not> fr_host_risk_mask_evaluated k \<and> \<not> fr_ip_risk_mask_evaluated k
    then k\<lparr>fr_risk_mask := - 1\<rparr> else k)"
  define k2 where "k2 = (if \<not> fr_host_risk_mask_evaluated k1 \<and> ndpi_get_flow_name f \<noteq> []
    then (if fr_risk_mask (?h k1) = 0 then (?h k1)\<lparr>fr_risk_infos := []\<rparr> else ?h k1)\<lparr>fr_host_risk_mask_evaluated := True\<rparr>
    else k1)"
  define k3 where "k3 = (if \<not> fr_ip_risk_mask_evaluated k2
    then (if \<not> fl_is_ipv6 f
          then ndpi_check_ipv4_exception m (take 4 (fl_s_address f))
                 (ndpi_check_ipv4_exception m (take 4 (fl_c_address f)) k2)
          else ndpi_check_ipv6_exception m (fl_s_address f)
                 (ndpi_check_ipv6_exception m (fl_c_address f) k2))\<lparr>fr_ip_risk_mask_evaluated := True\<rparr>
    else k2)"
  have "ndpi_handle_risk_exceptions m f = f\<lparr>fl_rsk := k3\<lparr>fr_risk := fr_risk k3 AND fr_risk_mask k3\<rparr>\<rparr>"
    using False unfolding ndpi_handle_risk_exceptions_def k1_def k2_def k3_def Let_def by simp
  moreover have "fr_risk_infos k1 = fr_risk_infos (fl_rsk f)" by (simp add: k1_def Let_def)
  moreover have "fr_risk_infos (?h k1) = fr_risk_infos k1"
    by (simp add: ndpi_check_hostname_risk_exception_def split: option.split)
  moreover from this have "fr_risk_infos k2 = fr_risk_infos k1 \<or> fr_risk_infos k2 = []" by (simp add: k2_def)
  moreover have "fr_risk_infos k3 = fr_risk_infos k2"
    by (simp add: k3_def ndpi_check_ipv4_exception_def ndpi_check_ipv6_exception_def)
  ultimately show ?thesis by (intro exI [of _ "k3\<lparr>fr_risk := fr_risk k3 AND fr_risk_mask k3\<rparr>"]) simp
qed

lemma inner_reconcile_risk: "wf_module m \<Longrightarrow> wf_flow f \<Longrightarrow> inner_step m f m (reconcile_risk m f)"
  using exceptions_rsk [of m f]
  by (auto simp: reconcile_risk_def Let_def wf_flow_def intro!: inner_rsk inner_refl)

lemma msteams_key_total: "wf_flow f \<Longrightarrow> \<exists>k. make_msteams_key f c = Some k"
  by (auto simp: make_msteams_key_def Let_def wf_flow_def rd_simps)

lemma inner_cache_add:
  assumes "wf_module m" "wf_flow f"
  shows "\<exists>m'. msteams_cache_add m f c = Some m' \<and> inner_step m f m' f"
proof (cases "nd_msteams_cache m")
  case None
  then show ?thesis using inner_refl [OF assms] by (simp add: msteams_cache_add_def)
next
  case (Some l)
  then have inv: "lru_invar l" using assms(1) by (simp add: wf_module_def cache_ok_def)
  obtain key where key: "make_msteams_key f c = Some key" using msteams_key_total [OF assms(2)] by blast
  obtain l' where l': "ndpi_lru_add_to_cache l key 0 (ndpi_get_current_time f) = Some l'"
    using lru_add_Some [OF inv] by blast
  show ?thesis using Some key l' inner_cache [OF assms lru_add_laws(1) [OF inv l']]
    by (simp add: msteams_cache_add_def)
qed

lemma inner_msteams_udp:
  assumes "wf_module m" "wf_flow f" "id_from f master"
  shows "\<exists>m' f'. ndpi_reconcile_msteams_udp m f master = Some (m', f') \<and> inner_step m f m' f'"
proof -
  let ?f = "ndpi_int_change_protocol f NDPI_PROTOCOL_MSTEAMS_CALL master (fl_confidence f)"
  have c: "inner_step m f m ?f" using assms by (intro inner_change) simp_all
  note same = inner_refl [OF assms(1,2)]
  obtain m' where "msteams_cache_add m ?f (\<not> (3478 \<le> fl_c_port f \<and> fl_c_port f \<le> 3481)) = Some m'"
      "inner_step m ?f m' ?f"
    using inner_cache_add [OF inner_wf [OF c]] by blast
  then show ?thesis using inner_trans [OF c] same
    by (auto simp: ndpi_reconcile_msteams_udp_def Let_def)
qed

lemma inner_call_udp:
  assumes "wf_module m" "wf_flow f"
  shows "inner_step m f m (ndpi_reconcile_msteams_call_udp f)"
proof -
  have port: "inner_step m g m (snd (ndpi_reconcile_msteams_call_udp_port g a b))" if "wf_flow g" for g a b
    using inner_media [OF assms(1) that] by (simp add: ndpi_reconcile_msteams_call_udp_port_def Let_def)
  obtain b g where bg: "ndpi_reconcile_msteams_call_udp_port f (fl_c_port f) (fl_s_port f) = (b, g)"
    by fastforce
  then have g: "inner_step m f m g" using port [OF assms(2), of "fl_c_port f" "fl_s_port f"] by simp
  show ?thesis
    unfolding ndpi_reconcile_msteams_call_udp_def Let_def bg split_conv
    using g inner_trans [OF g port [OF inner_wf(2) [OF g]]] inner_refl [OF assms] by simp
qed

lemma inner_msteams_hit:
  assumes "wf_module m" "wf_flow f" "nd_msteams_cache m = Some c"
  shows "\<exists>m' f'. do { key \<leftarrow> make_msteams_key f True;
      (hit, c') \<leftarrow> ndpi_lru_find_cache c key False (ndpi_get_current_time f);
      Some (m\<lparr>nd_msteams_cache := Some c'\<rparr>,
        case hit of Some dummy \<Rightarrow> ndpi_int_change_protocol f NDPI_PROTOCOL_MSTEAMS NDPI_PROTOCOL_TLS
                                       NDPI_CONFIDENCE_DPI_PARTIAL
        | None \<Rightarrow> f) } = Some (m', f') \<and> inner_step m f m' f'"
proof -
  have inv: "lru_invar c" using assms(1,3) by (simp add: wf_module_def cache_ok_def)
  obtain key where key: "make_msteams_key f True = Some key" using msteams_key_total [OF assms(2)] by blast
  obtain r c' where r: "ndpi_lru_find_cache c key False (ndpi_get_current_time f) = Some (r, c')"
    using lru_find_eq [OF inv, of key False "ndpi_get_current_time f"]
    by (auto simp: Let_def split: if_splits)
  let ?m = "m\<lparr>nd_msteams_cache := Some c'\<rparr>"
  have i: "inner_step m f ?m f" using inner_cache [OF assms(1,2) lru_find_laws(1) [OF inv r]] .
  have "inner_step ?m f ?m (case r of Some dummy \<Rightarrow> ndpi_int_change_protocol f NDPI_PROTOCOL_MSTEAMS
      NDPI_PROTOCOL_TLS NDPI_CONFIDENCE_DPI_PARTIAL | None \<Rightarrow> f)"
    using inner_change [OF inner_wf [OF i], where up = NDPI_PROTOCOL_MSTEAMS] inner_refl [OF inner_wf [OF i]]
    by (cases r) simp_all
  then show ?thesis using key r inner_trans [OF i] by simp
qed

lemma inner_subprotocol:
  assumes "wf_module m" "wf_flow f"
  shows "\<exists>m' f'. reconcile_subprotocol m f = Some (m', f') \<and> inner_step m f m' f'"
proof -
  note same = inner_refl [OF assms]
  have change: "inner_step m f m (ndpi_int_change_protocol f up lo c)" if "up \<noteq> 0" "id_from f up" "id_from f lo" for up lo c
    using inner_change [OF assms, of up] that by simp
  have tls: "\<exists>m' f'. (case (if A then nd_msteams_cache m else None) of
      Some c \<Rightarrow> do { key \<leftarrow> make_msteams_key f True;
          (hit, c') \<leftarrow> ndpi_lru_find_cache c key False (ndpi_get_current_time f);
          Some (m\<lparr>nd_msteams_cache := Some c'\<rparr>,
            case hit of Some dummy \<Rightarrow> ndpi_int_change_protocol f NDPI_PROTOCOL_MSTEAMS NDPI_PROTOCOL_TLS
                                       NDPI_CONFIDENCE_DPI_PARTIAL
            | None \<Rightarrow> f) }
    | None \<Rightarrow> if q = NDPI_PROTOCOL_TELEGRAM
        then Some (m, ndpi_int_change_protocol f q p NDPI_CONFIDENCE_DPI_PARTIAL) else Some (m, f))
    = Some (m', f') \<and> inner_step m f m' f'" if "id_from f p" for A q p
  proof (cases "if A then nd_msteams_cache m else None")
    case None
    then show ?thesis using same change [of NDPI_PROTOCOL_TELEGRAM] that by simp
  next
    case (Some c)
    then have "nd_msteams_cache m = Some c" by (simp split: if_splits)
    from inner_msteams_hit [OF assms this] show ?thesis by (simp only: Some option.case)
  qed
  have udp: "\<exists>m' f'. ndpi_reconcile_msteams_udp m f x = Some (m', f') \<and> inner_step m f m' f'" if "id_from f x" for x
    by (rule inner_msteams_udp [OF assms that])
  obtain m1 where add: "msteams_cache_add m f True = Some m1" "inner_step m f m1 f"
    using inner_cache_add [OF assms] by blast
  note call = inner_call_udp [OF assms]
  have ite: "\<exists>m' f'. (if c then x else y) = Some (m', f') \<and> inner_step m f m' f'"
    if "c \<Longrightarrow> \<exists>m' f'. x = Some (m', f') \<and> inner_step m f m' f'"
      "\<not> c \<Longrightarrow> \<exists>m' f'. y = Some (m', f') \<and> inner_step m f m' f'" for c x y
    using that by simp
  have leaf: "\<exists>m' f'. Some (n, g) = Some (m', f') \<and> inner_step m f m' f'" if "inner_step m f n g" for n g
    using that by simp
  show ?thesis
    unfolding reconcile_subprotocol_def Let_def add(1) option.map
    by (intro ite udp tls leaf add(2) call same change) auto
qed

lemma inner_desktop:
  "wf_module m \<Longrightarrow> wf_flow f \<Longrightarrow> \<exists>f'. reconcile_desktop m f = Some f' \<and> inner_step m f m f'"
  unfolding reconcile_desktop_def using inner_set_risk inner_refl by (simp split: if_split)

lemma inner_unsafe:
  assumes "wf_module m" "wf_flow f"
  shows "\<exists>f' b'. reconcile_unsafe m proto (f, b) = Some (f', b') \<and> inner_step m f m f'"
proof -
  obtain breed where breed: "ndpi_get_proto_breed m proto = Some breed"
    using proto_breed_total [OF assms(1)] by blast
  let ?c = "all_of [Some (proto = NDPI_PROTOCOL_SMBV1), Some (length (pk_payload (nd_packet m)) > 86),
    byte_is (pk_payload (nd_packet m)) 86 0x25]"
  have "?c \<noteq> None" by (auto simp: sc_simps simp del: all_of.simps(2))
  then obtain t where t: "?c = Some t" by blast
  obtain f' where "ndpi_set_risk (nd_strdup_ok m) m f NDPI_UNSAFE_PROTOCOL None = Some f'" "inner_step m f m f'"
    using inner_set_risk [OF assms] by blast
  then show ?thesis using breed t inner_refl [OF assms]
    unfolding reconcile_unsafe_def Let_def split_conv t by simp auto
qed

lemma inner_reconcile:
  assumes "wf_module m" "wf_flow f"
  shows "\<exists>m' f'. ndpi_reconcile_protocols m f = Some (m', f') \<and> inner_step m f m' f'"
proof -
  let ?f = "reconcile_risk m f"
  have 1: "inner_step m f m ?f" by (rule inner_reconcile_risk [OF assms])
  have "\<exists>m2 f2. (if fl_confidence ?f \<noteq> NDPI_CONFIDENCE_MATCH_BY_PORT \<and>
      fl_confidence ?f \<noteq> NDPI_CONFIDENCE_MATCH_BY_IP then reconcile_subprotocol m ?f else Some (m, ?f))
      = Some (m2, f2) \<and> inner_step m ?f m2 f2" (is "\<exists>m2 f2. ?r = _ \<and> _")
    using inner_subprotocol [OF inner_wf [OF 1]] inner_refl [OF inner_wf [OF 1]] by simp
  then obtain m2 f2 where 2: "?r = Some (m2, f2)" "inner_step m ?f m2 f2" by blast
  obtain f3 where 3: "reconcile_desktop m2 f2 = Some f3" "inner_step m2 f2 m2 f3"
    using inner_desktop [OF inner_wf [OF 2(2)]] by blast
  obtain f4 b where 4: "reconcile_unsafe m2 (fl_detected_protocol_stack0 f3) (f3, False) = Some (f4, b)"
      "inner_step m2 f3 m2 f4"
    using inner_unsafe [OF inner_wf [OF 3(2)]] by blast
  obtain f5 c where 5: "reconcile_unsafe m2 (fl_detected_protocol_stack1 f4) (f4, b) = Some (f5, c)"
      "inner_step m2 f4 m2 f5"
    using inner_unsafe [OF inner_wf [OF 4(2)]] by blast
  have "inner_step m f m2 f5" using 1 2(2) 3(2) 4(2) 5(2) inner_trans by blast
  then show ?thesis unfolding ndpi_reconcile_protocols_def Let_def 2(1) using 3(1) 4(1) 5(1) by simp
qed

lemma set_detected_step:
  assumes "wf_module m" "wf_flow f" "up \<noteq> NDPI_PROTOCOL_UNKNOWN \<or> lo \<noteq> NDPI_PROTOCOL_UNKNOWN"
    "id_from f up" "id_from f lo" "fl_state f \<noteq> NDPI_STATE_MONITORING"
  shows "\<exists>m' f'. ndpi_set_detected_protocol m f up lo c = Some (m', f') \<and> dissector_step m f m' f' \<and>
    fl_state f' = NDPI_STATE_PARTIAL \<and> fl_detected_protocol_stack0 f' \<noteq> NDPI_PROTOCOL_UNKNOWN"
proof -
  let ?f = "ndpi_int_change_protocol f up lo c"
  have 1: "inner_step m f m ?f" by (rule inner_change [OF assms(1-5)])
  obtain m1 f1 where 2: "ndpi_reconcile_protocols m ?f = Some (m1, f1)" "inner_step m ?f m1 f1"
    using inner_reconcile [OF inner_wf [OF 1]] by blast
  have i: "inner_step m f m1 f1" using 1 2(2) inner_trans by blast
  obtain s where s: "proto_stack_update (fl_protocol_stack f1) (fl_detected_protocol_stack1 f1)
      (fl_detected_protocol_stack0 f1) = Some s" "stack_wf s"
    using update_refines [of "fl_protocol_stack f1"] inner_wf(2) [OF i] unfolding wf_flow_def by blast
  let ?g = "f1\<lparr>fl_protocol_stack := s, fl_state := NDPI_STATE_PARTIAL\<rparr>"
  have up: "fl_detected_protocol_stack0 ?g \<noteq> NDPI_PROTOCOL_UNKNOWN"
    using change_detects [OF assms(3), of f c] 2(2) by (auto simp: inner_step_def)
  have eq: "ndpi_set_detected_protocol m f up lo c = Some (m1, ?g)"
    using assms(6) 2(1) s(1) by (simp add: ndpi_set_detected_protocol_def)
  have "wf_flow ?g" using inner_wf(2) [OF i] s(2) by (simp add: wf_flow_def)
  moreover have "engine_view ?g = engine_view f1" by (simp add: engine_view_def)
  moreover have "ids_kept f ?g" using i by (simp add: inner_step_def ids_kept_def ids_below_def)
  ultimately have "dissector_step m f m1 ?g"
    using i up assms(6) by (simp add: dissector_step_def inner_step_def)
  then show ?thesis using eq up by auto
qed

lemma dissector_step_refl: "wf_module m \<Longrightarrow> wf_flow f \<Longrightarrow> dissector_step m f m f"
  by (simp add: dissector_step_def)

lemma dissector_step_wf:
  "dissector_step m f m' f' \<Longrightarrow> wf_module m'" "dissector_step m f m' f' \<Longrightarrow> wf_flow f'"
  by (simp_all add: dissector_step_def)

lemma class_view_state: "class_view f' = class_view f \<Longrightarrow>
  fl_state f' = fl_state f \<and> fl_detected_protocol_stack0 f' = fl_detected_protocol_stack0 f"
  by (simp add: class_view_def)

lemma dissector_step_trans:
  assumes 1: "dissector_step m f m' f'" and 2: "dissector_step m' f' m'' f''"
  shows "dissector_step m f m'' f''"
proof -
  let ?to = "\<lambda>f f'. class_view f' = class_view f \<or>
      (fl_state f \<noteq> NDPI_STATE_MONITORING \<and> fl_state f' = NDPI_STATE_PARTIAL \<and>
       fl_detected_protocol_stack0 f' \<noteq> NDPI_PROTOCOL_UNKNOWN)"
  have "?to f f'" "?to f' f''" using 1 2 unfolding dissector_step_def by blast+
  then have "?to f f''"
    using class_view_state [of f' f] class_view_state [of f'' f'] by auto
  moreover have "nd_current_dissector_idx m' = nd_current_dissector_idx m" "module_frame m m''"
    using 1 2 module_frame_fields [of m m'] module_frame_trans [of m m' m''] unfolding dissector_step_def by blast+
  moreover have "ids_kept f f''" using 1 2 ids_kept_trans unfolding dissector_step_def by blast
  ultimately show ?thesis
    using 1 2 unfolding dissector_step_def by (intro conjI) auto
qed

section \<open>Rules for dissectors\<close>

text \<open>The sequence of two steps of a dissector.\<close>

definition seq_step :: "(ndpi_module \<times> ndpi_flow) option \<Rightarrow>
    (ndpi_module \<Rightarrow> ndpi_flow \<Rightarrow> (ndpi_module \<times> ndpi_flow) option) \<Rightarrow> (ndpi_module \<times> ndpi_flow) option" where
  "seq_step r k = (case r of None \<Rightarrow> None | Some (m, f) \<Rightarrow> k m f)"

named_theorems step_intros \<open>introduction rules for \<open>safe_step\<close> and \<open>dissector_step\<close>\<close>

lemma safe_from: "dissector_step m f m' f' \<Longrightarrow> safe_step m' f' r \<Longrightarrow> safe_step m f r"
  unfolding safe_step_def using dissector_step_trans by blast

lemma safe_keep [step_intros]: "dissector_step m f m f' \<Longrightarrow> safe_step m f (Some (m, f'))"
  by (simp add: safe_step_def)

lemma safe_set_detected [step_intros]:
  assumes "dissector_step m f m f'" "up \<noteq> NDPI_PROTOCOL_UNKNOWN \<or> lo \<noteq> NDPI_PROTOCOL_UNKNOWN"
    "id_from f' up" "id_from f' lo"
  shows "safe_step m f (ndpi_set_detected_protocol m f' up lo c)"
proof (rule safe_from [OF assms(1)], cases "fl_state f' = NDPI_STATE_MONITORING")
  case True
  then show "safe_step m f' (ndpi_set_detected_protocol m f' up lo c)"
    using dissector_step_refl [OF dissector_step_wf [OF assms(1)]]
    by (simp add: safe_step_def ndpi_set_detected_protocol_def)
next
  case False
  from set_detected_step [OF dissector_step_wf [OF assms(1)] assms(2-4) False]
  show "safe_step m f' (ndpi_set_detected_protocol m f' up lo c)" unfolding safe_step_def by blast
qed

lemma safe_keeping_master [step_intros]:
  assumes "dissector_step m f m f'" "p \<noteq> NDPI_PROTOCOL_UNKNOWN" "id_from f' p"
  shows "safe_step m f (ndpi_set_detected_protocol_keeping_master m f' p c)"
  unfolding ndpi_set_detected_protocol_keeping_master_def Let_def
  using safe_set_detected [OF assms(1)] assms(2,3) by simp

lemma safe_exclude [step_intros]:
  assumes "dissector_step m f m f'" "nd_current_dissector_idx m < NDPI_MAX_NUM_DISSECTORS"
  shows "safe_step m f (NDPI_EXCLUDE_DISSECTOR m f')"
proof (rule safe_from [OF assms(1)])
  let ?b = "fl_excluded_dissectors_bitmask f'"
  note wf = dissector_step_wf [OF assms(1)]
  have "nd_current_dissector_idx m div 32 < length ?b"
    using dissector_fits [OF assms(2)] wf(2) by (simp add: wf_flow_def)
  then obtain b where b: "dissector_bitmask_set ?b (nd_current_dissector_idx m) = Some b"
    using dissector_bitmask_set_total by blast
  then have "dissector_step m f' m (f'\<lparr>fl_excluded_dissectors_bitmask := b\<rparr>)"
    using dissector_bitmask_set_eq [OF b] wf
    by (auto simp: dissector_step_def wf_flow_def engine_view_def class_view_def)
  then show "safe_step m f' (NDPI_EXCLUDE_DISSECTOR m f')"
    using b by (simp add: safe_step_def NDPI_EXCLUDE_DISSECTOR_def exclude_dissector_def)
qed

lemma safe_if [step_intros]:
  "(c \<Longrightarrow> safe_step m f a) \<Longrightarrow> (\<not> c \<Longrightarrow> safe_step m f b) \<Longrightarrow> safe_step m f (if c then a else b)"
  by simp

lemma safe_ifc [step_intros]:
  "c \<noteq> None \<Longrightarrow> (c = Some True \<Longrightarrow> safe_step m f a) \<Longrightarrow> (c = Some False \<Longrightarrow> safe_step m f b) \<Longrightarrow>
     safe_step m f (ifc c a b)"
  by (cases c) auto

lemma safe_seq [step_intros]:
  assumes "safe_step m f r"
    "\<And>m' f'. wf_module m' \<Longrightarrow> wf_flow f' \<Longrightarrow> nd_current_dissector_idx m' = nd_current_dissector_idx m \<Longrightarrow>
       nd_packet m' = nd_packet m \<Longrightarrow> engine_view f' = engine_view f \<Longrightarrow> safe_step m' f' (k m' f')"
  shows "safe_step m f (seq_step r k)"
proof -
  obtain m' f' where r: "r = Some (m', f')" "dissector_step m f m' f'"
    using assms(1) unfolding safe_step_def by blast
  have "safe_step m' f' (k m' f')"
    using r(2) module_frame_fields [of m m'] by (intro assms(2)) (auto simp: dissector_step_def)
  then show ?thesis using r safe_from by (simp add: seq_step_def)
qed

lemma safe_bind_val [step_intros]:
  "r \<noteq> None \<Longrightarrow> (\<And>v. r = Some v \<Longrightarrow> safe_step m f (k v)) \<Longrightarrow> safe_step m f (r \<bind> k)"
  by (cases r) auto

text \<open>Fields of the flow that belong to the dissectors.\<close>

lemma step_private [step_intros]:
  assumes "dissector_step m f m g"
  shows "dissector_step m f m (g\<lparr>fl_tcp := t\<rparr>)" "dissector_step m f m (g\<lparr>fl_udp := u\<rparr>)"
    "dissector_step m f m (g\<lparr>fl_host_server_name := n\<rparr>)" "dissector_step m f m (g\<lparr>fl_extra_packets_func := e\<rparr>)"
    "dissector_step m f m (g\<lparr>fl_http_method := h\<rparr>)" "dissector_step m f m (g\<lparr>fl_teamviewer_stage := s\<rparr>)"
    "dissector_step m f m (g\<lparr>fl_ookla_stage := o'\<rparr>)"
    "q < num_protocol_ids \<Longrightarrow> dissector_step m f m (g\<lparr>fl_fast_callback_protocol_id := q\<rparr>)"
  by (rule dissector_step_trans [OF assms], use dissector_step_wf [OF assms] in
      \<open>simp add: dissector_step_def wf_flow_def engine_view_def class_view_def\<close>)+

lemmas step_refl [step_intros] = dissector_step_refl

lemma step_rsk:
  "wf_module m \<Longrightarrow> wf_flow f \<Longrightarrow> length (fr_risk_infos k) \<le> MAX_NUM_RISK_INFOS \<Longrightarrow>
     dissector_step m f m (f\<lparr>fl_rsk := k\<rparr>)"
  by (simp add: dissector_step_def wf_flow_def engine_view_def class_view_def)

lemma step_set_risk:
  assumes "wf_module m" "wf_flow f"
  shows "\<exists>f'. ndpi_set_risk a m f r msg = Some f' \<and> dissector_step m f m f'"
proof -
  from assms have "cfg_wf m" "length (fr_risk_infos (fl_rsk f)) \<le> MAX_NUM_RISK_INFOS"
    by (simp_all add: wf_module_def wf_flow_def)
  with set_risk_rsk [of m a f r msg] obtain k
    where "ndpi_set_risk a m f r msg = Some (f\<lparr>fl_rsk := k\<rparr>)" "length (fr_risk_infos k) \<le> MAX_NUM_RISK_INFOS"
    by blast
  then show ?thesis using step_rsk [OF assms] by blast
qed

text \<open>A risk raised by a dissector, and the rest of its work.\<close>

definition with_risk :: "ndpi_module \<Rightarrow> ndpi_flow \<Rightarrow> nat \<Rightarrow> bytes option \<Rightarrow>
    (ndpi_flow \<Rightarrow> (ndpi_module \<times> ndpi_flow) option) \<Rightarrow> (ndpi_module \<times> ndpi_flow) option" where
  "with_risk m f r msg k = do { f \<leftarrow> ndpi_set_risk (nd_strdup_ok m) m f r msg; k f }"

lemma safe_with_risk [step_intros]:
  assumes "dissector_step m f m g" "\<And>f'. dissector_step m f m f' \<Longrightarrow> safe_step m f (k f')"
  shows "safe_step m f (with_risk m g r msg k)"
proof -
  obtain f' where f': "ndpi_set_risk (nd_strdup_ok m) m g r msg = Some f'" "dissector_step m g m f'"
    using step_set_risk [OF dissector_step_wf [OF assms(1)]] by blast
  then have "safe_step m f (k f')" using assms(2) dissector_step_trans [OF assms(1)] by blast
  then show ?thesis using f'(1) by (simp add: with_risk_def)
qed

section \<open>Properties\<close>

definition reconciled_protocols :: "nat set" where
  "reconciled_protocols = {NDPI_PROTOCOL_MICROSOFT_AZURE, NDPI_PROTOCOL_MSTEAMS, NDPI_PROTOCOL_STUN,
     NDPI_PROTOCOL_TLS, NDPI_PROTOCOL_MSTEAMS_CALL, NDPI_PROTOCOL_MICROSOFT}"

lemma set_risk_ex: "cfg_wf m \<Longrightarrow> \<exists>k. ndpi_set_risk a m f r msg = Some (f\<lparr>fl_rsk := k\<rparr>)"
  using set_risk_rsk by blast

lemma reconcile_plain:
  assumes "wf_module m" "wf_flow f" "fl_detected_protocol_stack0 f \<notin> reconciled_protocols"
  shows "\<exists>k. ndpi_reconcile_protocols m f = Some (m, f\<lparr>fl_rsk := k\<rparr>)"
proof -
  have cfg: "cfg_wf m" using assms(1) by (simp add: wf_module_def)
  have same: "\<exists>k. Some f = Some (f\<lparr>fl_rsk := k\<rparr>)" for f :: ndpi_flow
    by (rule exI [of _ "fl_rsk f"]) simp
  obtain k where "ndpi_handle_risk_exceptions m f = f\<lparr>fl_rsk := k\<rparr>" using exceptions_rsk by blast
  then have "\<exists>k1. reconcile_risk m f = f\<lparr>fl_rsk := k1\<rparr>"
    using same [of f] by (simp add: reconcile_risk_def Let_def) blast
  then obtain k1 where 1: "reconcile_risk m f = f\<lparr>fl_rsk := k1\<rparr>" by blast
  let ?f = "f\<lparr>fl_rsk := k1\<rparr>"
  have 2: "(if fl_confidence ?f \<noteq> NDPI_CONFIDENCE_MATCH_BY_PORT \<and>
      fl_confidence ?f \<noteq> NDPI_CONFIDENCE_MATCH_BY_IP then reconcile_subprotocol m ?f else Some (m, ?f)) = Some (m, ?f)"
    using assms(3) by (simp add: reconcile_subprotocol_def reconciled_protocols_def)
  have "\<exists>k. ndpi_set_risk a m ?f r msg = Some (f\<lparr>fl_rsk := k\<rparr>)" for a r msg
    using set_risk_ex [OF cfg, of a ?f r msg] by simp
  then have "\<exists>k. reconcile_desktop m ?f = Some (f\<lparr>fl_rsk := k\<rparr>)"
    unfolding reconcile_desktop_def using same [of ?f] by (simp split: if_split)
  then obtain k2 where 3: "reconcile_desktop m ?f = Some (f\<lparr>fl_rsk := k2\<rparr>)" by auto
  have unsafe: "\<exists>k c. reconcile_unsafe m proto (g, b) = Some (g\<lparr>fl_rsk := k\<rparr>, c)" for proto g b
  proof -
    obtain breed where breed: "ndpi_get_proto_breed m proto = Some breed"
      using proto_breed_total [OF assms(1)] by blast
    have c: "all_of [Some (proto = NDPI_PROTOCOL_SMBV1), Some (length (pk_payload (nd_packet m)) > 86),
      byte_is (pk_payload (nd_packet m)) 86 0x25] \<noteq> None"
      by (auto simp: sc_simps simp del: all_of.simps(2))
    then obtain t where t: "all_of [Some (proto = NDPI_PROTOCOL_SMBV1), Some (length (pk_payload (nd_packet m)) > 86),
      byte_is (pk_payload (nd_packet m)) 86 0x25] = Some t" by blast
    obtain k where k: "ndpi_set_risk (nd_strdup_ok m) m g NDPI_UNSAFE_PROTOCOL None = Some (g\<lparr>fl_rsk := k\<rparr>)"
      using set_risk_ex [OF cfg] by blast
    show ?thesis unfolding reconcile_unsafe_def Let_def split_conv breed Option.bind.simps t k
      using same [of g] by auto
  qed
  obtain k3 b where 4: "reconcile_unsafe m (fl_detected_protocol_stack0 (f\<lparr>fl_rsk := k2\<rparr>)) (f\<lparr>fl_rsk := k2\<rparr>, False)
      = Some (f\<lparr>fl_rsk := k3\<rparr>, b)"
    using unsafe [of _ "f\<lparr>fl_rsk := k2\<rparr>" False] by fastforce
  obtain k4 c where 5: "reconcile_unsafe m (fl_detected_protocol_stack1 (f\<lparr>fl_rsk := k3\<rparr>)) (f\<lparr>fl_rsk := k3\<rparr>, b)
      = Some (f\<lparr>fl_rsk := k4\<rparr>, c)"
    using unsafe [of _ "f\<lparr>fl_rsk := k3\<rparr>" b] by fastforce
  show ?thesis unfolding ndpi_reconcile_protocols_def Let_def 1 2 Option.bind.simps split_conv 3 4 5 by blast
qed


definition small_module :: ndpi_module where
  "small_module = empty_module\<lparr>nd_proto_defaults := replicate num_protocol_ids empty_proto,
     nd_num_internal_protocols := num_protocol_ids, nd_num_supported_protocols := num_protocol_ids\<rparr>"

lemma small_module_wf: "wf_module small_module"
  by (simp add: small_module_def empty_module_def wf_module_def cfg_wf_def cache_ok_def bitmask_wf_def
      empty_bitmask_def howmanybits_def wf_packet_def empty_packet_def line_ok_def empty_line_def)

lemma empty_flow_wf: "wf_flow empty_flow"
  by (simp add: wf_flow_def empty_flow_def empty_flow_risk_def class_wf_def stack_wf_def
      NDPI_PROTOCOL_STACK_SIZE_def)


end
