(* ===== verification/Dissector_Interface.thy ===== *)
theory Dissector_Interface
  imports Classification
begin

text \<open>
  The interface between the engine and a protocol dissector: the selection bits a packet
  satisfies, the registration a dissector makes (\<open>init_x_dissector\<close> calls
  \<open>ndpi_register_dissector\<close> with a name, a function, selection bits and protocol numbers),
  and the contract of the registered function as a locale. A dissector is run only on
  packets that satisfy its selection bits, so it may dereference the headers they name.
\<close>

section \<open>Selection bits\<close>

definition NDPI_SELECTION_BITMASK_PROTOCOL_IP :: u32 where
  "NDPI_SELECTION_BITMASK_PROTOCOL_IP = 0x001"
definition NDPI_SELECTION_BITMASK_PROTOCOL_INT_TCP :: u32 where
  "NDPI_SELECTION_BITMASK_PROTOCOL_INT_TCP = 0x002"
definition NDPI_SELECTION_BITMASK_PROTOCOL_INT_UDP :: u32 where
  "NDPI_SELECTION_BITMASK_PROTOCOL_INT_UDP = 0x004"
definition NDPI_SELECTION_BITMASK_PROTOCOL_INT_TCP_OR_UDP :: u32 where
  "NDPI_SELECTION_BITMASK_PROTOCOL_INT_TCP_OR_UDP = 0x008"
definition NDPI_SELECTION_BITMASK_PROTOCOL_HAS_PAYLOAD :: u32 where
  "NDPI_SELECTION_BITMASK_PROTOCOL_HAS_PAYLOAD = 0x010"
definition NDPI_SELECTION_BITMASK_PROTOCOL_NO_TCP_RETRANSMISSION :: u32 where
  "NDPI_SELECTION_BITMASK_PROTOCOL_NO_TCP_RETRANSMISSION = 0x020"
definition NDPI_SELECTION_BITMASK_PROTOCOL_IPV6 :: u32 where
  "NDPI_SELECTION_BITMASK_PROTOCOL_IPV6 = 0x040"
definition NDPI_SELECTION_BITMASK_PROTOCOL_IPV4_OR_IPV6 :: u32 where
  "NDPI_SELECTION_BITMASK_PROTOCOL_IPV4_OR_IPV6 = 0x080"
definition NDPI_SELECTION_BITMASK_PROTOCOL_COMPLETE_TRAFFIC :: u32 where
  "NDPI_SELECTION_BITMASK_PROTOCOL_COMPLETE_TRAFFIC = 0x100"

lemmas selection_bits =
  NDPI_SELECTION_BITMASK_PROTOCOL_IP_def NDPI_SELECTION_BITMASK_PROTOCOL_INT_TCP_def
  NDPI_SELECTION_BITMASK_PROTOCOL_INT_UDP_def NDPI_SELECTION_BITMASK_PROTOCOL_INT_TCP_OR_UDP_def
  NDPI_SELECTION_BITMASK_PROTOCOL_HAS_PAYLOAD_def NDPI_SELECTION_BITMASK_PROTOCOL_NO_TCP_RETRANSMISSION_def
  NDPI_SELECTION_BITMASK_PROTOCOL_IPV6_def NDPI_SELECTION_BITMASK_PROTOCOL_IPV4_OR_IPV6_def
  NDPI_SELECTION_BITMASK_PROTOCOL_COMPLETE_TRAFFIC_def

definition NDPI_SELECTION_BITMASK_PROTOCOL_UDP_WITH_PAYLOAD :: u32 where
  "NDPI_SELECTION_BITMASK_PROTOCOL_UDP_WITH_PAYLOAD =
     NDPI_SELECTION_BITMASK_PROTOCOL_IP OR NDPI_SELECTION_BITMASK_PROTOCOL_INT_UDP OR
     NDPI_SELECTION_BITMASK_PROTOCOL_HAS_PAYLOAD"
definition NDPI_SELECTION_BITMASK_PROTOCOL_V4_V6_UDP_WITH_PAYLOAD :: u32 where
  "NDPI_SELECTION_BITMASK_PROTOCOL_V4_V6_UDP_WITH_PAYLOAD =
     NDPI_SELECTION_BITMASK_PROTOCOL_IPV4_OR_IPV6 OR NDPI_SELECTION_BITMASK_PROTOCOL_INT_UDP OR
     NDPI_SELECTION_BITMASK_PROTOCOL_HAS_PAYLOAD"
definition NDPI_SELECTION_BITMASK_PROTOCOL_TCP_WITH_PAYLOAD_WITHOUT_RETRANSMISSION :: u32 where
  "NDPI_SELECTION_BITMASK_PROTOCOL_TCP_WITH_PAYLOAD_WITHOUT_RETRANSMISSION =
     NDPI_SELECTION_BITMASK_PROTOCOL_IP OR NDPI_SELECTION_BITMASK_PROTOCOL_INT_TCP OR
     NDPI_SELECTION_BITMASK_PROTOCOL_NO_TCP_RETRANSMISSION OR NDPI_SELECTION_BITMASK_PROTOCOL_HAS_PAYLOAD"
definition NDPI_SELECTION_BITMASK_PROTOCOL_V4_V6_TCP_WITH_PAYLOAD_WITHOUT_RETRANSMISSION :: u32 where
  "NDPI_SELECTION_BITMASK_PROTOCOL_V4_V6_TCP_WITH_PAYLOAD_WITHOUT_RETRANSMISSION =
     NDPI_SELECTION_BITMASK_PROTOCOL_IPV4_OR_IPV6 OR NDPI_SELECTION_BITMASK_PROTOCOL_INT_TCP OR
     NDPI_SELECTION_BITMASK_PROTOCOL_NO_TCP_RETRANSMISSION OR NDPI_SELECTION_BITMASK_PROTOCOL_HAS_PAYLOAD"
definition NDPI_SELECTION_BITMASK_PROTOCOL_TCP_OR_UDP_WITH_PAYLOAD_WITHOUT_RETRANSMISSION :: u32 where
  "NDPI_SELECTION_BITMASK_PROTOCOL_TCP_OR_UDP_WITH_PAYLOAD_WITHOUT_RETRANSMISSION =
     NDPI_SELECTION_BITMASK_PROTOCOL_IP OR NDPI_SELECTION_BITMASK_PROTOCOL_INT_TCP_OR_UDP OR
     NDPI_SELECTION_BITMASK_PROTOCOL_NO_TCP_RETRANSMISSION OR NDPI_SELECTION_BITMASK_PROTOCOL_HAS_PAYLOAD"
definition NDPI_SELECTION_BITMASK_PROTOCOL_V6_UDP_WITH_PAYLOAD :: u32 where
  "NDPI_SELECTION_BITMASK_PROTOCOL_V6_UDP_WITH_PAYLOAD =
     NDPI_SELECTION_BITMASK_PROTOCOL_IPV6 OR NDPI_SELECTION_BITMASK_PROTOCOL_INT_UDP OR
     NDPI_SELECTION_BITMASK_PROTOCOL_HAS_PAYLOAD"
definition NDPI_SELECTION_BITMASK_PROTOCOL_V4_V6_TCP_OR_UDP_WITH_PAYLOAD_WITHOUT_RETRANSMISSION :: u32 where
  "NDPI_SELECTION_BITMASK_PROTOCOL_V4_V6_TCP_OR_UDP_WITH_PAYLOAD_WITHOUT_RETRANSMISSION =
     NDPI_SELECTION_BITMASK_PROTOCOL_IPV4_OR_IPV6 OR NDPI_SELECTION_BITMASK_PROTOCOL_INT_TCP_OR_UDP OR
     NDPI_SELECTION_BITMASK_PROTOCOL_NO_TCP_RETRANSMISSION OR NDPI_SELECTION_BITMASK_PROTOCOL_HAS_PAYLOAD"

text \<open>The bits of the current packet, as \<open>ndpi_internal_detection_process_packet\<close> builds them.\<close>

definition selection_packet :: "ndpi_packet \<Rightarrow> u32" where
  "selection_packet packet =
     (let sel = NDPI_SELECTION_BITMASK_PROTOCOL_COMPLETE_TRAFFIC;
          sel = (if pk_iph packet \<noteq> None
                 then sel OR (NDPI_SELECTION_BITMASK_PROTOCOL_IP OR NDPI_SELECTION_BITMASK_PROTOCOL_IPV4_OR_IPV6)
                 else sel);
          sel = (if pk_tcp packet \<noteq> None
                 then sel OR (NDPI_SELECTION_BITMASK_PROTOCOL_INT_TCP OR NDPI_SELECTION_BITMASK_PROTOCOL_INT_TCP_OR_UDP)
                 else sel);
          sel = (if pk_udp packet \<noteq> None
                 then sel OR (NDPI_SELECTION_BITMASK_PROTOCOL_INT_UDP OR NDPI_SELECTION_BITMASK_PROTOCOL_INT_TCP_OR_UDP)
                 else sel);
          sel = (if length (pk_payload packet) \<noteq> 0 then sel OR NDPI_SELECTION_BITMASK_PROTOCOL_HAS_PAYLOAD else sel);
          sel = (if \<not> pk_tcp_retransmission packet
                 then sel OR NDPI_SELECTION_BITMASK_PROTOCOL_NO_TCP_RETRANSMISSION else sel)
      in if pk_iphv6 packet \<noteq> None
         then sel OR (NDPI_SELECTION_BITMASK_PROTOCOL_IPV6 OR NDPI_SELECTION_BITMASK_PROTOCOL_IPV4_OR_IPV6)
         else sel)"

definition selected :: "u32 \<Rightarrow> ndpi_packet \<Rightarrow> bool" where
  "selected bits packet \<longleftrightarrow> bits AND selection_packet packet = bits"

named_theorems selected_simps \<open>what the selection bits of a dissector say about the packet\<close>

lemma selected_udp [selected_simps]:
  "selected NDPI_SELECTION_BITMASK_PROTOCOL_UDP_WITH_PAYLOAD p \<longleftrightarrow>
     pk_iph p \<noteq> None \<and> pk_udp p \<noteq> None \<and> pk_payload p \<noteq> []"
  unfolding selected_def selection_packet_def Let_def NDPI_SELECTION_BITMASK_PROTOCOL_UDP_WITH_PAYLOAD_def
    selection_bits by simp

lemma selected_v4_v6_udp [selected_simps]:
  "selected NDPI_SELECTION_BITMASK_PROTOCOL_V4_V6_UDP_WITH_PAYLOAD p \<longleftrightarrow>
     (pk_iph p \<noteq> None \<or> pk_iphv6 p \<noteq> None) \<and> pk_udp p \<noteq> None \<and> pk_payload p \<noteq> []"
  unfolding selected_def selection_packet_def Let_def NDPI_SELECTION_BITMASK_PROTOCOL_V4_V6_UDP_WITH_PAYLOAD_def
    selection_bits by simp

lemma selected_tcp [selected_simps]:
  "selected NDPI_SELECTION_BITMASK_PROTOCOL_TCP_WITH_PAYLOAD_WITHOUT_RETRANSMISSION p \<longleftrightarrow>
     pk_iph p \<noteq> None \<and> pk_tcp p \<noteq> None \<and> pk_payload p \<noteq> [] \<and> \<not> pk_tcp_retransmission p"
  unfolding selected_def selection_packet_def Let_def selection_bits
    NDPI_SELECTION_BITMASK_PROTOCOL_TCP_WITH_PAYLOAD_WITHOUT_RETRANSMISSION_def by simp

lemma selected_v4_v6_tcp [selected_simps]:
  "selected NDPI_SELECTION_BITMASK_PROTOCOL_V4_V6_TCP_WITH_PAYLOAD_WITHOUT_RETRANSMISSION p \<longleftrightarrow>
     (pk_iph p \<noteq> None \<or> pk_iphv6 p \<noteq> None) \<and> pk_tcp p \<noteq> None \<and> pk_payload p \<noteq> [] \<and>
     \<not> pk_tcp_retransmission p"
  unfolding selected_def selection_packet_def Let_def selection_bits
    NDPI_SELECTION_BITMASK_PROTOCOL_V4_V6_TCP_WITH_PAYLOAD_WITHOUT_RETRANSMISSION_def by simp

lemma selected_tcp_or_udp [selected_simps]:
  "selected NDPI_SELECTION_BITMASK_PROTOCOL_TCP_OR_UDP_WITH_PAYLOAD_WITHOUT_RETRANSMISSION p \<longleftrightarrow>
     pk_iph p \<noteq> None \<and> (pk_tcp p \<noteq> None \<or> pk_udp p \<noteq> None) \<and> pk_payload p \<noteq> [] \<and>
     \<not> pk_tcp_retransmission p"
  unfolding selected_def selection_packet_def Let_def selection_bits
    NDPI_SELECTION_BITMASK_PROTOCOL_TCP_OR_UDP_WITH_PAYLOAD_WITHOUT_RETRANSMISSION_def by simp

lemma selected_v6_udp [selected_simps]:
  "selected NDPI_SELECTION_BITMASK_PROTOCOL_V6_UDP_WITH_PAYLOAD p \<longleftrightarrow>
     pk_iphv6 p \<noteq> None \<and> pk_udp p \<noteq> None \<and> pk_payload p \<noteq> []"
  unfolding selected_def selection_packet_def Let_def NDPI_SELECTION_BITMASK_PROTOCOL_V6_UDP_WITH_PAYLOAD_def
    selection_bits by simp

lemma selected_v4_v6_tcp_or_udp [selected_simps]:
  "selected NDPI_SELECTION_BITMASK_PROTOCOL_V4_V6_TCP_OR_UDP_WITH_PAYLOAD_WITHOUT_RETRANSMISSION p \<longleftrightarrow>
     (pk_iph p \<noteq> None \<or> pk_iphv6 p \<noteq> None) \<and> (pk_tcp p \<noteq> None \<or> pk_udp p \<noteq> None) \<and> pk_payload p \<noteq> [] \<and>
     \<not> pk_tcp_retransmission p"
  unfolding selected_def selection_packet_def Let_def selection_bits
    NDPI_SELECTION_BITMASK_PROTOCOL_V4_V6_TCP_OR_UDP_WITH_PAYLOAD_WITHOUT_RETRANSMISSION_def by simp

section \<open>Registration and contract\<close>

type_synonym dissector_fun = "ndpi_module \<Rightarrow> ndpi_flow \<Rightarrow> (ndpi_module \<times> ndpi_flow) option"

text \<open>The arguments of the call of \<open>ndpi_register_dissector\<close> an \<open>init\<close> function makes.\<close>

record dissector_entry =
  de_name :: string
  de_func :: dissector_fun
  de_selection :: u32
  de_protocols :: "nat list"

definition entry_ok :: "dissector_entry \<Rightarrow> bool" where
  "entry_ok e \<longleftrightarrow>
     (\<forall>m f. wf_module m \<longrightarrow> wf_flow f \<longrightarrow> nd_current_dissector_idx m < NDPI_MAX_NUM_DISSECTORS \<longrightarrow>
        selected (de_selection e) (nd_packet m) \<longrightarrow> safe_step m f (de_func e m f))"

named_theorems dissector_defs \<open>definitions of dissectors and of their registrations\<close>

lemma entry_okI:
  "(\<And>m f. wf_module m \<Longrightarrow> wf_flow f \<Longrightarrow> nd_current_dissector_idx m < NDPI_MAX_NUM_DISSECTORS \<Longrightarrow>
      selected (de_selection e) (nd_packet m) \<Longrightarrow> safe_step m f (de_func e m f)) \<Longrightarrow> entry_ok e"
  by (simp add: entry_ok_def)

text \<open>Short names for what nearly every dissector does: read the payload, report a protocol with
  no master by deep packet inspection (the \<open>ndpi_int_x_add_connection\<close> functions).\<close>

abbreviation (input) payload :: "ndpi_module \<Rightarrow> bytes" where
  "payload m \<equiv> pk_payload (nd_packet m)"

abbreviation (input) detected :: "ndpi_module \<Rightarrow> ndpi_flow \<Rightarrow> nat \<Rightarrow> (ndpi_module \<times> ndpi_flow) option" where
  "detected m f proto \<equiv> ndpi_set_detected_protocol m f proto NDPI_PROTOCOL_UNKNOWN NDPI_CONFIDENCE_DPI"

text \<open>The members of \<open>ndpi_http_method\<close> that dissectors test.\<close>

abbreviation (input) NDPI_HTTP_METHOD_GET :: nat where "NDPI_HTTP_METHOD_GET \<equiv> 2"
abbreviation (input) NDPI_HTTP_METHOD_POST :: nat where "NDPI_HTTP_METHOD_POST \<equiv> 5"

text \<open>Addresses outside the private, loopback and multicast networks.\<close>

definition ndpi_is_public_ipv4 :: "u32 \<Rightarrow> bool" where
  "ndpi_is_public_ipv4 a \<longleftrightarrow>
     \<not> (a AND 0xFF000000 = 0x0A000000 \<or> a AND 0xFFF00000 = 0xAC100000 \<or> a AND 0xFFFF0000 = 0xC0A80000 \<or>
        a AND 0xFF000000 = 0x7F000000 \<or> a AND 0xF0000000 = 0xE0000000)"

text \<open>Conditions on values read through pointers.\<close>

definition is_val :: "'a option \<Rightarrow> 'a \<Rightarrow> bool option" where
  "is_val r v = map_option (\<lambda>x. x = v) r"

definition sat :: "'a option \<Rightarrow> ('a \<Rightarrow> bool) \<Rightarrow> bool option" where
  "sat r P = map_option P r"

text \<open>\<open>LINE_STARTS\<close> and \<open>LINE_ENDS\<close> on a parsed line; a line with no pointer has length 0.\<close>

definition LINE_STARTS :: "bytes \<Rightarrow> ndpi_int_one_line \<Rightarrow> bytes \<Rightarrow> bool option" where
  "LINE_STARTS p l s =
     (case ol_ptr l of None \<Rightarrow> Some False
      | Some o' \<Rightarrow> if ol_len l \<ge> length s then strncase_eq p o' s else Some False)"

definition LINE_ENDS :: "bytes \<Rightarrow> ndpi_int_one_line \<Rightarrow> bytes \<Rightarrow> bool option" where
  "LINE_ENDS p l s =
     (if ol_len l \<ge> length s
      then case ol_ptr l of None \<Rightarrow> None | Some o' \<Rightarrow> strncase_eq p (o' + (ol_len l - length s)) s
      else Some False)"

definition rdle64 :: "bytes \<Rightarrow> nat \<Rightarrow> nat option" where
  "rdle64 p i = do { lo \<leftarrow> rdle32 p i; hi \<leftarrow> rdle32 p (i + 4); Some (lo + 4294967296 * hi) }"

definition rd64 :: "bytes \<Rightarrow> nat \<Rightarrow> nat option" where
  "rd64 p i = do { hi \<leftarrow> rd32 p i; lo \<leftarrow> rd32 p (i + 4); Some (4294967296 * hi + lo) }"

lemma rd64_None [simp]: "rd64 p i = None \<longleftrightarrow> length p \<le> i + 7"
  by (auto simp: rd64_def bind_eq_None_conv)

lemma rdle64_None [simp]: "rdle64 p i = None \<longleftrightarrow> length p \<le> i + 7"
  by (auto simp: rdle64_def bind_eq_None_conv)

lemma LINE_STARTS_None [simp]: "line_ok p l \<Longrightarrow> LINE_STARTS p l s \<noteq> None"
  by (auto simp: LINE_STARTS_def line_ok_def rd_simps split: option.split)

lemma LINE_ENDS_None [simp]: "line_ok p l \<Longrightarrow> ol_ptr l \<noteq> None \<Longrightarrow> LINE_ENDS p l s \<noteq> None"
  by (auto simp: LINE_ENDS_def line_ok_def rd_simps split: option.split)

lemma wf_module_lines [simp]:
  "wf_module m \<Longrightarrow> line_ok (pk_payload (nd_packet m)) (pk_content_line (nd_packet m))"
  "wf_module m \<Longrightarrow> line_ok (pk_payload (nd_packet m)) (pk_http_url_name (nd_packet m))"
  "wf_module m \<Longrightarrow> line_ok (pk_payload (nd_packet m)) (pk_user_agent_line (nd_packet m))"
  by (simp_all add: wf_module_def wf_packet_def)

text \<open>Equality of two values that are both read through pointers, and the words of an IPv6 address.\<close>

definition eq_vals :: "'a option \<Rightarrow> 'a option \<Rightarrow> bool option" where
  "eq_vals a b = do { x \<leftarrow> a; y \<leftarrow> b; Some (x = y) }"

lemma eq_vals_None [simp]: "eq_vals a b = None \<longleftrightarrow> a = None \<or> b = None"
  by (cases a; cases b) (simp_all add: eq_vals_def)

definition iph6_dst32 :: "ndpi_packet \<Rightarrow> nat \<Rightarrow> nat option" where
  "iph6_dst32 packet i = do { h \<leftarrow> pk_iphv6 packet; rd32 (ip6_dst h) (4 * i) }"

lemma iph6_dst32_None [simp]:
  "wf_module m \<Longrightarrow> i < 4 \<Longrightarrow> iph6_dst32 (nd_packet m) i = None \<longleftrightarrow> pk_iphv6 (nd_packet m) = None"
proof (cases "pk_iphv6 (nd_packet m)")
  case (Some h)
  assume "wf_module m" "i < 4"
  with Some have "length (ip6_dst h) = 16" unfolding wf_module_def wf_packet_def by simp
  with \<open>i < 4\<close> Some show ?thesis by (simp add: iph6_dst32_def)
qed (simp add: iph6_dst32_def)

lemma chunk_inside [simp]: "i < n div k \<Longrightarrow> \<not> (n :: nat) \<le> k * i"
proof -
  assume "i < n div k"
  moreover from this have "0 < k" by (cases "k = 0") auto
  ultimately have "k * i < k * (n div k)" by simp
  also have "\<dots> \<le> n" by (rule times_div_less_eq_dividend)
  finally show ?thesis by simp
qed

lemma all_of_total: "(\<And>c. c \<in> set cs \<Longrightarrow> c \<noteq> None) \<Longrightarrow> all_of cs \<noteq> None"
proof (induction cs)
  case (Cons c cs)
  then obtain b where "c = Some b" by force
  with Cons show ?case by auto
qed simp

lemma all_of_map_None [step_intros]: "(\<And>x. x \<in> set xs \<Longrightarrow> g x \<noteq> None) \<Longrightarrow> all_of (map g xs) \<noteq> None"
  by (rule all_of_total) auto

text \<open>\<open>ndpi_memmem(p, len, s, n) != NULL\<close>.\<close>

definition memmem_found :: "bytes \<Rightarrow> bytes \<Rightarrow> bool option" where
  "memmem_found p s = map_option (\<lambda>r. r \<noteq> None) (ndpi_memmem p s)"

lemma memmem_found_None [simp]: "memmem_found p s \<noteq> None"
  by (simp add: memmem_found_def memmem_eq)

text \<open>\<open>ndpi_strnstr(p, s, n) != NULL\<close>.\<close>

definition strnstr_found :: "bytes \<Rightarrow> bytes \<Rightarrow> nat \<Rightarrow> bool option" where
  "strnstr_found p s n = map_option (\<lambda>r. r \<noteq> None) (ndpi_strnstr p s n)"

lemma strnlen_inside: "n \<le> length p \<Longrightarrow> strnlen p n = Some (length (takeWhile (\<lambda>b. b \<noteq> 0) (take n p)))"
  by (simp add: strnlen_def Let_def)

lemma strnstr_None [simp]: "n \<le> length p \<Longrightarrow> ndpi_strnstr p s n \<noteq> None"
  by (simp add: ndpi_strnstr_def strnlen_inside memmem_eq)

lemma strnstr_found_None [simp]: "n \<le> length p \<Longrightarrow> strnstr_found p s n \<noteq> None"
  by (simp add: strnstr_found_def)

lemma is_val_simps [simp]:
  "is_val r v = None \<longleftrightarrow> r = None"
  "is_val r v = Some b \<longleftrightarrow> (\<exists>x. r = Some x \<and> (x = v \<longleftrightarrow> b))"
  by (cases r; auto simp: is_val_def)+

lemma sat_simps [simp]:
  "sat r P = None \<longleftrightarrow> r = None"
  "sat r P = Some b \<longleftrightarrow> (\<exists>x. r = Some x \<and> (P x \<longleftrightarrow> b))"
  by (cases r; auto simp: sat_def)+

lemma header_reads [simp]:
  "udp_source p = None \<longleftrightarrow> pk_udp p = None" "udp_dest p = None \<longleftrightarrow> pk_udp p = None"
  "tcp_source p = None \<longleftrightarrow> pk_tcp p = None" "tcp_dest p = None \<longleftrightarrow> pk_tcp p = None"
  "iph_saddr p = None \<longleftrightarrow> pk_iph p = None" "iph_daddr p = None \<longleftrightarrow> pk_iph p = None"
  by (simp_all add: udp_source_def udp_dest_def tcp_source_def tcp_dest_def iph_saddr_def iph_daddr_def)

lemma all_of_Nil_None [simp]: "all_of [] \<noteq> None" "any_of [] \<noteq> None"
  by simp_all

lemmas dissector_conds = all_of_eq_None any_of_eq_None all_of_eq_True any_of_eq_False

declare all_of.simps(2) [simp del] any_of.simps(2) [simp del] not_None_eq [iff del]

end
