(* ===== verification/Dispatch.thy ===== *)
theory Dispatch
  imports Dissector_Interface
begin

text \<open>
  Registration of dissectors and their dispatch on a packet (\<open>src/lib/ndpi_main.c\<close>):
  \<open>ndpi_register_dissector\<close> fills the callback table, \<open>ndpi_enabled_callbacks_init\<close> splits it by
  kind of packet, and \<open>check_ndpi_detection_func\<close> runs the dissectors whose selection bits match.
  A function pointer is the number of a dissector; \<open>call\<close> maps the number to the function. The
  locale \<open>dissector_provider\<close> is the interface the dispatcher relies on: a function that is run
  on a packet its selection bits allow keeps the dissector contract.
\<close>

section \<open>Registration\<close>

definition rd_callback :: "ndpi_module \<Rightarrow> nat \<Rightarrow> call_function option" where
  "rd_callback m i = (if i < length (nd_callback_buffer m) then Some (nd_callback_buffer m ! i) else None)"

text \<open>The loop over the protocol identifiers; \<open>Inl\<close> is the early return after an existing
  callback got a new function.\<close>

fun register_protocols ::
  "ndpi_module \<Rightarrow> nat \<Rightarrow> nat \<Rightarrow> nat option \<Rightarrow> bool \<Rightarrow> nat list \<Rightarrow>
     (ndpi_module + ndpi_module \<times> nat option \<times> bool) option" where
  "register_protocols m idx func first enabled [] = Some (Inr (m, first, enabled))"
| "register_protocols m idx func first enabled (p # ps) = do {
     e \<leftarrow> is_proto_enabled m (int p);
     if \<not> e then register_protocols m idx func first enabled ps
     else do {
       d \<leftarrow> rd_proto m p;
       if pd_dissector_idx d \<noteq> 0
       then do {
         cb \<leftarrow> rd_callback m (pd_dissector_idx d);
         Some (Inl (m\<lparr>nd_callback_buffer := (nd_callback_buffer m)[pd_dissector_idx d := cb\<lparr>cf_func := Some func\<rparr>]\<rparr>))
       }
       else register_protocols
              (m\<lparr>nd_proto_defaults := (nd_proto_defaults m)[p := d\<lparr>pd_dissector_idx := idx\<rparr>]\<rparr>)
              idx func (if first = None then Some p else first) True ps
     }
   }"

definition ndpi_register_dissector ::
  "string \<Rightarrow> ndpi_module \<Rightarrow> nat \<Rightarrow> u32 \<Rightarrow> nat list \<Rightarrow> ndpi_module option" where
  "ndpi_register_dissector name m func bits protos =
     (let idx = nd_callback_buffer_num m
      in if idx \<ge> NDPI_MAX_NUM_DISSECTORS then Some m
         else case register_protocols m idx func None False protos of
                None \<Rightarrow> None
              | Some (Inl m) \<Rightarrow> Some m
              | Some (Inr (m, first, enabled)) \<Rightarrow>
                  if enabled
                  then do {
                    cb \<leftarrow> rd_callback m idx;
                    Some (m\<lparr>nd_callback_buffer := (nd_callback_buffer m)[idx :=
                              \<lparr>cf_name = take 15 (str name), cf_func = Some func, cf_ndpi_selection_bitmask = bits,
                               cf_dissector_idx = idx, cf_first_protocol_id = (case first of None \<Rightarrow> 65535 | Some p \<Rightarrow> p)\<rparr>],
                            nd_callback_buffer_num := idx + 1\<rparr>)
                  }
                  else Some m)"

section \<open>The callbacks per kind of packet\<close>

definition ndpi_proto_cb_tcp_payload :: "call_function \<Rightarrow> bool" where
  "ndpi_proto_cb_tcp_payload cb \<longleftrightarrow>
     cf_ndpi_selection_bitmask cb AND
       (NDPI_SELECTION_BITMASK_PROTOCOL_INT_TCP OR NDPI_SELECTION_BITMASK_PROTOCOL_INT_TCP_OR_UDP OR
        NDPI_SELECTION_BITMASK_PROTOCOL_COMPLETE_TRAFFIC) \<noteq> 0"

definition ndpi_proto_cb_tcp_nopayload :: "call_function \<Rightarrow> bool" where
  "ndpi_proto_cb_tcp_nopayload cb \<longleftrightarrow>
     cf_ndpi_selection_bitmask cb AND
       (NDPI_SELECTION_BITMASK_PROTOCOL_INT_TCP OR NDPI_SELECTION_BITMASK_PROTOCOL_INT_TCP_OR_UDP OR
        NDPI_SELECTION_BITMASK_PROTOCOL_COMPLETE_TRAFFIC) \<noteq> 0 \<and>
     cf_ndpi_selection_bitmask cb AND NDPI_SELECTION_BITMASK_PROTOCOL_HAS_PAYLOAD = 0"

definition ndpi_proto_cb_udp :: "call_function \<Rightarrow> bool" where
  "ndpi_proto_cb_udp cb \<longleftrightarrow>
     cf_ndpi_selection_bitmask cb AND
       (NDPI_SELECTION_BITMASK_PROTOCOL_INT_UDP OR NDPI_SELECTION_BITMASK_PROTOCOL_INT_TCP_OR_UDP OR
        NDPI_SELECTION_BITMASK_PROTOCOL_COMPLETE_TRAFFIC) \<noteq> 0"

definition ndpi_proto_cb_other :: "call_function \<Rightarrow> bool" where
  "ndpi_proto_cb_other cb \<longleftrightarrow>
     cf_ndpi_selection_bitmask cb AND
       (NDPI_SELECTION_BITMASK_PROTOCOL_INT_TCP OR NDPI_SELECTION_BITMASK_PROTOCOL_INT_UDP OR
        NDPI_SELECTION_BITMASK_PROTOCOL_INT_TCP_OR_UDP) = 0 \<or>
     cf_ndpi_selection_bitmask cb AND NDPI_SELECTION_BITMASK_PROTOCOL_COMPLETE_TRAFFIC \<noteq> 0"

text \<open>The counting pass and the filling pass of \<open>ndpi_enabled_callbacks_init\<close> together: each array
  gets as many places as callbacks are copied to it.\<close>

definition ndpi_enabled_callbacks_init :: "ndpi_module \<Rightarrow> ndpi_module option" where
  "ndpi_enabled_callbacks_init m =
     (if nd_callback_buffer_size m \<le> length (nd_callback_buffer m)
      then let cbs = take (nd_callback_buffer_size m) (nd_callback_buffer m)
           in Some (m\<lparr>nd_callback_buffer_tcp_payload := filter ndpi_proto_cb_tcp_payload cbs,
                      nd_callback_buffer_tcp_no_payload := filter ndpi_proto_cb_tcp_nopayload cbs,
                      nd_callback_buffer_udp := filter ndpi_proto_cb_udp cbs,
                      nd_callback_buffer_non_tcp_udp := filter ndpi_proto_cb_other cbs\<rparr>)
      else None)"

definition empty_callback :: call_function where
  "empty_callback = \<lparr>cf_name = [], cf_func = None, cf_ndpi_selection_bitmask = 0, cf_dissector_idx = 0,
     cf_first_protocol_id = 0\<rparr>"

text \<open>
  \<open>dissectors_init\<close>: \<open>regs\<close> are the registrations the calls of the \<open>init_x_dissector\<close> functions
  and of the plugins make, in their order (number and registration); the three flags say whether
  the allocations succeed. The result is the return code and the module. The resized table is
  a copy of one more entry than there are registered dissectors.
\<close>

fun register_all :: "ndpi_module \<Rightarrow> (nat \<times> dissector_entry) list \<Rightarrow> ndpi_module option" where
  "register_all m [] = Some m"
| "register_all m ((func, e) # regs) = do {
     m \<leftarrow> ndpi_register_dissector (de_name e) m func (de_selection e) (de_protocols e);
     register_all m regs
   }"

definition dissectors_init ::
  "bool \<Rightarrow> bool \<Rightarrow> bool \<Rightarrow> ndpi_module \<Rightarrow> (nat \<times> dissector_entry) list \<Rightarrow> (nat \<times> ndpi_module) option" where
  "dissectors_init alloc_buffer alloc_resized alloc_arrays m regs =
     (if \<not> alloc_buffer then Some (1, m\<lparr>nd_callback_buffer := []\<rparr>)
      else do {
        m \<leftarrow> register_all (m\<lparr>nd_callback_buffer := replicate NDPI_MAX_NUM_DISSECTORS empty_callback\<rparr>) regs;
        let m = m\<lparr>nd_callback_buffer_size := nd_callback_buffer_num m\<rparr>;
        m \<leftarrow> (if alloc_resized
              then if nd_callback_buffer_size m + 1 \<le> length (nd_callback_buffer m)
                   then Some (m\<lparr>nd_callback_buffer := take (nd_callback_buffer_size m + 1) (nd_callback_buffer m)\<rparr>)
                   else None
              else Some m);
        if \<not> alloc_arrays then Some (1, m)
        else map_option (\<lambda>m. (0, m)) (ndpi_enabled_callbacks_init m)
      })"

section \<open>Dispatch\<close>

type_synonym dispatch_result = "(ndpi_module \<times> ndpi_flow \<times> nat) option"

text \<open>The test \<open>(bits & ndpi_selection_packet) == bits\<close> and the call through a function pointer.\<close>

definition bits_match :: "u32 \<Rightarrow> u32 \<Rightarrow> bool" where
  "bits_match bits sel \<longleftrightarrow> bits AND sel = bits"

definition run_callback ::
  "(nat \<Rightarrow> dissector_fun) \<Rightarrow> ndpi_module \<Rightarrow> ndpi_flow \<Rightarrow> nat \<Rightarrow> call_function \<Rightarrow> (ndpi_module \<times> ndpi_flow) option" where
  "run_callback call m f dissector_idx cb = do {
     func \<leftarrow> cf_func cb;
     call func (m\<lparr>nd_current_dissector_idx := dissector_idx\<rparr>) f
   }"

fun subprotocol_loop ::
  "(nat \<Rightarrow> dissector_fun) \<Rightarrow> u32 \<Rightarrow> nat list \<Rightarrow> ndpi_module \<Rightarrow> ndpi_flow \<Rightarrow> nat \<Rightarrow> dispatch_result" where
  "subprotocol_loop call sel [] m f num_calls = Some (m, f, num_calls)"
| "subprotocol_loop call sel (q # qs) m f num_calls =
     (if q = 65534 \<or> q = fl_detected_protocol_stack0 f \<or> q = fl_detected_protocol_stack1 f
      then subprotocol_loop call sel qs m f num_calls
      else do {
        d \<leftarrow> rd_proto m q;
        let subproto_index = pd_dissector_idx d;
        ifc (all_of [Some (subproto_index > 0),
               map_option (\<lambda>cb. bits_match (cf_ndpi_selection_bitmask cb) sel) (rd_callback m subproto_index),
               notc (dissector_bitmask_is_set (fl_excluded_dissectors_bitmask f) subproto_index)])
          (do {
             cb \<leftarrow> rd_callback m subproto_index;
             (m, f) \<leftarrow> run_callback call m f subproto_index cb;
             subprotocol_loop call sel qs m f (num_calls + 1)
           })
          (subprotocol_loop call sel qs m f num_calls)
      })"

definition check_ndpi_subprotocols ::
  "(nat \<Rightarrow> dissector_fun) \<Rightarrow> ndpi_module \<Rightarrow> ndpi_flow \<Rightarrow> u32 \<Rightarrow> nat \<Rightarrow> dispatch_result" where
  "check_ndpi_subprotocols call m f sel detected_protocol =
     (if detected_protocol = NDPI_PROTOCOL_UNKNOWN then Some (m, f, 0)
      else do { d \<leftarrow> rd_proto m detected_protocol; subprotocol_loop call sel (pd_subprotocols d) m f 0 })"

text \<open>The scan over the callbacks of one kind of packet; \<open>func\<close> is the function the fast path has
  already run.\<close>

fun detection_loop ::
  "(nat \<Rightarrow> dissector_fun) \<Rightarrow> nat option \<Rightarrow> u32 \<Rightarrow> call_function list \<Rightarrow> ndpi_module \<Rightarrow> ndpi_flow \<Rightarrow> nat \<Rightarrow>
     dispatch_result" where
  "detection_loop call func sel [] m f num_calls = Some (m, f, num_calls)"
| "detection_loop call func sel (cb # cbs) m f num_calls =
     ifc (all_of [Some (func \<noteq> cf_func cb), Some (bits_match (cf_ndpi_selection_bitmask cb) sel),
            notc (dissector_bitmask_is_set (fl_excluded_dissectors_bitmask f) (cf_dissector_idx cb))])
       (do {
          (m, f) \<leftarrow> run_callback call m f (cf_dissector_idx cb) cb;
          if fl_detected_protocol_stack0 f \<noteq> NDPI_PROTOCOL_UNKNOWN then Some (m, f, num_calls + 1)
          else detection_loop call func sel cbs m f (num_calls + 1)
        })
       (detection_loop call func sel cbs m f num_calls)"

text \<open>The fast path: the dissector of the guessed protocol; the result has the function it ran.\<close>

definition fast_path ::
  "(nat \<Rightarrow> dissector_fun) \<Rightarrow> ndpi_module \<Rightarrow> ndpi_flow \<Rightarrow> u32 \<Rightarrow> (ndpi_module \<times> ndpi_flow \<times> nat option) option" where
  "fast_path call m f sel = do {
     let proto = (if fl_fast_callback_protocol_id f \<noteq> 0 then fl_fast_callback_protocol_id f
                  else fl_guessed_protocol_id f);
     d \<leftarrow> rd_proto m proto;
     let dissector_idx = pd_dissector_idx d;
     ifc (all_of [Some (proto \<noteq> NDPI_PROTOCOL_UNKNOWN),
            map_option (\<lambda>cb. cf_func cb \<noteq> None) (rd_callback m dissector_idx),
            notc (dissector_bitmask_is_set (fl_excluded_dissectors_bitmask f) dissector_idx),
            map_option (\<lambda>cb. bits_match (cf_ndpi_selection_bitmask cb) sel) (rd_callback m dissector_idx)])
       (do {
          cb \<leftarrow> rd_callback m dissector_idx;
          (m, f) \<leftarrow> run_callback call m f dissector_idx cb;
          Some (m, f, cf_func cb)
        })
       (Some (m, f, None))
   }"

definition check_ndpi_detection_func ::
  "(nat \<Rightarrow> dissector_fun) \<Rightarrow> ndpi_module \<Rightarrow> ndpi_flow \<Rightarrow> u32 \<Rightarrow> call_function list \<Rightarrow> dispatch_result" where
  "check_ndpi_detection_func call m f sel callback_buffer = do {
     (m, f, func) \<leftarrow> fast_path call m f sel;
     let num_calls = (if func = None then 0 else 1);
     (m, f, num_calls) \<leftarrow> (if fl_detected_protocol_stack0 f = NDPI_PROTOCOL_UNKNOWN
                           then detection_loop call func sel callback_buffer m f num_calls
                           else Some (m, f, num_calls));
     (m, f, n0) \<leftarrow> check_ndpi_subprotocols call m f sel (fl_detected_protocol_stack0 f);
     (m, f, n1) \<leftarrow> check_ndpi_subprotocols call m f sel (fl_detected_protocol_stack1 f);
     Some (m, f, num_calls + n0 + n1)
   }"

definition check_ndpi_other_flow_func ::
  "(nat \<Rightarrow> dissector_fun) \<Rightarrow> ndpi_module \<Rightarrow> ndpi_flow \<Rightarrow> u32 \<Rightarrow> dispatch_result" where
  "check_ndpi_other_flow_func call m f sel = check_ndpi_detection_func call m f sel (nd_callback_buffer_non_tcp_udp m)"

definition check_ndpi_udp_flow_func ::
  "(nat \<Rightarrow> dissector_fun) \<Rightarrow> ndpi_module \<Rightarrow> ndpi_flow \<Rightarrow> u32 \<Rightarrow> dispatch_result" where
  "check_ndpi_udp_flow_func call m f sel = check_ndpi_detection_func call m f sel (nd_callback_buffer_udp m)"

definition check_ndpi_tcp_flow_func ::
  "(nat \<Rightarrow> dissector_fun) \<Rightarrow> ndpi_module \<Rightarrow> ndpi_flow \<Rightarrow> u32 \<Rightarrow> dispatch_result" where
  "check_ndpi_tcp_flow_func call m f sel =
     (if length (pk_payload (nd_packet m)) \<noteq> 0
      then check_ndpi_detection_func call m f sel (nd_callback_buffer_tcp_payload m)
      else check_ndpi_detection_func call m f sel (nd_callback_buffer_tcp_no_payload m))"

definition ndpi_check_flow_func ::
  "(nat \<Rightarrow> dissector_fun) \<Rightarrow> ndpi_module \<Rightarrow> ndpi_flow \<Rightarrow> u32 \<Rightarrow> dispatch_result" where
  "ndpi_check_flow_func call m f sel =
     (if pk_tcp (nd_packet m) \<noteq> None then check_ndpi_tcp_flow_func call m f sel
      else if pk_udp (nd_packet m) \<noteq> None then check_ndpi_udp_flow_func call m f sel
      else check_ndpi_other_flow_func call m f sel)"

section \<open>Consistency of the callback tables\<close>

text \<open>A callback that can be run: a known function, under the selection bits it was written for.
  Dissectors \<open>i < num\<close> are known, with selection bits \<open>sel_of i\<close>.\<close>

definition real_callback :: "(nat \<Rightarrow> u32) \<Rightarrow> nat \<Rightarrow> call_function \<Rightarrow> bool" where
  "real_callback sel_of num cb \<longleftrightarrow> (case cf_func cb of None \<Rightarrow> False
     | Some i \<Rightarrow> i < num \<and> cf_ndpi_selection_bitmask cb = sel_of i) \<and> cf_dissector_idx cb < NDPI_MAX_NUM_DISSECTORS"

definition table_entry_ok :: "(nat \<Rightarrow> u32) \<Rightarrow> nat \<Rightarrow> ndpi_module \<Rightarrow> nat \<Rightarrow> bool" where
  "table_entry_ok sel_of num m k \<longleftrightarrow>
     (let cb = nd_callback_buffer m ! k
      in cf_func cb \<noteq> None \<longrightarrow> real_callback sel_of num cb \<and> cf_dissector_idx cb = k)"

definition protocol_entry_ok :: "ndpi_module \<Rightarrow> ndpi_proto_defaults \<Rightarrow> bool" where
  "protocol_entry_ok m d \<longleftrightarrow> pd_dissector_idx d < length (nd_callback_buffer m) \<and>
     (pd_dissector_idx d > 0 \<longrightarrow> cf_func (nd_callback_buffer m ! pd_dissector_idx d) \<noteq> None) \<and>
     (\<forall>q \<in> set (pd_subprotocols d). q = 65534 \<or> q < length (nd_proto_defaults m))"

definition callback_arrays :: "ndpi_module \<Rightarrow> call_function set" where
  "callback_arrays m = set (nd_callback_buffer_tcp_payload m) \<union> set (nd_callback_buffer_tcp_no_payload m) \<union>
     set (nd_callback_buffer_udp m) \<union> set (nd_callback_buffer_non_tcp_udp m)"

definition callbacks_ok :: "(nat \<Rightarrow> u32) \<Rightarrow> nat \<Rightarrow> ndpi_module \<Rightarrow> bool" where
  "callbacks_ok sel_of num m \<longleftrightarrow>
     length (nd_callback_buffer m) \<le> NDPI_MAX_NUM_DISSECTORS \<and>
     (\<forall>k < length (nd_callback_buffer m). table_entry_ok sel_of num m k) \<and>
     (\<forall>d \<in> set (nd_proto_defaults m). protocol_entry_ok m d) \<and>
     (\<forall>cb \<in> callback_arrays m. real_callback sel_of num cb)"

text \<open>The protocols of a flow that index the protocol table.\<close>

definition flow_ids_ok :: "ndpi_module \<Rightarrow> ndpi_flow \<Rightarrow> bool" where
  "flow_ids_ok m f \<longleftrightarrow> ids_below (nd_num_supported_protocols m) f \<and>
     fl_guessed_protocol_id f < nd_num_supported_protocols m"

text \<open>What a run of any number of dissectors keeps: as a dissector step, but the number of the
  running dissector changes, and any of the dissectors may have excluded itself.\<close>

definition dispatch_step :: "ndpi_module \<Rightarrow> ndpi_flow \<Rightarrow> ndpi_module \<Rightarrow> ndpi_flow \<Rightarrow> bool" where
  "dispatch_step m f m' f' \<longleftrightarrow>
     wf_module m' \<and> wf_flow f' \<and>
     module_frame (m\<lparr>nd_current_dissector_idx := nd_current_dissector_idx m'\<rparr>) m' \<and>
     engine_view f' = engine_view f \<and> ids_kept f f' \<and>
     (\<forall>k. bit_in (fl_excluded_dissectors_bitmask f) k \<longrightarrow> bit_in (fl_excluded_dissectors_bitmask f') k) \<and>
     (class_view f' = class_view f \<or>
      (fl_state f \<noteq> NDPI_STATE_MONITORING \<and> fl_state f' = NDPI_STATE_PARTIAL \<and>
       fl_detected_protocol_stack0 f' \<noteq> NDPI_PROTOCOL_UNKNOWN))"

lemma frame_current: "module_frame (m\<lparr>nd_current_dissector_idx := i\<rparr>) m' \<Longrightarrow> nd_current_dissector_idx m' = i"
  by (cases m; cases m') (simp add: module_frame_def)

lemma frame_current_trans:
  "module_frame (m\<lparr>nd_current_dissector_idx := i\<rparr>) m' \<Longrightarrow> module_frame (m'\<lparr>nd_current_dissector_idx := j\<rparr>) m'' \<Longrightarrow>
     module_frame (m\<lparr>nd_current_dissector_idx := j\<rparr>) m''"
  by (cases m; cases m'; cases m'') (simp add: module_frame_def)

lemma frame_current_fields:
  assumes "module_frame (m\<lparr>nd_current_dissector_idx := i\<rparr>) m'"
  shows "nd_packet m' = nd_packet m" "nd_proto_defaults m' = nd_proto_defaults m"
    "nd_callback_buffer m' = nd_callback_buffer m" "callback_arrays m' = callback_arrays m"
    "nd_num_supported_protocols m' = nd_num_supported_protocols m"
  using assms by (cases m; cases m'; simp add: module_frame_def callback_arrays_def)+

lemma frame_callbacks_ok:
  "module_frame (m\<lparr>nd_current_dissector_idx := i\<rparr>) m' \<Longrightarrow> callbacks_ok s n m' = callbacks_ok s n m"
  using frame_current_fields [where m = m and i = i and m' = m']
  by (simp add: callbacks_ok_def table_entry_ok_def protocol_entry_ok_def)

lemma dispatch_of_step:
  assumes "dissector_step (m\<lparr>nd_current_dissector_idx := i\<rparr>) f m' f'"
  shows "dispatch_step m f m' f'"
  using assms frame_current [where m = m and i = i and m' = m'] unfolding dispatch_step_def dissector_step_def by simp

lemma dispatch_refl: "wf_module m \<Longrightarrow> wf_flow f \<Longrightarrow> dispatch_step m f m f"
  by (simp add: dispatch_step_def)

lemma dispatch_trans:
  assumes 1: "dispatch_step m f m' f'" and 2: "dispatch_step m' f' m'' f''"
  shows "dispatch_step m f m'' f''"
proof -
  let ?to = "\<lambda>f f'. class_view f' = class_view f \<or>
      (fl_state f \<noteq> NDPI_STATE_MONITORING \<and> fl_state f' = NDPI_STATE_PARTIAL \<and>
       fl_detected_protocol_stack0 f' \<noteq> NDPI_PROTOCOL_UNKNOWN)"
  have "?to f f'" "?to f' f''" using 1 2 unfolding dispatch_step_def by blast+
  then have "?to f f''"
    using class_view_state [of f' f] class_view_state [of f'' f'] by auto
  moreover have "module_frame (m\<lparr>nd_current_dissector_idx := nd_current_dissector_idx m''\<rparr>) m''" "ids_kept f f''"
    using 1 2 frame_current_trans ids_kept_trans unfolding dispatch_step_def by blast+
  ultimately show ?thesis
    using 1 2 unfolding dispatch_step_def by simp
qed

lemma dispatch_keeps:
  assumes "dispatch_step m f m' f'"
  shows "wf_module m'" "wf_flow f'" "nd_packet m' = nd_packet m" "rd_proto m' = rd_proto m"
    "rd_callback m' = rd_callback m" "callbacks_ok s n m' = callbacks_ok s n m"
    "flow_ids_ok m f \<Longrightarrow> flow_ids_ok m' f'"
    "fl_detected_protocol_stack0 f \<noteq> NDPI_PROTOCOL_UNKNOWN \<Longrightarrow> fl_detected_protocol_stack0 f' \<noteq> NDPI_PROTOCOL_UNKNOWN"
proof -
  have fr: "module_frame (m\<lparr>nd_current_dissector_idx := nd_current_dissector_idx m'\<rparr>) m'"
    using assms by (simp add: dispatch_step_def)
  note fields = frame_current_fields [OF fr]
  show "wf_module m'" "wf_flow f'" using assms by (simp_all add: dispatch_step_def)
  show "nd_packet m' = nd_packet m" "rd_proto m' = rd_proto m" "rd_callback m' = rd_callback m"
    using fields by (simp_all add: rd_proto_def rd_callback_def fun_eq_iff)
  show "callbacks_ok s n m' = callbacks_ok s n m" by (rule frame_callbacks_ok [OF fr])
  have "num_protocol_ids \<le> nd_num_supported_protocols m"
    using fields(5) assms by (simp add: dispatch_step_def wf_module_def)
  then show "flow_ids_ok m' f'" if "flow_ids_ok m f"
    using assms that fields(5) by (simp add: flow_ids_ok_def dispatch_step_def ids_kept_def engine_view_def)
  show "fl_detected_protocol_stack0 f' \<noteq> NDPI_PROTOCOL_UNKNOWN" if "fl_detected_protocol_stack0 f \<noteq> NDPI_PROTOCOL_UNKNOWN"
    using assms that class_view_state [of f' f] unfolding dispatch_step_def by auto
qed

lemma excluded_total:
  "wf_flow f \<Longrightarrow> i < NDPI_MAX_NUM_DISSECTORS \<Longrightarrow>
     dissector_bitmask_is_set (fl_excluded_dissectors_bitmask f) i = Some (bit_in (fl_excluded_dissectors_bitmask f) i)"
  using dissector_fits [of i] by (simp add: dissector_bitmask_is_set_eq wf_flow_def)

lemma rd_proto_in: "wf_module m \<Longrightarrow> i < nd_num_supported_protocols m \<Longrightarrow> rd_proto m i = Some (nd_proto_defaults m ! i)"
  by (auto simp: rd_proto_def wf_module_def)

lemma rd_proto_mem: "rd_proto m i = Some d \<Longrightarrow> d \<in> set (nd_proto_defaults m)"
  by (auto simp: rd_proto_def split: if_splits)

lemma protocol_entry:
  assumes "callbacks_ok s n m" "rd_proto m i = Some d"
  shows "protocol_entry_ok m d" "pd_dissector_idx d < NDPI_MAX_NUM_DISSECTORS"
    "rd_callback m (pd_dissector_idx d) = Some (nd_callback_buffer m ! pd_dissector_idx d)"
    "cf_func (nd_callback_buffer m ! pd_dissector_idx d) \<noteq> None \<Longrightarrow>
       real_callback s n (nd_callback_buffer m ! pd_dissector_idx d)"
proof -
  have "d \<in> set (nd_proto_defaults m)" using assms(2) by (rule rd_proto_mem)
  then show d: "protocol_entry_ok m d" using assms(1) by (simp add: callbacks_ok_def)
  then show "pd_dissector_idx d < NDPI_MAX_NUM_DISSECTORS"
    "rd_callback m (pd_dissector_idx d) = Some (nd_callback_buffer m ! pd_dissector_idx d)"
    using assms(1) by (auto simp: callbacks_ok_def protocol_entry_ok_def rd_callback_def)
  have "table_entry_ok s n m (pd_dissector_idx d)"
    using d assms(1) by (simp add: callbacks_ok_def protocol_entry_ok_def)
  then show "real_callback s n (nd_callback_buffer m ! pd_dissector_idx d)"
    if "cf_func (nd_callback_buffer m ! pd_dissector_idx d) \<noteq> None"
    using that by (simp add: table_entry_ok_def Let_def)
qed

text \<open>Two sets of functions that agree on a callback where it may run on the packet of \<open>m\<close>.\<close>

definition calls_agree :: "(nat \<Rightarrow> dissector_fun) \<Rightarrow> (nat \<Rightarrow> dissector_fun) \<Rightarrow> ndpi_module \<Rightarrow> call_function \<Rightarrow> bool" where
  "calls_agree call call' m cb \<longleftrightarrow>
     (\<forall>i n g. cf_func cb = Some i \<longrightarrow> bits_match (cf_ndpi_selection_bitmask cb) (selection_packet (nd_packet m)) \<longrightarrow>
        nd_packet n = nd_packet m \<longrightarrow> \<not> bit_in (fl_excluded_dissectors_bitmask g) (nd_current_dissector_idx n) \<longrightarrow>
        call' i n g = call i n g)"

text \<open>When the scan runs a callback, and the steps of the three loops with their conditions decided.\<close>

definition applicable :: "nat option \<Rightarrow> u32 \<Rightarrow> ndpi_flow \<Rightarrow> call_function \<Rightarrow> bool" where
  "applicable func sel f cb \<longleftrightarrow> func \<noteq> cf_func cb \<and> bits_match (cf_ndpi_selection_bitmask cb) sel \<and>
     \<not> bit_in (fl_excluded_dissectors_bitmask f) (cf_dissector_idx cb)"

lemma detection_loop_Cons:
  assumes "cf_dissector_idx cb < NDPI_MAX_NUM_DISSECTORS" "wf_flow f"
  shows "detection_loop call func sel (cb # cbs) m f n =
    (if applicable func sel f cb
     then case run_callback call m f (cf_dissector_idx cb) cb of
            None \<Rightarrow> None
          | Some (m, f) \<Rightarrow> if fl_detected_protocol_stack0 f \<noteq> NDPI_PROTOCOL_UNKNOWN then Some (m, f, n + 1)
                         else detection_loop call func sel cbs m f (n + 1)
     else detection_loop call func sel cbs m f n)"
  using excluded_total [OF assms(2,1)]
  by (auto simp: all_of.simps notc_def applicable_def split: option.split)

lemma subprotocol_loop_Cons:
  assumes "\<not> (q = 65534 \<or> q = fl_detected_protocol_stack0 f \<or> q = fl_detected_protocol_stack1 f)"
    "rd_proto m q = Some d" "pd_dissector_idx d = i" "rd_callback m i = Some cb" "i < NDPI_MAX_NUM_DISSECTORS"
    "wf_flow f"
  shows "subprotocol_loop call sel (q # qs) m f n =
    (if i > 0 \<and> bits_match (cf_ndpi_selection_bitmask cb) sel \<and> \<not> bit_in (fl_excluded_dissectors_bitmask f) i
     then case run_callback call m f i cb of
            None \<Rightarrow> None
          | Some (m, f) \<Rightarrow> subprotocol_loop call sel qs m f (n + 1)
     else subprotocol_loop call sel qs m f n)"
  using assms excluded_total [OF assms(6,5)]
  by (auto simp: all_of.simps notc_def Let_def split: option.split)

lemma fast_path_eq:
  assumes "rd_proto m p = Some d"
    "p = (if fl_fast_callback_protocol_id f \<noteq> 0 then fl_fast_callback_protocol_id f else fl_guessed_protocol_id f)"
    "pd_dissector_idx d = i" "rd_callback m i = Some cb" "i < NDPI_MAX_NUM_DISSECTORS" "wf_flow f"
  shows "fast_path call m f sel =
    (if p \<noteq> NDPI_PROTOCOL_UNKNOWN \<and> cf_func cb \<noteq> None \<and> \<not> bit_in (fl_excluded_dissectors_bitmask f) i \<and>
        bits_match (cf_ndpi_selection_bitmask cb) sel
     then case run_callback call m f i cb of None \<Rightarrow> None | Some (m, f) \<Rightarrow> Some (m, f, cf_func cb)
     else Some (m, f, None))"
  using assms(1,3,4) excluded_total [OF assms(6,5)] unfolding fast_path_def assms(2) [symmetric] Let_def
  by (simp add: all_of.simps notc_def split: option.split)

section \<open>The interface to the dissectors\<close>

locale dissector_provider =
  fixes call :: "nat \<Rightarrow> dissector_fun"
    and sel_of :: "nat \<Rightarrow> u32"
    and num :: nat
  assumes call_safe: "i < num \<Longrightarrow> wf_module m \<Longrightarrow> wf_flow f \<Longrightarrow>
      nd_current_dissector_idx m < NDPI_MAX_NUM_DISSECTORS \<Longrightarrow> selected (sel_of i) (nd_packet m) \<Longrightarrow>
      safe_step m f (call i m f)"
begin

lemma run_step:
  assumes "real_callback sel_of num cb" "i < NDPI_MAX_NUM_DISSECTORS" "wf_module m" "wf_flow f"
    "bits_match (cf_ndpi_selection_bitmask cb) (selection_packet (nd_packet m))"
  shows "\<exists>m' f'. run_callback call m f i cb = Some (m', f') \<and>
    dissector_step (m\<lparr>nd_current_dissector_idx := i\<rparr>) f m' f'"
proof -
  let ?m = "m\<lparr>nd_current_dissector_idx := i\<rparr>"
  obtain k where k: "cf_func cb = Some k" "k < num" "cf_ndpi_selection_bitmask cb = sel_of k"
    using assms(1) by (auto simp: real_callback_def split: option.splits)
  have "wf_module ?m" using assms(3) by (simp add: wf_module_def cfg_wf_def)
  moreover have "selected (sel_of k) (nd_packet ?m)"
    using assms(5) k(3) by (simp add: selected_def bits_match_def)
  ultimately have "safe_step ?m f (call k ?m f)" using call_safe [OF k(2) _ assms(4)] assms(2) by simp
  then show ?thesis using k(1) by (simp add: run_callback_def safe_step_def)
qed

lemma run_dispatch:
  assumes "real_callback sel_of num cb" "i < NDPI_MAX_NUM_DISSECTORS" "wf_module m" "wf_flow f"
    "bits_match (cf_ndpi_selection_bitmask cb) (selection_packet (nd_packet m))"
  obtains m' f' where "run_callback call m f i cb = Some (m', f')" "dispatch_step m f m' f'"
  using run_step [OF assms] dispatch_of_step by blast

lemma detection_loop_safe:
  assumes "\<forall>cb \<in> set cbs. real_callback sel_of num cb" "wf_module m" "wf_flow f"
  shows "\<exists>m' f' k. detection_loop call func (selection_packet (nd_packet m)) cbs m f n = Some (m', f', k) \<and>
    dispatch_step m f m' f' \<and> n \<le> k \<and> k \<le> n + length cbs"
  using assms
proof (induction cbs arbitrary: m f n)
  case Nil
  then show ?case using dispatch_refl by simp
next
  case (Cons cb cbs)
  let ?s = "selection_packet (nd_packet m)"
  have cb: "real_callback sel_of num cb" "cf_dissector_idx cb < NDPI_MAX_NUM_DISSECTORS"
    using Cons.prems(1) by (simp_all add: real_callback_def)
  note eq = detection_loop_Cons [OF cb(2) Cons.prems(3)]
  show ?case
  proof (cases "applicable func ?s f cb")
    case True
    then obtain m1 f1 where r: "run_callback call m f (cf_dissector_idx cb) cb = Some (m1, f1)"
        "dispatch_step m f m1 f1"
      using run_dispatch [OF cb Cons.prems(2,3)] by (auto simp: applicable_def)
    obtain m2 f2 k where "detection_loop call func ?s cbs m1 f1 (n + 1) = Some (m2, f2, k)"
        "dispatch_step m1 f1 m2 f2" "n + 1 \<le> k" "k \<le> n + 1 + length cbs"
      using Cons.IH [OF _ dispatch_keeps(1,2) [OF r(2)], of "n + 1"] Cons.prems(1) dispatch_keeps(3) [OF r(2)] by auto
    then show ?thesis using True r(1) dispatch_trans [OF r(2)] r(2) unfolding eq by auto
  next
    case False
    then show ?thesis using Cons.IH [OF _ Cons.prems(2,3), of n] Cons.prems(1) unfolding eq by auto
  qed
qed

lemma subprotocol_loop_safe:
  assumes "\<forall>q \<in> set qs. q = 65534 \<or> q < length (nd_proto_defaults m)" "callbacks_ok sel_of num m"
    "wf_module m" "wf_flow f"
  shows "\<exists>m' f' k. subprotocol_loop call (selection_packet (nd_packet m)) qs m f n = Some (m', f', k) \<and>
    dispatch_step m f m' f' \<and> k \<le> n + length qs"
  using assms
proof (induction qs arbitrary: m f n)
  case Nil
  then show ?case using dispatch_refl by simp
next
  case (Cons q qs)
  let ?s = "selection_packet (nd_packet m)"
  have skip: "\<exists>m' f' k. subprotocol_loop call ?s qs m f n = Some (m', f', k) \<and> dispatch_step m f m' f' \<and>
      k \<le> n + length (q # qs)"
    using Cons.IH [OF _ Cons.prems(2-4), of n] Cons.prems(1) by auto
  show ?case
  proof (cases "q = 65534 \<or> q = fl_detected_protocol_stack0 f \<or> q = fl_detected_protocol_stack1 f")
    case True
    then show ?thesis using skip by simp
  next
    case False
    then have d: "rd_proto m q = Some (nd_proto_defaults m ! q)" (is "_ = Some ?d")
      using Cons.prems(1) by (simp add: rd_proto_def)
    note e = protocol_entry [OF Cons.prems(2) d]
    note eq = subprotocol_loop_Cons [OF False d refl e(3,2) Cons.prems(4)]
    let ?i = "pd_dissector_idx ?d" and ?cb = "nd_callback_buffer m ! pd_dissector_idx ?d"
    show ?thesis
    proof (cases "?i > 0 \<and> bits_match (cf_ndpi_selection_bitmask ?cb) ?s \<and> \<not> bit_in (fl_excluded_dissectors_bitmask f) ?i")
      case True
      then have "real_callback sel_of num ?cb" using e(1,4) by (simp add: protocol_entry_ok_def)
      then obtain m1 f1 where r: "run_callback call m f ?i ?cb = Some (m1, f1)" "dispatch_step m f m1 f1"
        using run_dispatch [OF _ e(2) Cons.prems(3,4)] True by blast
      note kept = dispatch_keeps [OF r(2)]
      have "nd_proto_defaults m1 = nd_proto_defaults m"
        using r(2) frame_current_fields(2) unfolding dispatch_step_def by blast
      then obtain m2 f2 k where "subprotocol_loop call ?s qs m1 f1 (n + 1) = Some (m2, f2, k)"
          "dispatch_step m1 f1 m2 f2" "k \<le> n + 1 + length qs"
        using Cons.IH [of m1 f1 "n + 1"] Cons.prems(1,2) kept(1,2,3,6) by auto
      then show ?thesis using r(1) dispatch_trans [OF r(2)] unfolding eq if_P [OF True] by simp
    next
      case False
      show ?thesis unfolding eq if_not_P [OF False] by (rule skip)
    qed
  qed
qed

lemma check_subprotocols_safe:
  assumes "callbacks_ok sel_of num m" "wf_module m" "wf_flow f" "p < nd_num_supported_protocols m"
  shows "\<exists>m' f' k. check_ndpi_subprotocols call m f (selection_packet (nd_packet m)) p = Some (m', f', k) \<and>
    dispatch_step m f m' f' \<and> k \<le> length (pd_subprotocols (nd_proto_defaults m ! p))"
proof -
  note d = rd_proto_in [OF assms(2,4)]
  have "\<forall>q \<in> set (pd_subprotocols (nd_proto_defaults m ! p)). q = 65534 \<or> q < length (nd_proto_defaults m)"
    using protocol_entry(1) [OF assms(1) d] by (simp add: protocol_entry_ok_def)
  from subprotocol_loop_safe [OF this assms(1-3), of 0] show ?thesis
    using d dispatch_refl [OF assms(2,3)] by (simp add: check_ndpi_subprotocols_def)
qed

lemma fast_path_safe:
  assumes "callbacks_ok sel_of num m" "wf_module m" "wf_flow f" "flow_ids_ok m f"
  shows "\<exists>m' f' func. fast_path call m f (selection_packet (nd_packet m)) = Some (m', f', func) \<and>
    dispatch_step m f m' f'"
proof -
  let ?s = "selection_packet (nd_packet m)"
  let ?p = "if fl_fast_callback_protocol_id f \<noteq> 0 then fl_fast_callback_protocol_id f else fl_guessed_protocol_id f"
  let ?d = "nd_proto_defaults m ! ?p"
  have "?p < nd_num_supported_protocols m" using assms(4) by (simp add: flow_ids_ok_def ids_below_def)
  then have d: "rd_proto m ?p = Some ?d" by (rule rd_proto_in [OF assms(2)])
  note e = protocol_entry [OF assms(1) d]
  note eq = fast_path_eq [OF d refl refl e(3,2) assms(3)]
  let ?i = "pd_dissector_idx ?d" and ?cb = "nd_callback_buffer m ! pd_dissector_idx ?d"
  show ?thesis
  proof (cases "?p \<noteq> NDPI_PROTOCOL_UNKNOWN \<and> cf_func ?cb \<noteq> None \<and> \<not> bit_in (fl_excluded_dissectors_bitmask f) ?i \<and>
      bits_match (cf_ndpi_selection_bitmask ?cb) ?s")
    case True
    then obtain m1 f1 where "run_callback call m f ?i ?cb = Some (m1, f1)" "dispatch_step m f m1 f1"
      using run_dispatch [OF e(4) e(2) assms(2,3)] by blast
    then show ?thesis unfolding eq if_P [OF True] by simp
  next
    case False
    show ?thesis unfolding eq if_not_P [OF False] using dispatch_refl [OF assms(2,3)] by simp
  qed
qed

lemma detection_func_safe:
  assumes "callbacks_ok sel_of num m" "wf_module m" "wf_flow f" "flow_ids_ok m f"
    "\<forall>cb \<in> set cbs. real_callback sel_of num cb"
    "\<forall>d \<in> set (nd_proto_defaults m). length (pd_subprotocols d) \<le> s"
  shows "\<exists>m' f' k. check_ndpi_detection_func call m f (selection_packet (nd_packet m)) cbs = Some (m', f', k) \<and>
    dispatch_step m f m' f' \<and> k \<le> 1 + length cbs + 2 * s"
proof -
  let ?s = "selection_packet (nd_packet m)"
  have sub: "\<exists>m' f' k. check_ndpi_subprotocols call n g ?s p = Some (m', f', k) \<and> dispatch_step n g m' f' \<and> k \<le> s"
    if d: "dispatch_step m f n g" and p: "p < nd_num_supported_protocols n" for n g p
  proof -
    note kept = dispatch_keeps [OF d]
    obtain m' f' k where "check_ndpi_subprotocols call n g ?s p = Some (m', f', k)" "dispatch_step n g m' f'"
        "k \<le> length (pd_subprotocols (nd_proto_defaults n ! p))"
      using check_subprotocols_safe [of n g p] kept(1,2,3,6) assms(1) p by auto
    moreover have "nd_proto_defaults n ! p \<in> set (nd_proto_defaults m)"
      using rd_proto_in [OF kept(1) p] kept(4) by (intro rd_proto_mem [of _ p]) simp
    ultimately show ?thesis using assms(6) by force
  qed
  obtain m1 f1 func where 1: "fast_path call m f ?s = Some (m1, f1, func)" "dispatch_step m f m1 f1"
    using fast_path_safe [OF assms(1-4)] by blast
  note kept1 = dispatch_keeps [OF 1(2)]
  let ?n = "if func = None then 0 else 1 :: nat"
  have "\<exists>m2 f2 n2. (if fl_detected_protocol_stack0 f1 = NDPI_PROTOCOL_UNKNOWN
      then detection_loop call func ?s cbs m1 f1 ?n else Some (m1, f1, ?n)) = Some (m2, f2, n2) \<and>
      dispatch_step m1 f1 m2 f2 \<and> n2 \<le> 1 + length cbs" (is "\<exists>m2 f2 n2. ?r = _ \<and> _")
    using detection_loop_safe [OF assms(5) kept1(1,2), of func ?n] kept1(3) dispatch_refl [OF kept1(1,2)] by auto
  then obtain m2 f2 n2 where 2: "?r = Some (m2, f2, n2)" "dispatch_step m1 f1 m2 f2" "n2 \<le> 1 + length cbs" by blast
  have d2: "dispatch_step m f m2 f2" by (rule dispatch_trans [OF 1(2) 2(2)])
  have ids2: "fl_detected_protocol_stack0 f2 < nd_num_supported_protocols m2"
    using dispatch_keeps(7) [OF d2 assms(4)] by (simp add: flow_ids_ok_def ids_below_def)
  obtain m3 f3 n3 where 3: "check_ndpi_subprotocols call m2 f2 ?s (fl_detected_protocol_stack0 f2) = Some (m3, f3, n3)"
      "dispatch_step m2 f2 m3 f3" "n3 \<le> s"
    using sub [OF d2 ids2] by blast
  have d3: "dispatch_step m f m3 f3" by (rule dispatch_trans [OF d2 3(2)])
  have ids3: "fl_detected_protocol_stack1 f3 < nd_num_supported_protocols m3"
    using dispatch_keeps(7) [OF d3 assms(4)] by (simp add: flow_ids_ok_def ids_below_def)
  obtain m4 f4 n4 where 4: "check_ndpi_subprotocols call m3 f3 ?s (fl_detected_protocol_stack1 f3) = Some (m4, f4, n4)"
      "dispatch_step m3 f3 m4 f4" "n4 \<le> s"
    using sub [OF d3 ids3] by blast
  have "check_ndpi_detection_func call m f ?s cbs = Some (m4, f4, n2 + n3 + n4)"
    using 1(1) 2(1) 3(1) 4(1) unfolding check_ndpi_detection_func_def Let_def by simp
  then show ?thesis using dispatch_trans [OF d3 4(2)] 2(3) 3(3) 4(3) by simp
qed

lemma flow_func_safe:
  assumes "callbacks_ok sel_of num m" "wf_module m" "wf_flow f" "flow_ids_ok m f"
    "\<forall>d \<in> set (nd_proto_defaults m). length (pd_subprotocols d) \<le> s"
    "length (nd_callback_buffer_tcp_payload m) \<le> b" "length (nd_callback_buffer_tcp_no_payload m) \<le> b"
    "length (nd_callback_buffer_udp m) \<le> b" "length (nd_callback_buffer_non_tcp_udp m) \<le> b"
  shows "\<exists>m' f' k. ndpi_check_flow_func call m f (selection_packet (nd_packet m)) = Some (m', f', k) \<and>
    dispatch_step m f m' f' \<and> k \<le> 1 + b + 2 * s"
proof -
  have *: "\<exists>m' f' k. check_ndpi_detection_func call m f (selection_packet (nd_packet m)) cbs = Some (m', f', k) \<and>
      dispatch_step m f m' f' \<and> k \<le> 1 + b + 2 * s" if "set cbs \<subseteq> callback_arrays m" "length cbs \<le> b" for cbs
  proof -
    have "\<forall>cb \<in> set cbs. real_callback sel_of num cb" using assms(1) that(1) by (auto simp: callbacks_ok_def)
    from detection_func_safe [OF assms(1-4) this assms(5)] show ?thesis using that(2) by fastforce
  qed
  have "set (nd_callback_buffer_tcp_payload m) \<subseteq> callback_arrays m"
    "set (nd_callback_buffer_tcp_no_payload m) \<subseteq> callback_arrays m"
    "set (nd_callback_buffer_udp m) \<subseteq> callback_arrays m" "set (nd_callback_buffer_non_tcp_udp m) \<subseteq> callback_arrays m"
    by (auto simp: callback_arrays_def)
  with * assms(6-9) show ?thesis
    by (simp add: ndpi_check_flow_func_def check_ndpi_tcp_flow_func_def check_ndpi_udp_flow_func_def
        check_ndpi_other_flow_func_def)
qed

text \<open>A flow that the fast path classifies, or that is classified already, is not scanned.\<close>

lemma classified_not_scanned:
  assumes "callbacks_ok sel_of num m" "wf_module m" "wf_flow f" "flow_ids_ok m f"
    "fl_detected_protocol_stack0 f \<noteq> NDPI_PROTOCOL_UNKNOWN"
  shows "check_ndpi_detection_func call m f (selection_packet (nd_packet m)) cbs =
         check_ndpi_detection_func call m f (selection_packet (nd_packet m)) []"
proof -
  obtain m1 f1 func where 1: "fast_path call m f (selection_packet (nd_packet m)) = Some (m1, f1, func)"
      "dispatch_step m f m1 f1"
    using fast_path_safe [OF assms(1-4)] by blast
  then have "fl_detected_protocol_stack0 f1 \<noteq> NDPI_PROTOCOL_UNKNOWN" using dispatch_keeps(8) assms(5) by blast
  then show ?thesis using 1(1) by (simp add: check_ndpi_detection_func_def)
qed

text \<open>Which dissectors run: a change of the functions outside the callbacks whose selection bits
  match the packet and which are not excluded when their turn comes has no effect.\<close>

lemma run_agree:
  assumes "\<forall>cb \<in> C. calls_agree call call' m cb" "cb \<in> C"
    "bits_match (cf_ndpi_selection_bitmask cb) (selection_packet (nd_packet m))"
    "\<not> bit_in (fl_excluded_dissectors_bitmask g) i" "nd_packet n = nd_packet m"
  shows "run_callback call' n g i cb = run_callback call n g i cb"
  using assms by (cases "cf_func cb") (auto simp: run_callback_def calls_agree_def)

lemma detection_loop_agree:
  assumes "\<forall>cb \<in> set cbs. real_callback sel_of num cb \<and> calls_agree call call' m cb"
    "wf_module n" "wf_flow g" "nd_packet n = nd_packet m"
  shows "detection_loop call' func (selection_packet (nd_packet m)) cbs n g k =
         detection_loop call func (selection_packet (nd_packet m)) cbs n g k"
  using assms
proof (induction cbs arbitrary: n g k)
  case (Cons cb cbs)
  let ?s = "selection_packet (nd_packet m)"
  have cb: "real_callback sel_of num cb" "cf_dissector_idx cb < NDPI_MAX_NUM_DISSECTORS"
    using Cons.prems(1) by (simp_all add: real_callback_def)
  note eq = detection_loop_Cons [OF cb(2) Cons.prems(3)]
  show ?case
  proof (cases "applicable func ?s g cb")
    case True
    then obtain m1 f1 where r: "run_callback call n g (cf_dissector_idx cb) cb = Some (m1, f1)"
        "dispatch_step n g m1 f1"
      using run_dispatch [OF cb Cons.prems(2,3)] Cons.prems(4) by (auto simp: applicable_def)
    have "run_callback call' n g (cf_dissector_idx cb) cb = Some (m1, f1)"
      using run_agree [of "{cb}" call' m cb g "cf_dissector_idx cb" n] Cons.prems(1,4) True r(1)
      by (simp add: applicable_def)
    then show ?thesis using r(1) Cons.IH [OF _ dispatch_keeps(1,2) [OF r(2)]] dispatch_keeps(3) [OF r(2)] Cons.prems(1,4)
      unfolding eq if_P [OF True] by simp
  next
    case False
    then show ?thesis using Cons.IH [OF _ Cons.prems(2-4)] Cons.prems(1) unfolding eq by simp
  qed
qed simp

lemma subprotocol_loop_agree:
  assumes "\<forall>cb \<in> set (nd_callback_buffer m). calls_agree call call' m cb"
    "\<forall>q \<in> set qs. q = 65534 \<or> q < length (nd_proto_defaults n)"
    "callbacks_ok sel_of num n" "wf_module n" "wf_flow g" "nd_packet n = nd_packet m"
    "nd_callback_buffer n = nd_callback_buffer m"
  shows "subprotocol_loop call' (selection_packet (nd_packet m)) qs n g k =
         subprotocol_loop call (selection_packet (nd_packet m)) qs n g k"
  using assms(2-)
proof (induction qs arbitrary: n g k)
  case (Cons q qs)
  let ?s = "selection_packet (nd_packet m)"
  have skip: "subprotocol_loop call' ?s qs n g k = subprotocol_loop call ?s qs n g k"
    using Cons.IH [OF _ Cons.prems(2-6)] Cons.prems(1) by simp
  show ?case
  proof (cases "q = 65534 \<or> q = fl_detected_protocol_stack0 g \<or> q = fl_detected_protocol_stack1 g")
    case True
    then show ?thesis using skip by simp
  next
    case False
    then have d: "rd_proto n q = Some (nd_proto_defaults n ! q)" (is "_ = Some ?d")
      using Cons.prems(1) by (simp add: rd_proto_def)
    note e = protocol_entry [OF Cons.prems(2) d]
    note eq = subprotocol_loop_Cons [OF False d refl e(3,2) Cons.prems(4)]
    let ?i = "pd_dissector_idx ?d" and ?cb = "nd_callback_buffer n ! pd_dissector_idx ?d"
    let ?c = "?i > 0 \<and> bits_match (cf_ndpi_selection_bitmask ?cb) ?s \<and> \<not> bit_in (fl_excluded_dissectors_bitmask g) ?i"
    show ?thesis
    proof (cases ?c)
      case True
      then have "real_callback sel_of num ?cb" using e(1,4) by (simp add: protocol_entry_ok_def)
      then obtain m1 f1 where r: "run_callback call n g ?i ?cb = Some (m1, f1)" "dispatch_step n g m1 f1"
        using run_dispatch [OF _ e(2) Cons.prems(3,4)] True Cons.prems(5) by auto
      have "?cb \<in> set (nd_callback_buffer m)"
        using e(1) Cons.prems(6) by (simp add: protocol_entry_ok_def)
      from run_agree [OF assms(1) this] have "run_callback call' n g ?i ?cb = Some (m1, f1)"
        using True r(1) Cons.prems(5) by simp
      moreover have "nd_proto_defaults m1 = nd_proto_defaults n" "nd_callback_buffer m1 = nd_callback_buffer n"
        using r(2) frame_current_fields(2,3) unfolding dispatch_step_def by blast+
      ultimately show ?thesis
        using r(1) Cons.IH [of m1 f1] Cons.prems dispatch_keeps [OF r(2)] unfolding eq if_P [OF True] by simp
    next
      case False
      show ?thesis unfolding eq if_not_P [OF False] by (rule skip)
    qed
  qed
qed simp

lemma detection_func_agree:
  assumes "callbacks_ok sel_of num m" "wf_module m" "wf_flow f" "flow_ids_ok m f"
    "\<forall>cb \<in> set cbs. real_callback sel_of num cb"
    "\<forall>cb \<in> set (nd_callback_buffer m) \<union> set cbs. calls_agree call call' m cb"
  shows "check_ndpi_detection_func call' m f (selection_packet (nd_packet m)) cbs =
         check_ndpi_detection_func call m f (selection_packet (nd_packet m)) cbs"
proof -
  let ?s = "selection_packet (nd_packet m)"
  have sub: "check_ndpi_subprotocols call' n g ?s p = check_ndpi_subprotocols call n g ?s p"
    if d: "dispatch_step m f n g" and p: "p < nd_num_supported_protocols n" for n g p
  proof -
    note kept = dispatch_keeps [OF d]
    note e = rd_proto_in [OF kept(1) p]
    have "callbacks_ok sel_of num n" using kept(6) assms(1) by simp
    moreover from protocol_entry(1) [OF this e]
    have "\<forall>q \<in> set (pd_subprotocols (nd_proto_defaults n ! p)). q = 65534 \<or> q < length (nd_proto_defaults n)"
      by (simp add: protocol_entry_ok_def)
    moreover have "nd_callback_buffer n = nd_callback_buffer m"
      using d frame_current_fields(3) unfolding dispatch_step_def by blast
    ultimately show ?thesis
      using subprotocol_loop_agree [of m call' _ n g] assms(6) kept(1-3) e
      by (simp add: check_ndpi_subprotocols_def)
  qed
  let ?p = "if fl_fast_callback_protocol_id f \<noteq> 0 then fl_fast_callback_protocol_id f else fl_guessed_protocol_id f"
  have "?p < nd_num_supported_protocols m" using assms(4) by (simp add: flow_ids_ok_def ids_below_def)
  then have d: "rd_proto m ?p = Some (nd_proto_defaults m ! ?p)" by (rule rd_proto_in [OF assms(2)])
  note e = protocol_entry [OF assms(1) d]
  let ?i = "pd_dissector_idx (nd_proto_defaults m ! ?p)" and
    ?cb = "nd_callback_buffer m ! pd_dissector_idx (nd_proto_defaults m ! ?p)"
  have "?cb \<in> set (nd_callback_buffer m)" using e(1) by (simp add: protocol_entry_ok_def)
  then have "calls_agree call call' m ?cb" using assms(6) by blast
  then have fast: "fast_path call' m f ?s = fast_path call m f ?s"
    unfolding fast_path_eq [OF d refl refl e(3,2) assms(3)]
    using run_agree [of "{?cb}" call' m ?cb f ?i m] by simp
  obtain m1 f1 func where 1: "fast_path call m f ?s = Some (m1, f1, func)" "dispatch_step m f m1 f1"
    using fast_path_safe [OF assms(1-4)] by blast
  note kept1 = dispatch_keeps [OF 1(2)]
  have loop: "detection_loop call' func ?s cbs m1 f1 n = detection_loop call func ?s cbs m1 f1 n" for n
    using detection_loop_agree [of cbs call' m m1 f1] assms(5,6) kept1(1-3) by simp
  let ?r = "if fl_detected_protocol_stack0 f1 = NDPI_PROTOCOL_UNKNOWN
    then detection_loop call func ?s cbs m1 f1 (if func = None then 0 else 1) else Some (m1, f1, if func = None then 0 else 1)"
  have "\<exists>m2 f2 n2. ?r = Some (m2, f2, n2) \<and> dispatch_step m1 f1 m2 f2"
    using detection_loop_safe [OF assms(5) kept1(1,2), of func] kept1(3) dispatch_refl [OF kept1(1,2)] by fastforce
  then obtain m2 f2 n2 where 2: "?r = Some (m2, f2, n2)" "dispatch_step m1 f1 m2 f2" by blast
  have d2: "dispatch_step m f m2 f2" by (rule dispatch_trans [OF 1(2) 2(2)])
  have ids2: "fl_detected_protocol_stack0 f2 < nd_num_supported_protocols m2"
    using dispatch_keeps(7) [OF d2 assms(4)] by (simp add: flow_ids_ok_def ids_below_def)
  have "callbacks_ok sel_of num m2" using dispatch_keeps(6) [OF d2] assms(1) by simp
  from check_subprotocols_safe [OF this dispatch_keeps(1,2) [OF d2] ids2]
  obtain m3 f3 n3 where 3: "check_ndpi_subprotocols call m2 f2 ?s (fl_detected_protocol_stack0 f2) = Some (m3, f3, n3)"
      "dispatch_step m2 f2 m3 f3"
    using dispatch_keeps(3) [OF d2] by auto
  have d3: "dispatch_step m f m3 f3" by (rule dispatch_trans [OF d2 3(2)])
  have ids3: "fl_detected_protocol_stack1 f3 < nd_num_supported_protocols m3"
    using dispatch_keeps(7) [OF d3 assms(4)] by (simp add: flow_ids_ok_def ids_below_def)
  have r2: "(if fl_detected_protocol_stack0 f1 = NDPI_PROTOCOL_UNKNOWN
    then detection_loop call' func ?s cbs m1 f1 (if func = None then 0 else 1)
    else Some (m1, f1, if func = None then 0 else 1)) = Some (m2, f2, n2)"
    unfolding loop by (rule 2(1))
  show ?thesis
    unfolding check_ndpi_detection_func_def fast 1(1) Let_def Option.bind.simps prod.case 2(1) r2
      sub [OF d2 ids2] 3(1) sub [OF d3 ids3] by (rule refl)
qed

text \<open>A scan that finds nothing has run every applicable dissector once.\<close>

lemma detection_loop_complete:
  assumes "\<forall>cb \<in> set cbs. real_callback sel_of num cb" "wf_module m" "wf_flow f" "distinct (map cf_dissector_idx cbs)"
    "detection_loop call func (selection_packet (nd_packet m)) cbs m f n = Some (m', f', k)"
    "fl_detected_protocol_stack0 f' = NDPI_PROTOCOL_UNKNOWN"
  shows "k = n + length (filter (applicable func (selection_packet (nd_packet m)) f) cbs)"
  using assms
proof (induction cbs arbitrary: m f n)
  case (Cons cb cbs)
  let ?s = "selection_packet (nd_packet m)"
  have cb: "real_callback sel_of num cb" "cf_dissector_idx cb < NDPI_MAX_NUM_DISSECTORS"
    using Cons.prems(1) by (simp_all add: real_callback_def)
  note eq = detection_loop_Cons [OF cb(2) Cons.prems(3)]
  show ?case
  proof (cases "applicable func ?s f cb")
    case True
    then obtain m1 f1 where r: "run_callback call m f (cf_dissector_idx cb) cb = Some (m1, f1)"
        "dissector_step (m\<lparr>nd_current_dissector_idx := cf_dissector_idx cb\<rparr>) f m1 f1"
      using run_step [OF cb Cons.prems(2,3)] by (auto simp: applicable_def)
    have excl: "bit_in (fl_excluded_dissectors_bitmask f1) i = bit_in (fl_excluded_dissectors_bitmask f) i"
      if "i \<noteq> cf_dissector_idx cb" for i
      using r(2) that unfolding dissector_step_def by auto
    note d = dispatch_of_step [OF r(2)]
    have rest: "detection_loop call func ?s cbs m1 f1 (n + 1) = Some (m', f', k)"
      using Cons.prems(5,6) True r(1) unfolding eq by (auto split: if_splits)
    have "applicable func ?s f1 c = applicable func ?s f c" if "c \<in> set cbs" for c
    proof -
      have "cf_dissector_idx c \<in> cf_dissector_idx ` set cbs" using that by (rule imageI)
      then have "cf_dissector_idx c \<noteq> cf_dissector_idx cb" using Cons.prems(4) by auto
      then show ?thesis using excl by (simp add: applicable_def)
    qed
    then have "filter (applicable func ?s f1) cbs = filter (applicable func ?s f) cbs" by (simp cong: filter_cong)
    then show ?thesis
      using Cons.IH [OF _ dispatch_keeps(1,2) [OF d], of "n + 1"] rest Cons.prems(1,4,6) dispatch_keeps(3) [OF d] True
      by simp
  next
    case False
    then show ?thesis using Cons.IH [OF _ Cons.prems(2,3) _ _ Cons.prems(6), of n] Cons.prems(1,4,5) unfolding eq by simp
  qed
qed simp

lemma detection_func_complete:
  assumes "callbacks_ok sel_of num m" "wf_module m" "wf_flow f" "flow_ids_ok m f"
    "\<forall>cb \<in> set cbs. real_callback sel_of num cb" "distinct (map cf_dissector_idx cbs)"
    "fl_fast_callback_protocol_id f = 0" "fl_guessed_protocol_id f = 0" and
    f_unknown: "fl_detected_protocol_stack0 f = NDPI_PROTOCOL_UNKNOWN" and
    "check_ndpi_detection_func call m f (selection_packet (nd_packet m)) cbs = Some (m', f', k)"
    "fl_detected_protocol_stack0 f' = NDPI_PROTOCOL_UNKNOWN"
  shows "k = length (filter (applicable None (selection_packet (nd_packet m)) f) cbs)"
proof -
  let ?s = "selection_packet (nd_packet m)"
  have "0 < nd_num_supported_protocols m" using assms(2) by (simp add: wf_module_def)
  note d = rd_proto_in [OF assms(2) this]
  note e = protocol_entry [OF assms(1) d]
  have fast: "fast_path call m f ?s = Some (m, f, None)"
    using fast_path_eq [OF d _ refl e(3,2) assms(3)] assms(7,8) by simp
  obtain m2 f2 n2 where 2: "detection_loop call None ?s cbs m f 0 = Some (m2, f2, n2)" "dispatch_step m f m2 f2"
    using detection_loop_safe [OF assms(5) assms(2,3)] by blast
  have ids: "fl_detected_protocol_stack0 f2 < nd_num_supported_protocols m2"
    using dispatch_keeps(7) [OF 2(2) assms(4)] by (simp add: flow_ids_ok_def ids_below_def)
  have "callbacks_ok sel_of num m2" using dispatch_keeps(6) [OF 2(2)] assms(1) by simp
  note sub = check_subprotocols_safe [OF this dispatch_keeps(1,2) [OF 2(2)]]
  have f2: "fl_detected_protocol_stack0 f2 = NDPI_PROTOCOL_UNKNOWN"
  proof (rule ccontr)
    assume n: "fl_detected_protocol_stack0 f2 \<noteq> NDPI_PROTOCOL_UNKNOWN"
    obtain m3 f3 n3 where 3: "check_ndpi_subprotocols call m2 f2 ?s (fl_detected_protocol_stack0 f2) = Some (m3, f3, n3)"
        "dispatch_step m2 f2 m3 f3"
      using sub [OF ids] dispatch_keeps(3) [OF 2(2)] by auto
    have d3: "dispatch_step m f m3 f3" by (rule dispatch_trans [OF 2(2) 3(2)])
    have "fl_detected_protocol_stack1 f3 < nd_num_supported_protocols m3"
      using dispatch_keeps(7) [OF d3 assms(4)] by (simp add: flow_ids_ok_def ids_below_def)
    moreover have "callbacks_ok sel_of num m3" using dispatch_keeps(6) [OF d3] assms(1) by simp
    ultimately obtain m4 f4 n4 where
        4: "check_ndpi_subprotocols call m3 f3 ?s (fl_detected_protocol_stack1 f3) = Some (m4, f4, n4)"
        "dispatch_step m3 f3 m4 f4"
      using check_subprotocols_safe [of m3 f3 "fl_detected_protocol_stack1 f3"] dispatch_keeps(1-3) [OF d3] by auto
    have "f4 = f'"
      using assms(10) fast 2(1) 3(1) 4(1) f_unknown unfolding check_ndpi_detection_func_def by simp
    then show False using dispatch_keeps(8) [OF 4(2) dispatch_keeps(8) [OF 3(2) n]] assms(11) by simp
  qed
  moreover have "fl_detected_protocol_stack1 f2 = NDPI_PROTOCOL_UNKNOWN"
    using dispatch_keeps(2) [OF 2(2)] f2 by (simp add: wf_flow_def class_wf_def)
  ultimately have "k = n2"
    using assms(10) fast 2(1) f_unknown by (simp add: check_ndpi_detection_func_def check_ndpi_subprotocols_def)
  then show ?thesis using detection_loop_complete [OF assms(5,2,3,6) 2(1) f2] by simp
qed

end

end
