(* ===== verification/Dispatch_Init.thy ===== *)
theory Dispatch_Init
  imports Dispatch
begin

text \<open>
  What registration leaves behind: after \<open>dissectors_init\<close> has run registrations of different
  protocols, the callback table, the protocol table and the arrays per kind of packet are
  consistent, which is what the dispatcher needs; and the arrays lose no dissector.
\<close>

section \<open>Invariant of the tables during registration\<close>

text \<open>Protocol tables that differ in the dissector numbers only.\<close>

definition same_protocols :: "ndpi_proto_defaults list \<Rightarrow> ndpi_proto_defaults list \<Rightarrow> bool" where
  "same_protocols D E \<longleftrightarrow> map (\<lambda>d. d\<lparr>pd_dissector_idx := 0\<rparr>) D = map (\<lambda>d. d\<lparr>pd_dissector_idx := 0\<rparr>) E"

text \<open>Registered callbacks are the used prefix of the table, each entry knows its own number, and
  only protocols of \<open>P\<close> have one of them as dissector.\<close>

definition table_inv :: "(nat \<Rightarrow> u32) \<Rightarrow> nat \<Rightarrow> nat set \<Rightarrow> ndpi_module \<Rightarrow> bool" where
  "table_inv sel_of num P m \<longleftrightarrow>
     length (nd_callback_buffer m) = NDPI_MAX_NUM_DISSECTORS \<and> nd_callback_buffer_num m \<le> NDPI_MAX_NUM_DISSECTORS \<and>
     (\<forall>k < NDPI_MAX_NUM_DISSECTORS. table_entry_ok sel_of num m k \<and>
        (cf_func (nd_callback_buffer m ! k) \<noteq> None \<longleftrightarrow> k < nd_callback_buffer_num m)) \<and>
     (\<forall>p < length (nd_proto_defaults m). pd_dissector_idx (nd_proto_defaults m ! p) \<noteq> 0 \<longrightarrow>
        p \<in> P \<and> pd_dissector_idx (nd_proto_defaults m ! p) < nd_callback_buffer_num m)"

lemma same_protocols_refl [simp]: "same_protocols D D"
  by (simp add: same_protocols_def)

lemma same_protocols_trans: "same_protocols D E \<Longrightarrow> same_protocols E F \<Longrightarrow> same_protocols D F"
  by (simp add: same_protocols_def)

lemma same_protocols_length: "same_protocols D E \<Longrightarrow> length D = length E"
  unfolding same_protocols_def by (rule map_eq_imp_length_eq)

lemma same_protocols_nth:
  assumes "same_protocols D E" "i < length E"
  shows "pd_isCustomProto (D ! i) = pd_isCustomProto (E ! i)" "pd_subprotocols (D ! i) = pd_subprotocols (E ! i)"
proof -
  have "(D ! i)\<lparr>pd_dissector_idx := 0\<rparr> = (E ! i)\<lparr>pd_dissector_idx := 0\<rparr>"
    using assms same_protocols_length [OF assms(1)] unfolding same_protocols_def by (metis nth_map)
  then show "pd_isCustomProto (D ! i) = pd_isCustomProto (E ! i)" "pd_subprotocols (D ! i) = pd_subprotocols (E ! i)"
    by (cases "D ! i"; cases "E ! i"; simp)+
qed

lemma same_protocols_update:
  "p < length D \<Longrightarrow> same_protocols (D[p := (D ! p)\<lparr>pd_dissector_idx := idx\<rparr>]) D"
  by (simp add: same_protocols_def map_update list_update_same_conv)

lemma enabled_same:
  "same_protocols D (nd_proto_defaults m) \<Longrightarrow> is_proto_enabled (m\<lparr>nd_proto_defaults := D\<rparr>) p = is_proto_enabled m p"
  using same_protocols_length [of D "nd_proto_defaults m"] same_protocols_nth(1) [of D "nd_proto_defaults m"]
  by (simp add: is_proto_enabled_def ndpi_is_custom_protocol_def)

lemma enabled_total: "cfg_wf m \<Longrightarrow> \<exists>b. is_proto_enabled m p = Some b"
  using bitmask_is_set_total [of "cfg_detection_bitmask (nd_cfg m)"]
  by (auto simp: is_proto_enabled_def cfg_wf_def)

lemma register_protocols_fresh:
  assumes "\<forall>p \<in> set ps. p < length (nd_proto_defaults m) \<and> pd_dissector_idx (nd_proto_defaults m ! p) = 0"
    "distinct ps" "cfg_wf m"
  shows "\<exists>D first' en'. register_protocols m idx func first en ps = Some (Inr (m\<lparr>nd_proto_defaults := D\<rparr>, first', en')) \<and>
    same_protocols D (nd_proto_defaults m) \<and> (en \<longrightarrow> en') \<and>
    (\<forall>q < length D. D ! q = nd_proto_defaults m ! q \<or> (q \<in> set ps \<and> en' \<and> pd_dissector_idx (D ! q) = idx)) \<and>
    (\<forall>p \<in> set ps. is_proto_enabled m (int p) = Some True \<longrightarrow> en' \<and> pd_dissector_idx (D ! p) = idx)"
  using assms
proof (induction ps arbitrary: m first en)
  case Nil
  show ?case by (rule exI [of _ "nd_proto_defaults m"]) simp
next
  case (Cons p ps)
  obtain b where b: "is_proto_enabled m (int p) = Some b" using enabled_total [OF Cons.prems(3)] by blast
  let ?d = "nd_proto_defaults m ! p"
  have p: "p < length (nd_proto_defaults m)" "pd_dissector_idx ?d = 0" "p \<notin> set ps" "distinct ps"
    using Cons.prems(1,2) by simp_all
  show ?case
  proof (cases b)
    case False
    obtain D first' en' where
      "register_protocols m idx func first en ps = Some (Inr (m\<lparr>nd_proto_defaults := D\<rparr>, first', en'))"
      "same_protocols D (nd_proto_defaults m)" "en \<longrightarrow> en'"
      "\<forall>q < length D. D ! q = nd_proto_defaults m ! q \<or> (q \<in> set ps \<and> en' \<and> pd_dissector_idx (D ! q) = idx)"
      "\<forall>p \<in> set ps. is_proto_enabled m (int p) = Some True \<longrightarrow> en' \<and> pd_dissector_idx (D ! p) = idx"
      using Cons.IH [OF _ p(4) Cons.prems(3), of first en] Cons.prems(1) by auto
    then show ?thesis using b False by (intro exI [of _ D] exI [of _ first'] exI [of _ en']) auto
  next
    case True
    let ?D = "(nd_proto_defaults m)[p := ?d\<lparr>pd_dissector_idx := idx\<rparr>]"
    let ?m = "m\<lparr>nd_proto_defaults := ?D\<rparr>"
    have same: "same_protocols ?D (nd_proto_defaults m)" by (rule same_protocols_update [OF p(1)])
    have "\<forall>q \<in> set ps. q < length (nd_proto_defaults ?m) \<and> pd_dissector_idx (nd_proto_defaults ?m ! q) = 0"
      using Cons.prems(1) p(3) by (auto simp: nth_list_update)
    moreover have "cfg_wf ?m" using Cons.prems(3) by (simp add: cfg_wf_def)
    ultimately obtain D first' en' where D:
      "register_protocols ?m idx func (if first = None then Some p else first) True ps =
         Some (Inr (m\<lparr>nd_proto_defaults := D\<rparr>, first', en'))"
      "same_protocols D ?D" "en'"
      "\<forall>q < length D. D ! q = ?D ! q \<or> (q \<in> set ps \<and> pd_dissector_idx (D ! q) = idx)"
      "\<forall>p \<in> set ps. is_proto_enabled m (int p) = Some True \<longrightarrow> pd_dissector_idx (D ! p) = idx"
      using Cons.IH [OF _ p(4), of ?m "if first = None then Some p else first" True] enabled_same [OF same] by auto
    have "rd_proto m p = Some ?d" using p(1) by (simp add: rd_proto_def)
    then have "register_protocols m idx func first en (p # ps) = Some (Inr (m\<lparr>nd_proto_defaults := D\<rparr>, first', en'))"
      using b True p(2) D(1) by simp
    moreover have len: "length D = length (nd_proto_defaults m)" using same_protocols_length [OF D(2)] by simp
    moreover have "pd_dissector_idx (D ! p) = idx" using D(4) p(1,3) len by auto
    moreover have "D ! q = nd_proto_defaults m ! q \<or> (q \<in> set (p # ps) \<and> pd_dissector_idx (D ! q) = idx)"
      if "q < length D" for q
      using D(4) that p(1) len by (cases "q = p") auto
    ultimately show ?thesis using same_protocols_trans [OF D(2) same] D(3,5)
      by (intro exI [of _ D] exI [of _ first'] exI [of _ en']) auto
  qed
qed

lemma table_inv_mono: "table_inv sel_of num P m \<Longrightarrow> P \<subseteq> Q \<Longrightarrow> table_inv sel_of num Q m"
  unfolding table_inv_def by blast

lemma module_self:
  "m\<lparr>nd_proto_defaults := nd_proto_defaults m, nd_callback_buffer := nd_callback_buffer m,
     nd_callback_buffer_num := nd_callback_buffer_num m\<rparr> = m"
  by simp

lemma register_fresh:
  assumes inv: "table_inv sel_of num P m" and wf: "cfg_wf m" and fresh: "set ps \<inter> P = {}" "distinct ps"
    and ids: "\<forall>p \<in> set ps. p < length (nd_proto_defaults m)" and i: "i < num"
  shows "\<exists>D B N. ndpi_register_dissector name m i (sel_of i) ps =
      Some (m\<lparr>nd_proto_defaults := D, nd_callback_buffer := B, nd_callback_buffer_num := N\<rparr>) \<and>
    same_protocols D (nd_proto_defaults m) \<and> nd_callback_buffer_num m \<le> N \<and> N \<le> nd_callback_buffer_num m + 1 \<and>
    table_inv sel_of num (P \<union> set ps) (m\<lparr>nd_proto_defaults := D, nd_callback_buffer := B, nd_callback_buffer_num := N\<rparr>)"
proof (cases "nd_callback_buffer_num m \<ge> NDPI_MAX_NUM_DISSECTORS")
  case True
  then have "ndpi_register_dissector name m i (sel_of i) ps = Some m" by (simp add: ndpi_register_dissector_def Let_def)
  then show ?thesis using table_inv_mono [OF inv, of "P \<union> set ps"]
    by (intro exI [of _ "nd_proto_defaults m"] exI [of _ "nd_callback_buffer m"] exI [of _ "nd_callback_buffer_num m"])
      (simp only: module_self, simp)
next
  case False
  let ?idx = "nd_callback_buffer_num m" and ?B = "nd_callback_buffer m"
  have B: "length ?B = NDPI_MAX_NUM_DISSECTORS" using inv by (simp add: table_inv_def)
  have "pd_dissector_idx (nd_proto_defaults m ! p) = 0" if "p \<in> set ps" for p
  proof -
    have "p \<notin> P" using fresh(1) that by blast
    then show ?thesis using inv ids that unfolding table_inv_def by blast
  qed
  then obtain D first' en where D:
      "register_protocols m ?idx i None False ps = Some (Inr (m\<lparr>nd_proto_defaults := D\<rparr>, first', en))"
      "same_protocols D (nd_proto_defaults m)"
      "\<forall>q < length D. D ! q = nd_proto_defaults m ! q \<or> (q \<in> set ps \<and> en \<and> pd_dissector_idx (D ! q) = ?idx)"
    using register_protocols_fresh [of ps m ?idx i None False] ids fresh(2) wf by auto
  note len = same_protocols_length [OF D(2)]
  show ?thesis
  proof (cases en)
    case True
    let ?cb = "\<lparr>cf_name = take 15 (str name), cf_func = Some i, cf_ndpi_selection_bitmask = sel_of i,
      cf_dissector_idx = ?idx, cf_first_protocol_id = (case first' of None \<Rightarrow> 65535 | Some p \<Rightarrow> p)\<rparr>"
    let ?m = "m\<lparr>nd_proto_defaults := D, nd_callback_buffer := ?B[?idx := ?cb], nd_callback_buffer_num := ?idx + 1\<rparr>"
    have "ndpi_register_dissector name m i (sel_of i) ps = Some ?m"
      using False True B D(1) by (simp add: ndpi_register_dissector_def rd_callback_def Let_def)
    moreover have "table_entry_ok sel_of num ?m k \<and> (cf_func (nd_callback_buffer ?m ! k) \<noteq> None \<longleftrightarrow> k < ?idx + 1)"
      if "k < NDPI_MAX_NUM_DISSECTORS" for k
    proof (cases "k = ?idx")
      case True
      then show ?thesis using that B i by (simp add: table_entry_ok_def real_callback_def)
    next
      case ne: False
      have "table_entry_ok sel_of num m k" "cf_func (?B ! k) \<noteq> None \<longleftrightarrow> k < ?idx"
        using inv that unfolding table_inv_def by blast+
      then show ?thesis using ne by (auto simp: table_entry_ok_def Let_def)
    qed
    moreover have "p \<in> P \<union> set ps \<and> pd_dissector_idx (D ! p) < ?idx + 1"
      if "p < length D" "pd_dissector_idx (D ! p) \<noteq> 0" for p
    proof (cases "D ! p = nd_proto_defaults m ! p")
      case True
      then have "p \<in> P \<and> pd_dissector_idx (D ! p) < ?idx" using inv that len unfolding table_inv_def by metis
      then show ?thesis by simp
    next
      case ne: False
      then show ?thesis using D(3) that(1) by auto
    qed
    ultimately have "table_inv sel_of num (P \<union> set ps) ?m" using False B unfolding table_inv_def by simp
    then show ?thesis using \<open>ndpi_register_dissector name m i (sel_of i) ps = Some ?m\<close> D(2) by fastforce
  next
    case dis: False
    then have "D = nd_proto_defaults m" using D(3) len by (intro nth_equalityI) auto
    then have "ndpi_register_dissector name m i (sel_of i) ps = Some m"
      using False dis D(1) by (simp add: ndpi_register_dissector_def Let_def)
    then show ?thesis using table_inv_mono [OF inv, of "P \<union> set ps"]
      by (intro exI [of _ "nd_proto_defaults m"] exI [of _ ?B] exI [of _ ?idx]) (simp only: module_self, simp)
  qed
qed

section \<open>All registrations\<close>

text \<open>Registrations of known dissectors, for protocols that no two of them share.\<close>

definition regs_protocols :: "(nat \<times> dissector_entry) list \<Rightarrow> nat list" where
  "regs_protocols regs = concat (map (\<lambda>(i, e). de_protocols e) regs)"

lemma regs_protocols_simps [simp]:
  "regs_protocols [] = []" "regs_protocols ((i, e) # regs) = de_protocols e @ regs_protocols regs"
  by (simp_all add: regs_protocols_def)

definition regs_ok :: "(nat \<Rightarrow> u32) \<Rightarrow> nat \<Rightarrow> nat \<Rightarrow> (nat \<times> dissector_entry) list \<Rightarrow> bool" where
  "regs_ok sel_of num n regs \<longleftrightarrow>
     list_all (\<lambda>(i, e). i < num \<and> de_selection e = sel_of i \<and> list_all (\<lambda>p. p < n) (de_protocols e)) regs \<and>
     distinct (regs_protocols regs)"

lemma register_all_ok:
  assumes "table_inv sel_of num P m" "cfg_wf m" "regs_ok sel_of num (length (nd_proto_defaults m)) regs"
    "P \<inter> set (regs_protocols regs) = {}"
  shows "\<exists>D B N Q. register_all m regs =
      Some (m\<lparr>nd_proto_defaults := D, nd_callback_buffer := B, nd_callback_buffer_num := N\<rparr>) \<and>
    same_protocols D (nd_proto_defaults m) \<and> N \<le> nd_callback_buffer_num m + length regs \<and>
    table_inv sel_of num Q (m\<lparr>nd_proto_defaults := D, nd_callback_buffer := B, nd_callback_buffer_num := N\<rparr>)"
  using assms
proof (induction regs arbitrary: m P)
  case Nil
  then show ?case
    by (intro exI [of _ "nd_proto_defaults m"] exI [of _ "nd_callback_buffer m"] exI [of _ "nd_callback_buffer_num m"]
        exI [of _ P]) (simp only: module_self, simp)
next
  case (Cons r regs)
  obtain i e where r: "r = (i, e)" by fastforce
  have e: "i < num" "de_selection e = sel_of i" "\<forall>p \<in> set (de_protocols e). p < length (nd_proto_defaults m)"
      "distinct (de_protocols e)" "set (de_protocols e) \<inter> P = {}"
    using Cons.prems(3,4) r by (auto simp: regs_ok_def list_all_iff)
  obtain D B N where 1: "ndpi_register_dissector (de_name e) m i (sel_of i) (de_protocols e) =
        Some (m\<lparr>nd_proto_defaults := D, nd_callback_buffer := B, nd_callback_buffer_num := N\<rparr>)"
      "same_protocols D (nd_proto_defaults m)" "N \<le> nd_callback_buffer_num m + 1"
      "table_inv sel_of num (P \<union> set (de_protocols e))
         (m\<lparr>nd_proto_defaults := D, nd_callback_buffer := B, nd_callback_buffer_num := N\<rparr>)"
    using register_fresh [OF Cons.prems(1,2) e(5,4,3,1), of "de_name e"] by blast
  let ?m = "m\<lparr>nd_proto_defaults := D, nd_callback_buffer := B, nd_callback_buffer_num := N\<rparr>"
  have "cfg_wf ?m" using Cons.prems(2) by (simp add: cfg_wf_def)
  moreover have "regs_ok sel_of num (length (nd_proto_defaults ?m)) regs"
    using Cons.prems(3) same_protocols_length [OF 1(2)] r by (simp add: regs_ok_def)
  moreover have "(P \<union> set (de_protocols e)) \<inter> set (regs_protocols regs) = {}"
    using Cons.prems(3,4) r by (auto simp: regs_ok_def)
  ultimately obtain D' B' N' Q where "register_all ?m regs =
        Some (?m\<lparr>nd_proto_defaults := D', nd_callback_buffer := B', nd_callback_buffer_num := N'\<rparr>)"
      "same_protocols D' D" "N' \<le> N + length regs"
      "table_inv sel_of num Q (?m\<lparr>nd_proto_defaults := D', nd_callback_buffer := B', nd_callback_buffer_num := N'\<rparr>)"
    using Cons.IH [OF 1(4)] by auto
  then show ?case using r e(2) 1(1,3) same_protocols_trans [OF _ 1(2)] by fastforce
qed

definition with_arrays :: "ndpi_module \<Rightarrow> call_function list \<Rightarrow> call_function list \<Rightarrow> call_function list \<Rightarrow>
    call_function list \<Rightarrow> ndpi_module" where
  "with_arrays m a b c d = m\<lparr>nd_callback_buffer_tcp_payload := a, nd_callback_buffer_tcp_no_payload := b,
     nd_callback_buffer_udp := c, nd_callback_buffer_non_tcp_udp := d\<rparr>"

lemma tables_callbacks_ok:
  assumes inv: "table_inv sel_of num P m" and n: "nd_callback_buffer_num m < NDPI_MAX_NUM_DISSECTORS"
    and k: "k = nd_callback_buffer_num m + 1 \<or> k = NDPI_MAX_NUM_DISSECTORS"
    and sub: "\<forall>d \<in> set (nd_proto_defaults m). \<forall>q \<in> set (pd_subprotocols d). q = 65534 \<or> q < length (nd_proto_defaults m)"
  defines "M \<equiv> m\<lparr>nd_callback_buffer_size := nd_callback_buffer_num m, nd_callback_buffer := take k (nd_callback_buffer m)\<rparr>"
  shows "\<exists>a b c d. ndpi_enabled_callbacks_init M = Some (with_arrays M a b c d) \<and>
    callbacks_ok sel_of num (with_arrays M a b c d) \<and>
    length a \<le> nd_callback_buffer_num m \<and> length b \<le> nd_callback_buffer_num m \<and>
    length c \<le> nd_callback_buffer_num m \<and> length d \<le> nd_callback_buffer_num m \<and>
    list_all (\<lambda>cbs. distinct (map cf_dissector_idx cbs)) [a, b, c, d]"
proof -
  let ?n = "nd_callback_buffer_num m" and ?B = "nd_callback_buffer m"
  have B: "length ?B = NDPI_MAX_NUM_DISSECTORS" using inv by (simp add: table_inv_def)
  have kn: "?n < k" "k \<le> NDPI_MAX_NUM_DISSECTORS" using k n by auto
  let ?cbs = "take ?n ?B"
  let ?M' = "with_arrays M (filter ndpi_proto_cb_tcp_payload ?cbs) (filter ndpi_proto_cb_tcp_nopayload ?cbs)
    (filter ndpi_proto_cb_udp ?cbs) (filter ndpi_proto_cb_other ?cbs)"
  have eq: "ndpi_enabled_callbacks_init M = Some ?M'"
    using kn B by (simp add: ndpi_enabled_callbacks_init_def M_def Let_def min_def with_arrays_def)
  have entry: "table_entry_ok sel_of num m j" "cf_func (?B ! j) \<noteq> None \<longleftrightarrow> j < ?n" if "j < k" for j
    using inv kn that unfolding table_inv_def by simp_all
  have real: "real_callback sel_of num cb" if cb: "cb \<in> set ?cbs" for cb
  proof -
    obtain j where "j < ?n" "cb = ?B ! j" using cb by (auto simp: in_set_conv_nth)
    then show ?thesis using entry [of j] kn by (simp add: table_entry_ok_def Let_def)
  qed
  have "protocol_entry_ok ?M' d" if d: "d \<in> set (nd_proto_defaults m)" for d
  proof -
    have "pd_dissector_idx d = 0 \<or> pd_dissector_idx d < ?n"
      using d inv unfolding table_inv_def by (metis in_set_conv_nth)
    then show ?thesis using entry [of "pd_dissector_idx d"] kn B sub d
      by (auto simp: protocol_entry_ok_def M_def with_arrays_def)
  qed
  moreover have "callback_arrays ?M' \<subseteq> set ?cbs" by (auto simp: callback_arrays_def with_arrays_def)
  moreover have "table_entry_ok sel_of num ?M' j" if "j < k" for j
    using entry(1) [OF that] that by (simp add: table_entry_ok_def M_def with_arrays_def)
  ultimately have "callbacks_ok sel_of num ?M'" using real kn B by (auto simp: callbacks_ok_def M_def with_arrays_def)
  moreover have "length (filter P ?cbs) \<le> ?n" for P
    using length_filter_le [of P ?cbs] by simp
  moreover have "map cf_dissector_idx ?cbs = [0 ..< ?n]"
    using entry kn B by (intro nth_equalityI) (auto simp: table_entry_ok_def Let_def)
  then have "distinct (map cf_dissector_idx ?cbs)" by simp
  then have "list_all (\<lambda>cbs. distinct (map cf_dissector_idx cbs)) [filter ndpi_proto_cb_tcp_payload ?cbs,
      filter ndpi_proto_cb_tcp_nopayload ?cbs, filter ndpi_proto_cb_udp ?cbs, filter ndpi_proto_cb_other ?cbs]"
    by (simp add: distinct_map_filter)
  ultimately show ?thesis using eq by blast
qed

text \<open>A module before \<open>dissectors_init\<close>: no dissector is assigned, subprotocols are in the table.\<close>

definition before_init :: "ndpi_module \<Rightarrow> bool" where
  "before_init m \<longleftrightarrow> wf_module m \<and> nd_callback_buffer_num m = 0 \<and>
     (\<forall>d \<in> set (nd_proto_defaults m). pd_dissector_idx d = 0 \<and>
        (\<forall>q \<in> set (pd_subprotocols d). q = 65534 \<or> q < length (nd_proto_defaults m)))"

lemma before_init_inv:
  "before_init m \<Longrightarrow>
     table_inv sel_of num {} (m\<lparr>nd_callback_buffer := replicate NDPI_MAX_NUM_DISSECTORS empty_callback\<rparr>)"
  by (simp add: before_init_def table_inv_def table_entry_ok_def empty_callback_def)

definition after_init :: "(nat \<Rightarrow> u32) \<Rightarrow> nat \<Rightarrow> nat \<Rightarrow> ndpi_module \<Rightarrow> ndpi_module \<Rightarrow> bool" where
  "after_init sel_of num n m m' \<longleftrightarrow> callbacks_ok sel_of num m' \<and> wf_module m' \<and>
     same_protocols (nd_proto_defaults m') (nd_proto_defaults m) \<and>
     length (nd_callback_buffer_tcp_payload m') \<le> n \<and> length (nd_callback_buffer_tcp_no_payload m') \<le> n \<and>
     length (nd_callback_buffer_udp m') \<le> n \<and> length (nd_callback_buffer_non_tcp_udp m') \<le> n \<and>
     list_all (\<lambda>cbs. distinct (map cf_dissector_idx cbs)) [nd_callback_buffer_tcp_payload m',
       nd_callback_buffer_tcp_no_payload m', nd_callback_buffer_udp m', nd_callback_buffer_non_tcp_udp m']"

lemma dissectors_init_ok:
  assumes m: "before_init m" and regs: "regs_ok sel_of num (length (nd_proto_defaults m)) regs"
    and n: "length regs < NDPI_MAX_NUM_DISSECTORS"
  shows "\<exists>m'. dissectors_init True resized True m regs = Some (0, m') \<and> after_init sel_of num (length regs) m m'"
proof -
  let ?m = "m\<lparr>nd_callback_buffer := replicate NDPI_MAX_NUM_DISSECTORS empty_callback\<rparr>"
  have wf: "wf_module m" "cfg_wf ?m" using m by (simp_all add: before_init_def wf_module_def cfg_wf_def)
  obtain D B N Q where 1: "register_all ?m regs =
        Some (?m\<lparr>nd_proto_defaults := D, nd_callback_buffer := B, nd_callback_buffer_num := N\<rparr>)"
      "same_protocols D (nd_proto_defaults m)" "N \<le> length regs"
      "table_inv sel_of num Q (?m\<lparr>nd_proto_defaults := D, nd_callback_buffer := B, nd_callback_buffer_num := N\<rparr>)"
    using register_all_ok [OF before_init_inv [OF m] wf(2), where regs = regs and sel_of = sel_of and num = num]
      regs m by (auto simp: before_init_def)
  let ?M = "?m\<lparr>nd_proto_defaults := D, nd_callback_buffer := B, nd_callback_buffer_num := N\<rparr>"
  define k where "k = (if resized then N + 1 else NDPI_MAX_NUM_DISSECTORS)"
  have k: "k = N + 1 \<or> k = NDPI_MAX_NUM_DISSECTORS" by (simp add: k_def)
  have B: "length B = NDPI_MAX_NUM_DISSECTORS" using 1(4) by (simp add: table_inv_def)
  have N: "N < NDPI_MAX_NUM_DISSECTORS" using 1(3) n by simp
  have D: "length D = length (nd_proto_defaults m)" by (rule same_protocols_length [OF 1(2)])
  have sub: "\<forall>d \<in> set D. \<forall>q \<in> set (pd_subprotocols d). q = 65534 \<or> q < length D"
  proof
    fix d assume "d \<in> set D"
    then obtain j where j: "j < length D" "d = D ! j" by (auto simp: in_set_conv_nth)
    have "pd_subprotocols d = pd_subprotocols (nd_proto_defaults m ! j)"
      using same_protocols_nth(2) [OF 1(2)] D j by simp
    moreover have "nd_proto_defaults m ! j \<in> set (nd_proto_defaults m)" using j(1) D by simp
    ultimately show "\<forall>q \<in> set (pd_subprotocols d). q = 65534 \<or> q < length D"
      using m D unfolding before_init_def by simp
  qed
  let ?K = "?M\<lparr>nd_callback_buffer_size := N, nd_callback_buffer := take k B\<rparr>"
  obtain a b c d where M': "ndpi_enabled_callbacks_init ?K = Some (with_arrays ?K a b c d)"
      "callbacks_ok sel_of num (with_arrays ?K a b c d)" "length a \<le> N" "length b \<le> N" "length c \<le> N" "length d \<le> N"
      "list_all (\<lambda>cbs. distinct (map cf_dissector_idx cbs)) [a, b, c, d]"
    using tables_callbacks_ok [OF 1(4), of k] N sub k by auto
  have "wf_module (with_arrays ?K a b c d)" using wf(1) D by (simp add: with_arrays_def wf_module_def cfg_wf_def)
  moreover have "dissectors_init True resized True m regs = Some (0, with_arrays ?K a b c d)"
  proof (cases resized)
    case True
    then show ?thesis using 1(1) M'(1) B N by (simp add: dissectors_init_def Let_def k_def)
  next
    case False
    have "?M\<lparr>nd_callback_buffer_size := N\<rparr> = ?K" using False B by (cases m) (simp add: k_def)
    then show ?thesis using 1(1) M'(1) B N False unfolding dissectors_init_def Let_def by simp
  qed
  ultimately show ?thesis using M'(2-7) 1(2,3) by (simp add: after_init_def with_arrays_def)
qed

text \<open>A module with every protocol enabled and nothing registered yet.\<close>

definition full_module :: ndpi_module where
  "full_module = small_module\<lparr>nd_cfg := (nd_cfg small_module)\<lparr>cfg_detection_bitmask :=
     \<lparr>bm_max_bits = 512, bm_num_fds = howmanybits 512 4, bm_fds = replicate (howmanybits 512 4) (- 1)\<rparr>\<rparr>\<rparr>"

lemma full_module_wf: "wf_module full_module"
  using small_module_wf by (simp add: full_module_def wf_module_def cfg_wf_def bitmask_wf_def)

lemma full_module_before_init: "before_init full_module"
  using full_module_wf by (simp add: before_init_def full_module_def small_module_def empty_module_def empty_proto_def)

lemma full_module_enabled:
  assumes "p < 512"
  shows "is_proto_enabled full_module (int p) = Some True"
  using assms bit_bit_of [of p "p mod 32"]
  by (auto simp: is_proto_enabled_def ndpi_is_custom_protocol_def full_module_def small_module_def empty_module_def
      empty_proto_def ndpi_bitmask_is_set_def howmanybits_def and_bit_of)

section \<open>The arrays\<close>

text \<open>The array \<open>ndpi_check_flow_func\<close> scans for a packet.\<close>

definition callbacks_for :: "ndpi_module \<Rightarrow> call_function list" where
  "callbacks_for m =
     (if pk_tcp (nd_packet m) \<noteq> None
      then if pk_payload (nd_packet m) \<noteq> [] then nd_callback_buffer_tcp_payload m
           else nd_callback_buffer_tcp_no_payload m
      else if pk_udp (nd_packet m) \<noteq> None then nd_callback_buffer_udp m
      else nd_callback_buffer_non_tcp_udp m)"

lemma check_flow_func_eq:
  "ndpi_check_flow_func call m f sel = check_ndpi_detection_func call m f sel (callbacks_for m)"
  by (simp add: ndpi_check_flow_func_def check_ndpi_tcp_flow_func_def check_ndpi_udp_flow_func_def
      check_ndpi_other_flow_func_def callbacks_for_def)

lemma bits_match_bit: "bits_match b s \<Longrightarrow> bit b n \<Longrightarrow> bit s n"
  unfolding bits_match_def by (metis bit_and_iff)

lemma and_selection_bit:
  "b AND 0x002 = 0 \<longleftrightarrow> \<not> bit (b :: u32) 1" "b AND 0x004 = 0 \<longleftrightarrow> \<not> bit (b :: u32) 2"
  "b AND 0x008 = 0 \<longleftrightarrow> \<not> bit (b :: u32) 3" "b AND 0x010 = 0 \<longleftrightarrow> \<not> bit (b :: u32) 4"
  "b AND 0x100 = 0 \<longleftrightarrow> \<not> bit (b :: u32) 8"
  using and_exp_eq_0_iff_not_bit [of b 1] and_exp_eq_0_iff_not_bit [of b 2] and_exp_eq_0_iff_not_bit [of b 3]
    and_exp_eq_0_iff_not_bit [of b 4] and_exp_eq_0_iff_not_bit [of b 8] by simp_all

lemma bit_selection_packet:
  "bit (selection_packet p) 1 \<longleftrightarrow> pk_tcp p \<noteq> None" "bit (selection_packet p) 2 \<longleftrightarrow> pk_udp p \<noteq> None"
  "bit (selection_packet p) 3 \<longleftrightarrow> pk_tcp p \<noteq> None \<or> pk_udp p \<noteq> None" "bit (selection_packet p) 4 \<longleftrightarrow> pk_payload p \<noteq> []"
  unfolding selection_packet_def Let_def selection_bits by (auto simp: bit_simps)

text \<open>A dissector for some transport traffic: one of the transport bits, or all traffic.\<close>

definition wants_transport :: "u32 \<Rightarrow> bool" where
  "wants_transport bits \<longleftrightarrow> bit bits 1 \<or> bit bits 2 \<or> bit bits 3 \<or> bit bits 8"

lemma proto_cb_bits:
  "ndpi_proto_cb_tcp_payload cb \<longleftrightarrow> (let b = cf_ndpi_selection_bitmask cb in bit b 1 \<or> bit b 3 \<or> bit b 8)"
  "ndpi_proto_cb_tcp_nopayload cb \<longleftrightarrow> (let b = cf_ndpi_selection_bitmask cb in (bit b 1 \<or> bit b 3 \<or> bit b 8) \<and> \<not> bit b 4)"
  "ndpi_proto_cb_udp cb \<longleftrightarrow> (let b = cf_ndpi_selection_bitmask cb in bit b 2 \<or> bit b 3 \<or> bit b 8)"
  "ndpi_proto_cb_other cb \<longleftrightarrow> (let b = cf_ndpi_selection_bitmask cb in \<not> (bit b 1 \<or> bit b 2 \<or> bit b 3) \<or> bit b 8)"
  unfolding ndpi_proto_cb_tcp_payload_def ndpi_proto_cb_tcp_nopayload_def ndpi_proto_cb_udp_def ndpi_proto_cb_other_def
    selection_bits bit.conj_disj_distrib or_eq_0_iff and_selection_bit Let_def by blast+

lemma selected_in_array:
  assumes "ndpi_enabled_callbacks_init m = Some m'" "cb \<in> set (take (nd_callback_buffer_size m) (nd_callback_buffer m))"
    "bits_match (cf_ndpi_selection_bitmask cb) (selection_packet (nd_packet m))"
    "wants_transport (cf_ndpi_selection_bitmask cb) \<or> (pk_tcp (nd_packet m) = None \<and> pk_udp (nd_packet m) = None)"
    "pk_tcp (nd_packet m) = None \<or> pk_udp (nd_packet m) = None"
  shows "cb \<in> set (callbacks_for m')"
proof -
  let ?b = "cf_ndpi_selection_bitmask cb" and ?cbs = "take (nd_callback_buffer_size m) (nd_callback_buffer m)"
  note bit = bits_match_bit [OF assms(3)]
  have bits: "bit ?b 1 \<Longrightarrow> pk_tcp (nd_packet m) \<noteq> None" "bit ?b 2 \<Longrightarrow> pk_udp (nd_packet m) \<noteq> None"
    "bit ?b 3 \<Longrightarrow> pk_tcp (nd_packet m) \<noteq> None \<or> pk_udp (nd_packet m) \<noteq> None" "bit ?b 4 \<Longrightarrow> pk_payload (nd_packet m) \<noteq> []"
    using bit [of 1] bit [of 2] bit [of 3] bit [of 4] unfolding bit_selection_packet by blast+
  have m': "m' = with_arrays m (filter ndpi_proto_cb_tcp_payload ?cbs) (filter ndpi_proto_cb_tcp_nopayload ?cbs)
      (filter ndpi_proto_cb_udp ?cbs) (filter ndpi_proto_cb_other ?cbs)"
    using assms(1) by (simp add: ndpi_enabled_callbacks_init_def Let_def with_arrays_def split: if_splits)
  consider "pk_tcp (nd_packet m) \<noteq> None" "pk_udp (nd_packet m) = None"
    | "pk_tcp (nd_packet m) = None" "pk_udp (nd_packet m) \<noteq> None"
    | "pk_tcp (nd_packet m) = None" "pk_udp (nd_packet m) = None"
    using assms(5) by blast
  then show ?thesis
  proof cases
    case 1
    then show ?thesis using bits assms(2,4) unfolding m' wants_transport_def
      by (simp add: callbacks_for_def with_arrays_def proto_cb_bits Let_def) blast
  next
    case 2
    then show ?thesis using bits assms(2,4) unfolding m' wants_transport_def
      by (simp add: callbacks_for_def with_arrays_def proto_cb_bits Let_def) blast
  next
    case 3
    then show ?thesis using bits assms(2) unfolding m'
      by (simp add: callbacks_for_def with_arrays_def proto_cb_bits Let_def) blast
  qed
qed

lemma enabled_callbacks_packet:
  "ndpi_enabled_callbacks_init m = Some m' \<Longrightarrow>
     ndpi_enabled_callbacks_init (m\<lparr>nd_packet := p\<rparr>) = Some (m'\<lparr>nd_packet := p\<rparr>) \<and>
     nd_callback_buffer_size m' = nd_callback_buffer_size m \<and> nd_callback_buffer m' = nd_callback_buffer m"
  by (auto simp: ndpi_enabled_callbacks_init_def Let_def split: if_splits)



definition callback_of :: "nat \<Rightarrow> dissector_entry \<Rightarrow> nat \<Rightarrow> call_function" where
  "callback_of i e p = \<lparr>cf_name = take 15 (str (de_name e)), cf_func = Some i,
     cf_ndpi_selection_bitmask = de_selection e, cf_dissector_idx = 0, cf_first_protocol_id = p\<rparr>"

lemma single_init:
  assumes "de_protocols e = [p]" "p < num_protocol_ids"
  shows "\<exists>m'. dissectors_init True True True full_module [(i, e)] = Some (0, m') \<and>
     nd_callback_buffer_size m' = 1 \<and> nd_callback_buffer m' = [callback_of i e p, empty_callback] \<and>
     nd_callback_buffer_udp m' = filter ndpi_proto_cb_udp [callback_of i e p] \<and>
     (\<forall>q < num_protocol_ids. rd_proto m' q = Some empty_proto)"
proof -
  have d: "rd_proto (full_module\<lparr>nd_callback_buffer := B\<rparr>) p = Some empty_proto" for B
    using assms(2) by (simp add: rd_proto_def full_module_def small_module_def)
  have e: "is_proto_enabled (full_module\<lparr>nd_callback_buffer := B\<rparr>) (int p) = Some True" for B
  proof -
    have "is_proto_enabled (full_module\<lparr>nd_callback_buffer := B\<rparr>) q = is_proto_enabled full_module q" for q
      by (simp add: is_proto_enabled_def ndpi_is_custom_protocol_def)
    then show ?thesis using full_module_enabled [of p] assms(2) by simp
  qed
  have n: "nd_callback_buffer_num full_module = 0" by (simp add: full_module_def small_module_def empty_module_def)
  have i: "pd_dissector_idx empty_proto = 0" by (simp add: empty_proto_def)
  have same: "empty_proto\<lparr>pd_dissector_idx := 0\<rparr> = empty_proto" by (simp add: empty_proto_def)
  let ?R = "replicate NDPI_MAX_NUM_DISSECTORS empty_callback" and ?cb = "callback_of i e p"
  let ?m = "full_module\<lparr>nd_callback_buffer := ?R\<rparr>"
  let ?D = "(nd_proto_defaults full_module)[p := empty_proto]"
  let ?m1 = "?m\<lparr>nd_proto_defaults := ?D, nd_callback_buffer := ?R[0 := ?cb], nd_callback_buffer_num := 1\<rparr>"
  have "register_protocols ?m 0 i None False [p] = Some (Inr (?m\<lparr>nd_proto_defaults := ?D\<rparr>, Some p, True))"
    unfolding register_protocols.simps e d Option.bind.simps i same by simp
  then have "register_all ?m [(i, e)] = Some ?m1"
    using n assms(1) by (simp add: ndpi_register_dissector_def Let_def rd_callback_def callback_of_def
        NDPI_MAX_NUM_DISSECTORS_def)
  moreover have "take 2 (?R[0 := ?cb]) = [?cb, empty_callback]"
    by (simp add: NDPI_MAX_NUM_DISSECTORS_def take_update_swap numeral_2_eq_2)
  moreover have "length (nd_proto_defaults full_module) = num_protocol_ids" "\<forall>q < num_protocol_ids. ?D ! q = empty_proto"
    using assms(2) by (simp_all add: full_module_def small_module_def nth_list_update)
  ultimately show ?thesis
    by (simp add: dissectors_init_def Let_def ndpi_enabled_callbacks_init_def NDPI_MAX_NUM_DISSECTORS_def numeral_2_eq_2
        rd_proto_def)
qed

definition sample_entry :: dissector_entry where
  "sample_entry = \<lparr>de_name = ''Sample'', de_func = (\<lambda>m f. Some (m, f)),
     de_selection = NDPI_SELECTION_BITMASK_PROTOCOL_V4_V6_UDP_WITH_PAYLOAD, de_protocols = [NDPI_PROTOCOL_DNS]\<rparr>"

abbreviation sample_callback :: call_function where
  "sample_callback \<equiv> callback_of 0 sample_entry NDPI_PROTOCOL_DNS"

definition sample_udp :: "nat \<Rightarrow> bytes \<Rightarrow> ndpi_packet" where
  "sample_udp port p = empty_packet\<lparr>pk_iph := Some \<lparr>ip_ihl = 5, ip_tot_len = 28 + length p, ip_frag_off = 0, ip_ttl = 64,
       ip_protocol = 17, ip_saddr = 0x0A000001, ip_daddr = 0x0A000002\<rparr>,
     pk_udp := Some \<lparr>uh_source = 40000, uh_dest = port, uh_len = 8 + length p\<rparr>, pk_payload := p\<rparr>"

lemma sample_udp_wf: "wf_packet (sample_udp port p)"
  by (simp add: sample_udp_def empty_packet_def wf_packet_def line_ok_def empty_line_def)



end
