(* ===== verification/Dissectors_A.thy ===== *)
theory Dissectors_A
  imports Dissector_Interface
begin

text \<open>
Dissectors decided by the first bytes of one packet (\<open>src/lib/protocols\<close>, named in the
  headings). A condition lists the C operands of \<open>&&\<close> and \<open>||\<close> in their order, so that an
  operand that reads the payload is evaluated only after the length tests before it. Where the
  source delegates to helper functions that are called once, their bodies are in place.
\<close>

subsection \<open>BJNP (\<open>bjnp.c\<close>)\<close>

definition ndpi_search_bjnp :: dissector_fun where [dissector_defs]:
  "ndpi_search_bjnp m f =
     (let p = payload m in
      ifc (all_of [Some (length p > 4),
             any_of [mem_eq p 0 (str ''BJNP''), mem_eq p 0 (str ''BNJB''),
                     mem_eq p 0 (str ''BJNB''), mem_eq p 0 (str ''MFNP'')]])
        (detected m f NDPI_PROTOCOL_BJNP) (NDPI_EXCLUDE_DISSECTOR m f))"

definition init_bjnp_dissector :: dissector_entry where [dissector_defs]:
  "init_bjnp_dissector = \<lparr>de_name = ''BJNP'', de_func = ndpi_search_bjnp,
     de_selection = NDPI_SELECTION_BITMASK_PROTOCOL_V4_V6_UDP_WITH_PAYLOAD,
     de_protocols = [NDPI_PROTOCOL_BJNP]\<rparr>"

subsection \<open>VMWARE (\<open>vmware.c\<close>)\<close>

definition ndpi_search_vmware :: dissector_fun where [dissector_defs]:
  "ndpi_search_vmware m f =
     (let packet = nd_packet m in
      if pk_udp packet \<noteq> None
      then ifc (all_of [Some (length (pk_payload packet) = 66), is_val (udp_dest packet) 902,
                        byte_sat (pk_payload packet) 0 (\<lambda>b. b AND 0xFF = 0xA4)])
             (detected m f NDPI_PROTOCOL_VMWARE) (NDPI_EXCLUDE_DISSECTOR m f)
      else NDPI_EXCLUDE_DISSECTOR m f)"

definition init_vmware_dissector :: dissector_entry where [dissector_defs]:
  "init_vmware_dissector = \<lparr>de_name = ''VMWARE'', de_func = ndpi_search_vmware,
     de_selection = NDPI_SELECTION_BITMASK_PROTOCOL_V4_V6_UDP_WITH_PAYLOAD,
     de_protocols = [NDPI_PROTOCOL_VMWARE]\<rparr>"

subsection \<open>TEREDO (\<open>teredo.c\<close>)\<close>

definition ndpi_search_teredo :: dissector_fun where [dissector_defs]:
  "ndpi_search_teredo m f =
     (let packet = nd_packet m in
      ifc (all_of [Some (pk_udp packet \<noteq> None), Some (pk_iph packet \<noteq> None),
             sat (iph_daddr packet) (\<lambda>a. a AND 0xF0000000 \<noteq> 0xE0000000),
             any_of [is_val (udp_source packet) 3544, is_val (udp_dest packet) 3544],
             Some (length (pk_payload packet) \<ge> 40)])
        (detected m f NDPI_PROTOCOL_TEREDO) (NDPI_EXCLUDE_DISSECTOR m f))"

definition init_teredo_dissector :: dissector_entry where [dissector_defs]:
  "init_teredo_dissector = \<lparr>de_name = ''TEREDO'', de_func = ndpi_search_teredo,
     de_selection = NDPI_SELECTION_BITMASK_PROTOCOL_UDP_WITH_PAYLOAD,
     de_protocols = [NDPI_PROTOCOL_TEREDO]\<rparr>"

subsection \<open>ZeroMQ (\<open>zeromq.c\<close>)\<close>

definition ndpi_search_zmq :: dissector_fun where [dissector_defs]:
  "ndpi_search_zmq m f =
     (let p = payload m in
      ifc (all_of [Some (length p > 9),
             mem_eq p 0 [0xFF, 0x00, 0x00, 0x00, 0x00, 0x00, 0x00, 0x00, 0x01, 0x7F]])
        (detected m f NDPI_PROTOCOL_ZMQ) (NDPI_EXCLUDE_DISSECTOR m f))"

definition init_zmq_dissector :: dissector_entry where [dissector_defs]:
  "init_zmq_dissector = \<lparr>de_name = ''ZeroMQ'', de_func = ndpi_search_zmq,
     de_selection = NDPI_SELECTION_BITMASK_PROTOCOL_V4_V6_TCP_WITH_PAYLOAD_WITHOUT_RETRANSMISSION,
     de_protocols = [NDPI_PROTOCOL_ZMQ]\<rparr>"

subsection \<open>Tailscale (\<open>tailscale.c\<close>)\<close>

definition ndpi_search_tailscale :: dissector_fun where [dissector_defs]:
  "ndpi_search_tailscale m f =
     (let p = payload m; magic = [0x54, 0x53, 0xf0, 0x9f, 0x92, 0xac]; port = 41641 in
      ifc (all_of [Some (length p > length magic), Some (fl_c_port f = port \<or> fl_s_port f = port),
             mem_eq p 0 magic])
        (detected m f NDPI_PROTOCOL_TAILSCALE) (NDPI_EXCLUDE_DISSECTOR m f))"

definition init_tailscale_dissector :: dissector_entry where [dissector_defs]:
  "init_tailscale_dissector = \<lparr>de_name = ''Tailscale'', de_func = ndpi_search_tailscale,
     de_selection = NDPI_SELECTION_BITMASK_PROTOCOL_V4_V6_UDP_WITH_PAYLOAD,
     de_protocols = [NDPI_PROTOCOL_TAILSCALE]\<rparr>"

subsection \<open>AmongUs (\<open>among_us.c\<close>)\<close>

definition ndpi_search_among_us :: dissector_fun where [dissector_defs]:
  "ndpi_search_among_us m f =
     (let p = payload m in
      ifc (all_of [Some (length p > 9), be32_is p 0 0x08000100, be32_is p 4 0x80d90203])
        (detected m f NDPI_PROTOCOL_AMONG_US) (NDPI_EXCLUDE_DISSECTOR m f))"

definition init_among_us_dissector :: dissector_entry where [dissector_defs]:
  "init_among_us_dissector = \<lparr>de_name = ''AmongUs'', de_func = ndpi_search_among_us,
     de_selection = NDPI_SELECTION_BITMASK_PROTOCOL_V4_V6_UDP_WITH_PAYLOAD,
     de_protocols = [NDPI_PROTOCOL_AMONG_US]\<rparr>"

subsection \<open>MerakiCloud (\<open>merakicloud.c\<close>)\<close>

definition ndpi_search_merakicloud :: dissector_fun where [dissector_defs]:
  "ndpi_search_merakicloud m f =
     (let p = payload m in
      ifc (all_of [Some (fl_c_port f = 7351 \<or> fl_s_port f = 7351), Some (length p > 4),
             be32_is p 0 0xfef72891])
        (detected m f NDPI_PROTOCOL_MERAKI_CLOUD) (NDPI_EXCLUDE_DISSECTOR m f))"

definition init_merakicloud_dissector :: dissector_entry where [dissector_defs]:
  "init_merakicloud_dissector = \<lparr>de_name = ''MerakiCloud'', de_func = ndpi_search_merakicloud,
     de_selection = NDPI_SELECTION_BITMASK_PROTOCOL_V4_V6_UDP_WITH_PAYLOAD,
     de_protocols = [NDPI_PROTOCOL_MERAKI_CLOUD]\<rparr>"

subsection \<open>Zabbix (\<open>zabbix.c\<close>)\<close>

definition ndpi_search_zabbix :: dissector_fun where [dissector_defs]:
  "ndpi_search_zabbix m f =
     (let p = payload m in
      ifc (all_of [Some (length p \<ge> 4), mem_eq p 0 (str ''ZBXD'')])
        (detected m f NDPI_PROTOCOL_ZABBIX) (NDPI_EXCLUDE_DISSECTOR m f))"

definition init_zabbix_dissector :: dissector_entry where [dissector_defs]:
  "init_zabbix_dissector = \<lparr>de_name = ''Zabbix'', de_func = ndpi_search_zabbix,
     de_selection = NDPI_SELECTION_BITMASK_PROTOCOL_V4_V6_TCP_WITH_PAYLOAD_WITHOUT_RETRANSMISSION,
     de_protocols = [NDPI_PROTOCOL_ZABBIX]\<rparr>"

subsection \<open>Gearman (\<open>gearman.c\<close>)\<close>

definition ndpi_search_gearman :: dissector_fun where [dissector_defs]:
  "ndpi_search_gearman m f =
     (let p = payload m in
      ifc (all_of [Some (length p > 12), byte_is p 0 0,
             any_of [mem_eq p 1 (str ''REQ''), mem_eq p 1 (str ''RES'')]])
        (detected m f NDPI_PROTOCOL_GEARMAN) (NDPI_EXCLUDE_DISSECTOR m f))"

definition init_gearman_dissector :: dissector_entry where [dissector_defs]:
  "init_gearman_dissector = \<lparr>de_name = ''Gearman'', de_func = ndpi_search_gearman,
     de_selection = NDPI_SELECTION_BITMASK_PROTOCOL_V4_V6_TCP_WITH_PAYLOAD_WITHOUT_RETRANSMISSION,
     de_protocols = [NDPI_PROTOCOL_GEARMAN]\<rparr>"

subsection \<open>OpenWire (\<open>openwire.c\<close>)\<close>

definition ndpi_search_openwire :: dissector_fun where [dissector_defs]:
  "ndpi_search_openwire m f =
     (let p = payload m in
      ifc (all_of [Some (length p > 22), be32_is p 0 (length p - 4), byte_is p 4 0x01,
             mem_eq p 5 (str ''ActiveMQ'')])
        (detected m f NDPI_PROTOCOL_OPENWIRE) (NDPI_EXCLUDE_DISSECTOR m f))"

definition init_openwire_dissector :: dissector_entry where [dissector_defs]:
  "init_openwire_dissector = \<lparr>de_name = ''OpenWire'', de_func = ndpi_search_openwire,
     de_selection = NDPI_SELECTION_BITMASK_PROTOCOL_V4_V6_TCP_WITH_PAYLOAD_WITHOUT_RETRANSMISSION,
     de_protocols = [NDPI_PROTOCOL_OPENWIRE]\<rparr>"

subsection \<open>Ceph (\<open>ceph.c\<close>)\<close>

definition ndpi_search_ceph :: dissector_fun where [dissector_defs]:
  "ndpi_search_ceph m f =
     (let p = payload m in
      ifc (all_of [Some (length p > length ''ceph v''), mem_eq p 0 (str ''ceph v'')])
        (detected m f NDPI_PROTOCOL_CEPH) (NDPI_EXCLUDE_DISSECTOR m f))"

definition init_ceph_dissector :: dissector_entry where [dissector_defs]:
  "init_ceph_dissector = \<lparr>de_name = ''Ceph'', de_func = ndpi_search_ceph,
     de_selection = NDPI_SELECTION_BITMASK_PROTOCOL_V4_V6_TCP_WITH_PAYLOAD_WITHOUT_RETRANSMISSION,
     de_protocols = [NDPI_PROTOCOL_CEPH]\<rparr>"

subsection \<open>CPHA (\<open>cpha.c\<close>)\<close>

definition ndpi_search_cpha :: dissector_fun where [dissector_defs]:
  "ndpi_search_cpha m f =
     (let packet = nd_packet m; p = pk_payload packet in
      ifc (all_of [Some (length p > 20), byte_is p 0 0x1a, byte_is p 1 0x90,
             Some (pk_udp packet \<noteq> None), Some (pk_iph packet \<noteq> None),
             is_val (udp_source packet) 8116, is_val (udp_dest packet) 8116,
             is_val (iph_saddr packet) 0])
        (detected m f NDPI_PROTOCOL_CPHA) (NDPI_EXCLUDE_DISSECTOR m f))"

definition init_cpha_dissector :: dissector_entry where [dissector_defs]:
  "init_cpha_dissector = \<lparr>de_name = ''CPHA'', de_func = ndpi_search_cpha,
     de_selection = NDPI_SELECTION_BITMASK_PROTOCOL_UDP_WITH_PAYLOAD,
     de_protocols = [NDPI_PROTOCOL_CPHA]\<rparr>"

subsection \<open>DingTalk (\<open>dingtalk.c\<close>)\<close>

definition ndpi_search_dingtalk :: dissector_fun where [dissector_defs]:
  "ndpi_search_dingtalk m f =
     (let p = payload m in
      ifc (all_of [Some (length p > 90), byte_is p 0 0x10,
             be32_is p 2 0x87800100, be32_is p 6 0x1000200, be32_is p 10 0x2646B03, be16_is p 14 0x20])
        (detected m f NDPI_PROTOCOL_DINGTALK) (NDPI_EXCLUDE_DISSECTOR m f))"

definition init_dingtalk_dissector :: dissector_entry where [dissector_defs]:
  "init_dingtalk_dissector = \<lparr>de_name = ''DingTalk'', de_func = ndpi_search_dingtalk,
     de_selection = NDPI_SELECTION_BITMASK_PROTOCOL_V4_V6_TCP_WITH_PAYLOAD_WITHOUT_RETRANSMISSION,
     de_protocols = [NDPI_PROTOCOL_DINGTALK]\<rparr>"

subsection \<open>EtherSIO (\<open>ethersio.c\<close>)\<close>

definition ndpi_search_ethersio :: dissector_fun where [dissector_defs]:
  "ndpi_search_ethersio m f =
     (let p = payload m in
      ifc (all_of [Some (length p \<ge> 20), mem_eq p 0 (str ''ESIO''), byte_is p 4 0,
             byte_sat p 5 (\<lambda>b. b \<le> 0x2), byte_is p 6 0])
        (detected m f NDPI_PROTOCOL_ETHERSIO) (NDPI_EXCLUDE_DISSECTOR m f))"

definition init_ethersio_dissector :: dissector_entry where [dissector_defs]:
  "init_ethersio_dissector = \<lparr>de_name = ''EtherSIO'', de_func = ndpi_search_ethersio,
     de_selection = NDPI_SELECTION_BITMASK_PROTOCOL_V4_V6_UDP_WITH_PAYLOAD,
     de_protocols = [NDPI_PROTOCOL_ETHERSIO]\<rparr>"

subsection \<open>Megaco (\<open>megaco.c\<close>)\<close>

definition ndpi_search_megaco :: dissector_fun where [dissector_defs]:
  "ndpi_search_megaco m f =
     (let p = payload m; is = (\<lambda>i c. byte_is p i (byte_of c)) in
      if pk_udp (nd_packet m) \<noteq> None
      then ifc (any_of [
             all_of [Some (length p > 4), is 0 CHR ''!'', is 1 CHR ''/'', is 2 CHR ''1'', is 3 CHR '' '',
                     any_of [is 4 CHR ''['', is 4 CHR ''<'']],
             all_of [Some (length p > 9), is 0 CHR ''M'', is 1 CHR ''E'', is 2 CHR ''G'', is 3 CHR ''A'',
                     is 4 CHR ''C'', is 5 CHR ''O'', is 6 CHR ''/'', is 7 CHR ''1'', is 8 CHR '' '',
                     is 9 CHR ''['']])
             (detected m f NDPI_PROTOCOL_MEGACO) (NDPI_EXCLUDE_DISSECTOR m f)
      else NDPI_EXCLUDE_DISSECTOR m f)"

definition init_megaco_dissector :: dissector_entry where [dissector_defs]:
  "init_megaco_dissector = \<lparr>de_name = ''Megaco'', de_func = ndpi_search_megaco,
     de_selection = NDPI_SELECTION_BITMASK_PROTOCOL_V4_V6_UDP_WITH_PAYLOAD,
     de_protocols = [NDPI_PROTOCOL_MEGACO]\<rparr>"

subsection \<open>EasyWeather (\<open>easyweather.c\<close>)\<close>

definition ndpi_search_easyweather :: dissector_fun where [dissector_defs]:
  "ndpi_search_easyweather m f =
     (let p = payload m in
      ifc (any_of [Some (length p < 5), notc (be32_is p 0 0xFFFF1200)])
        (NDPI_EXCLUDE_DISSECTOR m f) (detected m f NDPI_PROTOCOL_EASYWEATHER))"

definition init_easyweather_dissector :: dissector_entry where [dissector_defs]:
  "init_easyweather_dissector = \<lparr>de_name = ''EasyWeather'', de_func = ndpi_search_easyweather,
     de_selection = NDPI_SELECTION_BITMASK_PROTOCOL_V4_V6_UDP_WITH_PAYLOAD,
     de_protocols = [NDPI_PROTOCOL_EASYWEATHER]\<rparr>"

subsection \<open>EthernetGlobalData (\<open>egd.c\<close>)\<close>

definition ndpi_search_egd :: dissector_fun where [dissector_defs]:
  "ndpi_search_egd m f =
     (let packet = nd_packet m; p = pk_payload packet in
      ifc (all_of [Some (length p > 32), be16_is p 0 0x0D01,
             eq_vals (rd32 p 4) (map_option unat (iph_saddr packet)),
             sat (rd32 p 24) (\<lambda>v. v < 31), be32_is p 28 0])
        (detected m f NDPI_PROTOCOL_EGD) (NDPI_EXCLUDE_DISSECTOR m f))"

definition init_egd_dissector :: dissector_entry where [dissector_defs]:
  "init_egd_dissector = \<lparr>de_name = ''EthernetGlobalData'', de_func = ndpi_search_egd,
     de_selection = NDPI_SELECTION_BITMASK_PROTOCOL_UDP_WITH_PAYLOAD,
     de_protocols = [NDPI_PROTOCOL_EGD]\<rparr>"

subsection \<open>AVAST (\<open>avast.c\<close>)\<close>

definition ndpi_search_avast :: dissector_fun where [dissector_defs]:
  "ndpi_search_avast m f =
     (let p = payload m in
      if length p < 6 then NDPI_EXCLUDE_DISSECTOR m f
      else ifc (all_of [strn_eq p 0 (str ''NOSA''), be16_is p 4 (length p)])
             (detected m f NDPI_PROTOCOL_AVAST) (NDPI_EXCLUDE_DISSECTOR m f))"

definition init_avast_dissector :: dissector_entry where [dissector_defs]:
  "init_avast_dissector = \<lparr>de_name = ''AVAST'', de_func = ndpi_search_avast,
     de_selection = NDPI_SELECTION_BITMASK_PROTOCOL_V4_V6_TCP_WITH_PAYLOAD_WITHOUT_RETRANSMISSION,
     de_protocols = [NDPI_PROTOCOL_AVAST]\<rparr>"

subsection \<open>GuildWars2 (\<open>guildwars2.c\<close>)\<close>

definition ndpi_search_guildwars2_tcp :: dissector_fun where [dissector_defs]:
  "ndpi_search_guildwars2_tcp m f =
     (let p = payload m in
      ifc (all_of [Some (length p > 50),
             any_of [mem_eq p 0 (str ''P /Sts/Connect STS/1.0''), mem_eq p 0 (str ''P /Auth/StartTls STS/1.0''),
                     mem_eq p 0 (str ''STS/1.0 400 Success'')]])
        (detected m f NDPI_PROTOCOL_GUILDWARS2) (NDPI_EXCLUDE_DISSECTOR m f))"

definition init_guildwars2_dissector :: dissector_entry where [dissector_defs]:
  "init_guildwars2_dissector = \<lparr>de_name = ''GuildWars2'', de_func = ndpi_search_guildwars2_tcp,
     de_selection = NDPI_SELECTION_BITMASK_PROTOCOL_V4_V6_TCP_WITH_PAYLOAD_WITHOUT_RETRANSMISSION,
     de_protocols = [NDPI_PROTOCOL_GUILDWARS2]\<rparr>"

subsection \<open>JRMI (\<open>jrmi.c\<close>)\<close>

definition ndpi_search_jrmi :: dissector_fun where [dissector_defs]:
  "ndpi_search_jrmi m f =
     (let p = payload m in
      ifc (all_of [Some (length p > 5), byte_is p 0 0x4a, byte_is p 1 0x52, byte_is p 2 0x4d, byte_is p 3 0x49])
        (detected m f NDPI_PROTOCOL_JRMI) (NDPI_EXCLUDE_DISSECTOR m f))"

definition init_jrmi_dissector :: dissector_entry where [dissector_defs]:
  "init_jrmi_dissector = \<lparr>de_name = ''JRMI'', de_func = ndpi_search_jrmi,
     de_selection = NDPI_SELECTION_BITMASK_PROTOCOL_V4_V6_TCP_WITH_PAYLOAD_WITHOUT_RETRANSMISSION,
     de_protocols = [NDPI_PROTOCOL_JRMI]\<rparr>"

subsection \<open>MPEG_TS (\<open>mpegts.c\<close>)\<close>

definition ndpi_search_mpegts :: dissector_fun where [dissector_defs]:
  "ndpi_search_mpegts m f =
     (let p = payload m in
      if pk_udp (nd_packet m) \<noteq> None \<and> length p mod 188 = 0
      then ifc (all_of (map (\<lambda>i. byte_is p (188 * i) 0x47) [0 ..< length p div 188]))
             (detected m f NDPI_PROTOCOL_MPEGTS) (NDPI_EXCLUDE_DISSECTOR m f)
      else NDPI_EXCLUDE_DISSECTOR m f)"

definition init_mpegts_dissector :: dissector_entry where [dissector_defs]:
  "init_mpegts_dissector = \<lparr>de_name = ''MPEG_TS'', de_func = ndpi_search_mpegts,
     de_selection = NDPI_SELECTION_BITMASK_PROTOCOL_V4_V6_UDP_WITH_PAYLOAD,
     de_protocols = [NDPI_PROTOCOL_MPEGTS]\<rparr>"

subsection \<open>Steam (\<open>steam.c\<close>)\<close>

definition ndpi_search_steam :: dissector_fun where [dissector_defs]:
  "ndpi_search_steam m f =
     (let p = payload m in
      ifc (all_of [Some (length p \<ge> 40), is_val (rdle64 p 0) 0xA05F4C21FFFFFFFF])
        (detected m f NDPI_PROTOCOL_STEAM) (NDPI_EXCLUDE_DISSECTOR m f))"

definition init_steam_dissector :: dissector_entry where [dissector_defs]:
  "init_steam_dissector = \<lparr>de_name = ''Steam'', de_func = ndpi_search_steam,
     de_selection = NDPI_SELECTION_BITMASK_PROTOCOL_V4_V6_UDP_WITH_PAYLOAD,
     de_protocols = [NDPI_PROTOCOL_STEAM]\<rparr>"

subsection \<open>WSD (\<open>wsd.c\<close>)\<close>

definition ndpi_search_wsd :: dissector_fun where [dissector_defs]:
  "ndpi_search_wsd m f =
     (let packet = nd_packet m; p = pk_payload packet in
      ifc (all_of [Some (pk_udp packet \<noteq> None),
             any_of [all_of [Some (pk_iph packet \<noteq> None), sat (iph_daddr packet) (\<lambda>a. a AND 0xF0000000 = 0xE0000000)],
                     all_of [Some (pk_iphv6 packet \<noteq> None), is_val (iph6_dst32 packet 0) 0xFF020000]],
             is_val (udp_dest packet) 3702, Some (length p \<ge> 40), strn_eq p 0 (str ''<?xml'')])
        (detected m f NDPI_PROTOCOL_WSD) (NDPI_EXCLUDE_DISSECTOR m f))"

definition init_wsd_dissector :: dissector_entry where [dissector_defs]:
  "init_wsd_dissector = \<lparr>de_name = ''WSD'', de_func = ndpi_search_wsd,
     de_selection = NDPI_SELECTION_BITMASK_PROTOCOL_V4_V6_UDP_WITH_PAYLOAD,
     de_protocols = [NDPI_PROTOCOL_WSD]\<rparr>"

subsection \<open>ATG (\<open>atg.c\<close>)\<close>

definition ndpi_search_atg :: dissector_fun where [dissector_defs]:
  "ndpi_search_atg m f =
     (let packet = nd_packet m; p = pk_payload packet in
      ifc (all_of [Some (length p \<ge> 8),
             any_of [is_val (tcp_source packet) 10001, is_val (tcp_dest packet) 10001],
             byte_is p 0 0x01,
             byte_sat p 1 (\<lambda>b. b = 0x49 \<or> b = 0x69 \<or> b = 0x53 \<or> b = 0x73),
             mem_eq p (length p - 2) [13, 10]])
        (detected m f NDPI_PROTOCOL_ATG) (NDPI_EXCLUDE_DISSECTOR m f))"

definition init_atg_dissector :: dissector_entry where [dissector_defs]:
  "init_atg_dissector = \<lparr>de_name = ''ATG'', de_func = ndpi_search_atg,
     de_selection = NDPI_SELECTION_BITMASK_PROTOCOL_V4_V6_TCP_WITH_PAYLOAD_WITHOUT_RETRANSMISSION,
     de_protocols = [NDPI_PROTOCOL_ATG]\<rparr>"

subsection \<open>AVAST SecureDNS (\<open>avast_securedns.c\<close>)\<close>

definition ndpi_search_avast_securedns :: dissector_fun where [dissector_defs]:
  "ndpi_search_avast_securedns m f =
     (let p = payload m in
      ifc (any_of [Some (length p < 34), notc (be32_is p 11 0x00013209), Some (fl_packet_counter f > 1)])
        (NDPI_EXCLUDE_DISSECTOR m f)
        (ifc (strncase_eq p 15 (str ''securedns''))
           (detected m f NDPI_PROTOCOL_AVAST_SECUREDNS) (NDPI_EXCLUDE_DISSECTOR m f)))"

definition init_avast_securedns_dissector :: dissector_entry where [dissector_defs]:
  "init_avast_securedns_dissector = \<lparr>de_name = ''AVAST SecureDNS'', de_func = ndpi_search_avast_securedns,
     de_selection = NDPI_SELECTION_BITMASK_PROTOCOL_V4_V6_UDP_WITH_PAYLOAD,
     de_protocols = [NDPI_PROTOCOL_AVAST_SECUREDNS]\<rparr>"

subsection \<open>CNP-IP (\<open>cnp-ip.c\<close>)\<close>

definition ndpi_search_cnp_ip :: dissector_fun where [dissector_defs]:
  "ndpi_search_cnp_ip m f =
     (let p = payload m in
      ifc (all_of [Some (length p > 20), be16_is p 0 (length p), byte_sat p 3 (\<lambda>b. b AND 0x1F = 0x01),
             byte_is p 4 0, byte_sat p 5 (\<lambda>b. b AND 0x1F < 0x03)])
        (detected m f NDPI_PROTOCOL_CNP_IP) (NDPI_EXCLUDE_DISSECTOR m f))"

definition init_cnp_ip_dissector :: dissector_entry where [dissector_defs]:
  "init_cnp_ip_dissector = \<lparr>de_name = ''CNP-IP'', de_func = ndpi_search_cnp_ip,
     de_selection = NDPI_SELECTION_BITMASK_PROTOCOL_V4_V6_UDP_WITH_PAYLOAD,
     de_protocols = [NDPI_PROTOCOL_CNP_IP]\<rparr>"

subsection \<open>MELSEC (\<open>melsec.c\<close>)\<close>

definition ndpi_search_melsec :: dissector_fun where [dissector_defs]:
  "ndpi_search_melsec m f =
     (let p = payload m in
      seq_step
        (ifc (all_of [Some (length p > 40), any_of [byte_is p 0 0x57, byte_is p 0 0xD7],
                is_val (rdle16 p 19) (length p - 21), be32_is p 3 0x00001111])
           (detected m f NDPI_PROTOCOL_MELSEC) (Some (m, f)))
        (\<lambda>m f. if fl_packet_counter f > 2 then NDPI_EXCLUDE_DISSECTOR m f else Some (m, f)))"

definition init_melsec_dissector :: dissector_entry where [dissector_defs]:
  "init_melsec_dissector = \<lparr>de_name = ''MELSEC'', de_func = ndpi_search_melsec,
     de_selection = NDPI_SELECTION_BITMASK_PROTOCOL_TCP_OR_UDP_WITH_PAYLOAD_WITHOUT_RETRANSMISSION,
     de_protocols = [NDPI_PROTOCOL_MELSEC]\<rparr>"

subsection \<open>Nintendo (\<open>nintendo.c\<close>)\<close>

definition ndpi_search_nintendo :: dissector_fun where [dissector_defs]:
  "ndpi_search_nintendo m f =
     (let p = payload m in
      if pk_udp (nd_packet m) \<noteq> None
      then ifc (all_of [Some (length p > 48), mem_eq p 0 [0x32, 0xab, 0x98, 0x64, 0x02]])
             (detected m f NDPI_PROTOCOL_NINTENDO) (NDPI_EXCLUDE_DISSECTOR m f)
      else NDPI_EXCLUDE_DISSECTOR m f)"

definition init_nintendo_dissector :: dissector_entry where [dissector_defs]:
  "init_nintendo_dissector = \<lparr>de_name = ''Nintendo'', de_func = ndpi_search_nintendo,
     de_selection = NDPI_SELECTION_BITMASK_PROTOCOL_V4_V6_UDP_WITH_PAYLOAD,
     de_protocols = [NDPI_PROTOCOL_NINTENDO]\<rparr>"

subsection \<open>DNP3 (\<open>dnp3.c\<close>)\<close>

definition ndpi_search_dnp3_tcp :: dissector_fun where [dissector_defs]:
  "ndpi_search_dnp3_tcp m f =
     (let p = payload m in
      if pk_tcp (nd_packet m) \<noteq> None
      then ifc (all_of [Some (length p \<ge> 10), byte_is p 0 0x05, byte_is p 1 0x64])
             (detected m f NDPI_PROTOCOL_DNP3) (NDPI_EXCLUDE_DISSECTOR m f)
      else NDPI_EXCLUDE_DISSECTOR m f)"

definition init_dnp3_dissector :: dissector_entry where [dissector_defs]:
  "init_dnp3_dissector = \<lparr>de_name = ''DNP3'', de_func = ndpi_search_dnp3_tcp,
     de_selection = NDPI_SELECTION_BITMASK_PROTOCOL_V4_V6_TCP_WITH_PAYLOAD_WITHOUT_RETRANSMISSION,
     de_protocols = [NDPI_PROTOCOL_DNP3]\<rparr>"

subsection \<open>Dofus (\<open>dofus.c\<close>)\<close>

definition ndpi_search_dofus :: dissector_fun where [dissector_defs]:
  "ndpi_search_dofus m f =
     (let p = payload m in
      seq_step
        (ifc (all_of [Some (fl_c_port f = 5555 \<or> fl_s_port f = 5555), Some (length p > 3),
                byte_sat p 0 (\<lambda>b. unat b + 1 = length p), byte_is p 1 0x0a,
                eq_vals (map_option (\<lambda>b. unat b + 2) (rd8 p 2)) (map_option unat (rd8 p 0))])
           (detected m f NDPI_PROTOCOL_DOFUS) (Some (m, f)))
        (\<lambda>m f. NDPI_EXCLUDE_DISSECTOR m f))"

definition init_dofus_dissector :: dissector_entry where [dissector_defs]:
  "init_dofus_dissector = \<lparr>de_name = ''Dofus'', de_func = ndpi_search_dofus,
     de_selection = NDPI_SELECTION_BITMASK_PROTOCOL_V4_V6_TCP_WITH_PAYLOAD_WITHOUT_RETRANSMISSION,
     de_protocols = [NDPI_PROTOCOL_DOFUS]\<rparr>"

subsection \<open>HTTP2 (\<open>http2.c\<close>)\<close>

definition ndpi_search_http2 :: dissector_fun where [dissector_defs]:
  "ndpi_search_http2 m f =
     (let p = payload m;
          magic = str ''PRI * HTTP/2.0'' @ [13, 10, 13, 10] @ str ''SM'' @ [13, 10, 13, 10]
      in if length p < length magic then NDPI_EXCLUDE_DISSECTOR m f
         else ifc (strn_eq p 0 magic) (detected m f NDPI_PROTOCOL_HTTP2) (NDPI_EXCLUDE_DISSECTOR m f))"

definition init_http2_dissector :: dissector_entry where [dissector_defs]:
  "init_http2_dissector = \<lparr>de_name = ''HTTP2'', de_func = ndpi_search_http2,
     de_selection = NDPI_SELECTION_BITMASK_PROTOCOL_V4_V6_TCP_WITH_PAYLOAD_WITHOUT_RETRANSMISSION,
     de_protocols = [NDPI_PROTOCOL_HTTP2]\<rparr>"

subsection \<open>iQIYI (\<open>iqiyi.c\<close>)\<close>

definition ndpi_search_iqiyi :: dissector_fun where [dissector_defs]:
  "ndpi_search_iqiyi m f =
     (let p = payload m in
      ifc (all_of [Some (length p > 120 \<and> length p < 300), memmem_found p (str ''PPStream'')])
        (detected m f NDPI_PROTOCOL_IQIYI) (NDPI_EXCLUDE_DISSECTOR m f))"

definition init_iqiyi_dissector :: dissector_entry where [dissector_defs]:
  "init_iqiyi_dissector = \<lparr>de_name = ''iQIYI'', de_func = ndpi_search_iqiyi,
     de_selection = NDPI_SELECTION_BITMASK_PROTOCOL_V4_V6_UDP_WITH_PAYLOAD,
     de_protocols = [NDPI_PROTOCOL_IQIYI]\<rparr>"

subsection \<open>BGP (\<open>bgp.c\<close>)\<close>

definition ndpi_search_bgp :: dissector_fun where [dissector_defs]:
  "ndpi_search_bgp m f =
     (let packet = nd_packet m; p = pk_payload packet in
      if pk_tcp packet \<noteq> None
      then ifc (all_of [Some (length p > 18), byte_sat p 18 (\<lambda>b. b < 5),
                  any_of [is_val (tcp_dest packet) 179, is_val (tcp_source packet) 179],
                  is_val (rdle64 p 0) 0xffffffffffffffff, is_val (rdle64 p 8) 0xffffffffffffffff,
                  sat (rd16 p 16) (\<lambda>v. v \<le> length p)])
             (detected m f NDPI_PROTOCOL_BGP) (NDPI_EXCLUDE_DISSECTOR m f)
      else NDPI_EXCLUDE_DISSECTOR m f)"

definition init_bgp_dissector :: dissector_entry where [dissector_defs]:
  "init_bgp_dissector = \<lparr>de_name = ''BGP'', de_func = ndpi_search_bgp,
     de_selection = NDPI_SELECTION_BITMASK_PROTOCOL_V4_V6_TCP_WITH_PAYLOAD_WITHOUT_RETRANSMISSION,
     de_protocols = [NDPI_PROTOCOL_BGP]\<rparr>"

subsection \<open>IPP (\<open>ipp.c\<close>)\<close>

definition ndpi_search_ipp :: dissector_fun where [dissector_defs]:
  "ndpi_search_ipp m f =
     (let packet = nd_packet m in
      ifc (all_of [Some (fl_detected_protocol_stack0 f = NDPI_PROTOCOL_HTTP),
             Some (fl_http_method f = NDPI_HTTP_METHOD_POST),
             LINE_STARTS (pk_payload packet) (pk_http_url_name packet) (str ''/ipp/'')])
        (ndpi_set_detected_protocol m f NDPI_PROTOCOL_IPP NDPI_PROTOCOL_HTTP NDPI_CONFIDENCE_DPI)
        (NDPI_EXCLUDE_DISSECTOR m f))"

definition init_ipp_dissector :: dissector_entry where [dissector_defs]:
  "init_ipp_dissector = \<lparr>de_name = ''IPP'', de_func = ndpi_search_ipp,
     de_selection = NDPI_SELECTION_BITMASK_PROTOCOL_V4_V6_TCP_WITH_PAYLOAD_WITHOUT_RETRANSMISSION,
     de_protocols = [NDPI_PROTOCOL_IPP]\<rparr>"

subsection \<open>SamsungSDP (\<open>samsung_sdp.c\<close>)\<close>

definition ndpi_search_samsung_sdp :: dissector_fun where [dissector_defs]:
  "ndpi_search_samsung_sdp m f =
     (let p = payload m in
      if length p < length ''SEARCH BSDP/'' then NDPI_EXCLUDE_DISSECTOR m f
      else ifc (notc (mem_eq p 0 (str ''SEARCH BSDP/''))) (NDPI_EXCLUDE_DISSECTOR m f)
             (detected m f NDPI_PROTOCOL_SAMSUNG_SDP))"

definition init_samsung_sdp_dissector :: dissector_entry where [dissector_defs]:
  "init_samsung_sdp_dissector = \<lparr>de_name = ''SamsungSDP'', de_func = ndpi_search_samsung_sdp,
     de_selection = NDPI_SELECTION_BITMASK_PROTOCOL_V4_V6_UDP_WITH_PAYLOAD,
     de_protocols = [NDPI_PROTOCOL_SAMSUNG_SDP]\<rparr>"

section \<open>The dissectors of this theory keep the contract\<close>

definition dissectors_a :: "dissector_entry list" where
  "dissectors_a =
     [init_bjnp_dissector, init_vmware_dissector, init_teredo_dissector,
      init_zmq_dissector, init_tailscale_dissector, init_among_us_dissector,
      init_merakicloud_dissector, init_zabbix_dissector, init_gearman_dissector,
      init_openwire_dissector, init_ceph_dissector, init_cpha_dissector,
      init_dingtalk_dissector, init_ethersio_dissector, init_megaco_dissector,
      init_easyweather_dissector, init_egd_dissector, init_avast_dissector,
      init_guildwars2_dissector, init_jrmi_dissector, init_mpegts_dissector,
      init_steam_dissector, init_wsd_dissector, init_atg_dissector,
      init_avast_securedns_dissector, init_cnp_ip_dissector, init_melsec_dissector,
      init_nintendo_dissector, init_dnp3_dissector, init_dofus_dissector,
      init_http2_dissector, init_iqiyi_dissector, init_bgp_dissector,
      init_ipp_dissector, init_samsung_sdp_dissector]"

lemma dissectors_a_ok: "list_all entry_ok dissectors_a"
  unfolding dissectors_a_def list.pred_inject
  by (intro conjI TrueI entry_okI;
      (simp only: dissector_defs dissector_entry.select_convs Let_def)?; (intro step_intros)?;
      auto simp: dissector_conds selected_simps)

end
