(* ===== verification/Dissectors_B.thy ===== *)
theory Dissectors_B
  imports Dissector_Interface
begin

text \<open>
More dissectors decided by the bytes and ports of one packet, or after a number of packets
  (\<open>src/lib/protocols\<close>, named in the headings). Differences of bytes are computed in \<open>int\<close>, as
  C's promotion does.
\<close>

subsection \<open>sFlow (\<open>sflow.c\<close>)\<close>

definition ndpi_search_sflow :: dissector_fun where [dissector_defs]:
  "ndpi_search_sflow m f =
     (let p = payload m in
      ifc (all_of [Some (pk_udp (nd_packet m) \<noteq> None), Some (length p \<ge> 24), be32_is p 0 5,
             any_of [be32_is p 4 1, be32_is p 4 2]])
        (if fl_packet_counter f \<ge> 2 then detected m f NDPI_PROTOCOL_SFLOW else Some (m, f))
        (NDPI_EXCLUDE_DISSECTOR m f))"

definition init_sflow_dissector :: dissector_entry where [dissector_defs]:
  "init_sflow_dissector = \<lparr>de_name = ''sFlow'', de_func = ndpi_search_sflow,
     de_selection = NDPI_SELECTION_BITMASK_PROTOCOL_V4_V6_UDP_WITH_PAYLOAD,
     de_protocols = [NDPI_PROTOCOL_SFLOW]\<rparr>"

subsection \<open>DHCPV6 (\<open>dhcpv6.c\<close>)\<close>

definition ndpi_search_dhcpv6_udp :: dissector_fun where [dissector_defs]:
  "ndpi_search_dhcpv6_udp m f =
     (let packet = nd_packet m; p = pk_payload packet in
      ifc (all_of [Some (length p \<ge> 4),
             any_of [is_val (udp_source packet) 546, is_val (udp_source packet) 547],
             any_of [is_val (udp_dest packet) 546, is_val (udp_dest packet) 547],
             byte_sat p 0 (\<lambda>b. b \<ge> 1), byte_sat p 0 (\<lambda>b. b \<le> 13)])
        (detected m f NDPI_PROTOCOL_DHCPV6) (NDPI_EXCLUDE_DISSECTOR m f))"

definition init_dhcpv6_dissector :: dissector_entry where [dissector_defs]:
  "init_dhcpv6_dissector = \<lparr>de_name = ''DHCPV6'', de_func = ndpi_search_dhcpv6_udp,
     de_selection = NDPI_SELECTION_BITMASK_PROTOCOL_V6_UDP_WITH_PAYLOAD,
     de_protocols = [NDPI_PROTOCOL_DHCPV6]\<rparr>"

subsection \<open>DICOM (\<open>dicom.c\<close>)\<close>

definition ndpi_search_dicom :: dissector_fun where [dissector_defs]:
  "ndpi_search_dicom m f =
     (let packet = nd_packet m; p = pk_payload packet in
      if pk_iph packet \<noteq> None \<and> length p > 6
      then ifc (all_of [byte_is p 0 0x01, byte_is p 1 0x0,
                  sat (rd32 p 2) (\<lambda>v. length p \<le> (v + 6) mod 4294967296), Some (length p > 9),
                  byte_is p 6 0x0, byte_is p 7 0x1, byte_is p 8 0x0, byte_is p 9 0x0])
             (detected m f NDPI_PROTOCOL_DICOM) (NDPI_EXCLUDE_DISSECTOR m f)
      else NDPI_EXCLUDE_DISSECTOR m f)"

definition init_dicom_dissector :: dissector_entry where [dissector_defs]:
  "init_dicom_dissector = \<lparr>de_name = ''DICOM'', de_func = ndpi_search_dicom,
     de_selection = NDPI_SELECTION_BITMASK_PROTOCOL_V4_V6_TCP_WITH_PAYLOAD_WITHOUT_RETRANSMISSION,
     de_protocols = [NDPI_PROTOCOL_DICOM]\<rparr>"

subsection \<open>HP Virtual Machine Group Management (\<open>hpvirtgrp.c\<close>)\<close>

definition ndpi_search_hpvirtgrp :: dissector_fun where [dissector_defs]:
  "ndpi_search_hpvirtgrp m f =
     (let p = payload m in
      if pk_tcp (nd_packet m) \<noteq> None
      then ifc (all_of [Some (fl_packet_counter f = 1), Some (length p \<ge> 4), be16_is p 1 (length p),
                  byte_is p 0 0x16, byte_is p 3 0x00])
             (detected m f NDPI_PROTOCOL_HPVIRTGRP) (NDPI_EXCLUDE_DISSECTOR m f)
      else NDPI_EXCLUDE_DISSECTOR m f)"

definition init_hpvirtgrp_dissector :: dissector_entry where [dissector_defs]:
  "init_hpvirtgrp_dissector = \<lparr>de_name = ''HP Virtual Machine Group Management'', de_func = ndpi_search_hpvirtgrp,
     de_selection = NDPI_SELECTION_BITMASK_PROTOCOL_V4_V6_TCP_WITH_PAYLOAD_WITHOUT_RETRANSMISSION,
     de_protocols = [NDPI_PROTOCOL_HPVIRTGRP]\<rparr>"

subsection \<open>OpenFlow (\<open>openflow.c\<close>)\<close>

definition ndpi_search_openflow :: dissector_fun where [dissector_defs]:
  "ndpi_search_openflow m f =
     (let p = payload m in
      ifc (all_of [Some (length p \<ge> 8), byte_is p 0 0x06, byte_sat p 1 (\<lambda>b. b < 36), be16_is p 2 (length p)])
        (detected m f NDPI_PROTOCOL_OPENFLOW) (NDPI_EXCLUDE_DISSECTOR m f))"

definition init_openflow_dissector :: dissector_entry where [dissector_defs]:
  "init_openflow_dissector = \<lparr>de_name = ''OpenFlow'', de_func = ndpi_search_openflow,
     de_selection = NDPI_SELECTION_BITMASK_PROTOCOL_V4_V6_TCP_WITH_PAYLOAD_WITHOUT_RETRANSMISSION,
     de_protocols = [NDPI_PROTOCOL_OPENFLOW]\<rparr>"

subsection \<open>PPTP (\<open>pptp.c\<close>)\<close>

definition ndpi_search_pptp :: dissector_fun where [dissector_defs]:
  "ndpi_search_pptp m f =
     (let p = payload m in
      ifc (all_of [Some (length p \<ge> 10), be16_is p 0 (length p), be16_is p 2 0x0001,
             be32_is p 4 0x1a2b3c4d, be16_is p 8 0x0001])
        (detected m f NDPI_PROTOCOL_PPTP) (NDPI_EXCLUDE_DISSECTOR m f))"

definition init_pptp_dissector :: dissector_entry where [dissector_defs]:
  "init_pptp_dissector = \<lparr>de_name = ''PPTP'', de_func = ndpi_search_pptp,
     de_selection = NDPI_SELECTION_BITMASK_PROTOCOL_V4_V6_TCP_WITH_PAYLOAD_WITHOUT_RETRANSMISSION,
     de_protocols = [NDPI_PROTOCOL_PPTP]\<rparr>"

subsection \<open>SteamDatagramRelay (\<open>steam_datagram_relay.c\<close>)\<close>

definition ndpi_search_valve_sdr :: dissector_fun where [dissector_defs]:
  "ndpi_search_valve_sdr m f =
     (let p = payload m in
      ifc (all_of [Some (length p \<ge> 100), mem_eq p 2 (str ''sdping'')])
        (detected m f NDPI_PROTOCOL_VALVE_SDR) (NDPI_EXCLUDE_DISSECTOR m f))"

definition init_valve_sdr_dissector :: dissector_entry where [dissector_defs]:
  "init_valve_sdr_dissector = \<lparr>de_name = ''SteamDatagramRelay'', de_func = ndpi_search_valve_sdr,
     de_selection = NDPI_SELECTION_BITMASK_PROTOCOL_V4_V6_UDP_WITH_PAYLOAD,
     de_protocols = [NDPI_PROTOCOL_VALVE_SDR]\<rparr>"

subsection \<open>UFTP (\<open>uftp.c\<close>)\<close>

definition ndpi_search_uftp :: dissector_fun where [dissector_defs]:
  "ndpi_search_uftp m f =
     (let p = payload m in
      ifc (all_of [Some (length p > 23), any_of [byte_is p 0 0x40, byte_is p 0 0x50],
             byte_sat p 1 (\<lambda>b. b < 22), byte_is p 15 0, eq_vals (rd8 p 16) (rd8 p 1)])
        (detected m f NDPI_PROTOCOL_UFTP) (NDPI_EXCLUDE_DISSECTOR m f))"

definition init_uftp_dissector :: dissector_entry where [dissector_defs]:
  "init_uftp_dissector = \<lparr>de_name = ''UFTP'', de_func = ndpi_search_uftp,
     de_selection = NDPI_SELECTION_BITMASK_PROTOCOL_V4_V6_UDP_WITH_PAYLOAD,
     de_protocols = [NDPI_PROTOCOL_UFTP]\<rparr>"

subsection \<open>Bitcoin (\<open>bitcoin.c\<close>)\<close>

definition ndpi_search_bitcoin :: dissector_fun where [dissector_defs]:
  "ndpi_search_bitcoin m f =
     (let packet = nd_packet m; p = pk_payload packet in
      ifc (all_of [Some (length p \<ge> 4),
             any_of [is_val (tcp_source packet) 8333, is_val (tcp_dest packet) 8333],
             sat (rd32 p 0) (\<lambda>v. v \<in> {0xF9BEB4D9, 0xFABFB5DA, 0x0B110907, 0x0A03CF40, 0xF9BEB4FE})])
        (detected m f NDPI_PROTOCOL_BITCOIN) (NDPI_EXCLUDE_DISSECTOR m f))"

definition init_bitcoin_dissector :: dissector_entry where [dissector_defs]:
  "init_bitcoin_dissector = \<lparr>de_name = ''Bitcoin'', de_func = ndpi_search_bitcoin,
     de_selection = NDPI_SELECTION_BITMASK_PROTOCOL_V4_V6_TCP_WITH_PAYLOAD_WITHOUT_RETRANSMISSION,
     de_protocols = [NDPI_PROTOCOL_BITCOIN]\<rparr>"

subsection \<open>kismet (\<open>kismet.c\<close>)\<close>

definition ndpi_search_kismet :: dissector_fun where [dissector_defs]:
  "ndpi_search_kismet m f =
     (let p = payload m in
      if length p < length ''*KISMET: '' then NDPI_EXCLUDE_DISSECTOR m f
      else ifc (strn_eq p 0 (str ''*KISMET: '')) (detected m f NDPI_PROTOCOL_KISMET) (NDPI_EXCLUDE_DISSECTOR m f))"

definition init_kismet_dissector :: dissector_entry where [dissector_defs]:
  "init_kismet_dissector = \<lparr>de_name = ''kismet'', de_func = ndpi_search_kismet,
     de_selection = NDPI_SELECTION_BITMASK_PROTOCOL_V4_V6_TCP_WITH_PAYLOAD_WITHOUT_RETRANSMISSION,
     de_protocols = [NDPI_PROTOCOL_KISMET]\<rparr>"

subsection \<open>PFCP (\<open>pfcp.c\<close>)\<close>

definition ndpi_search_pfcp :: dissector_fun where [dissector_defs]:
  "ndpi_search_pfcp m f =
     (let packet = nd_packet m; p = pk_payload packet in
      ifc (all_of [Some (length p > 12),
             any_of [is_val (udp_dest packet) 8805, is_val (udp_source packet) 8805],
             byte_sat p 0 (\<lambda>b. b AND 0x0F = 1),
             byte_sat p 1 (\<lambda>b. b \<le> 17 \<or> int (unat b) - 50 \<le> 7),
             be16_is p 2 (length p - 4)])
        (detected m f NDPI_PROTOCOL_PFCP) (NDPI_EXCLUDE_DISSECTOR m f))"

definition init_pfcp_dissector :: dissector_entry where [dissector_defs]:
  "init_pfcp_dissector = \<lparr>de_name = ''PFCP'', de_func = ndpi_search_pfcp,
     de_selection = NDPI_SELECTION_BITMASK_PROTOCOL_V4_V6_UDP_WITH_PAYLOAD,
     de_protocols = [NDPI_PROTOCOL_PFCP]\<rparr>"

subsection \<open>QQ (\<open>qq.c\<close>)\<close>

definition ndpi_search_qq :: dissector_fun where [dissector_defs]:
  "ndpi_search_qq m f =
     (let p = payload m in
      ifc (any_of [all_of [Some (length p = 72), be32_is p 0 0x02004800],
             all_of [Some (length p = 64), be32_is p 0 0x02004000],
             all_of [Some (length p = 60), be32_is p 0 0x02004200],
             all_of [Some (length p = 84), be32_is p 0 0x02005a00],
             all_of [Some (length p = 56), be32_is p 0 0x02003800],
             all_of [Some (length p \<ge> 39), be32_is p 0 0x28000000]])
        (detected m f NDPI_PROTOCOL_QQ)
        (if fl_num_processed_pkts f > 4 then NDPI_EXCLUDE_DISSECTOR m f else Some (m, f)))"

definition init_qq_dissector :: dissector_entry where [dissector_defs]:
  "init_qq_dissector = \<lparr>de_name = ''QQ'', de_func = ndpi_search_qq,
     de_selection = NDPI_SELECTION_BITMASK_PROTOCOL_V4_V6_UDP_WITH_PAYLOAD,
     de_protocols = [NDPI_PROTOCOL_QQ]\<rparr>"

subsection \<open>RSYNC (\<open>rsync.c\<close>)\<close>

definition ndpi_search_rsync :: dissector_fun where [dissector_defs]:
  "ndpi_search_rsync m f =
     (let p = payload m;
          last = (if fl_packet_counter f > 5 then NDPI_EXCLUDE_DISSECTOR m f else Some (m, f))
      in if pk_tcp (nd_packet m) \<noteq> None
         then ifc (all_of [Some (length p \<ge> 8), byte_is p 0 0x40, byte_is p 1 0x52, byte_is p 2 0x53,
                     byte_is p 3 0x59, byte_is p 4 0x4e, byte_is p 5 0x43, byte_is p 6 0x44, byte_is p 7 0x3a])
                (detected m f NDPI_PROTOCOL_RSYNC) last
         else last)"

definition init_rsync_dissector :: dissector_entry where [dissector_defs]:
  "init_rsync_dissector = \<lparr>de_name = ''RSYNC'', de_func = ndpi_search_rsync,
     de_selection = NDPI_SELECTION_BITMASK_PROTOCOL_V4_V6_TCP_WITH_PAYLOAD_WITHOUT_RETRANSMISSION,
     de_protocols = [NDPI_PROTOCOL_RSYNC]\<rparr>"

subsection \<open>UltraSurf (\<open>ultrasurf.c\<close>)\<close>

definition ndpi_search_ultrasurf :: dissector_fun where [dissector_defs]:
  "ndpi_search_ultrasurf m f =
     (let p = payload m in
      if length p < 8 then NDPI_EXCLUDE_DISSECTOR m f
      else seq_step
             (ifc (all_of [be32_is p 0 0xcc1c3041, be32_is p 4 0x5ba43866])
                (detected m f NDPI_PROTOCOL_ULTRASURF) (Some (m, f)))
             (\<lambda>m f. NDPI_EXCLUDE_DISSECTOR m f))"

definition init_ultrasurf_dissector :: dissector_entry where [dissector_defs]:
  "init_ultrasurf_dissector = \<lparr>de_name = ''UltraSurf'', de_func = ndpi_search_ultrasurf,
     de_selection = NDPI_SELECTION_BITMASK_PROTOCOL_V4_V6_TCP_WITH_PAYLOAD_WITHOUT_RETRANSMISSION,
     de_protocols = [NDPI_PROTOCOL_ULTRASURF]\<rparr>"

subsection \<open>Corba (\<open>corba.c\<close>)\<close>

definition ndpi_search_corba :: dissector_fun where [dissector_defs]:
  "ndpi_search_corba m f =
     (let packet = nd_packet m; p = pk_payload packet in
      if pk_tcp packet \<noteq> None \<and> length p \<ge> 24
      then ifc (any_of [mem_eq p 0 (str ''GIOP''), mem_eq p 0 (str ''ZIOP'')])
             (detected m f NDPI_PROTOCOL_CORBA) (NDPI_EXCLUDE_DISSECTOR m f)
      else if pk_udp packet \<noteq> None \<and> length p > 32
      then ifc (mem_eq p 0 (str ''MIOP'')) (detected m f NDPI_PROTOCOL_CORBA) (NDPI_EXCLUDE_DISSECTOR m f)
      else NDPI_EXCLUDE_DISSECTOR m f)"

definition init_corba_dissector :: dissector_entry where [dissector_defs]:
  "init_corba_dissector = \<lparr>de_name = ''Corba'', de_func = ndpi_search_corba,
     de_selection = NDPI_SELECTION_BITMASK_PROTOCOL_V4_V6_TCP_OR_UDP_WITH_PAYLOAD_WITHOUT_RETRANSMISSION,
     de_protocols = [NDPI_PROTOCOL_CORBA]\<rparr>"

subsection \<open>eDonkey (\<open>edonkey.c\<close>)\<close>

definition ndpi_search_edonkey :: dissector_fun where [dissector_defs]:
  "ndpi_search_edonkey m f =
     (let p = payload m in
      if length p > 5
      then ifc (byte_sat p 0 (\<lambda>b. b \<noteq> 0xE3 \<and> b \<noteq> 0xC5 \<and> b \<noteq> 0xD4)) (NDPI_EXCLUDE_DISSECTOR m f)
             (ifc (is_val (rdle32 p 1) (length p - 5)) (detected m f NDPI_PROTOCOL_EDONKEY)
                (NDPI_EXCLUDE_DISSECTOR m f))
      else NDPI_EXCLUDE_DISSECTOR m f)"

definition init_edonkey_dissector :: dissector_entry where [dissector_defs]:
  "init_edonkey_dissector = \<lparr>de_name = ''eDonkey'', de_func = ndpi_search_edonkey,
     de_selection = NDPI_SELECTION_BITMASK_PROTOCOL_V4_V6_TCP_WITH_PAYLOAD_WITHOUT_RETRANSMISSION,
     de_protocols = [NDPI_PROTOCOL_EDONKEY]\<rparr>"

subsection \<open>EthernetIP (\<open>ethernet_ip.c\<close>)\<close>

definition ndpi_search_ethernet_ip :: dissector_fun where [dissector_defs]:
  "ndpi_search_ethernet_ip m f =
     (let packet = nd_packet m; p = pk_payload packet in
      if pk_tcp packet \<noteq> None
      then ifc (all_of [Some (length p \<ge> 24),
                  any_of [is_val (tcp_source packet) 44818, is_val (tcp_dest packet) 44818],
                  sat (rdle16 p 2) (\<lambda>len. len + 24 = length p)])
             (detected m f NDPI_PROTOCOL_ETHERNET_IP) (NDPI_EXCLUDE_DISSECTOR m f)
      else NDPI_EXCLUDE_DISSECTOR m f)"

definition init_ethernet_ip_dissector :: dissector_entry where [dissector_defs]:
  "init_ethernet_ip_dissector = \<lparr>de_name = ''EthernetIP'', de_func = ndpi_search_ethernet_ip,
     de_selection = NDPI_SELECTION_BITMASK_PROTOCOL_V4_V6_TCP_WITH_PAYLOAD_WITHOUT_RETRANSMISSION,
     de_protocols = [NDPI_PROTOCOL_ETHERNET_IP]\<rparr>"

subsection \<open>HiSLIP (\<open>hislip.c\<close>)\<close>

definition ndpi_search_hislip :: dissector_fun where [dissector_defs]:
  "ndpi_search_hislip m f =
     (let p = payload m in
      ifc (all_of [Some (length p \<ge> 16), mem_eq p 0 (str ''HS''), byte_sat p 2 (\<lambda>b. int (unat b) - 26 < 0x65),
             is_val (rd64 p 8) (length p - 16)])
        (detected m f NDPI_PROTOCOL_HISLIP) (NDPI_EXCLUDE_DISSECTOR m f))"

definition init_hislip_dissector :: dissector_entry where [dissector_defs]:
  "init_hislip_dissector = \<lparr>de_name = ''HiSLIP'', de_func = ndpi_search_hislip,
     de_selection = NDPI_SELECTION_BITMASK_PROTOCOL_V4_V6_TCP_WITH_PAYLOAD_WITHOUT_RETRANSMISSION,
     de_protocols = [NDPI_PROTOCOL_HISLIP]\<rparr>"

subsection \<open>RipeAtlas (\<open>ripe_atlas.c\<close>)\<close>

definition ndpi_search_ripe_atlas :: dissector_fun where [dissector_defs]:
  "ndpi_search_ripe_atlas m f =
     (let p = payload m in
      if length p \<noteq> 25 then NDPI_EXCLUDE_DISSECTOR m f
      else ifc (strn_eq p 0 (str ''MGLNDD'')) (detected m f NDPI_PROTOCOL_RIPE_ATLAS) (NDPI_EXCLUDE_DISSECTOR m f))"

definition init_ripe_atlas_dissector :: dissector_entry where [dissector_defs]:
  "init_ripe_atlas_dissector = \<lparr>de_name = ''RipeAtlas'', de_func = ndpi_search_ripe_atlas,
     de_selection = NDPI_SELECTION_BITMASK_PROTOCOL_V4_V6_UDP_WITH_PAYLOAD,
     de_protocols = [NDPI_PROTOCOL_RIPE_ATLAS]\<rparr>"

subsection \<open>ZUG (\<open>zug.c\<close>)\<close>

definition ndpi_search_zug :: dissector_fun where [dissector_defs]:
  "ndpi_search_zug m f =
     (let p = payload m in
      if length p < 5 then NDPI_EXCLUDE_DISSECTOR m f
      else ifc (all_of [be32_is p 0 0x007a5547, byte_is p 4 0x10])
             (detected m f NDPI_PROTOCOL_ZUG) (NDPI_EXCLUDE_DISSECTOR m f))"

definition init_zug_dissector :: dissector_entry where [dissector_defs]:
  "init_zug_dissector = \<lparr>de_name = ''ZUG'', de_func = ndpi_search_zug,
     de_selection = NDPI_SELECTION_BITMASK_PROTOCOL_V4_V6_UDP_WITH_PAYLOAD,
     de_protocols = [NDPI_PROTOCOL_ZUG]\<rparr>"

section \<open>The dissectors of this theory keep the contract\<close>

definition dissectors_b :: "dissector_entry list" where
  "dissectors_b =
     [init_sflow_dissector, init_dhcpv6_dissector, init_dicom_dissector,
      init_hpvirtgrp_dissector, init_openflow_dissector, init_pptp_dissector,
      init_valve_sdr_dissector, init_uftp_dissector, init_bitcoin_dissector,
      init_kismet_dissector, init_pfcp_dissector, init_qq_dissector,
      init_rsync_dissector, init_ultrasurf_dissector, init_corba_dissector,
      init_edonkey_dissector, init_ethernet_ip_dissector, init_hislip_dissector,
      init_ripe_atlas_dissector, init_zug_dissector]"

lemma dissectors_b_ok: "list_all entry_ok dissectors_b"
  unfolding dissectors_b_def list.pred_inject
  by (intro conjI TrueI entry_okI;
      (simp only: dissector_defs dissector_entry.select_convs Let_def)?; (intro step_intros)?;
      auto simp: dissector_conds selected_simps)

end
