(* ===== verification/Dissectors_C.thy ===== *)
theory Dissectors_C
  imports Dissector_Interface
begin

text \<open>
Dissectors that keep a stage in the flow between packets, walk a list of items, or search for
  a string in the payload (\<open>src/lib/protocols\<close>, named in the headings).
\<close>

subsection \<open>Oracle (\<open>oracle.c\<close>)\<close>

definition ndpi_search_oracle :: dissector_fun where [dissector_defs]:
  "ndpi_search_oracle m f =
     (let packet = nd_packet m; p = pk_payload packet in
      ifc (all_of [any_of [is_val (tcp_dest packet) 1521, is_val (tcp_source packet) 1521],
             Some (length p \<ge> 8), be16_is p 0 (length p), byte_is p 2 0x00, byte_is p 3 0x00, byte_is p 4 0x01,
             byte_is p 5 0x00, byte_is p 6 0x00, byte_is p 7 0x00])
        (detected m f NDPI_PROTOCOL_ORACLE) (NDPI_EXCLUDE_DISSECTOR m f))"

definition init_oracle_dissector :: dissector_entry where [dissector_defs]:
  "init_oracle_dissector = \<lparr>de_name = ''Oracle'', de_func = ndpi_search_oracle,
     de_selection = NDPI_SELECTION_BITMASK_PROTOCOL_V4_V6_TCP_WITH_PAYLOAD_WITHOUT_RETRANSMISSION,
     de_protocols = [NDPI_PROTOCOL_ORACLE]\<rparr>"

subsection \<open>Paltalk (\<open>paltalk.c\<close>)\<close>

definition ndpi_search_paltalk :: dissector_fun where [dissector_defs]:
  "ndpi_search_paltalk m f =
     (let p = payload m in
      ifc (all_of [Some (length p = 20), be32_is p 8 0x020001, be32_is p 16 0x5AFDFFFF])
        (detected m f NDPI_PROTOCOL_PALTALK)
        (ifc (all_of [Some (length p = 22), be32_is p 2 0x24C2E80B, be32_is p 17 0x5B732B00])
          (detected m f NDPI_PROTOCOL_PALTALK) (NDPI_EXCLUDE_DISSECTOR m f)))"

definition init_paltalk_dissector :: dissector_entry where [dissector_defs]:
  "init_paltalk_dissector = \<lparr>de_name = ''Paltalk'', de_func = ndpi_search_paltalk,
     de_selection = NDPI_SELECTION_BITMASK_PROTOCOL_V4_V6_TCP_WITH_PAYLOAD_WITHOUT_RETRANSMISSION,
     de_protocols = [NDPI_PROTOCOL_PALTALK]\<rparr>"

subsection \<open>RTPS (\<open>rtps.c\<close>)\<close>

definition ndpi_search_rtps :: dissector_fun where [dissector_defs]:
  "ndpi_search_rtps m f =
     (let p = payload m; RTPS_LAST_MAJOR_VER = 2; RTPS_LAST_MINOR_VER = 5 in
      if length p \<ge> 16
      then ifc (all_of [any_of [mem_eq p 0 (str ''RTPS''), mem_eq p 0 (str ''RTPX'')],
                  byte_is p 4 RTPS_LAST_MAJOR_VER, byte_sat p 5 (\<lambda>b. b \<le> RTPS_LAST_MINOR_VER)])
             (detected m f NDPI_PROTOCOL_RTPS) (NDPI_EXCLUDE_DISSECTOR m f)
      else NDPI_EXCLUDE_DISSECTOR m f)"

definition init_rtps_dissector :: dissector_entry where [dissector_defs]:
  "init_rtps_dissector = \<lparr>de_name = ''RTPS'', de_func = ndpi_search_rtps,
     de_selection = NDPI_SELECTION_BITMASK_PROTOCOL_V4_V6_UDP_WITH_PAYLOAD,
     de_protocols = [NDPI_PROTOCOL_RTPS]\<rparr>"

subsection \<open>Syncthing (\<open>syncthing.c\<close>)\<close>

definition ndpi_search_syncthing :: dissector_fun where [dissector_defs]:
  "ndpi_search_syncthing m f =
     (let p = payload m in
      if length p \<le> 4 then NDPI_EXCLUDE_DISSECTOR m f
      else ifc (be32_is p 0 0x2EA7D90B) (detected m f NDPI_PROTOCOL_SYNCTHING) (NDPI_EXCLUDE_DISSECTOR m f))"

definition init_syncthing_dissector :: dissector_entry where [dissector_defs]:
  "init_syncthing_dissector = \<lparr>de_name = ''Syncthing'', de_func = ndpi_search_syncthing,
     de_selection = NDPI_SELECTION_BITMASK_PROTOCOL_V4_V6_UDP_WITH_PAYLOAD,
     de_protocols = [NDPI_PROTOCOL_SYNCTHING]\<rparr>"

subsection \<open>HCL_Notes (\<open>hcl_notes.c\<close>)\<close>

definition ndpi_search_hcl_notes :: dissector_fun where [dissector_defs]:
  "ndpi_search_hcl_notes m f =
     (let p = payload m;
          f = f\<lparr>fl_tcp := (fl_tcp f)\<lparr>ft_hcl_notes_packet_id := ft_hcl_notes_packet_id (fl_tcp f) + 1\<rparr>\<rparr>;
          pkt = ft_hcl_notes_packet_id (fl_tcp f)
      in if pkt = 1 \<and> ndpi_seen_flow_beginning f
         then if length p > 16
              then ifc (mem_eq p 6 [0x00, 0x00, 0x02, 0x00, 0x00, 0x40, 0x02, 0x0F])
                     (detected m f NDPI_PROTOCOL_HCL_NOTES) (Some (m, f))
              else NDPI_EXCLUDE_DISSECTOR m f
         else if pkt \<le> 3 then Some (m, f)
         else NDPI_EXCLUDE_DISSECTOR m f)"

definition init_hcl_notes_dissector :: dissector_entry where [dissector_defs]:
  "init_hcl_notes_dissector = \<lparr>de_name = ''HCL_Notes'', de_func = ndpi_search_hcl_notes,
     de_selection = NDPI_SELECTION_BITMASK_PROTOCOL_V4_V6_TCP_WITH_PAYLOAD_WITHOUT_RETRANSMISSION,
     de_protocols = [NDPI_PROTOCOL_HCL_NOTES]\<rparr>"

subsection \<open>JSON-RPC (\<open>json-rpc.c\<close>)\<close>

definition ndpi_search_json_rpc :: dissector_fun where [dissector_defs]:
  "ndpi_search_json_rpc m f =
     (let packet = nd_packet m; p = pk_payload packet in
      if fl_detected_protocol_stack0 f = NDPI_PROTOCOL_HTTP \<or> fl_detected_protocol_stack1 f = NDPI_PROTOCOL_HTTP
      then ifc (all_of [Some (ol_ptr (pk_content_line packet) \<noteq> None),
                  LINE_ENDS p (pk_content_line packet) (str ''application/json-rpc'')])
             (ndpi_set_detected_protocol m f NDPI_PROTOCOL_JSON_RPC NDPI_PROTOCOL_HTTP NDPI_CONFIDENCE_DPI)
             (Some (m, f))
      else ifc (all_of [Some (length p > 30), byte_is p 0 (byte_of CHR ''{''),
                  strnstr_found p (str ''\"jsonrpc\":'') (length p)])
             (detected m f NDPI_PROTOCOL_JSON_RPC) (NDPI_EXCLUDE_DISSECTOR m f))"

definition init_json_rpc_dissector :: dissector_entry where [dissector_defs]:
  "init_json_rpc_dissector = \<lparr>de_name = ''JSON-RPC'', de_func = ndpi_search_json_rpc,
     de_selection = NDPI_SELECTION_BITMASK_PROTOCOL_V4_V6_TCP_WITH_PAYLOAD_WITHOUT_RETRANSMISSION,
     de_protocols = [NDPI_PROTOCOL_JSON_RPC]\<rparr>"

subsection \<open>Mumble (\<open>mumble.c\<close>)\<close>

definition ndpi_search_mumble :: dissector_fun where [dissector_defs]:
  "ndpi_search_mumble m f =
     (let p = payload m; udp = fl_udp f in
      if current_pkt_from_client_to_server m f \<and> length p = 12
      then ifc (is_val (rdle32 p 0) 0)
             (do { v \<leftarrow> rd64 p 4;
                   Some (m, f\<lparr>fl_udp := udp\<lparr>fu_mumble_stage := 1, fu_mumble_ident := of_nat v\<rparr>\<rparr>) })
             (NDPI_EXCLUDE_DISSECTOR m f)
      else if fu_mumble_stage udp = 1 \<and> length p = 24
      then ifc (is_val (map_option of_nat (rd64 p 4)) (fu_mumble_ident udp))
             (detected m f NDPI_PROTOCOL_MUMBLE) (NDPI_EXCLUDE_DISSECTOR m f)
      else NDPI_EXCLUDE_DISSECTOR m f)"

definition init_mumble_dissector :: dissector_entry where [dissector_defs]:
  "init_mumble_dissector = \<lparr>de_name = ''Mumble'', de_func = ndpi_search_mumble,
     de_selection = NDPI_SELECTION_BITMASK_PROTOCOL_V4_V6_UDP_WITH_PAYLOAD,
     de_protocols = [NDPI_PROTOCOL_MUMBLE]\<rparr>"

subsection \<open>Sonos (\<open>sonos.c\<close>)\<close>

definition ndpi_search_sonos :: dissector_fun where [dissector_defs]:
  "ndpi_search_sonos m f =
     (let packet = nd_packet m; p = pk_payload packet in
      seq_step
        (ifc (all_of [sat (iph_daddr packet) (\<lambda>a. \<not> ndpi_is_public_ipv4 a),
                sat (iph_daddr packet) (\<lambda>a. a AND 0xF0000000 \<noteq> 0xE0000000)])
          (if length p = 48
           then ifc (any_of [is_val (udp_dest packet) 12301, is_val (udp_source packet) 12301])
                  (detected m f NDPI_PROTOCOL_SONOS) (Some (m, f))
           else ifc (all_of [is_val (udp_dest packet) 7080,
                       Some (length p < 200 \<or> (length p > 1000 \<and> length p < 1100))])
                  (detected m f NDPI_PROTOCOL_SONOS) (Some (m, f)))
          (Some (m, f)))
        (\<lambda>m f. NDPI_EXCLUDE_DISSECTOR m f))"

definition init_sonos_dissector :: dissector_entry where [dissector_defs]:
  "init_sonos_dissector = \<lparr>de_name = ''Sonos'', de_func = ndpi_search_sonos,
     de_selection = NDPI_SELECTION_BITMASK_PROTOCOL_UDP_WITH_PAYLOAD,
     de_protocols = [NDPI_PROTOCOL_SONOS]\<rparr>"

subsection \<open>VNC (\<open>vnc.c\<close>)\<close>

definition ndpi_search_vnc_tcp :: dissector_fun where [dissector_defs]:
  "ndpi_search_vnc_tcp m f =
     (let packet = nd_packet m; p = pk_payload packet;
          version = all_of [Some (length p = 12),
            any_of [all_of [mem_eq p 0 (str ''RFB 003''), byte_is p 11 0x0a],
                    all_of [mem_eq p 0 (str ''RFB 004''), byte_is p 11 0x0a]]]
      in if pk_tcp packet \<noteq> None
         then if ft_vnc_stage (fl_tcp f) = 0
              then ifc version
                     (Some (m, f\<lparr>fl_tcp := (fl_tcp f)\<lparr>ft_vnc_stage := 1 + pk_packet_direction packet\<rparr>\<rparr>))
                     (NDPI_EXCLUDE_DISSECTOR m f)
              else if ft_vnc_stage (fl_tcp f) = 2 - pk_packet_direction packet
              then ifc version
                     (seq_step (detected m f NDPI_PROTOCOL_VNC)
                       (\<lambda>m f. with_risk m f NDPI_DESKTOP_OR_FILE_SHARING_SESSION (Some (str ''Found VNC''))
                                 (\<lambda>f. Some (m, f))))
                     (NDPI_EXCLUDE_DISSECTOR m f)
              else NDPI_EXCLUDE_DISSECTOR m f
         else NDPI_EXCLUDE_DISSECTOR m f)"

definition init_vnc_dissector :: dissector_entry where [dissector_defs]:
  "init_vnc_dissector = \<lparr>de_name = ''VNC'', de_func = ndpi_search_vnc_tcp,
     de_selection = NDPI_SELECTION_BITMASK_PROTOCOL_V4_V6_TCP_WITH_PAYLOAD_WITHOUT_RETRANSMISSION,
     de_protocols = [NDPI_PROTOCOL_VNC]\<rparr>"

subsection \<open>Yojimbo (\<open>yojimbo.c\<close>)\<close>

definition ndpi_search_yojimbo :: dissector_fun where [dissector_defs]:
  "ndpi_search_yojimbo m f =
     (let p = payload m in
      if length p < 9 then NDPI_EXCLUDE_DISSECTOR m f
      else ifc (all_of [byte_is p 0 0x00, is_val (rd64 p 1) 0x4e4554434f444520])
             (detected m f NDPI_PROTOCOL_YOJIMBO) (NDPI_EXCLUDE_DISSECTOR m f))"

definition init_yojimbo_dissector :: dissector_entry where [dissector_defs]:
  "init_yojimbo_dissector = \<lparr>de_name = ''Yojimbo'', de_func = ndpi_search_yojimbo,
     de_selection = NDPI_SELECTION_BITMASK_PROTOCOL_V4_V6_UDP_WITH_PAYLOAD,
     de_protocols = [NDPI_PROTOCOL_YOJIMBO]\<rparr>"

subsection \<open>ANSI_C1222 (\<open>c1222.c\<close>)\<close>

definition ndpi_search_c1222 :: dissector_fun where [dissector_defs]:
  "ndpi_search_c1222 m f =
     (let p = payload m in
      ifc (any_of [Some (length p < 50), byte_sat p 0 (\<lambda>b. b \<noteq> 0x60),
             byte_sat p 1 (\<lambda>b. of_nat (length p - 2) \<noteq> b)])
        (NDPI_EXCLUDE_DISSECTOR m f)
        (ifc (all_of [byte_is p 2 0xA2, byte_is p 4 0x06])
          (detected m f NDPI_PROTOCOL_C1222) (NDPI_EXCLUDE_DISSECTOR m f)))"

definition init_c1222_dissector :: dissector_entry where [dissector_defs]:
  "init_c1222_dissector = \<lparr>de_name = ''ANSI_C1222'', de_func = ndpi_search_c1222,
     de_selection = NDPI_SELECTION_BITMASK_PROTOCOL_V4_V6_TCP_OR_UDP_WITH_PAYLOAD_WITHOUT_RETRANSMISSION,
     de_protocols = [NDPI_PROTOCOL_C1222]\<rparr>"

subsection \<open>CIP (\<open>cip.c\<close>)\<close>

text \<open>The items: \<open>offset\<close> is an 8-bit variable, so it wraps.\<close>

fun cip_items :: "bytes \<Rightarrow> nat \<Rightarrow> u8 \<Rightarrow> u8 option" where
  "cip_items p 0 offset = Some offset"
| "cip_items p (Suc num_items) offset =
     (if length p > unat offset + 4
      then do {
        hi \<leftarrow> rd8 p (unat offset + 3);
        lo \<leftarrow> rd8 p (unat offset + 2);
        cip_items p num_items (offset + of_nat (4 + (256 * unat hi + unat lo)))
      }
      else Some offset)"

lemma cip_items_None [simp]: "cip_items p n offset \<noteq> None"
  by (induction p n offset rule: cip_items.induct) (auto simp: rd8_def)

definition ndpi_search_cip :: dissector_fun where [dissector_defs]:
  "ndpi_search_cip m f =
     (let packet = nd_packet m; p = pk_payload packet; CIP_IO_PORT = 2222 in
      seq_step
        (ifc (all_of [Some (pk_udp packet \<noteq> None), is_val (udp_source packet) CIP_IO_PORT,
                is_val (udp_dest packet) CIP_IO_PORT, Some (length p \<ge> 12), Some (length p < 64), byte_is p 1 0x0])
          (do { num_items \<leftarrow> rd8 p 0; offset \<leftarrow> cip_items p (unat num_items) 2;
                if unat offset = length p then detected m f NDPI_PROTOCOL_CIP else Some (m, f) })
          (Some (m, f)))
        (\<lambda>m f. NDPI_EXCLUDE_DISSECTOR m f))"

definition init_cip_dissector :: dissector_entry where [dissector_defs]:
  "init_cip_dissector = \<lparr>de_name = ''CIP'', de_func = ndpi_search_cip,
     de_selection = NDPI_SELECTION_BITMASK_PROTOCOL_V4_V6_UDP_WITH_PAYLOAD,
     de_protocols = [NDPI_PROTOCOL_CIP]\<rparr>"

subsection \<open>FLUTE (\<open>flute.c\<close>)\<close>

definition ndpi_search_flute :: dissector_fun where [dissector_defs]:
  "ndpi_search_flute m f =
     (let p = payload m in
      seq_step
        (if length p > 250
         then ifc (byte_sat p 0 (\<lambda>b. b \<noteq> 0x10)) (Some (m, f))
                (do { b \<leftarrow> rd8 p 2;
                      let lct_hdr_len = unat b * 4;
                      if length p \<le> lct_hdr_len + 43 + length ''<FDT'' then Some (m, f)
                      else ifc (all_of [mem_eq p (lct_hdr_len + 4) (str ''<?xml''), mem_eq p (lct_hdr_len + 43) (str ''<FDT'')])
                             (detected m f NDPI_PROTOCOL_FLUTE) (Some (m, f)) })
         else Some (m, f))
        (\<lambda>m f. NDPI_EXCLUDE_DISSECTOR m f))"

definition init_flute_dissector :: dissector_entry where [dissector_defs]:
  "init_flute_dissector = \<lparr>de_name = ''FLUTE'', de_func = ndpi_search_flute,
     de_selection = NDPI_SELECTION_BITMASK_PROTOCOL_V4_V6_UDP_WITH_PAYLOAD,
     de_protocols = [NDPI_PROTOCOL_FLUTE]\<rparr>"

subsection \<open>MySQL (\<open>mysql.c\<close>)\<close>

definition ndpi_search_mysql_tcp :: dissector_fun where [dissector_defs]:
  "ndpi_search_mysql_tcp m f =
     (let p = payload m; n = length p in
      if n > 70 \<and> n < 120
      then do { b2 \<leftarrow> rd8 p 2; b1 \<leftarrow> rd8 p 1; b0 \<leftarrow> rd8 p 0;
             let len = 65536 * unat b2 + 256 * unat b1 + unat b0;
             ifc (all_of [Some (n - 4 = len), byte_is p 4 0x0A,
                    any_of [mem_eq p 5 (str ''5.5.5-''), byte_sat p 5 (\<lambda>b. b > 0x33 \<and> b < 0x39)],
                    any_of [mem_eq p (n - 10) (str ''_password''), mem_eq p (n - 10) (str ''_kerberos''),
                            mem_eq p (n - 9) (str ''_windows''), mem_eq p (n - 8) (str ''_simple''),
                            mem_eq p (n - 8) (str ''_gssapi''), mem_eq p (n - 5) (str ''_pam'')]])
               (detected m f NDPI_PROTOCOL_MYSQL) (NDPI_EXCLUDE_DISSECTOR m f) }
      else NDPI_EXCLUDE_DISSECTOR m f)"

definition init_mysql_dissector :: dissector_entry where [dissector_defs]:
  "init_mysql_dissector = \<lparr>de_name = ''MySQL'', de_func = ndpi_search_mysql_tcp,
     de_selection = NDPI_SELECTION_BITMASK_PROTOCOL_V4_V6_TCP_WITH_PAYLOAD_WITHOUT_RETRANSMISSION,
     de_protocols = [NDPI_PROTOCOL_MYSQL]\<rparr>"

subsection \<open>Nexon (\<open>nexon.c\<close>)\<close>

definition ndpi_search_nexon :: dissector_fun where [dissector_defs]:
  "ndpi_search_nexon m f =
     (let p = payload m in
      ifc (all_of [Some (length p = 24), be32_is p 0 0x18000000, be32_is p 4 0x64000000])
        (detected m f NDPI_PROTOCOL_NEXON)
        (ifc (all_of [Some (length p = 20), be32_is p 4 0x163A992E])
          (detected m f NDPI_PROTOCOL_NEXON) (NDPI_EXCLUDE_DISSECTOR m f)))"

definition init_nexon_dissector :: dissector_entry where [dissector_defs]:
  "init_nexon_dissector = \<lparr>de_name = ''Nexon'', de_func = ndpi_search_nexon,
     de_selection = NDPI_SELECTION_BITMASK_PROTOCOL_V4_V6_TCP_WITH_PAYLOAD_WITHOUT_RETRANSMISSION,
     de_protocols = [NDPI_PROTOCOL_NEXON]\<rparr>"

subsection \<open>FIX (\<open>fix.c\<close>)\<close>

definition ndpi_search_fix :: dissector_fun where [dissector_defs]:
  "ndpi_search_fix m f =
     (let p = payload m in
      if pk_tcp (nd_packet m) \<noteq> None \<and> length p > 5
      then ifc (all_of [byte_is p 0 0x38, byte_is p 1 0x3d])
             (ifc (all_of [byte_is p 2 0x46, byte_is p 3 0x49, byte_is p 4 0x58])
               (detected m f NDPI_PROTOCOL_FIX)
               (ifc (all_of [byte_is p 2 0x4f, byte_is p 3 0x01, byte_is p 4 0x39, byte_is p 5 0x3d])
                 (detected m f NDPI_PROTOCOL_FIX) (NDPI_EXCLUDE_DISSECTOR m f)))
             (NDPI_EXCLUDE_DISSECTOR m f)
      else NDPI_EXCLUDE_DISSECTOR m f)"

definition init_fix_dissector :: dissector_entry where [dissector_defs]:
  "init_fix_dissector = \<lparr>de_name = ''FIX'', de_func = ndpi_search_fix,
     de_selection = NDPI_SELECTION_BITMASK_PROTOCOL_V4_V6_TCP_WITH_PAYLOAD_WITHOUT_RETRANSMISSION,
     de_protocols = [NDPI_PROTOCOL_FIX]\<rparr>"

subsection \<open>LagoFast (\<open>lagofast.c\<close>)\<close>

definition ndpi_search_lagofast :: dissector_fun where [dissector_defs]:
  "ndpi_search_lagofast m f =
     (let p = payload m in
      if length p < 6 then NDPI_EXCLUDE_DISSECTOR m f
      else ifc (notc (be32_is p 0 0x006e5d03)) (NDPI_EXCLUDE_DISSECTOR m f)
             (do { encoded_length \<leftarrow> rd16 p 4;
                   if length p \<noteq> encoded_length + 6 then NDPI_EXCLUDE_DISSECTOR m f
                   else detected m f NDPI_PROTOCOL_LAGOFAST }))"

definition init_lagofast_dissector :: dissector_entry where [dissector_defs]:
  "init_lagofast_dissector = \<lparr>de_name = ''LagoFast'', de_func = ndpi_search_lagofast,
     de_selection = NDPI_SELECTION_BITMASK_PROTOCOL_V4_V6_UDP_WITH_PAYLOAD,
     de_protocols = [NDPI_PROTOCOL_LAGOFAST]\<rparr>"

subsection \<open>NEST_LOG_SINK (\<open>nest_log_sink.c\<close>)\<close>

definition ndpi_search_nest_log_sink :: dissector_fun where [dissector_defs]:
  "ndpi_search_nest_log_sink m f =
     (let packet = nd_packet m; p = pk_payload packet;
          NEST_LOG_SINK_PORT = 11095; NEST_LOG_SINK_MIN_LEN = 8; NEST_LOG_SINK_MIN_MATCH = 3;
          found = (\<lambda>m f. if ft_nest_log_sink_matches (fl_tcp f) = NEST_LOG_SINK_MIN_MATCH
                         then detected m f NDPI_PROTOCOL_NEST_LOG_SINK else Some (m, f))
      in if length p < NEST_LOG_SINK_MIN_LEN then NDPI_EXCLUDE_DISSECTOR m f
         else ifc (all_of [sat (tcp_source packet) (\<lambda>q. q \<noteq> NEST_LOG_SINK_PORT),
                     sat (tcp_dest packet) (\<lambda>q. q \<noteq> NEST_LOG_SINK_PORT)])
           (NDPI_EXCLUDE_DISSECTOR m f)
           (ifc (all_of [byte_sat p 1 (\<lambda>b. b \<le> 0x02), any_of [byte_is p 2 0x00, byte_is p 2 0x10], byte_is p 3 0x13])
             (found m (f\<lparr>fl_tcp := (fl_tcp f)\<lparr>ft_nest_log_sink_matches := ft_nest_log_sink_matches (fl_tcp f) + 1\<rparr>\<rparr>))
             (found m f)))"

definition init_nest_log_sink_dissector :: dissector_entry where [dissector_defs]:
  "init_nest_log_sink_dissector = \<lparr>de_name = ''NEST_LOG_SINK'', de_func = ndpi_search_nest_log_sink,
     de_selection = NDPI_SELECTION_BITMASK_PROTOCOL_V4_V6_TCP_WITH_PAYLOAD_WITHOUT_RETRANSMISSION,
     de_protocols = [NDPI_PROTOCOL_NEST_LOG_SINK]\<rparr>"

subsection \<open>AMAZON_VIDEO (\<open>amazon_video.c\<close>)\<close>

definition ndpi_search_amazon_video :: dissector_fun where [dissector_defs]:
  "ndpi_search_amazon_video m f =
     (let packet = nd_packet m; p = pk_payload packet in
      if length p > 4
      then ifc (all_of [Some (pk_tcp packet \<noteq> None), byte_is p 0 0xFE, byte_is p 1 0xED, byte_is p 2 0xFA, byte_is p 3 0xCE])
             (detected m f NDPI_PROTOCOL_AMAZON_VIDEO)
             (ifc (all_of [Some (pk_udp packet \<noteq> None), byte_is p 0 0xDE, byte_is p 1 0xAD, byte_is p 2 0xBE, byte_is p 3 0xEF])
               (detected m f NDPI_PROTOCOL_AMAZON_VIDEO) (NDPI_EXCLUDE_DISSECTOR m f))
      else NDPI_EXCLUDE_DISSECTOR m f)"

definition init_amazon_video_dissector :: dissector_entry where [dissector_defs]:
  "init_amazon_video_dissector = \<lparr>de_name = ''AMAZON_VIDEO'', de_func = ndpi_search_amazon_video,
     de_selection = NDPI_SELECTION_BITMASK_PROTOCOL_V4_V6_TCP_OR_UDP_WITH_PAYLOAD_WITHOUT_RETRANSMISSION,
     de_protocols = [NDPI_PROTOCOL_AMAZON_VIDEO]\<rparr>"

subsection \<open>HOTS (\<open>hots.c\<close>)\<close>

definition ndpi_search_hots :: dissector_fun where [dissector_defs]:
  "ndpi_search_hots m f =
     (let packet = nd_packet m; p = pk_payload packet in
      ifc (all_of [any_of (map (\<lambda>q. any_of [is_val (udp_dest packet) q, is_val (udp_source packet) q]) [1119, 1120, 3724, 6113]),
             Some (length p \<ge> 20 \<and> length p \<le> 122), byte_is p 14 0x40, byte_is p 15 0x00,
             any_of [all_of [byte_is p 2 0x03, byte_is p 3 0x00], all_of [byte_is p 2 0x34, byte_is p 3 0x00],
                     all_of [byte_is p 0 0x00, byte_is p 1 0x00, byte_is p 2 0x00, byte_is p 3 0x00, byte_is p 4 0x00,
                             byte_is p 5 0x00, byte_is p 6 0x00, byte_is p 7 0x00, byte_is p 8 0x00, byte_is p 9 0x00,
                             byte_is p 10 0x00, byte_is p 11 0x00, byte_is p 12 0x00, byte_is p 13 0x00]]])
        (detected m f NDPI_PROTOCOL_HOTS) (NDPI_EXCLUDE_DISSECTOR m f))"

definition init_hots_dissector :: dissector_entry where [dissector_defs]:
  "init_hots_dissector = \<lparr>de_name = ''HOTS'', de_func = ndpi_search_hots,
     de_selection = NDPI_SELECTION_BITMASK_PROTOCOL_UDP_WITH_PAYLOAD,
     de_protocols = [NDPI_PROTOCOL_HOTS]\<rparr>"

subsection \<open>MSDO (\<open>msdo.c\<close>)\<close>

definition ndpi_search_msdo :: dissector_fun where [dissector_defs]:
  "ndpi_search_msdo m f =
     (let p = payload m in
      ifc (all_of [Some (length p > 16), byte_is p 0 0x0E, mem_eq p 1 (str ''Swarm protocol'')])
        (detected m f NDPI_PROTOCOL_MSDO) (NDPI_EXCLUDE_DISSECTOR m f))"

definition init_msdo_dissector :: dissector_entry where [dissector_defs]:
  "init_msdo_dissector = \<lparr>de_name = ''MSDO'', de_func = ndpi_search_msdo,
     de_selection = NDPI_SELECTION_BITMASK_PROTOCOL_V4_V6_TCP_WITH_PAYLOAD_WITHOUT_RETRANSMISSION,
     de_protocols = [NDPI_PROTOCOL_MSDO]\<rparr>"

subsection \<open>VXLAN (\<open>vxlan.c\<close>)\<close>

definition ndpi_search_vxlan :: dissector_fun where [dissector_defs]:
  "ndpi_search_vxlan m f =
     (let packet = nd_packet m; p = pk_payload packet in
      ifc (all_of [Some (length p \<ge> 8), is_val (udp_dest packet) 4789, be16_is p 0 0x0800, be16_is p 2 0x0,
             byte_is p 7 0x0])
        (ndpi_set_detected_protocol m f NDPI_PROTOCOL_VXLAN NDPI_PROTOCOL_VXLAN NDPI_CONFIDENCE_DPI)
        (NDPI_EXCLUDE_DISSECTOR m f))"

definition init_vxlan_dissector :: dissector_entry where [dissector_defs]:
  "init_vxlan_dissector = \<lparr>de_name = ''VXLAN'', de_func = ndpi_search_vxlan,
     de_selection = NDPI_SELECTION_BITMASK_PROTOCOL_V4_V6_UDP_WITH_PAYLOAD,
     de_protocols = [NDPI_PROTOCOL_VXLAN]\<rparr>"

subsection \<open>CiscoVPN (\<open>ciscovpn.c\<close>)\<close>

definition ndpi_search_ciscovpn :: dissector_fun where [dissector_defs]:
  "ndpi_search_ciscovpn m f =
     (let packet = nd_packet m; p = pk_payload packet in
      ifc (all_of [is_val (udp_source packet) 10000, is_val (udp_dest packet) 10000])
        (ifc (all_of [Some (length p \<ge> 4), byte_is p 0 0xfe, byte_is p 1 0x57, byte_is p 2 0x7e, byte_is p 3 0x2b])
          (detected m f NDPI_PROTOCOL_CISCOVPN)
          (if fl_num_processed_pkts f > 5 then NDPI_EXCLUDE_DISSECTOR m f else Some (m, f)))
        (NDPI_EXCLUDE_DISSECTOR m f))"

definition init_ciscovpn_dissector :: dissector_entry where [dissector_defs]:
  "init_ciscovpn_dissector = \<lparr>de_name = ''CiscoVPN'', de_func = ndpi_search_ciscovpn,
     de_selection = NDPI_SELECTION_BITMASK_PROTOCOL_V4_V6_UDP_WITH_PAYLOAD,
     de_protocols = [NDPI_PROTOCOL_CISCOVPN]\<rparr>"

subsection \<open>STOMP (\<open>stomp.c\<close>)\<close>

definition ndpi_search_stomp :: dissector_fun where [dissector_defs]:
  "ndpi_search_stomp m f =
     (let p = payload m in
      ifc (all_of [Some (length p > 26), Some (current_pkt_from_client_to_server m f), mem_eq p 0 (str ''STOMP'')])
        (detected m f NDPI_PROTOCOL_STOMP)
        (ifc (all_of [Some (length p > 100), Some (current_pkt_from_server_to_client m f), mem_eq p 0 (str ''CONNECTED'')])
          (detected m f NDPI_PROTOCOL_STOMP) (NDPI_EXCLUDE_DISSECTOR m f)))"

definition init_stomp_dissector :: dissector_entry where [dissector_defs]:
  "init_stomp_dissector = \<lparr>de_name = ''STOMP'', de_func = ndpi_search_stomp,
     de_selection = NDPI_SELECTION_BITMASK_PROTOCOL_V4_V6_TCP_WITH_PAYLOAD_WITHOUT_RETRANSMISSION,
     de_protocols = [NDPI_PROTOCOL_STOMP]\<rparr>"

subsection \<open>XDMCP (\<open>xdmcp.c\<close>)\<close>

definition ndpi_search_xdmcp :: dissector_fun where [dissector_defs]:
  "ndpi_search_xdmcp m f =
     (let packet = nd_packet m; p = pk_payload packet in
      ifc (all_of [Some (pk_tcp packet \<noteq> None), sat (tcp_dest packet) (\<lambda>q. q \<ge> 6000), sat (tcp_dest packet) (\<lambda>q. q \<le> 6005),
             Some (length p = 48), byte_is p 0 0x6c, byte_is p 1 0x00, be16_is p 6 0x1200, be16_is p 8 0x1000])
        (detected m f NDPI_PROTOCOL_XDMCP)
        (ifc (all_of [Some (pk_udp packet \<noteq> None), is_val (udp_dest packet) 177, Some (length p \<ge> 6),
                sat (rd16 p 4) (\<lambda>v. length p = 6 + v), be16_is p 0 0x0001, be16_is p 2 0x0002])
          (detected m f NDPI_PROTOCOL_XDMCP) (NDPI_EXCLUDE_DISSECTOR m f)))"

definition init_xdmcp_dissector :: dissector_entry where [dissector_defs]:
  "init_xdmcp_dissector = \<lparr>de_name = ''XDMCP'', de_func = ndpi_search_xdmcp,
     de_selection = NDPI_SELECTION_BITMASK_PROTOCOL_V4_V6_TCP_OR_UDP_WITH_PAYLOAD_WITHOUT_RETRANSMISSION,
     de_protocols = [NDPI_PROTOCOL_XDMCP]\<rparr>"

subsection \<open>Citrix (\<open>citrix.c\<close>)\<close>

definition ndpi_search_citrix :: dissector_fun where [dissector_defs]:
  "ndpi_search_citrix m f =
     (let p = payload m in
      if length p = 6
      then ifc (mem_eq p 0 [0x7F, 0x7F, 0x49, 0x43, 0x41, 0x00])
             (detected m f NDPI_PROTOCOL_CITRIX) (NDPI_EXCLUDE_DISSECTOR m f)
      else if length p > 22
      then ifc (any_of [mem_eq p 0 [0x1a, 0x43, 0x47, 0x50, 0x2f, 0x30, 0x31],
                  strnstr_found p (str ''Citrix.TcpProxyService'') (length p)])
             (detected m f NDPI_PROTOCOL_CITRIX) (NDPI_EXCLUDE_DISSECTOR m f)
      else NDPI_EXCLUDE_DISSECTOR m f)"

definition init_citrix_dissector :: dissector_entry where [dissector_defs]:
  "init_citrix_dissector = \<lparr>de_name = ''Citrix'', de_func = ndpi_search_citrix,
     de_selection = NDPI_SELECTION_BITMASK_PROTOCOL_V4_V6_TCP_WITH_PAYLOAD_WITHOUT_RETRANSMISSION,
     de_protocols = [NDPI_PROTOCOL_CITRIX]\<rparr>"

subsection \<open>GaijinEntertainment (\<open>gaijin_entertainment.c\<close>)\<close>

definition ndpi_search_gaijin :: dissector_fun where [dissector_defs]:
  "ndpi_search_gaijin m f =
     (let p = payload m in
      ifc (all_of [Some (length p = 52), byte_is p 2 0, be16_is p 0 0x8FFF, be32_is p 4 0x82FF0001])
        (detected m f NDPI_PROTOCOL_GAIJIN)
        (if length p > 100
         then ifc (any_of [mem_eq p 0 (str ''embeddedupdater.''), mem_eq p 0 (str ''app.start''), mem_eq p 0 (str ''app.stage'')])
                (detected m f NDPI_PROTOCOL_GAIJIN) (NDPI_EXCLUDE_DISSECTOR m f)
         else NDPI_EXCLUDE_DISSECTOR m f))"

definition init_gaijin_dissector :: dissector_entry where [dissector_defs]:
  "init_gaijin_dissector = \<lparr>de_name = ''GaijinEntertainment'', de_func = ndpi_search_gaijin,
     de_selection = NDPI_SELECTION_BITMASK_PROTOCOL_V4_V6_UDP_WITH_PAYLOAD,
     de_protocols = [NDPI_PROTOCOL_GAIJIN]\<rparr>"

subsection \<open>HAProxy (\<open>haproxy.c\<close>)\<close>

definition ndpi_search_haproxy :: dissector_fun where [dissector_defs]:
  "ndpi_search_haproxy m f =
     (let p = payload m in
      if length p < length ''PROXY TCP'' then NDPI_EXCLUDE_DISSECTOR m f
      else ifc (notc (strn_eq p 0 (str ''PROXY TCP''))) (NDPI_EXCLUDE_DISSECTOR m f)
             (do { e \<leftarrow> ndpi_strnstr p [0x0d, 0x0a] (length p);
                   if e = None then NDPI_EXCLUDE_DISSECTOR m f
                   else if int (length p) - (int (the e) + 2) = 0 then NDPI_EXCLUDE_DISSECTOR m f
                   else detected m f NDPI_PROTOCOL_HAPROXY }))"

definition init_haproxy_dissector :: dissector_entry where [dissector_defs]:
  "init_haproxy_dissector = \<lparr>de_name = ''HAProxy'', de_func = ndpi_search_haproxy,
     de_selection = NDPI_SELECTION_BITMASK_PROTOCOL_V4_V6_TCP_WITH_PAYLOAD_WITHOUT_RETRANSMISSION,
     de_protocols = [NDPI_PROTOCOL_HAPROXY]\<rparr>"

subsection \<open>KakaoTalk_Voice (\<open>kakaotalk_voice.c\<close>)\<close>

definition ndpi_search_kakaotalk_voice :: dissector_fun where [dissector_defs]:
  "ndpi_search_kakaotalk_voice m f =
     (let packet = nd_packet m; p = pk_payload packet in
      if pk_iph packet \<noteq> None \<and> pk_udp packet \<noteq> None \<and> length p \<ge> 4
      then ifc (all_of [any_of [byte_is p 0 0x81, byte_is p 1 0xC8, byte_is p 2 0x00, byte_is p 3 0x0C],
                  any_of [sat (iph_saddr packet) (\<lambda>a. a AND 0xFFFF0000 = 0x01C90000),
                          sat (iph_daddr packet) (\<lambda>a. a AND 0xFFFF0000 = 0x01C90000)]])
             (detected m f NDPI_PROTOCOL_KAKAOTALK_VOICE) (NDPI_EXCLUDE_DISSECTOR m f)
      else NDPI_EXCLUDE_DISSECTOR m f)"

definition init_kakaotalk_voice_dissector :: dissector_entry where [dissector_defs]:
  "init_kakaotalk_voice_dissector = \<lparr>de_name = ''KakaoTalk_Voice'', de_func = ndpi_search_kakaotalk_voice,
     de_selection = NDPI_SELECTION_BITMASK_PROTOCOL_V4_V6_UDP_WITH_PAYLOAD,
     de_protocols = [NDPI_PROTOCOL_KAKAOTALK_VOICE]\<rparr>"

subsection \<open>PTPv2 (\<open>ptpv2.c\<close>)\<close>

definition ndpi_search_ptpv2_udp :: dissector_fun where [dissector_defs]:
  "ndpi_search_ptpv2_udp m f =
     (let packet = nd_packet m; p = pk_payload packet; PTP_EVENT_MSG_PORT = 319; PTP_GENERAL_MSG_PORT = 320 in
      if length p > 34
      then ifc (all_of [any_of [all_of [is_val (udp_source packet) PTP_EVENT_MSG_PORT, is_val (udp_dest packet) PTP_EVENT_MSG_PORT],
                          all_of [is_val (udp_source packet) PTP_GENERAL_MSG_PORT, is_val (udp_dest packet) PTP_GENERAL_MSG_PORT]],
                  byte_sat p 0 (\<lambda>b. b AND 0xF < 0xF), byte_is p 1 0x02])
             (detected m f NDPI_PROTOCOL_PTPV2) (NDPI_EXCLUDE_DISSECTOR m f)
      else NDPI_EXCLUDE_DISSECTOR m f)"

definition init_ptpv2_dissector :: dissector_entry where [dissector_defs]:
  "init_ptpv2_dissector = \<lparr>de_name = ''PTPv2'', de_func = ndpi_search_ptpv2_udp,
     de_selection = NDPI_SELECTION_BITMASK_PROTOCOL_V4_V6_UDP_WITH_PAYLOAD,
     de_protocols = [NDPI_PROTOCOL_PTPV2]\<rparr>"

subsection \<open>Modbus (\<open>modbus.c\<close>)\<close>

definition ndpi_search_modbus_tcp :: dissector_fun where [dissector_defs]:
  "ndpi_search_modbus_tcp m f =
     (let packet = nd_packet m; p = pk_payload packet in
      if pk_tcp packet \<noteq> None
      then ifc (all_of [Some (length p \<ge> 8),
                  any_of [is_val (tcp_dest packet) 502, is_val (tcp_source packet) 502],
                  sat (rd16 p 4) (\<lambda>modbus_len. int modbus_len - 1 = int (length p) - 7),
                  byte_is p 2 0x0, byte_is p 3 0x0])
             (ifc (byte_is p 7 0x5A)
               (ndpi_set_detected_protocol m f NDPI_PROTOCOL_UMAS NDPI_PROTOCOL_MODBUS NDPI_CONFIDENCE_DPI)
               (detected m f NDPI_PROTOCOL_MODBUS))
             (NDPI_EXCLUDE_DISSECTOR m f)
      else NDPI_EXCLUDE_DISSECTOR m f)"

definition init_modbus_dissector :: dissector_entry where [dissector_defs]:
  "init_modbus_dissector = \<lparr>de_name = ''Modbus'', de_func = ndpi_search_modbus_tcp,
     de_selection = NDPI_SELECTION_BITMASK_PROTOCOL_V4_V6_TCP_WITH_PAYLOAD_WITHOUT_RETRANSMISSION,
     de_protocols = [NDPI_PROTOCOL_MODBUS]\<rparr>"

subsection \<open>RiotGames (\<open>riotgames.c\<close>)\<close>

definition ndpi_search_riotgames :: dissector_fun where [dissector_defs]:
  "ndpi_search_riotgames m f =
     (let p = payload m; n = length p;
          found = ndpi_set_detected_protocol m f NDPI_PROTOCOL_UNKNOWN NDPI_PROTOCOL_RIOTGAMES NDPI_CONFIDENCE_DPI
      in ifc (all_of [Some (n > 8), be32_is p (n - 8) 0xaaaaaaaa, be32_is p (n - 4) 0xbbbbbbbb]) found
           (ifc (all_of [Some (n = 53), be32_is p (n - 4) 0xea23460c, be32_is p (n - 8) 0x3cb11f2d]) found
             (NDPI_EXCLUDE_DISSECTOR m f)))"

definition init_riotgames_dissector :: dissector_entry where [dissector_defs]:
  "init_riotgames_dissector = \<lparr>de_name = ''RiotGames'', de_func = ndpi_search_riotgames,
     de_selection = NDPI_SELECTION_BITMASK_PROTOCOL_V4_V6_UDP_WITH_PAYLOAD,
     de_protocols = [NDPI_PROTOCOL_RIOTGAMES]\<rparr>"

subsection \<open>AliCloud (\<open>alicloud.c\<close>)\<close>

definition ndpi_search_alicloud :: dissector_fun where [dissector_defs]:
  "ndpi_search_alicloud m f =
     (let p = payload m in
      if length p < 8 then NDPI_EXCLUDE_DISSECTOR m f
      else ifc (all_of [be32_is p 0 0xcefabeba,
                  sat (rd32 p 4) (\<lambda>pdu_len. (length p = 8 \<and> pdu_len > 0) \<or> pdu_len = length p - 8)])
             (detected m f NDPI_PROTOCOL_ALICLOUD)
             (if fl_packet_counter f > 3 then NDPI_EXCLUDE_DISSECTOR m f else Some (m, f)))"

definition init_alicloud_dissector :: dissector_entry where [dissector_defs]:
  "init_alicloud_dissector = \<lparr>de_name = ''AliCloud'', de_func = ndpi_search_alicloud,
     de_selection = NDPI_SELECTION_BITMASK_PROTOCOL_V4_V6_TCP_WITH_PAYLOAD_WITHOUT_RETRANSMISSION,
     de_protocols = [NDPI_PROTOCOL_ALICLOUD]\<rparr>"

subsection \<open>BFD (\<open>bfd.c\<close>)\<close>

definition ndpi_search_bfd :: dissector_fun where [dissector_defs]:
  "ndpi_search_bfd m f =
     (let packet = nd_packet m; p = pk_payload packet in
      ifc (all_of [Some (length p = 12), is_val (udp_dest packet) 3785, is_val (rd64 p 0) 1, be16_is p (length p - 2) 0])
        (detected m f NDPI_PROTOCOL_BFD)
        (ifc (all_of [Some (length p > 23 \<and> length p \<le> 100), is_val (udp_dest packet) 3784,
                byte_sat p 0 (\<lambda>b. drop_bit 5 (b AND 0xE0) < 2), byte_sat p 3 (\<lambda>b. b = of_nat (length p))])
          (detected m f NDPI_PROTOCOL_BFD) (NDPI_EXCLUDE_DISSECTOR m f)))"

definition init_bfd_dissector :: dissector_entry where [dissector_defs]:
  "init_bfd_dissector = \<lparr>de_name = ''BFD'', de_func = ndpi_search_bfd,
     de_selection = NDPI_SELECTION_BITMASK_PROTOCOL_V4_V6_UDP_WITH_PAYLOAD,
     de_protocols = [NDPI_PROTOCOL_BFD]\<rparr>"

subsection \<open>Crossfire (\<open>crossfire.c\<close>)\<close>

definition ndpi_search_crossfire_tcp_udp :: dissector_fun where [dissector_defs]:
  "ndpi_search_crossfire_tcp_udp m f =
     (let packet = nd_packet m; p = pk_payload packet in
      ifc (all_of [Some (pk_udp packet \<noteq> None), Some (length p \<ge> 8), be32_is p 0 0xc7d91999])
        (detected m f NDPI_PROTOCOL_CROSSFIRE)
        (ifc (all_of [Some (pk_tcp packet \<noteq> None), Some (length p > 100), byte_is p 0 0xF1, byte_is p (length p - 1) 0xF2,
                be32_is p 2 0x01000000])
          (detected m f NDPI_PROTOCOL_CROSSFIRE) (NDPI_EXCLUDE_DISSECTOR m f)))"

definition init_crossfire_dissector :: dissector_entry where [dissector_defs]:
  "init_crossfire_dissector = \<lparr>de_name = ''Crossfire'', de_func = ndpi_search_crossfire_tcp_udp,
     de_selection = NDPI_SELECTION_BITMASK_PROTOCOL_V4_V6_TCP_OR_UDP_WITH_PAYLOAD_WITHOUT_RETRANSMISSION,
     de_protocols = [NDPI_PROTOCOL_CROSSFIRE]\<rparr>"

subsection \<open>DNScrypt (\<open>dnscrypt.c\<close>)\<close>

definition ndpi_search_dnscrypt :: dissector_fun where [dissector_defs]:
  "ndpi_search_dnscrypt m f =
     (let packet = nd_packet m; p = pk_payload packet; dnscrypt_initial = str ''2'' @ [0x0d] @ str ''dnscrypt'' in
      ifc (all_of [Some (length p \<ge> 64), strn_eq p 0 (str ''r6fnvWj8'')])
        (detected m f NDPI_PROTOCOL_DNSCRYPT)
        (ifc (all_of [Some (length p > 13 + length dnscrypt_initial), strncase_eq p 13 dnscrypt_initial])
          (detected m f NDPI_PROTOCOL_DNSCRYPT)
          (if (at_dir (pk_packet_direction packet) (fl_packet_direction_counter f) \<ge> 1 \<and>
               at_dir (1 - pk_packet_direction packet) (fl_packet_direction_counter f) \<ge> 1) \<or>
              fl_packet_counter f \<ge> 8
           then NDPI_EXCLUDE_DISSECTOR m f
           else Some (m, f))))"

definition init_dnscrypt_dissector :: dissector_entry where [dissector_defs]:
  "init_dnscrypt_dissector = \<lparr>de_name = ''DNScrypt'', de_func = ndpi_search_dnscrypt,
     de_selection = NDPI_SELECTION_BITMASK_PROTOCOL_V4_V6_TCP_OR_UDP_WITH_PAYLOAD_WITHOUT_RETRANSMISSION,
     de_protocols = [NDPI_PROTOCOL_DNSCRYPT]\<rparr>"

subsection \<open>IMO (\<open>imo.c\<close>)\<close>

definition ndpi_search_imo :: dissector_fun where [dissector_defs]:
  "ndpi_search_imo m f =
     (let p = payload m; udp = fl_udp f in
      if length p = 1
      then do { b \<leftarrow> rd8 p 0;
             if fu_imo_last_one_byte_pkt udp = 1 \<and> fu_imo_last_byte udp = b then detected m f NDPI_PROTOCOL_IMO
             else Some (m, f\<lparr>fl_udp := udp\<lparr>fu_imo_last_one_byte_pkt := 1, fu_imo_last_byte := b\<rparr>\<rparr>) }
      else ifc (any_of [
             all_of [Some (length p = 10), byte_is p 0 0x09, byte_is p 1 0x02],
             all_of [Some (length p = 11), byte_is p 0 0x00, byte_is p 1 0x09, byte_is p 2 0x03],
             all_of [Some (length p = 1099), byte_is p 0 0x88, byte_is p 1 0x49, byte_is p 2 0x1a, byte_is p 3 0x00]])
        (detected m f NDPI_PROTOCOL_IMO)
        (if fl_num_processed_pkts f > 5 then NDPI_EXCLUDE_DISSECTOR m f
         else Some (m, f\<lparr>fl_udp := udp\<lparr>fu_imo_last_one_byte_pkt := 0\<rparr>\<rparr>)))"

definition init_imo_dissector :: dissector_entry where [dissector_defs]:
  "init_imo_dissector = \<lparr>de_name = ''IMO'', de_func = ndpi_search_imo,
     de_selection = NDPI_SELECTION_BITMASK_PROTOCOL_V4_V6_UDP_WITH_PAYLOAD,
     de_protocols = [NDPI_PROTOCOL_IMO]\<rparr>"

section \<open>The dissectors of this theory keep the contract\<close>

definition dissectors_c :: "dissector_entry list" where
  "dissectors_c =
     [init_oracle_dissector, init_paltalk_dissector, init_rtps_dissector,
      init_syncthing_dissector, init_hcl_notes_dissector, init_json_rpc_dissector,
      init_mumble_dissector, init_sonos_dissector, init_vnc_dissector,
      init_yojimbo_dissector, init_c1222_dissector, init_cip_dissector,
      init_flute_dissector, init_mysql_dissector, init_nexon_dissector,
      init_fix_dissector, init_lagofast_dissector, init_nest_log_sink_dissector,
      init_amazon_video_dissector, init_hots_dissector, init_msdo_dissector,
      init_vxlan_dissector, init_ciscovpn_dissector, init_stomp_dissector,
      init_xdmcp_dissector, init_citrix_dissector, init_gaijin_dissector,
      init_haproxy_dissector, init_kakaotalk_voice_dissector, init_ptpv2_dissector,
      init_modbus_dissector, init_riotgames_dissector, init_alicloud_dissector,
      init_bfd_dissector, init_crossfire_dissector, init_dnscrypt_dissector,
      init_imo_dissector]"

lemma dissectors_c_ok: "list_all entry_ok dissectors_c"
  unfolding dissectors_c_def list.pred_inject
  by (intro conjI TrueI entry_okI;
      (simp only: dissector_defs dissector_entry.select_convs Let_def)?; (intro step_intros)?;
      auto simp: dissector_conds selected_simps)

end
