(* ===== verification/Dissector_Table.thy ===== *)
theory Dissector_Table
  imports Dispatch_Init Dissectors_A Dissectors_B Dissectors_C
begin

text \<open>
  The table of all modelled dissectors, which gives the numbers in the callbacks their functions,
  and what the engine promises with it: every dissector keeps the contract, and dispatch of a
  packet on an initialised module is free of undefined behaviour.
\<close>

section \<open>The table\<close>

definition dissector_table :: "dissector_entry list" where
  "dissector_table = dissectors_a @ dissectors_b @ dissectors_c"

definition num_dissectors :: nat where
  "num_dissectors = length dissector_table"

definition call_dissector :: "nat \<Rightarrow> dissector_fun" where
  "call_dissector i m f = (if i < num_dissectors then de_func (dissector_table ! i) m f else None)"

definition dissector_sel :: "nat \<Rightarrow> u32" where
  "dissector_sel i = (if i < num_dissectors then de_selection (dissector_table ! i) else 0)"

definition dissector_regs :: "(nat \<times> dissector_entry) list" where
  "dissector_regs = zip [0 ..< num_dissectors] dissector_table"

lemma dissector_table_ok: "list_all entry_ok dissector_table"
  by (simp add: dissector_table_def dissectors_a_ok dissectors_b_ok dissectors_c_ok)

lemma table_entry_safe:
  assumes "e \<in> set dissector_table" "wf_module m" "wf_flow f" "nd_current_dissector_idx m < NDPI_MAX_NUM_DISSECTORS"
    "selected (de_selection e) (nd_packet m)"
  shows "safe_step m f (de_func e m f)"
  using dissector_table_ok assms by (simp add: list_all_iff entry_ok_def)

interpretation table: dissector_provider call_dissector dissector_sel num_dissectors
  by unfold_locales
    (auto simp: call_dissector_def dissector_sel_def num_dissectors_def intro!: table_entry_safe)

lemma table_protocols_distinct: "distinct (concat (map de_protocols dissector_table))"
  unfolding dissector_table_def dissectors_a_def dissectors_b_def dissectors_c_def
  by (simp add: dissector_defs)

lemma table_protocols_ids: "e \<in> set dissector_table \<Longrightarrow> p \<in> set (de_protocols e) \<Longrightarrow> p < num_protocol_ids"
proof -
  have "list_all (list_all (\<lambda>p. p < num_protocol_ids)) (map de_protocols dissector_table)"
    unfolding dissector_table_def dissectors_a_def dissectors_b_def dissectors_c_def by (simp add: dissector_defs)
  then show "e \<in> set dissector_table \<Longrightarrow> p \<in> set (de_protocols e) \<Longrightarrow> p < num_protocol_ids"
    by (auto simp: list_all_iff)
qed

lemma num_dissectors_less: "num_dissectors < NDPI_MAX_NUM_DISSECTORS"
  by (simp add: num_dissectors_def dissector_table_def dissectors_a_def dissectors_b_def dissectors_c_def
      NDPI_MAX_NUM_DISSECTORS_def)

lemma dissector_regs_ok: "num_protocol_ids \<le> n \<Longrightarrow> regs_ok dissector_sel num_dissectors n dissector_regs"
proof -
  have "map (\<lambda>(i, e). de_protocols e) dissector_regs = map de_protocols dissector_table"
    by (simp add: dissector_regs_def num_dissectors_def split_def flip: map_map [of de_protocols snd, unfolded comp_def])
  moreover have "i < num_dissectors \<and> de_selection e = dissector_sel i \<and> e \<in> set dissector_table"
    if "(i, e) \<in> set dissector_regs" for i e
    using that by (auto simp: dissector_regs_def dissector_sel_def num_dissectors_def set_zip)
  ultimately show "num_protocol_ids \<le> n \<Longrightarrow> regs_ok dissector_sel num_dissectors n dissector_regs"
    using table_protocols_distinct table_protocols_ids
    by (fastforce simp: regs_ok_def regs_protocols_def list_all_iff)
qed

section \<open>Memory safety\<close>

lemma callbacks_ok_packet [simp]: "callbacks_ok s n (m\<lparr>nd_packet := p\<rparr>) = callbacks_ok s n m"
  by (simp add: callbacks_ok_def table_entry_ok_def protocol_entry_ok_def callback_arrays_def)

lemma wf_module_packet: "wf_module m \<Longrightarrow> wf_packet p \<Longrightarrow> wf_module (m\<lparr>nd_packet := p\<rparr>)"
  by (simp add: wf_module_def cfg_wf_def)

lemma after_init_dispatch:
  assumes "after_init dissector_sel num_dissectors n m0 m" "wf_packet p" "wf_flow f" "flow_ids_ok m f"
    "\<forall>d \<in> set (nd_proto_defaults m0). length (pd_subprotocols d) \<le> s"
  shows "\<exists>m' f' k. ndpi_check_flow_func call_dissector (m\<lparr>nd_packet := p\<rparr>) f (selection_packet p) = Some (m', f', k) \<and>
    dispatch_step (m\<lparr>nd_packet := p\<rparr>) f m' f' \<and> k \<le> 1 + n + 2 * s"
proof -
  let ?m = "m\<lparr>nd_packet := p\<rparr>"
  have same: "same_protocols (nd_proto_defaults m) (nd_proto_defaults m0)" using assms(1) by (simp add: after_init_def)
  have "length (pd_subprotocols d) \<le> s" if d: "d \<in> set (nd_proto_defaults m)" for d
  proof -
    obtain j where j: "j < length (nd_proto_defaults m0)" "d = nd_proto_defaults m ! j"
      using d same_protocols_length [OF same] by (auto simp: in_set_conv_nth)
    then show ?thesis using same_protocols_nth(2) [OF same j(1)] assms(5) by simp
  qed
  then show ?thesis
    using table.flow_func_safe [of ?m f s n] assms(1-4) wf_module_packet [of m p]
    by (simp add: after_init_def flow_ids_ok_def)
qed

text \<open>C1. Every modelled dissector is memory safe: run on a packet that its selection bits allow, it
  ends without undefined behaviour (no read outside the payload, no null header), keeps the
  module and the flow well formed, changes of the engine's state only the classification and the
  risks, excludes at most itself, and classifies with protocols of the library only.\<close>

theorem dissectors_memory_safe:
  assumes "e \<in> set dissector_table" "wf_module m" "wf_flow f"
    "nd_current_dissector_idx m < NDPI_MAX_NUM_DISSECTORS" "selected (de_selection e) (nd_packet m)"
  shows "\<exists>m' f'. de_func e m f = Some (m', f') \<and> dissector_step m f m' f'"
  using table_entry_safe [OF assms] by (simp add: safe_step_def)

theorem dissectors_memory_safe_witness:
  "\<exists>m' f'. de_func init_vxlan_dissector (small_module\<lparr>nd_packet := sample_udp 4789 [8, 0, 0]\<rparr>) empty_flow = Some (m', f') \<and>
     dissector_step (small_module\<lparr>nd_packet := sample_udp 4789 [8, 0, 0]\<rparr>) empty_flow m' f'"
proof (rule dissectors_memory_safe)
  show "init_vxlan_dissector \<in> set dissector_table"
    by (simp add: dissector_table_def dissectors_c_def)
  show "wf_module (small_module\<lparr>nd_packet := sample_udp 4789 [8, 0, 0]\<rparr>)"
    by (rule wf_module_packet [OF small_module_wf sample_udp_wf])
  show "selected (de_selection init_vxlan_dissector) (nd_packet (small_module\<lparr>nd_packet := sample_udp 4789 [8, 0, 0]\<rparr>))"
    by (simp add: init_vxlan_dissector_def selected_simps sample_udp_def)
qed (simp_all add: empty_flow_wf small_module_def empty_module_def NDPI_MAX_NUM_DISSECTORS_def)

text \<open>C28. Initialisation and dispatch compose: registering all modelled dissectors on a fresh module
  succeeds, and from then on the dispatch of any packet on any flow ends without undefined
  behaviour, keeps the tables and the flow well formed, and calls a bounded number of dissectors.\<close>

theorem init_then_dispatch_safe:
  assumes "before_init m" "\<forall>d \<in> set (nd_proto_defaults m). length (pd_subprotocols d) \<le> s"
  shows "\<exists>m1. dissectors_init True resized True m dissector_regs = Some (0, m1) \<and>
    callbacks_ok dissector_sel num_dissectors m1 \<and> wf_module m1 \<and>
    (\<forall>p f. wf_packet p \<longrightarrow> wf_flow f \<longrightarrow> flow_ids_ok m1 f \<longrightarrow>
      (\<exists>m' f' k. ndpi_check_flow_func call_dissector (m1\<lparr>nd_packet := p\<rparr>) f (selection_packet p) = Some (m', f', k) \<and>
         dispatch_step (m1\<lparr>nd_packet := p\<rparr>) f m' f' \<and> k \<le> 1 + num_dissectors + 2 * s))"
proof -
  have len: "num_protocol_ids \<le> length (nd_proto_defaults m)" "length dissector_regs = num_dissectors"
    using assms(1) by (simp_all add: before_init_def wf_module_def dissector_regs_def num_dissectors_def)
  obtain m1 where "dissectors_init True resized True m dissector_regs = Some (0, m1)"
      "after_init dissector_sel num_dissectors num_dissectors m m1"
    using dissectors_init_ok [OF assms(1) dissector_regs_ok [OF len(1)], of resized] len(2) num_dissectors_less by auto
  then show ?thesis using after_init_dispatch [OF _ _ _ _ assms(2)] by (auto simp: after_init_def)
qed

lemma full_init:
  "\<exists>m1. dissectors_init True True True full_module dissector_regs = Some (0, m1) \<and>
     after_init dissector_sel num_dissectors num_dissectors full_module m1"
proof -
  have len: "num_protocol_ids \<le> length (nd_proto_defaults full_module)" "length dissector_regs = num_dissectors"
    by (simp_all add: full_module_def small_module_def dissector_regs_def num_dissectors_def)
  show ?thesis
    using dissectors_init_ok [OF full_module_before_init dissector_regs_ok [OF len(1)], of True] len(2) num_dissectors_less
    by auto
qed

lemma empty_flow_ids: "wf_module m \<Longrightarrow> flow_ids_ok m empty_flow"
  by (auto simp: flow_ids_ok_def ids_below_def empty_flow_def wf_module_def)

theorem init_then_dispatch_safe_witness:
  "\<exists>m1 m' f' k. dissectors_init True True True full_module dissector_regs = Some (0, m1) \<and>
     ndpi_check_flow_func call_dissector (m1\<lparr>nd_packet := sample_udp 4789 [8, 0, 0]\<rparr>) empty_flow
       (selection_packet (sample_udp 4789 [8, 0, 0])) = Some (m', f', k) \<and> k \<le> 1 + num_dissectors"
proof -
  have "\<forall>d \<in> set (nd_proto_defaults full_module). length (pd_subprotocols d) \<le> 0"
    by (simp add: full_module_def small_module_def empty_proto_def)
  from init_then_dispatch_safe [OF full_module_before_init this, of True]
  obtain m1 where m1: "dissectors_init True True True full_module dissector_regs = Some (0, m1)" "wf_module m1"
    "\<forall>p f. wf_packet p \<longrightarrow> wf_flow f \<longrightarrow> flow_ids_ok m1 f \<longrightarrow>
      (\<exists>m' f' k. ndpi_check_flow_func call_dissector (m1\<lparr>nd_packet := p\<rparr>) f (selection_packet p) = Some (m', f', k) \<and>
         dispatch_step (m1\<lparr>nd_packet := p\<rparr>) f m' f' \<and> k \<le> 1 + num_dissectors + 2 * 0)" by blast
  from m1(3) sample_udp_wf [of 4789 "[8, 0, 0]"] empty_flow_wf empty_flow_ids [OF m1(2)] show ?thesis
    using m1(1) by fastforce
qed

section \<open>Which dissectors run\<close>

text \<open>C5. A dissector runs only on packets that satisfy its selection bits and only while the flow does
  not exclude it: if other functions agree with the dissectors wherever the callbacks of the
  module may run on this packet, the dispatch with them gives the same result.\<close>

theorem dispatch_only_selected:
  assumes "callbacks_ok dissector_sel num_dissectors m" "wf_module m" "wf_flow f" "flow_ids_ok m f"
    "\<forall>cb \<in> set (nd_callback_buffer m) \<union> callback_arrays m. calls_agree call_dissector call' m cb"
  shows "ndpi_check_flow_func call' m f (selection_packet (nd_packet m)) =
         ndpi_check_flow_func call_dissector m f (selection_packet (nd_packet m))"
proof -
  have sub: "set (callbacks_for m) \<subseteq> callback_arrays m"
    by (auto simp: callbacks_for_def callback_arrays_def)
  then have "\<forall>cb \<in> set (callbacks_for m). real_callback dissector_sel num_dissectors cb"
    using assms(1) by (auto simp: callbacks_ok_def)
  then show ?thesis unfolding check_flow_func_eq
    using table.detection_func_agree [OF assms(1-4)] assms(5) sub by blast
qed

theorem dispatch_only_selected_witness:
  "\<exists>m1. dissectors_init True True True full_module dissector_regs = Some (0, m1) \<and>
     (let m = m1\<lparr>nd_packet := sample_udp 4789 [8, 0, 0]\<rparr>
      in ndpi_check_flow_func
           (\<lambda>i n g. if bits_match (dissector_sel i) (selection_packet (nd_packet n)) then call_dissector i n g else None)
           m empty_flow (selection_packet (nd_packet m)) =
         ndpi_check_flow_func call_dissector m empty_flow (selection_packet (nd_packet m)))"
proof -
  obtain m1 where m1: "dissectors_init True True True full_module dissector_regs = Some (0, m1)"
      "after_init dissector_sel num_dissectors num_dissectors full_module m1"
    using full_init by blast
  let ?m = "m1\<lparr>nd_packet := sample_udp 4789 [8, 0, 0]\<rparr>"
  have ok: "callbacks_ok dissector_sel num_dissectors ?m" "wf_module ?m"
    using m1(2) wf_module_packet [OF _ sample_udp_wf] by (simp_all add: after_init_def)
  have "calls_agree call_dissector
      (\<lambda>i n g. if bits_match (dissector_sel i) (selection_packet (nd_packet n)) then call_dissector i n g else None) ?m cb"
    if "cb \<in> set (nd_callback_buffer ?m) \<union> callback_arrays ?m" for cb
  proof -
    have "cf_func cb \<noteq> None \<longrightarrow> real_callback dissector_sel num_dissectors cb"
      using ok(1) that by (auto simp: callbacks_ok_def table_entry_ok_def Let_def in_set_conv_nth)
    then show ?thesis by (auto simp: calls_agree_def real_callback_def)
  qed
  from dispatch_only_selected [OF ok empty_flow_wf empty_flow_ids [OF ok(2)]] this
  show ?thesis using m1(1) by (metis (mono_tags, lifting))
qed


lemma bjnp_first: "dissector_table ! 0 = init_bjnp_dissector" "0 < num_dissectors"
  by (simp_all add: num_dissectors_def dissector_table_def dissectors_a_def)


text \<open>C31. A guessed protocol that has no dissector of its own runs the first registered one: its
  dissector number is 0, which is also the number of the first callback.\<close>

theorem guess_without_dissector_runs_first:
  assumes "fl_fast_callback_protocol_id f = 0" "fl_guessed_protocol_id f \<noteq> NDPI_PROTOCOL_UNKNOWN"
    "rd_proto m (fl_guessed_protocol_id f) = Some d" "pd_dissector_idx d = 0"
    "rd_callback m 0 = Some cb" "cf_func cb = Some i" "bits_match (cf_ndpi_selection_bitmask cb) sel"
    "\<not> bit_in (fl_excluded_dissectors_bitmask f) 0" "wf_flow f"
  shows "fast_path call m f sel =
    (case call i (m\<lparr>nd_current_dissector_idx := 0\<rparr>) f of None \<Rightarrow> None | Some (m', f') \<Rightarrow> Some (m', f', Some i))"
  using fast_path_eq [OF assms(3) _ assms(4,5) _ assms(9), of call sel] assms(1,2,6-8)
  by (simp add: run_callback_def NDPI_MAX_NUM_DISSECTORS_def split: option.split)

theorem guess_without_dissector_runs_first_witness:
  "let m = full_module\<lparr>nd_callback_buffer := [callback_of 0 init_bjnp_dissector NDPI_PROTOCOL_BJNP], nd_packet := sample_udp 53 [1, 2]\<rparr>;
       f = empty_flow\<lparr>fl_guessed_protocol_id := NDPI_PROTOCOL_NTP\<rparr>
   in fast_path call_dissector m f (selection_packet (nd_packet m)) =
      (case ndpi_search_bjnp (m\<lparr>nd_current_dissector_idx := 0\<rparr>) f of None \<Rightarrow> None | Some (m', f') \<Rightarrow> Some (m', f', Some 0))"
proof -
  let ?cb = "callback_of 0 init_bjnp_dissector NDPI_PROTOCOL_BJNP" and ?p = "sample_udp 53 [1, 2]"
  let ?m = "full_module\<lparr>nd_callback_buffer := [?cb], nd_packet := ?p\<rparr>"
  let ?f = "empty_flow\<lparr>fl_guessed_protocol_id := NDPI_PROTOCOL_NTP\<rparr>"
  have "bits_match (cf_ndpi_selection_bitmask ?cb) (selection_packet ?p)"
    using selected_v4_v6_udp [of ?p]
    by (simp add: callback_of_def init_bjnp_dissector_def sample_udp_def bits_match_def selected_def)
  moreover have "rd_proto ?m (fl_guessed_protocol_id ?f) = Some empty_proto"
    by (simp add: rd_proto_def full_module_def small_module_def)
  moreover have "wf_flow ?f" using empty_flow_wf by (simp add: wf_flow_def)
  moreover have "call_dissector 0 = ndpi_search_bjnp"
    using bjnp_first by (simp add: call_dissector_def init_bjnp_dissector_def fun_eq_iff)
  moreover have "pd_dissector_idx empty_proto = 0" "fl_fast_callback_protocol_id ?f = 0"
      "\<not> bit_in (fl_excluded_dissectors_bitmask ?f) 0" "cf_func ?cb = Some 0" "rd_callback ?m 0 = Some ?cb"
    by (simp_all add: empty_proto_def empty_flow_def bit_in_def callback_of_def rd_callback_def)
  ultimately show ?thesis
    using guess_without_dissector_runs_first [of ?f ?m empty_proto ?cb 0 "selection_packet ?p" call_dissector]
    by (simp add: Let_def)
qed

end
