(* ===== verification/Serializer.thy ===== *)
theory Serializer
  imports C_Strings
begin

text \<open>
  The serializer of \<open>src/lib/ndpi_serializer.c\<close>: a growing buffer of TLV items, JSON text or CSV
  text, and (CSV only) a second buffer with the names of the columns. This theory has the state,
  the buffers, the primitives that write into them and the bookkeeping of the three formats;
  \<open>Serializer_Ops\<close> has the functions that serialize one item.

  A buffer is its allocated bytes; a write outside them is \<open>None\<close>. \<open>realloc\<close> and \<open>calloc\<close> may
  fail: every function that allocates takes the predicate \<open>A\<close>, \<open>A n\<close> saying that a block of
  \<open>n\<close> bytes can be had. The bytes \<open>realloc\<close> adds are indeterminate in C and \<open>0\<close> here. A function
  returns its C return code with the state it leaves, so that a failed call is a value like any
  other. Sizes are \<open>u_int32_t\<close> in C and natural numbers here, with the wrap-around written out.
\<close>

section \<open>The state\<close>

datatype ndpi_serialization_format =
    ndpi_serialization_format_unknown
  | ndpi_serialization_format_tlv
  | ndpi_serialization_format_json
  | ndpi_serialization_format_csv
  | ndpi_serialization_format_multiline_json
  | ndpi_serialization_format_inner_json
  | format_outside_enum u8

datatype ndpi_serialization_type =
    ndpi_serialization_unknown
  | ndpi_serialization_end_of_record
  | ndpi_serialization_uint8
  | ndpi_serialization_uint16
  | ndpi_serialization_uint32
  | ndpi_serialization_uint64
  | ndpi_serialization_int8
  | ndpi_serialization_int16
  | ndpi_serialization_int32
  | ndpi_serialization_int64
  | ndpi_serialization_float
  | ndpi_serialization_string
  | ndpi_serialization_start_of_block
  | ndpi_serialization_end_of_block
  | ndpi_serialization_start_of_list
  | ndpi_serialization_end_of_list
  | ndpi_serialization_double

text \<open>The numbers of the two enumerations. A format is read back from a byte, which may be the
  number of no format.\<close>

fun format_code :: "ndpi_serialization_format \<Rightarrow> u8" where
  "format_code ndpi_serialization_format_unknown = 0"
| "format_code ndpi_serialization_format_tlv = 1"
| "format_code ndpi_serialization_format_json = 2"
| "format_code ndpi_serialization_format_csv = 3"
| "format_code ndpi_serialization_format_multiline_json = 4"
| "format_code ndpi_serialization_format_inner_json = 5"
| "format_code (format_outside_enum b) = b"

definition format_of :: "u8 \<Rightarrow> ndpi_serialization_format" where
  "format_of b =
     (if b = 0 then ndpi_serialization_format_unknown
      else if b = 1 then ndpi_serialization_format_tlv
      else if b = 2 then ndpi_serialization_format_json
      else if b = 3 then ndpi_serialization_format_csv
      else if b = 4 then ndpi_serialization_format_multiline_json
      else if b = 5 then ndpi_serialization_format_inner_json
      else format_outside_enum b)"

fun type_code :: "ndpi_serialization_type \<Rightarrow> nat" where
  "type_code ndpi_serialization_unknown = 0"
| "type_code ndpi_serialization_end_of_record = 1"
| "type_code ndpi_serialization_uint8 = 2"
| "type_code ndpi_serialization_uint16 = 3"
| "type_code ndpi_serialization_uint32 = 4"
| "type_code ndpi_serialization_uint64 = 5"
| "type_code ndpi_serialization_int8 = 6"
| "type_code ndpi_serialization_int16 = 7"
| "type_code ndpi_serialization_int32 = 8"
| "type_code ndpi_serialization_int64 = 9"
| "type_code ndpi_serialization_float = 10"
| "type_code ndpi_serialization_string = 11"
| "type_code ndpi_serialization_start_of_block = 12"
| "type_code ndpi_serialization_end_of_block = 13"
| "type_code ndpi_serialization_start_of_list = 14"
| "type_code ndpi_serialization_end_of_list = 15"
| "type_code ndpi_serialization_double = 16"

text \<open>The cast \<open>(ndpi_serialization_type) n\<close> of a four-bit number.\<close>

definition type_of :: "nat \<Rightarrow> ndpi_serialization_type" where
  "type_of n =
     [ndpi_serialization_unknown, ndpi_serialization_end_of_record, ndpi_serialization_uint8,
      ndpi_serialization_uint16, ndpi_serialization_uint32, ndpi_serialization_uint64,
      ndpi_serialization_int8, ndpi_serialization_int16, ndpi_serialization_int32,
      ndpi_serialization_int64, ndpi_serialization_float, ndpi_serialization_string,
      ndpi_serialization_start_of_block, ndpi_serialization_end_of_block,
      ndpi_serialization_start_of_list, ndpi_serialization_end_of_list] ! n"

text \<open>\<open>(kt << 4) | vt\<close> in a byte.\<close>

definition type_byte :: "ndpi_serialization_type \<Rightarrow> ndpi_serialization_type \<Rightarrow> u8" where
  "type_byte kt vt = push_bit 4 (word_of_nat (type_code kt)) OR word_of_nat (type_code vt)"

definition NDPI_SERIALIZER_DEFAULT_HEADER_SIZE :: nat where
  "NDPI_SERIALIZER_DEFAULT_HEADER_SIZE = 1024"
definition NDPI_SERIALIZER_DEFAULT_BUFFER_SIZE :: nat where
  "NDPI_SERIALIZER_DEFAULT_BUFFER_SIZE = 256"
definition NDPI_SERIALIZER_DEFAULT_BUFFER_INCR :: nat where
  "NDPI_SERIALIZER_DEFAULT_BUFFER_INCR = 1024"

text \<open>The flags are the bits \<open>1 << n\<close> of a word; the model names them by \<open>n\<close>.\<close>

abbreviation (input) NDPI_SERIALIZER_STATUS_COMMA :: nat where "NDPI_SERIALIZER_STATUS_COMMA \<equiv> 0"
abbreviation (input) NDPI_SERIALIZER_STATUS_ARRAY :: nat where "NDPI_SERIALIZER_STATUS_ARRAY \<equiv> 1"
abbreviation (input) NDPI_SERIALIZER_STATUS_EOR :: nat where "NDPI_SERIALIZER_STATUS_EOR \<equiv> 2"
abbreviation (input) NDPI_SERIALIZER_STATUS_SOB :: nat where "NDPI_SERIALIZER_STATUS_SOB \<equiv> 3"
abbreviation (input) NDPI_SERIALIZER_STATUS_NOT_EMPTY :: nat where "NDPI_SERIALIZER_STATUS_NOT_EMPTY \<equiv> 4"
abbreviation (input) NDPI_SERIALIZER_STATUS_LIST :: nat where "NDPI_SERIALIZER_STATUS_LIST \<equiv> 5"
abbreviation (input) NDPI_SERIALIZER_STATUS_SOL :: nat where "NDPI_SERIALIZER_STATUS_SOL \<equiv> 6"
abbreviation (input) NDPI_SERIALIZER_STATUS_HDR_DONE :: nat where "NDPI_SERIALIZER_STATUS_HDR_DONE \<equiv> 7"
abbreviation (input) NDPI_SERIALIZER_STATUS_CEOB :: nat where "NDPI_SERIALIZER_STATUS_CEOB \<equiv> 8"

record ndpi_private_serializer_status =
  st_flags :: u32
  st_buffer_size_used :: nat
  st_header_size_used :: nat

record ndpi_private_serializer_buffer =
  sb_initial_size :: nat
  sb_size :: nat
  sb_data :: "bytes option"

record ndpi_private_serializer =
  ss_status :: ndpi_private_serializer_status
  ss_buffer :: ndpi_private_serializer_buffer
  ss_header :: ndpi_private_serializer_buffer
  ss_fmt :: ndpi_serialization_format
  ss_csv_separator :: u8
  ss_has_snapshot :: bool
  ss_multiline_json_array :: bool
  ss_inner_json :: bool
  ss_snapshot :: ndpi_private_serializer_status

type_synonym serializer = ndpi_private_serializer
type_synonym ser_step = "serializer \<Rightarrow> (int \<times> serializer) option"

definition empty_status :: ndpi_private_serializer_status where
  "empty_status = \<lparr>st_flags = 0, st_buffer_size_used = 0, st_header_size_used = 0\<rparr>"

definition empty_ser_buffer :: ndpi_private_serializer_buffer where
  "empty_ser_buffer = \<lparr>sb_initial_size = 0, sb_size = 0, sb_data = None\<rparr>"

text \<open>\<open>memset(serializer, 0, sizeof(...))\<close>.\<close>

definition zero_serializer :: serializer where
  "zero_serializer = \<lparr>ss_status = empty_status, ss_buffer = empty_ser_buffer, ss_header = empty_ser_buffer,
     ss_fmt = ndpi_serialization_format_unknown, ss_csv_separator = 0, ss_has_snapshot = False,
     ss_multiline_json_array = False, ss_inner_json = False, ss_snapshot = empty_status\<rparr>"

definition used :: "serializer \<Rightarrow> nat" where
  "used s = st_buffer_size_used (ss_status s)"

definition set_used :: "nat \<Rightarrow> serializer \<Rightarrow> serializer" where
  "set_used n s = s\<lparr>ss_status := (ss_status s)\<lparr>st_buffer_size_used := n\<rparr>\<rparr>"

definition header_used :: "serializer \<Rightarrow> nat" where
  "header_used s = st_header_size_used (ss_status s)"

definition set_header_used :: "nat \<Rightarrow> serializer \<Rightarrow> serializer" where
  "set_header_used n s = s\<lparr>ss_status := (ss_status s)\<lparr>st_header_size_used := n\<rparr>\<rparr>"

definition has :: "nat \<Rightarrow> serializer \<Rightarrow> bool" where
  "has n s = bit (st_flags (ss_status s)) n"

definition set_flag :: "nat \<Rightarrow> serializer \<Rightarrow> serializer" where
  "set_flag n s = s\<lparr>ss_status := (ss_status s)\<lparr>st_flags := Bit_Operations.set_bit n (st_flags (ss_status s))\<rparr>\<rparr>"

definition clear_flag :: "nat \<Rightarrow> serializer \<Rightarrow> serializer" where
  "clear_flag n s = s\<lparr>ss_status := (ss_status s)\<lparr>st_flags := unset_bit n (st_flags (ss_status s))\<rparr>\<rparr>"

text \<open>Subtraction of \<open>u_int32_t\<close> values, and the value of one converted to \<open>int\<close>.\<close>

definition diff32 :: "nat \<Rightarrow> nat \<Rightarrow> nat" where
  "diff32 a b = (a + 2 ^ 32 - b) mod 2 ^ 32"

definition as_int :: "nat \<Rightarrow> int" where
  "as_int n = (if n < 2 ^ 31 then int n else int n - 2 ^ 32)"

definition buff_diff :: "serializer \<Rightarrow> nat" where
  "buff_diff s = diff32 (sb_size (ss_buffer s)) (used s)"

section \<open>Writing into a buffer\<close>

definition buf_write :: "ndpi_private_serializer_buffer \<Rightarrow> nat \<Rightarrow> bytes \<Rightarrow> ndpi_private_serializer_buffer option" where
  "buf_write b i bs =
     (case sb_data b of
        None \<Rightarrow> None
      | Some d \<Rightarrow> if i + length bs \<le> length d
                  then Some (b\<lparr>sb_data := Some (take i d @ bs @ drop (i + length bs) d)\<rparr>) else None)"

text \<open>\<open>ndpi_snprintf(&buffer.data[i], room, ...)\<close> of a text: at most \<open>room - 1\<close> characters and a NUL.
  It returns the length of the whole text.\<close>

definition buf_snprintf :: "ndpi_private_serializer_buffer \<Rightarrow> nat \<Rightarrow> nat \<Rightarrow> bytes \<Rightarrow> ndpi_private_serializer_buffer option" where
  "buf_snprintf b i room text = (if room = 0 then Some b else buf_write b i (take (room - 1) text @ [0]))"

text \<open>Steps of a function: the steps run in order and the first return code other than \<open>0\<close> is
  returned at once.\<close>

fun chain :: "ser_step list \<Rightarrow> ser_step" where
  "chain [] s = Some (0, s)"
| "chain (f # fs) s =
     (case f s of None \<Rightarrow> None | Some (rc, s') \<Rightarrow> if rc \<noteq> 0 then Some (rc, s') else chain fs s')"

text \<open>\<open>buffer.data[i] = v\<close>; \<open>buffer.data[size_used++] = v\<close>; \<open>memcpy\<close> to \<open>size_used\<close>, which is
  advanced.\<close>

definition put_at :: "nat \<Rightarrow> u8 \<Rightarrow> ser_step" where
  "put_at i v s = map_option (\<lambda>b. (0, s\<lparr>ss_buffer := b\<rparr>)) (buf_write (ss_buffer s) i [v])"

definition put_bytes :: "bytes \<Rightarrow> ser_step" where
  "put_bytes bs s =
     map_option (\<lambda>b. (0, set_used (used s + length bs) (s\<lparr>ss_buffer := b\<rparr>))) (buf_write (ss_buffer s) (used s) bs)"

abbreviation put_byte :: "u8 \<Rightarrow> ser_step" where
  "put_byte v \<equiv> put_bytes [v]"

text \<open>\<open>rc = ndpi_snprintf(...)\<close> at \<open>size_used\<close>, failing when the text does not fit.\<close>

definition emit :: "bytes \<Rightarrow> ser_step" where
  "emit text s =
     map_option (\<lambda>b. if length text \<ge> buff_diff s then (-1, s\<lparr>ss_buffer := b\<rparr>)
                     else (0, set_used (used s + length text) (s\<lparr>ss_buffer := b\<rparr>)))
       (buf_snprintf (ss_buffer s) (used s) (buff_diff s) text)"

definition flag_on :: "nat \<Rightarrow> ser_step" where
  "flag_on n s = Some (0, set_flag n s)"

definition flag_off :: "nat \<Rightarrow> ser_step" where
  "flag_off n s = Some (0, clear_flag n s)"

text \<open>\<open>size_used--\<close>.\<close>

definition drop_byte :: ser_step where
  "drop_byte s = Some (0, set_used (diff32 (used s) 1) s)"

text \<open>A step taken under a condition on the state, and the choice between two.\<close>

definition onlyif :: "(serializer \<Rightarrow> bool) \<Rightarrow> ser_step \<Rightarrow> ser_step" where
  "onlyif c f s = (if c s then f s else Some (0, s))"

definition ifelse :: "(serializer \<Rightarrow> bool) \<Rightarrow> ser_step \<Rightarrow> ser_step \<Rightarrow> ser_step" where
  "ifelse c f g s = (if c s then f s else g s)"

definition fail :: "int \<Rightarrow> ser_step" where
  "fail rc s = Some (rc, s)"

abbreviation is_json :: "serializer \<Rightarrow> bool" where
  "is_json s \<equiv> ss_fmt s = ndpi_serialization_format_json"
abbreviation is_csv :: "serializer \<Rightarrow> bool" where
  "is_csv s \<equiv> ss_fmt s = ndpi_serialization_format_csv"
abbreviation is_tlv :: "serializer \<Rightarrow> bool" where
  "is_tlv s \<equiv> ss_fmt s = ndpi_serialization_format_tlv"

section \<open>Numbers and strings as text\<close>

fun decimal :: "nat \<Rightarrow> bytes" where
  "decimal n = (if n < 10 then [48 + word_of_nat n] else decimal (n div 10) @ [48 + word_of_nat (n mod 10)])"

declare decimal.simps [simp del]

text \<open>\<open>%u\<close>, \<open>%llu\<close> and \<open>%d\<close>, \<open>%lld\<close>.\<close>

definition text_u :: "'a::len word \<Rightarrow> bytes" where
  "text_u v = decimal (unat v)"

definition text_d :: "'a::len word \<Rightarrow> bytes" where
  "text_d v = (if sint v < 0 then byte_of CHR ''-'' # decimal (nat (- sint v)) else decimal (nat (sint v)))"

definition text_key :: "u32 \<Rightarrow> bytes" where
  "text_key key = str [CHR 34] @ text_u key @ str [CHR 34, CHR '':'']"

definition text_boolean :: "u8 \<Rightarrow> bytes" where
  "text_boolean v = (if v \<noteq> 0 then str ''true'' else str ''false'')"

text \<open>\<open>strlen\<close> of the string at the start of an object, and \<open>%.*s\<close> of at most \<open>n\<close> characters.\<close>

definition strlen :: "bytes \<Rightarrow> nat option" where
  "strlen s = (if 0 \<in> set s then Some (length (takeWhile (\<lambda>b. b \<noteq> 0) s)) else None)"

definition text_s :: "nat \<Rightarrow> bytes \<Rightarrow> bytes option" where
  "text_s n s =
     (let w = takeWhile (\<lambda>b. b \<noteq> 0) (take n s)
      in if n \<le> length s \<or> length w < length s then Some w else None)"

definition ndpi_isdigit :: "u8 \<Rightarrow> bool" where
  "ndpi_isdigit b = (48 \<le> b \<and> b \<le> 57)"

definition ndpi_is_number :: "bytes \<Rightarrow> nat \<Rightarrow> bool option" where
  "ndpi_is_number s str_len =
     (case List.find (\<lambda>b. \<not> ndpi_isdigit b) (take str_len s) of
        Some _ \<Rightarrow> Some False
      | None \<Rightarrow> if str_len \<le> length s then Some True else None)"

text \<open>\<open>atoi\<close> as the C library computes it, \<open>(int) strtol(s, NULL, 10)\<close>, converted to \<open>u_int32_t\<close>:
  leading white space, a sign, and digits up to the first other character, which has to be
  readable; \<open>strtol\<close> saturates at the limits of \<open>long\<close>.\<close>

definition isspace :: "u8 \<Rightarrow> bool" where
  "isspace b = (b = 32 \<or> (9 \<le> b \<and> b \<le> 13))"

definition digits_value :: "bytes \<Rightarrow> nat" where
  "digits_value ds = foldl (\<lambda>n d. 10 * n + (unat d - 48)) 0 ds"

definition atoi :: "bytes \<Rightarrow> u32 option" where
  "atoi s =
     (case dropWhile isspace s of
        [] \<Rightarrow> None
      | c # cs \<Rightarrow>
          let r = (if c = byte_of CHR ''-'' \<or> c = byte_of CHR ''+'' then cs else c # cs);
              n = digits_value (takeWhile ndpi_isdigit r)
          in if dropWhile ndpi_isdigit r = [] then None
             else Some (if c = byte_of CHR ''-'' then - word_of_nat (min n (2 ^ 63)) else word_of_nat (min n (2 ^ 63 - 1))))"

section \<open>JSON strings\<close>

text \<open>What \<open>ndpi_json_string_escape\<close> writes for one ASCII character.\<close>

definition json_ascii :: "u8 \<Rightarrow> bytes" where
  "json_ascii c =
     (if c = byte_of CHR 92 \<or> c = byte_of CHR 34 \<or> c = byte_of CHR ''/'' then [byte_of CHR 92, c]
      else if c = 8 then str [CHR 92, CHR ''b'']
      else if c = 9 then str [CHR 92, CHR ''t'']
      else if c = 10 then str [CHR 92, CHR ''n'']
      else if c = 12 then str [CHR 92, CHR ''f'']
      else if c = 13 then str [CHR 92, CHR ''r'']
      else if c < 32 then [] else [c])"

definition utf8_tail :: "u8 \<Rightarrow> bool" where
  "utf8_tail c = (128 \<le> c \<and> c \<le> 191)"

text \<open>The loop over the characters that are left, with the bytes written so far. The room is tested
  once per character, not once per byte.\<close>

fun json_escape_loop :: "bytes \<Rightarrow> int \<Rightarrow> bytes \<Rightarrow> bytes" where
  "json_escape_loop [] dst_max_len out = out"
| "json_escape_loop (c # cs) dst_max_len out =
     (if int (length out) \<ge> dst_max_len then out
      else if c \<le> 126 then json_escape_loop cs dst_max_len (out @ json_ascii c)
      else if c = 127 then json_escape_loop cs dst_max_len out
      else if 194 \<le> c \<and> c \<le> 223 \<and> 1 \<le> length cs \<and> utf8_tail (cs ! 0) then
        json_escape_loop (drop 1 cs) dst_max_len (out @ [c, cs ! 0])
      else if 224 \<le> c \<and> c \<le> 239 \<and> 2 \<le> length cs \<and> utf8_tail (cs ! 0) \<and> utf8_tail (cs ! 1) then
        json_escape_loop (drop 2 cs) dst_max_len (out @ [c, cs ! 0, cs ! 1])
      else if 240 \<le> c \<and> c \<le> 244 \<and> 3 \<le> length cs \<and> utf8_tail (cs ! 0) \<and> utf8_tail (cs ! 1) \<and> utf8_tail (cs ! 2) then
        json_escape_loop (drop 3 cs) dst_max_len (out @ [c, cs ! 0, cs ! 1, cs ! 2])
      else json_escape_loop cs dst_max_len out)"

definition json_escape :: "bytes \<Rightarrow> int \<Rightarrow> bytes" where
  "json_escape src dst_max_len = json_escape_loop src dst_max_len [byte_of CHR 34] @ [byte_of CHR 34]"

text \<open>\<open>ndpi_json_string_escape(src, src_len, &buffer.data[size_used], buff_diff)\<close>, with \<open>size_used\<close>
  advanced by the result. The final NUL goes to \<open>dst[j + 1]\<close>, one byte behind the end.\<close>

definition ndpi_json_string_escape :: "bytes \<Rightarrow> nat \<Rightarrow> ser_step" where
  "ndpi_json_string_escape src src_len s =
     (if src_len \<le> length src then
        (let text = json_escape (take src_len src) (as_int (buff_diff s))
         in chain [put_bytes text, \<lambda>s. put_at (used s + 1) 0 s] s)
      else None)"

section \<open>Life cycle\<close>

definition ndpi_reset_serializer :: "serializer \<Rightarrow> serializer option" where
  "ndpi_reset_serializer s0 =
     (let s = s0\<lparr>ss_status := (ss_status s0)\<lparr>st_flags := 0\<rparr>\<rparr>
      in if is_json s then
           map_option snd (chain
             [\<lambda>s. Some (0, set_used 0 s),
              onlyif (\<lambda>s. \<not> ss_multiline_json_array s) (put_byte (byte_of CHR '' '')),
              onlyif (\<lambda>s. \<not> ss_inner_json s)
                (\<lambda>s. map_option (\<lambda>b. (0, set_used (used s + 2) (s\<lparr>ss_buffer := b\<rparr>)))
                       (buf_snprintf (ss_buffer s) (used s) (buff_diff s) (str ''{}'')))] s)
         else if is_csv s then Some (set_used 0 (set_header_used 0 s))
         else Some (set_used 2 s))"

definition ndpi_serializer_skip_header :: "serializer \<Rightarrow> serializer" where
  "ndpi_serializer_skip_header s = set_flag NDPI_SERIALIZER_STATUS_HDR_DONE s"

definition ndpi_init_serializer_buffer :: "(nat \<Rightarrow> bool) \<Rightarrow> nat \<Rightarrow> int \<times> ndpi_private_serializer_buffer" where
  "ndpi_init_serializer_buffer A buffer_size =
     (let b = \<lparr>sb_initial_size = buffer_size, sb_size = buffer_size, sb_data = None\<rparr>
      in if A buffer_size then (0, b\<lparr>sb_data := Some (replicate buffer_size 0)\<rparr>) else (-1, b))"

definition ndpi_term_serializer :: "serializer \<Rightarrow> serializer" where
  "ndpi_term_serializer s =
     (let s = (if sb_data (ss_buffer s) \<noteq> None
               then s\<lparr>ss_buffer := (ss_buffer s)\<lparr>sb_size := 0, sb_data := None\<rparr>\<rparr> else s)
      in if sb_data (ss_header s) \<noteq> None
         then s\<lparr>ss_header := (ss_header s)\<lparr>sb_size := 0, sb_data := None\<rparr>\<rparr> else s)"

definition ndpi_init_serializer_ll :: "(nat \<Rightarrow> bool) \<Rightarrow> ndpi_serialization_format \<Rightarrow> nat \<Rightarrow> (int \<times> serializer) option" where
  "ndpi_init_serializer_ll A fmt0 buffer_size =
     (let multiline = (fmt0 = ndpi_serialization_format_multiline_json);
          inner = (fmt0 = ndpi_serialization_format_inner_json);
          fmt = (if multiline \<or> inner then ndpi_serialization_format_json else fmt0);
          s0 = zero_serializer\<lparr>ss_multiline_json_array := multiline, ss_inner_json := inner, ss_fmt := fmt\<rparr>;
          (rb, b) = ndpi_init_serializer_buffer A buffer_size
      in if buffer_size < 3 then Some (-1, s0)
         else if rb \<noteq> 0 then Some (-1, s0\<lparr>ss_buffer := b\<rparr>)
         else
           chain
             [ifelse is_json (\<lambda>s. Some (0, s))
                (ifelse is_csv
                   (\<lambda>s. case ndpi_init_serializer_buffer A NDPI_SERIALIZER_DEFAULT_HEADER_SIZE of (rh, h) \<Rightarrow>
                      if rh \<noteq> 0 then Some (-1, ndpi_term_serializer (s\<lparr>ss_header := h\<rparr>))
                      else Some (0, s\<lparr>ss_header := h\<rparr>))
                   (chain [put_at 0 1, put_at 1 (format_code fmt)])),
              \<lambda>s. map_option (\<lambda>s. (0, s)) (ndpi_reset_serializer (s\<lparr>ss_csv_separator := byte_of CHR '',''\<rparr>))]
             (s0\<lparr>ss_buffer := b\<rparr>))"

definition ndpi_init_serializer :: "(nat \<Rightarrow> bool) \<Rightarrow> ndpi_serialization_format \<Rightarrow> (int \<times> serializer) option" where
  "ndpi_init_serializer A fmt = ndpi_init_serializer_ll A fmt NDPI_SERIALIZER_DEFAULT_BUFFER_SIZE"

definition ndpi_extend_serializer_buffer ::
  "(nat \<Rightarrow> bool) \<Rightarrow> ndpi_private_serializer_buffer \<Rightarrow> nat \<Rightarrow> int \<times> ndpi_private_serializer_buffer" where
  "ndpi_extend_serializer_buffer A b min_len0 =
     (let min_len =
            (if min_len0 < NDPI_SERIALIZER_DEFAULT_BUFFER_INCR then
               (if sb_initial_size b < NDPI_SERIALIZER_DEFAULT_BUFFER_INCR then
                  (if min_len0 < sb_initial_size b then sb_initial_size b else min_len0)
                else NDPI_SERIALIZER_DEFAULT_BUFFER_INCR)
             else min_len0);
          new_size = (sb_size b + min_len) mod 2 ^ 32;
          new_size = ((new_size div 4 + 1) * 4) mod 2 ^ 32;
          d = (case sb_data b of None \<Rightarrow> [] | Some d \<Rightarrow> d)
      in if A new_size
         then (0, b\<lparr>sb_data := Some (take new_size (d @ replicate (new_size - length d) 0)), sb_size := new_size\<rparr>)
         else (-1, b))"

text \<open>The test that opens every function that serializes: \<open>if(buff_diff < needed)\<close> the buffer is
  extended, and \<open>-1\<close> is returned when it cannot be.\<close>

definition ensure_room :: "(nat \<Rightarrow> bool) \<Rightarrow> nat \<Rightarrow> ser_step" where
  "ensure_room A needed s =
     (if buff_diff s < needed then
        (case ndpi_extend_serializer_buffer A (ss_buffer s) (needed - buff_diff s) of (rc, b) \<Rightarrow>
           if rc < 0 then Some (-1, s) else Some (0, s\<lparr>ss_buffer := b\<rparr>))
      else Some (0, s))"

section \<open>The header of a CSV file\<close>

definition ndpi_serializer_check_header_room :: "(nat \<Rightarrow> bool) \<Rightarrow> serializer \<Rightarrow> nat \<Rightarrow> int \<times> serializer" where
  "ndpi_serializer_check_header_room A s needed =
     (let d = diff32 (sb_size (ss_header s)) (header_used s);
          (rc, h) = (if d < needed then ndpi_extend_serializer_buffer A (ss_header s) (needed - d) else (0, ss_header s))
      in if rc < 0 then (-1, s)
         else (as_int (diff32 (sb_size h) (header_used s)), s\<lparr>ss_header := h\<rparr>))"

text \<open>The separator as a C string of at most one character.\<close>

definition csv_separator_text :: "serializer \<Rightarrow> bytes" where
  "csv_separator_text s = (if ss_csv_separator s = 0 then [] else [ss_csv_separator s])"

definition ndpi_serializer_header_uint32 :: "(nat \<Rightarrow> bool) \<Rightarrow> u32 \<Rightarrow> ser_step" where
  "ndpi_serializer_header_uint32 A key s =
     (if has NDPI_SERIALIZER_STATUS_HDR_DONE s then Some (0, s)
      else case ndpi_serializer_check_header_room A s 12 of (room, s) \<Rightarrow>
        if room < 0 then Some (-1, s)
        else
          let text = (if header_used s > 0 then csv_separator_text s else []) @ text_u key
          in map_option (\<lambda>h. (0, set_header_used (header_used s + length text) (s\<lparr>ss_header := h\<rparr>)))
               (buf_snprintf (ss_header s) (header_used s) (nat room) text))"

text \<open>\<open>memcpy\<close> to the end of the header.\<close>

definition put_header :: "bytes \<Rightarrow> ser_step" where
  "put_header bs s =
     map_option (\<lambda>h. (0, set_header_used (header_used s + length bs) (s\<lparr>ss_header := h\<rparr>)))
       (buf_write (ss_header s) (header_used s) bs)"

definition ndpi_serializer_header_string :: "(nat \<Rightarrow> bool) \<Rightarrow> bytes \<Rightarrow> nat \<Rightarrow> ser_step" where
  "ndpi_serializer_header_string A key klen s =
     (if has NDPI_SERIALIZER_STATUS_HDR_DONE s then Some (0, s)
      else case ndpi_serializer_check_header_room A s (klen + 4) of (room, s) \<Rightarrow>
        if room < 0 then Some (-1, s)
        else if length key < klen then None
        else chain
          [onlyif (\<lambda>s. header_used s > 0) (\<lambda>s. put_header (csv_separator_text s) s),
           onlyif (\<lambda>s. klen > 0) (put_header (take klen key)),
           \<lambda>s. map_option (\<lambda>h. (0, s\<lparr>ss_header := h\<rparr>)) (buf_write (ss_header s) (header_used s) [0])] s)"

section \<open>Reading the result\<close>

text \<open>The leading blanks and NULs of a JSON text are skipped; a text of nothing else runs off the
  buffer.\<close>

definition ndpi_serializer_get_buffer :: "serializer \<Rightarrow> (nat \<times> nat \<times> serializer) option" where
  "ndpi_serializer_get_buffer s0 =
     do {
       (rc, s) \<leftarrow> onlyif (\<lambda>s. sb_size (ss_buffer s) > used s) (\<lambda>s. put_at (used s) 0 s) s0;
       if is_json s then
         (case sb_data (ss_buffer s) of
            None \<Rightarrow> None
          | Some d \<Rightarrow>
              let k = length (takeWhile (\<lambda>b. b = 0 \<or> b = byte_of CHR '' '') d)
              in if k < length d then Some (k, diff32 (used s) k, s) else None)
       else Some (0, used s, s)
     }"

definition ndpi_serializer_get_buffer_len :: "serializer \<Rightarrow> nat" where
  "ndpi_serializer_get_buffer_len s = used s"

definition ndpi_serializer_get_internal_buffer_size :: "serializer \<Rightarrow> nat" where
  "ndpi_serializer_get_internal_buffer_size s = sb_size (ss_buffer s)"

definition ndpi_serializer_set_buffer_len :: "serializer option \<Rightarrow> nat \<Rightarrow> int \<times> serializer option" where
  "ndpi_serializer_set_buffer_len p l =
     (case p of
        Some s \<Rightarrow> if sb_size (ss_buffer s) \<le> l then (-1, p) else (0, Some (set_used l s))
      | None \<Rightarrow> (-2, None))"

text \<open>The header and its length; without a header buffer, an empty string.\<close>

definition ndpi_serializer_get_header :: "serializer \<Rightarrow> (bytes \<times> nat \<times> serializer) option" where
  "ndpi_serializer_get_header s =
     (case sb_data (ss_header s) of
        None \<Rightarrow> Some ([0], 0, s)
      | Some d \<Rightarrow>
          do {
            h \<leftarrow> (if sb_size (ss_header s) > header_used s then buf_write (ss_header s) (header_used s) [0]
                   else Some (ss_header s));
            d \<leftarrow> sb_data h;
            Some (d, header_used s, s\<lparr>ss_header := h\<rparr>)
          })"

definition ndpi_serializer_get_format :: "serializer \<Rightarrow> ndpi_serialization_format" where
  "ndpi_serializer_get_format s = ss_fmt s"

definition ndpi_serializer_set_csv_separator :: "serializer \<Rightarrow> u8 \<Rightarrow> serializer" where
  "ndpi_serializer_set_csv_separator s separator = s\<lparr>ss_csv_separator := separator\<rparr>"

section \<open>Single values of the TLV format\<close>

text \<open>The bytes of a number in network byte order. \<open>ndpi_htonll\<close> is the memory image of the union it
  fills, \<open>ndpi_ntohll\<close> the number read from one.\<close>

definition be_bytes16 :: "u16 \<Rightarrow> bytes" where
  "be_bytes16 v = [ucast (drop_bit 8 v), ucast v]"

definition be_bytes32 :: "u32 \<Rightarrow> bytes" where
  "be_bytes32 v = [ucast (drop_bit 24 v), ucast (drop_bit 16 v), ucast (drop_bit 8 v), ucast v]"

definition ndpi_htonll :: "u64 \<Rightarrow> bytes" where
  "ndpi_htonll v = be_bytes32 (ucast (drop_bit 32 v)) @ be_bytes32 (ucast (v AND 0xFFFFFFFF))"

definition ndpi_ntohll :: "u32 \<Rightarrow> u32 \<Rightarrow> u64" where
  "ndpi_ntohll lv0 lv1 = push_bit 32 (ucast lv0) OR ucast lv1"

definition ndpi_serialize_single_uint8 :: "u8 \<Rightarrow> ser_step" where
  "ndpi_serialize_single_uint8 v = put_bytes [v]"

definition ndpi_serialize_single_uint16 :: "u16 \<Rightarrow> ser_step" where
  "ndpi_serialize_single_uint16 v = put_bytes (be_bytes16 v)"

definition ndpi_serialize_single_uint32 :: "u32 \<Rightarrow> ser_step" where
  "ndpi_serialize_single_uint32 v = put_bytes (be_bytes32 v)"

definition ndpi_serialize_single_uint64 :: "u64 \<Rightarrow> ser_step" where
  "ndpi_serialize_single_uint64 v = put_bytes (ndpi_htonll v)"

text \<open>A \<open>float\<close> is its 32-bit pattern, copied in the byte order of the host.\<close>

definition ndpi_serialize_single_float :: "u32 \<Rightarrow> ser_step" where
  "ndpi_serialize_single_float v = put_bytes (rev (be_bytes32 v))"

definition ndpi_serialize_single_string :: "bytes \<Rightarrow> nat \<Rightarrow> ser_step" where
  "ndpi_serialize_single_string value slen s =
     (if length value < slen then None
      else chain [put_bytes (be_bytes16 (word_of_nat slen)), put_bytes (take slen value)] s)"

definition ndpi_serialize_key_uint32 :: "u32 \<Rightarrow> serializer \<Rightarrow> (ndpi_serialization_type \<times> serializer) option" where
  "ndpi_serialize_key_uint32 key s =
     (if key \<le> 0xff then map_option (\<lambda>(_, s). (ndpi_serialization_uint8, s)) (ndpi_serialize_single_uint8 (ucast key) s)
      else if key \<le> 0xffff then
        map_option (\<lambda>(_, s). (ndpi_serialization_uint16, s)) (ndpi_serialize_single_uint16 (ucast key) s)
      else map_option (\<lambda>(_, s). (ndpi_serialization_uint32, s)) (ndpi_serialize_single_uint32 key s))"

section \<open>Bookkeeping of the text formats\<close>

definition ndpi_serialize_csv_pre :: ser_step where
  "ndpi_serialize_csv_pre =
     chain
       [ifelse (has NDPI_SERIALIZER_STATUS_EOR) (flag_off NDPI_SERIALIZER_STATUS_EOR)
          (onlyif (\<lambda>s. has NDPI_SERIALIZER_STATUS_NOT_EMPTY s \<and> sb_size (ss_buffer s) > used s)
             (\<lambda>s. put_byte (ss_csv_separator s) s)),
        flag_on NDPI_SERIALIZER_STATUS_NOT_EMPTY]"

definition ndpi_serialize_json_pre :: ser_step where
  "ndpi_serialize_json_pre =
     ifelse (has NDPI_SERIALIZER_STATUS_EOR)
       (chain
          [flag_off NDPI_SERIALIZER_STATUS_EOR,
           ifelse ss_multiline_json_array (put_byte 10) (chain [drop_byte, put_byte (byte_of CHR '','')]),
           onlyif (\<lambda>s. \<not> ss_inner_json s) (put_byte (byte_of CHR ''{''))])
       (chain
          [onlyif (\<lambda>s. \<not> ss_multiline_json_array s \<and> has NDPI_SERIALIZER_STATUS_ARRAY s) drop_byte,
           onlyif (\<lambda>s. \<not> ss_inner_json s) drop_byte,
           ifelse (has NDPI_SERIALIZER_STATUS_LIST)
             (chain
                [onlyif (\<lambda>s. \<not> ss_multiline_json_array s) drop_byte,
                 ifelse (has NDPI_SERIALIZER_STATUS_SOL) (flag_off NDPI_SERIALIZER_STATUS_SOL)
                   (put_byte (byte_of CHR '',''))])
             (ifelse (has NDPI_SERIALIZER_STATUS_SOB) (flag_off NDPI_SERIALIZER_STATUS_SOB)
                (onlyif (has NDPI_SERIALIZER_STATUS_COMMA) (put_byte (byte_of CHR '',''))))])"

text \<open>One closing character, refused when the buffer is full.\<close>

definition close_with :: "u8 \<Rightarrow> ser_step" where
  "close_with c = ifelse (\<lambda>s. used s \<ge> sb_size (ss_buffer s)) (fail (-1)) (put_byte c)"

definition ndpi_serialize_json_post :: ser_step where
  "ndpi_serialize_json_post =
     chain
       [onlyif (\<lambda>s. \<not> ss_multiline_json_array s \<and> has NDPI_SERIALIZER_STATUS_LIST s) (close_with (byte_of CHR '']'')),
        onlyif (\<lambda>s. used s \<ge> sb_size (ss_buffer s)) (fail (-1)),
        onlyif (\<lambda>s. \<not> ss_inner_json s \<or> has NDPI_SERIALIZER_STATUS_CEOB s)
          (chain [put_byte (byte_of CHR ''}''), flag_off NDPI_SERIALIZER_STATUS_CEOB]),
        onlyif (\<lambda>s. \<not> ss_multiline_json_array s \<and> has NDPI_SERIALIZER_STATUS_ARRAY s) (close_with (byte_of CHR '']'')),
        flag_on NDPI_SERIALIZER_STATUS_COMMA]"

definition ndpi_serialize_end_of_record :: "(nat \<Rightarrow> bool) \<Rightarrow> ser_step" where
  "ndpi_serialize_end_of_record A s0 =
     chain
       [ensure_room A (if is_json s0 \<or> is_csv s0 then 2 else 1),
        ifelse is_csv
          (chain [put_byte 10, \<lambda>s. put_at (used s) 0 s, flag_on NDPI_SERIALIZER_STATUS_HDR_DONE,
                  flag_on NDPI_SERIALIZER_STATUS_EOR])
          (ifelse is_json
             (chain
                [ifelse ss_multiline_json_array
                   (chain [put_byte 10, \<lambda>s. put_at (used s) 0 s])
                   (onlyif (\<lambda>s. \<not> has NDPI_SERIALIZER_STATUS_ARRAY s)
                      (chain [put_at 0 (byte_of CHR ''[''),
                              \<lambda>s. map_option (\<lambda>b. (0, set_used (used s + 1) (s\<lparr>ss_buffer := b\<rparr>)))
                                    (buf_snprintf (ss_buffer s) (used s) (buff_diff s) (str '']''))])),
                 flag_on NDPI_SERIALIZER_STATUS_ARRAY, flag_on NDPI_SERIALIZER_STATUS_EOR,
                 flag_off NDPI_SERIALIZER_STATUS_COMMA])
             (put_byte (word_of_nat (type_code ndpi_serialization_end_of_record)))),
        flag_off NDPI_SERIALIZER_STATUS_NOT_EMPTY] s0"

definition ndpi_serializer_create_snapshot :: "serializer \<Rightarrow> serializer" where
  "ndpi_serializer_create_snapshot s = s\<lparr>ss_snapshot := ss_status s, ss_has_snapshot := True\<rparr>"

definition ndpi_serializer_rollback_snapshot :: "serializer \<Rightarrow> serializer option" where
  "ndpi_serializer_rollback_snapshot s =
     (if ss_has_snapshot s then
        map_option snd (chain
          [\<lambda>s. Some (0, s\<lparr>ss_status := ss_snapshot s, ss_has_snapshot := False\<rparr>),
           onlyif is_json
             (ifelse (has NDPI_SERIALIZER_STATUS_ARRAY)
                (onlyif (\<lambda>s. \<not> ss_multiline_json_array s) (\<lambda>s. put_at (diff32 (used s) 1) (byte_of CHR '']'') s))
                (chain
                   [onlyif (\<lambda>s. \<not> ss_multiline_json_array s) (put_at 0 (byte_of CHR '' '')),
                    onlyif (\<lambda>s. \<not> ss_inner_json s) (\<lambda>s. put_at (diff32 (used s) 1) (byte_of CHR ''}'') s)]))] s)
      else Some s)"

end
