(* ===== verification/Serializer_Ops.thy ===== *)
theory Serializer_Ops
  imports Serializer
begin

text \<open>
  The functions of \<open>src/lib/ndpi_serializer.c\<close> that serialize one item, in all three formats: numeric
  keys (\<open>ndpi_serialize_uint32_*\<close>), keys given as a pointer and a length (\<open>ndpi_serialize_binary_*\<close>),
  keys given as a C string (\<open>ndpi_serialize_string_*\<close>), raw records, lists and nested blocks.

  A pointer argument is the object from the pointer on: a C string has its NUL in it. A \<open>float\<close> or
  \<open>double\<close> that is printed comes with \<open>text\<close>, what the C library prints for the caller's format.
\<close>

section \<open>Items with a numeric key\<close>

text \<open>The parts shared by these functions: the key of a JSON item, absent inside a list, and a TLV item,
  whose type byte is filled in last.\<close>

definition json_uint32_key :: "u32 \<Rightarrow> ser_step" where
  "json_uint32_key key = onlyif (\<lambda>s. \<not> has NDPI_SERIALIZER_STATUS_LIST s) (emit (text_key key))"

definition tlv_uint32_item :: "u32 \<Rightarrow> ndpi_serialization_type \<Rightarrow> ser_step \<Rightarrow> ser_step" where
  "tlv_uint32_item key vt write_value s =
     (let type_offset = used s
      in do {
           (kt, s) \<leftarrow> ndpi_serialize_key_uint32 key (set_used (type_offset + 1) s);
           (rc, s) \<leftarrow> write_value s;
           put_at type_offset (type_byte kt vt) s
         })"

text \<open>Numbers take the shortest encoding that holds them.\<close>

definition tlv_unsigned :: "u32 \<Rightarrow> ndpi_serialization_type \<times> ser_step" where
  "tlv_unsigned value =
     (if value \<le> 0xff then (ndpi_serialization_uint8, ndpi_serialize_single_uint8 (ucast value))
      else if value \<le> 0xffff then (ndpi_serialization_uint16, ndpi_serialize_single_uint16 (ucast value))
      else (ndpi_serialization_uint32, ndpi_serialize_single_uint32 value))"

definition tlv_signed :: "u32 \<Rightarrow> ndpi_serialization_type \<times> ser_step" where
  "tlv_signed value =
     (if sint value \<le> 127 \<and> sint value \<ge> -128 then (ndpi_serialization_int8, ndpi_serialize_single_uint8 (ucast value))
      else if sint value \<le> 32767 \<and> sint value \<ge> -32768 then
        (ndpi_serialization_int16, ndpi_serialize_single_uint16 (ucast value))
      else (ndpi_serialization_int32, ndpi_serialize_single_uint32 value))"

definition ndpi_serialize_uint32_uint32 :: "(nat \<Rightarrow> bool) \<Rightarrow> u32 \<Rightarrow> u32 \<Rightarrow> ser_step" where
  "ndpi_serialize_uint32_uint32 A key value s0 =
     chain
       [ensure_room A (1 + 4 + 4 + (if is_json s0 then 24 else 0)),
        ifelse is_json
          (chain [ndpi_serialize_json_pre, json_uint32_key key, emit (text_u value), ndpi_serialize_json_post])
          (ifelse is_csv
             (chain [ndpi_serializer_header_uint32 A key, ndpi_serialize_csv_pre, emit (text_u value)])
             (case tlv_unsigned value of (vt, w) \<Rightarrow> tlv_uint32_item key vt w)),
        flag_on NDPI_SERIALIZER_STATUS_NOT_EMPTY] s0"

definition ndpi_serialize_uint32_uint64 :: "(nat \<Rightarrow> bool) \<Rightarrow> u32 \<Rightarrow> u64 \<Rightarrow> ser_step" where
  "ndpi_serialize_uint32_uint64 A key value s0 =
     chain
       [ensure_room A (1 + 4 + 8 + (if is_json s0 then 32 else 0)),
        ifelse is_json
          (chain [ndpi_serialize_json_pre, json_uint32_key key, emit (text_u value), ndpi_serialize_json_post])
          (ifelse is_csv
             (chain [ndpi_serializer_header_uint32 A key, ndpi_serialize_csv_pre, emit (text_u value)])
             (if value \<le> 0xffffffff then ndpi_serialize_uint32_uint32 A key (ucast value)
              else tlv_uint32_item key ndpi_serialization_uint64 (ndpi_serialize_single_uint64 value))),
        flag_on NDPI_SERIALIZER_STATUS_NOT_EMPTY] s0"

definition ndpi_serialize_uint32_int32 :: "(nat \<Rightarrow> bool) \<Rightarrow> u32 \<Rightarrow> u32 \<Rightarrow> ser_step" where
  "ndpi_serialize_uint32_int32 A key value s0 =
     chain
       [ensure_room A (1 + 4 + 4 + (if is_json s0 then 24 else 0)),
        ifelse is_json
          (chain [ndpi_serialize_json_pre, json_uint32_key key, emit (text_d value), ndpi_serialize_json_post])
          (ifelse is_csv
             (chain [ndpi_serializer_header_uint32 A key, ndpi_serialize_csv_pre, emit (text_d value)])
             (case tlv_signed value of (vt, w) \<Rightarrow> tlv_uint32_item key vt w)),
        flag_on NDPI_SERIALIZER_STATUS_NOT_EMPTY] s0"

definition ndpi_serialize_uint32_int64 :: "(nat \<Rightarrow> bool) \<Rightarrow> u32 \<Rightarrow> u64 \<Rightarrow> ser_step" where
  "ndpi_serialize_uint32_int64 A key value s0 =
     chain
       [ensure_room A (1 + 4 + 8 + (if is_json s0 then 32 else 0)),
        ifelse is_json
          (chain [ndpi_serialize_json_pre, json_uint32_key key, emit (text_d value), ndpi_serialize_json_post])
          (ifelse is_csv
             (chain [ndpi_serializer_header_uint32 A key, ndpi_serialize_csv_pre, emit (text_d value)])
             (if value AND 0xFFFFFFFF = value then ndpi_serialize_uint32_int32 A key (ucast value)
              else tlv_uint32_item key ndpi_serialization_int64 (ndpi_serialize_single_uint64 value))),
        flag_on NDPI_SERIALIZER_STATUS_NOT_EMPTY] s0"

definition ndpi_serialize_uint32_float :: "(nat \<Rightarrow> bool) \<Rightarrow> u32 \<Rightarrow> u32 \<Rightarrow> bytes \<Rightarrow> ser_step" where
  "ndpi_serialize_uint32_float A key value text s0 =
     chain
       [ensure_room A (1 + 4 + 4 + 32 + (if is_json s0 then 32 else 0)),
        ifelse is_json
          (chain [ndpi_serialize_json_pre, json_uint32_key key, emit text, ndpi_serialize_json_post])
          (ifelse is_csv
             (chain [ndpi_serializer_header_uint32 A key, ndpi_serialize_csv_pre, emit text])
             (tlv_uint32_item key ndpi_serialization_float (ndpi_serialize_single_float value))),
        flag_on NDPI_SERIALIZER_STATUS_NOT_EMPTY] s0"

definition ndpi_serialize_uint32_double :: "(nat \<Rightarrow> bool) \<Rightarrow> u32 \<Rightarrow> bytes \<Rightarrow> ser_step" where
  "ndpi_serialize_uint32_double A key text s0 =
     chain
       [ensure_room A (1 + 4 + 8 + 32 + (if is_json s0 then 32 else 0)),
        ifelse is_json
          (chain [ndpi_serialize_json_pre, json_uint32_key key, emit text, ndpi_serialize_json_post])
          (ifelse is_csv
             (chain [ndpi_serializer_header_uint32 A key, ndpi_serialize_csv_pre, emit text])
             (fail (-1))),
        flag_on NDPI_SERIALIZER_STATUS_NOT_EMPTY] s0"

definition ndpi_serialize_uint32_binary :: "(nat \<Rightarrow> bool) \<Rightarrow> u32 \<Rightarrow> bytes \<Rightarrow> nat \<Rightarrow> ser_step" where
  "ndpi_serialize_uint32_binary A key value slen s0 =
     chain
       [ensure_room A (1 + 4 + 2 + slen + (if is_json s0 then 24 + slen * 2 else 0)),
        ifelse is_json
          (chain [ndpi_serialize_json_pre, json_uint32_key key, ndpi_json_string_escape value slen,
                  ndpi_serialize_json_post])
          (ifelse is_csv
             (chain [ndpi_serializer_header_uint32 A key, ndpi_serialize_csv_pre,
                     \<lambda>s. case text_s slen value of None \<Rightarrow> None | Some t \<Rightarrow> emit t s])
             (tlv_uint32_item key ndpi_serialization_string (ndpi_serialize_single_string value slen))),
        flag_on NDPI_SERIALIZER_STATUS_NOT_EMPTY] s0"

text \<open>A C string whose length does not fit \<open>u_int16_t\<close> is cut by the conversion. A NULL value is the
  empty string.\<close>

definition string_or_empty :: "bytes option \<Rightarrow> bytes" where
  "string_or_empty v = (case v of Some s \<Rightarrow> s | None \<Rightarrow> [0])"

definition strlen16 :: "bytes \<Rightarrow> nat option" where
  "strlen16 s = map_option (\<lambda>n. n mod 65536) (strlen s)"

definition with_strlen :: "bytes \<Rightarrow> (nat \<Rightarrow> ser_step) \<Rightarrow> ser_step" where
  "with_strlen str_arg f s = do { n \<leftarrow> strlen16 str_arg; f n s }"

definition ndpi_serialize_uint32_string :: "(nat \<Rightarrow> bool) \<Rightarrow> u32 \<Rightarrow> bytes option \<Rightarrow> ser_step" where
  "ndpi_serialize_uint32_string A key value =
     with_strlen (string_or_empty value) (ndpi_serialize_uint32_binary A key (string_or_empty value))"

definition ndpi_serialize_uint32_boolean :: "(nat \<Rightarrow> bool) \<Rightarrow> u32 \<Rightarrow> u8 \<Rightarrow> ser_step" where
  "ndpi_serialize_uint32_boolean A key value =
     chain
       [onlyif (\<lambda>s. \<not> is_json s \<and> \<not> is_csv s) (fail (-1)),
        ensure_room A 24,
        ifelse is_json
          (chain [ndpi_serialize_json_pre, json_uint32_key key, emit (text_boolean value), ndpi_serialize_json_post])
          (onlyif is_csv
             (chain [ndpi_serializer_header_uint32 A key, ndpi_serialize_csv_pre, emit (text_boolean value)])),
        flag_on NDPI_SERIALIZER_STATUS_NOT_EMPTY]"

section \<open>Items with a key given by pointer and length\<close>

definition json_string_key :: "bytes \<Rightarrow> nat \<Rightarrow> ser_step" where
  "json_string_key key klen =
     onlyif (\<lambda>s. \<not> has NDPI_SERIALIZER_STATUS_LIST s)
       (chain [ndpi_json_string_escape key klen, put_byte (byte_of CHR '':'')])"

definition tlv_string_item :: "bytes \<Rightarrow> nat \<Rightarrow> ndpi_serialization_type \<Rightarrow> ser_step \<Rightarrow> ser_step" where
  "tlv_string_item key klen vt write_value =
     chain [put_byte (type_byte ndpi_serialization_string vt), ndpi_serialize_single_string key klen, write_value]"

text \<open>A key of digits only becomes a numeric key (\<open>OPTIMIZE_NUMERIC_KEYS\<close>).\<close>

definition numeric_key :: "bytes \<Rightarrow> nat \<Rightarrow> (u32 \<Rightarrow> ser_step) \<Rightarrow> ser_step \<Rightarrow> ser_step" where
  "numeric_key key klen with_number otherwise s =
     do {
       n \<leftarrow> ndpi_is_number key klen;
       if n then (case atoi key of None \<Rightarrow> None | Some k \<Rightarrow> with_number k s) else otherwise s
     }"

definition ndpi_serialize_binary_int32 :: "(nat \<Rightarrow> bool) \<Rightarrow> bytes \<Rightarrow> nat \<Rightarrow> u32 \<Rightarrow> ser_step" where
  "ndpi_serialize_binary_int32 A key klen value s0 =
     numeric_key key klen (\<lambda>k. ndpi_serialize_uint32_int32 A k value)
       (chain
          [ensure_room A (1 + 2 + klen + 4 + (if is_json s0 then 16 + klen else 0)),
           ifelse is_json
             (chain [ndpi_serialize_json_pre, json_string_key key klen, emit (text_d value), ndpi_serialize_json_post])
             (ifelse is_csv
                (chain [ndpi_serializer_header_string A key klen, ndpi_serialize_csv_pre, emit (text_d value)])
                (case tlv_signed value of (vt, w) \<Rightarrow> tlv_string_item key klen vt w)),
           flag_on NDPI_SERIALIZER_STATUS_NOT_EMPTY]) s0"

text \<open>The CSV branch prints the number with \<open>%u\<close>.\<close>

definition ndpi_serialize_string_int32 :: "(nat \<Rightarrow> bool) \<Rightarrow> bytes \<Rightarrow> u32 \<Rightarrow> ser_step" where
  "ndpi_serialize_string_int32 A key value =
     ifelse is_csv
       (chain
          [ensure_room A 12,
           onlyif (\<lambda>s. \<not> has NDPI_SERIALIZER_STATUS_HDR_DONE s) (with_strlen key (ndpi_serializer_header_string A key)),
           ndpi_serialize_csv_pre, emit (text_u value)])
       (with_strlen key (\<lambda>n. ndpi_serialize_binary_int32 A key n value))"

definition ndpi_serialize_binary_int64 :: "(nat \<Rightarrow> bool) \<Rightarrow> bytes \<Rightarrow> nat \<Rightarrow> u64 \<Rightarrow> ser_step" where
  "ndpi_serialize_binary_int64 A key klen value s0 =
     numeric_key key klen (\<lambda>k. ndpi_serialize_uint32_int64 A k value)
       (chain
          [ensure_room A (1 + 2 + klen + 8 + (if is_json s0 then 16 + klen else 0)),
           ifelse is_json
             (chain [ndpi_serialize_json_pre, json_string_key key klen, emit (text_d value), ndpi_serialize_json_post])
             (ifelse is_csv
                (chain [ndpi_serializer_header_string A key klen, ndpi_serialize_csv_pre, emit (text_d value)])
                (if value AND 0xFFFFFFFF = value then ndpi_serialize_string_int32 A key (ucast value)
                 else tlv_string_item key klen ndpi_serialization_int64 (ndpi_serialize_single_uint64 value))),
           flag_on NDPI_SERIALIZER_STATUS_NOT_EMPTY]) s0"

definition ndpi_serialize_string_int64 :: "(nat \<Rightarrow> bool) \<Rightarrow> bytes \<Rightarrow> u64 \<Rightarrow> ser_step" where
  "ndpi_serialize_string_int64 A key value =
     with_strlen key (\<lambda>n. ndpi_serialize_binary_int64 A key n value)"

definition ndpi_serialize_binary_uint32 :: "(nat \<Rightarrow> bool) \<Rightarrow> bytes \<Rightarrow> nat \<Rightarrow> u32 \<Rightarrow> ser_step" where
  "ndpi_serialize_binary_uint32 A key klen value s0 =
     (if is_csv s0 then
        chain
          [ensure_room A (length (text_u value) + 1),
           onlyif (\<lambda>s. \<not> has NDPI_SERIALIZER_STATUS_HDR_DONE s) (ndpi_serializer_header_string A key klen),
           ndpi_serialize_csv_pre, put_bytes (text_u value)] s0
      else
        numeric_key key klen (\<lambda>k. ndpi_serialize_uint32_uint32 A k value)
          (chain
             [ensure_room A (1 + 2 + klen + 4 + 20 + 16),
              ifelse is_json
                (chain [ndpi_serialize_json_pre, json_string_key key klen, emit (text_u value), ndpi_serialize_json_post])
                (case tlv_unsigned value of (vt, w) \<Rightarrow> tlv_string_item key klen vt w),
              flag_on NDPI_SERIALIZER_STATUS_NOT_EMPTY]) s0)"

definition ndpi_serialize_string_uint32 :: "(nat \<Rightarrow> bool) \<Rightarrow> bytes \<Rightarrow> u32 \<Rightarrow> ser_step" where
  "ndpi_serialize_string_uint32 A key value =
     with_strlen key (\<lambda>n. ndpi_serialize_binary_uint32 A key n value)"

definition ndpi_serialize_binary_uint64 :: "(nat \<Rightarrow> bool) \<Rightarrow> bytes \<Rightarrow> nat \<Rightarrow> u64 \<Rightarrow> ser_step" where
  "ndpi_serialize_binary_uint64 A key klen value s0 =
     numeric_key key klen (\<lambda>k. ndpi_serialize_uint32_uint64 A k value)
       (chain
          [ensure_room A (1 + 2 + klen + 8 + (if is_json s0 then 16 + klen else 0)),
           ifelse is_json
             (chain [ndpi_serialize_json_pre, json_string_key key klen, emit (text_u value), ndpi_serialize_json_post])
             (ifelse is_csv
                (chain [ndpi_serializer_header_string A key klen, ndpi_serialize_csv_pre, emit (text_u value)])
                (if value \<le> 0xffffffff then ndpi_serialize_string_uint32 A key (ucast value)
                 else tlv_string_item key klen ndpi_serialization_uint64 (ndpi_serialize_single_uint64 value))),
           flag_on NDPI_SERIALIZER_STATUS_NOT_EMPTY]) s0"

definition ndpi_serialize_string_uint64 :: "(nat \<Rightarrow> bool) \<Rightarrow> bytes \<Rightarrow> u64 \<Rightarrow> ser_step" where
  "ndpi_serialize_string_uint64 A key value =
     with_strlen key (\<lambda>n. ndpi_serialize_binary_uint64 A key n value)"

definition ndpi_serialize_binary_float :: "(nat \<Rightarrow> bool) \<Rightarrow> bytes \<Rightarrow> nat \<Rightarrow> u32 \<Rightarrow> bytes \<Rightarrow> ser_step" where
  "ndpi_serialize_binary_float A key klen value text s0 =
     numeric_key key klen (\<lambda>k. ndpi_serialize_uint32_float A k value text)
       (chain
          [ensure_room A (1 + 2 + klen + 4 + 32 + (if is_json s0 then 32 + klen else 0)),
           ifelse is_json
             (chain [ndpi_serialize_json_pre, json_string_key key klen, emit text, ndpi_serialize_json_post])
             (ifelse is_csv
                (chain [ndpi_serializer_header_string A key klen, ndpi_serialize_csv_pre, emit text])
                (tlv_string_item key klen ndpi_serialization_float (ndpi_serialize_single_float value))),
           flag_on NDPI_SERIALIZER_STATUS_NOT_EMPTY]) s0"

definition ndpi_serialize_binary_double :: "(nat \<Rightarrow> bool) \<Rightarrow> bytes \<Rightarrow> nat \<Rightarrow> bytes \<Rightarrow> ser_step" where
  "ndpi_serialize_binary_double A key klen text s0 =
     chain
       [ensure_room A (1 + 2 + klen + 8 + 32 + (if is_json s0 then 32 + klen else 0)),
        ifelse is_json
          (chain [ndpi_serialize_json_pre, json_string_key key klen, emit text, ndpi_serialize_json_post])
          (ifelse is_csv
             (chain [ndpi_serializer_header_string A key klen, ndpi_serialize_csv_pre, emit text])
             (fail (-1))),
        flag_on NDPI_SERIALIZER_STATUS_NOT_EMPTY] s0"

definition ndpi_serialize_string_float :: "(nat \<Rightarrow> bool) \<Rightarrow> bytes \<Rightarrow> u32 \<Rightarrow> bytes \<Rightarrow> ser_step" where
  "ndpi_serialize_string_float A key value text =
     with_strlen key (\<lambda>n. ndpi_serialize_binary_float A key n value text)"

definition ndpi_serialize_string_double :: "(nat \<Rightarrow> bool) \<Rightarrow> bytes \<Rightarrow> bytes \<Rightarrow> ser_step" where
  "ndpi_serialize_string_double A key text =
     with_strlen key (\<lambda>n. ndpi_serialize_binary_double A key n text)"

text \<open>\<open>memcpy\<close> of the first \<open>n\<close> bytes of an object.\<close>

definition put_first :: "nat \<Rightarrow> bytes \<Rightarrow> ser_step" where
  "put_first n v s = (if n \<le> length v then put_bytes (take n v) s else None)"

definition ndpi_serialize_binary_raw :: "(nat \<Rightarrow> bool) \<Rightarrow> bytes \<Rightarrow> nat \<Rightarrow> bytes \<Rightarrow> nat \<Rightarrow> bool \<Rightarrow> ser_step" where
  "ndpi_serialize_binary_raw A key klen value vlen escape s0 =
     chain
       [ensure_room A (1 + 2 + klen + 2 + vlen + (if is_json s0 then 16 + klen + vlen else 0)),
        ifelse is_json
          (chain
             [ndpi_serialize_json_pre, json_string_key key klen,
              if escape then ndpi_json_string_escape value vlen else put_first vlen value,
              ndpi_serialize_json_post])
          (ifelse is_csv
             (chain [ndpi_serializer_header_string A key klen, ndpi_serialize_csv_pre, put_first vlen value])
             (tlv_string_item key klen ndpi_serialization_string (ndpi_serialize_single_string value vlen))),
        flag_on NDPI_SERIALIZER_STATUS_NOT_EMPTY] s0"

definition ndpi_serialize_binary_binary ::
  "(nat \<Rightarrow> bool) \<Rightarrow> bytes \<Rightarrow> nat \<Rightarrow> bytes option \<Rightarrow> nat \<Rightarrow> ser_step" where
  "ndpi_serialize_binary_binary A key klen value vlen =
     numeric_key key klen (\<lambda>k. ndpi_serialize_uint32_binary A k (string_or_empty value) vlen)
       (ndpi_serialize_binary_raw A key klen (string_or_empty value) vlen True)"

definition ndpi_serialize_string_binary :: "(nat \<Rightarrow> bool) \<Rightarrow> bytes \<Rightarrow> bytes option \<Rightarrow> nat \<Rightarrow> ser_step" where
  "ndpi_serialize_string_binary A key value vlen =
     with_strlen key (\<lambda>n. ndpi_serialize_binary_binary A key n value vlen)"

text \<open>The CSV branch computes \<open>value_len + 1\<close> and, later, \<open>needed - 1\<close> in \<open>u_int16_t\<close>.\<close>

definition ndpi_serialize_string_string_len :: "(nat \<Rightarrow> bool) \<Rightarrow> bytes \<Rightarrow> bytes \<Rightarrow> nat \<Rightarrow> ser_step" where
  "ndpi_serialize_string_string_len A key value value_len =
     ifelse is_csv
       (let needed = (value_len + 1) mod 65536
        in chain
             [ensure_room A needed,
              onlyif (\<lambda>s. \<not> has NDPI_SERIALIZER_STATUS_HDR_DONE s)
                (with_strlen key (ndpi_serializer_header_string A key)),
              ndpi_serialize_csv_pre, put_first ((needed + 65535) mod 65536) value])
       (with_strlen key (\<lambda>n. ndpi_serialize_binary_binary A key n (Some value) value_len))"

definition ndpi_serialize_string_string :: "(nat \<Rightarrow> bool) \<Rightarrow> bytes \<Rightarrow> bytes option \<Rightarrow> ser_step" where
  "ndpi_serialize_string_string A key value =
     with_strlen (string_or_empty value) (ndpi_serialize_string_string_len A key (string_or_empty value))"

text \<open>\<open>text\<close> is what \<open>snprintf\<close> prints for the format and the value; a buffer of 16 bytes cuts it.\<close>

definition ndpi_serialize_string_uint32_format :: "(nat \<Rightarrow> bool) \<Rightarrow> bytes \<Rightarrow> u32 \<Rightarrow> bytes \<Rightarrow> ser_step" where
  "ndpi_serialize_string_uint32_format A key value text =
     ifelse is_json (ndpi_serialize_string_uint32 A key value)
       (ndpi_serialize_string_string A key (Some (take 15 text @ [0])))"

definition ndpi_serialize_string_raw :: "(nat \<Rightarrow> bool) \<Rightarrow> bytes \<Rightarrow> bytes \<Rightarrow> nat \<Rightarrow> ser_step" where
  "ndpi_serialize_string_raw A key value vlen =
     with_strlen key (\<lambda>n. ndpi_serialize_binary_raw A key n value vlen False)"

definition ndpi_serialize_binary_boolean :: "(nat \<Rightarrow> bool) \<Rightarrow> bytes \<Rightarrow> nat \<Rightarrow> u8 \<Rightarrow> ser_step" where
  "ndpi_serialize_binary_boolean A key klen value =
     chain
       [onlyif (\<lambda>s. \<not> is_json s \<and> \<not> is_csv s) (fail (-1)),
        numeric_key key klen (\<lambda>k. ndpi_serialize_uint32_boolean A k value)
          (chain
             [ensure_room A (klen + 16),
              ifelse is_json
                (chain [ndpi_serialize_json_pre, json_string_key key klen, emit (text_boolean value),
                        ndpi_serialize_json_post])
                (onlyif is_csv
                   (chain [with_strlen key (ndpi_serializer_header_string A key),
                           ndpi_serialize_csv_pre, emit (text_boolean value)])),
              flag_on NDPI_SERIALIZER_STATUS_NOT_EMPTY])]"

definition ndpi_serialize_string_boolean :: "(nat \<Rightarrow> bool) \<Rightarrow> bytes \<Rightarrow> u8 \<Rightarrow> ser_step" where
  "ndpi_serialize_string_boolean A key value =
     with_strlen key (\<lambda>n. ndpi_serialize_binary_boolean A key n value)"

section \<open>Lists, blocks and raw records\<close>

definition not_json_nor_tlv :: "serializer \<Rightarrow> bool" where
  "not_json_nor_tlv s = (\<not> is_json s \<and> \<not> is_tlv s)"

definition ndpi_serialize_start_of_list_binary :: "(nat \<Rightarrow> bool) \<Rightarrow> bytes \<Rightarrow> nat \<Rightarrow> ser_step" where
  "ndpi_serialize_start_of_list_binary A key klen =
     chain
       [onlyif not_json_nor_tlv (fail (-1)),
        ensure_room A (16 + klen),
        ifelse is_json
          (chain [ndpi_serialize_json_pre, ndpi_json_string_escape key klen, emit (str '': [''),
                  flag_on NDPI_SERIALIZER_STATUS_LIST, flag_on NDPI_SERIALIZER_STATUS_SOL, ndpi_serialize_json_post])
          (chain [put_byte (word_of_nat (type_code ndpi_serialization_start_of_list)),
                  ndpi_serialize_single_string key klen])]"

definition ndpi_serialize_start_of_list :: "(nat \<Rightarrow> bool) \<Rightarrow> bytes option \<Rightarrow> ser_step" where
  "ndpi_serialize_start_of_list A key =
     with_strlen (string_or_empty key) (ndpi_serialize_start_of_list_binary A (string_or_empty key))"

definition ndpi_serialize_end_of_list :: ser_step where
  "ndpi_serialize_end_of_list =
     chain
       [onlyif not_json_nor_tlv (fail (-1)),
        ifelse is_json
          (chain [onlyif (has NDPI_SERIALIZER_STATUS_SOL) (flag_off NDPI_SERIALIZER_STATUS_SOL),
                  flag_off NDPI_SERIALIZER_STATUS_LIST])
          (chain [onlyif (\<lambda>s. used s = sb_size (ss_buffer s)) (fail (-1)),
                  put_byte (word_of_nat (type_code ndpi_serialization_end_of_list))])]"

definition ndpi_serialize_start_of_block_binary :: "(nat \<Rightarrow> bool) \<Rightarrow> bytes \<Rightarrow> nat \<Rightarrow> ser_step" where
  "ndpi_serialize_start_of_block_binary A key klen =
     chain
       [onlyif not_json_nor_tlv (fail (-1)),
        ensure_room A (16 + klen),
        ifelse is_json
          (chain [ndpi_serialize_json_pre, ndpi_json_string_escape key klen, emit (str '': {''),
                  ndpi_serialize_json_post, flag_on NDPI_SERIALIZER_STATUS_SOB])
          (chain [put_byte (word_of_nat (type_code ndpi_serialization_start_of_block)),
                  ndpi_serialize_single_string key klen])]"

definition ndpi_serialize_start_of_block :: "(nat \<Rightarrow> bool) \<Rightarrow> bytes option \<Rightarrow> ser_step" where
  "ndpi_serialize_start_of_block A key =
     with_strlen (string_or_empty key) (ndpi_serialize_start_of_block_binary A (string_or_empty key))"

definition ndpi_serialize_start_of_block_uint32 :: "(nat \<Rightarrow> bool) \<Rightarrow> u32 \<Rightarrow> ser_step" where
  "ndpi_serialize_start_of_block_uint32 A key =
     (let written = length (text_u key)
      in if written = 0 \<or> written = 11 then fail (-1)
         else ndpi_serialize_start_of_block_binary A (take 10 (text_u key) @ [0]) written)"

definition ndpi_serialize_end_of_block :: "(nat \<Rightarrow> bool) \<Rightarrow> ser_step" where
  "ndpi_serialize_end_of_block A =
     chain
       [onlyif not_json_nor_tlv (fail (-1)),
        ensure_room A 4,
        ifelse is_json
          (chain [onlyif (has NDPI_SERIALIZER_STATUS_SOB) (flag_off NDPI_SERIALIZER_STATUS_SOB),
                  flag_on NDPI_SERIALIZER_STATUS_CEOB, ndpi_serialize_json_post])
          (put_byte (word_of_nat (type_code ndpi_serialization_end_of_block)))]"

text \<open>A raw record. The room it needs is computed in \<open>u_int16_t\<close> from a \<open>u_int32_t\<close> length, from the
  difference taken before an empty object is removed; the return code of the end of the record is
  ignored.\<close>

definition ndpi_serialize_raw_record :: "(nat \<Rightarrow> bool) \<Rightarrow> bytes \<Rightarrow> nat \<Rightarrow> ser_step" where
  "ndpi_serialize_raw_record A record record_len s0 =
     (let diff = buff_diff s0;
          empty = (if ss_multiline_json_array s0 then used s0 = 2 else used s0 = 3);
          s = (if is_json s0 \<and> empty then set_used (if ss_multiline_json_array s0 then 0 else 2) s0 else s0);
          needed = (record_len + (if is_json s0 then 1 + (if empty then 0 else 2) else 0)) mod 65536;
          add_comma = (is_json s0 \<and> \<not> ss_multiline_json_array s0 \<and> \<not> empty);
          array = (\<lambda>s. is_json s \<and> \<not> ss_multiline_json_array s)
      in chain
           [\<lambda>s. if diff < needed then
                  (case ndpi_extend_serializer_buffer A (ss_buffer s) (needed - diff) of (rc, b) \<Rightarrow>
                     if rc < 0 then Some (-1, s) else Some (0, s\<lparr>ss_buffer := b\<rparr>))
                else Some (0, s),
            onlyif array
              (if add_comma then (\<lambda>s. put_at (diff32 (used s) 1) (byte_of CHR '','') s) else drop_byte),
            put_first record_len record,
            onlyif array
              (chain [\<lambda>s. put_at (used s) (byte_of CHR '']'') s,
                      onlyif (\<lambda>s. add_comma) (\<lambda>s. Some (0, set_used (used s + 1) s))]),
            \<lambda>s. map_option (\<lambda>(_, s). (0, s)) (ndpi_serialize_end_of_record A s)] s)"

end
