(* ===== verification/Deserializer.thy ===== *)
theory Deserializer
  imports Serializer_Ops
begin

text \<open>
  The deserializer of TLV buffers (second half of \<open>src/lib/ndpi_serializer.c\<close>). It has the state of a
  serializer: \<open>buffer\<close> is the serialized data, \<open>size\<close> its length and \<open>size_used\<close> the offset of the
  current item. A read outside the object that holds the data is \<open>None\<close>. A function with an
  output argument takes the old value of it where the code may leave it alone, and returns the
  return code with the new value. A string is the offset and the length of its characters.
\<close>

section \<open>Reading single values\<close>

definition ser_data :: "serializer \<Rightarrow> bytes" where
  "ser_data d = (case sb_data (ss_buffer d) of None \<Rightarrow> [] | Some b \<Rightarrow> b)"

definition ndpi_deserialize_single_uint8 :: "serializer \<Rightarrow> nat \<Rightarrow> u8 option" where
  "ndpi_deserialize_single_uint8 d offset = rd8 (ser_data d) offset"

definition ndpi_deserialize_single_uint16 :: "serializer \<Rightarrow> nat \<Rightarrow> u16 option" where
  "ndpi_deserialize_single_uint16 d offset = map_option word_of_nat (rd16 (ser_data d) offset)"

definition ndpi_deserialize_single_uint32 :: "serializer \<Rightarrow> nat \<Rightarrow> u32 option" where
  "ndpi_deserialize_single_uint32 d offset = map_option word_of_nat (rd32 (ser_data d) offset)"

text \<open>The signed readers return the same bits.\<close>

definition ndpi_deserialize_single_int8 :: "serializer \<Rightarrow> nat \<Rightarrow> u8 option" where
  "ndpi_deserialize_single_int8 d offset = rd8 (ser_data d) offset"

definition ndpi_deserialize_single_int16 :: "serializer \<Rightarrow> nat \<Rightarrow> u16 option" where
  "ndpi_deserialize_single_int16 d offset = map_option word_of_nat (rd16 (ser_data d) offset)"

definition ndpi_deserialize_single_int32 :: "serializer \<Rightarrow> nat \<Rightarrow> u32 option" where
  "ndpi_deserialize_single_int32 d offset = map_option word_of_nat (rd32 (ser_data d) offset)"

definition ndpi_deserialize_single_uint64 :: "serializer \<Rightarrow> nat \<Rightarrow> u64 option" where
  "ndpi_deserialize_single_uint64 d offset =
     do {
       hi \<leftarrow> rd32 (ser_data d) offset;
       lo \<leftarrow> rd32 (ser_data d) (offset + 4);
       Some (ndpi_ntohll (word_of_nat hi) (word_of_nat lo))
     }"

definition ndpi_deserialize_single_int64 :: "serializer \<Rightarrow> nat \<Rightarrow> u64 option" where
  "ndpi_deserialize_single_int64 d offset =
     do {
       hi \<leftarrow> rd32 (ser_data d) offset;
       lo \<leftarrow> rd32 (ser_data d) (offset + 4);
       Some (ndpi_ntohll (word_of_nat hi) (word_of_nat lo))
     }"

definition ndpi_deserialize_single_float :: "serializer \<Rightarrow> nat \<Rightarrow> u32 option" where
  "ndpi_deserialize_single_float d offset = map_option word_of_nat (rdle32 (ser_data d) offset)"

text \<open>A \<open>double\<close> is its eight bytes.\<close>

definition ndpi_deserialize_single_double :: "serializer \<Rightarrow> nat \<Rightarrow> bytes option" where
  "ndpi_deserialize_single_double d offset = rdn (ser_data d) offset 8"

definition ndpi_deserialize_single_string :: "serializer \<Rightarrow> nat \<Rightarrow> (nat \<times> nat) option" where
  "ndpi_deserialize_single_string d offset = map_option (\<lambda>n. (offset + 2, n)) (rd16 (ser_data d) offset)"

section \<open>The current item\<close>

definition ndpi_init_deserializer_buf :: "serializer \<Rightarrow> bytes option \<Rightarrow> nat \<Rightarrow> (int \<times> serializer) option" where
  "ndpi_init_deserializer_buf d serialized_buffer serialized_buffer_len =
     (case serialized_buffer of
        None \<Rightarrow> Some (-3, d)
      | Some bs \<Rightarrow>
          if serialized_buffer_len < 2 then Some (-1, d)
          else
            (let d1 = d\<lparr>ss_buffer := (ss_buffer d)\<lparr>sb_data := Some bs\<rparr>\<rparr>
             in do {
                  version \<leftarrow> rd8 bs 0;
                  if version \<noteq> 1 then Some (-2, d1)
                  else do {
                    fmt \<leftarrow> rd8 bs 1;
                    d2 \<leftarrow> ndpi_reset_serializer
                      (d1\<lparr>ss_buffer := (ss_buffer d1)\<lparr>sb_size := serialized_buffer_len\<rparr>, ss_fmt := format_of fmt\<rparr>);
                    Some (0, d2)
                  }
                }))"

definition ndpi_init_deserializer :: "serializer \<Rightarrow> serializer \<Rightarrow> (int \<times> serializer) option" where
  "ndpi_init_deserializer d s = ndpi_init_deserializer_buf d (sb_data (ss_buffer s)) (used s)"

definition ndpi_deserialize_get_format :: "serializer \<Rightarrow> ndpi_serialization_format" where
  "ndpi_deserialize_get_format d = ss_fmt d"

definition ndpi_deserialize_get_key_subtype :: "serializer \<Rightarrow> ndpi_serialization_type option" where
  "ndpi_deserialize_get_key_subtype d =
     (if used d \<ge> sb_size (ss_buffer d) then Some ndpi_serialization_unknown
      else map_option (\<lambda>type. type_of (unat (drop_bit 4 type))) (rd8 (ser_data d) (used d)))"

definition ndpi_deserialize_get_value_subtype :: "serializer \<Rightarrow> ndpi_serialization_type option" where
  "ndpi_deserialize_get_value_subtype d =
     (if used d \<ge> sb_size (ss_buffer d) then Some ndpi_serialization_unknown
      else map_option (\<lambda>type. type_of (unat (type AND 0xf))) (rd8 (ser_data d) (used d)))"

fun widen_key :: "ndpi_serialization_type \<Rightarrow> ndpi_serialization_type" where
  "widen_key ndpi_serialization_uint8 = ndpi_serialization_uint32"
| "widen_key ndpi_serialization_uint16 = ndpi_serialization_uint32"
| "widen_key t = t"

fun widen_value :: "ndpi_serialization_type \<Rightarrow> ndpi_serialization_type" where
  "widen_value ndpi_serialization_uint8 = ndpi_serialization_uint32"
| "widen_value ndpi_serialization_uint16 = ndpi_serialization_uint32"
| "widen_value ndpi_serialization_int8 = ndpi_serialization_int32"
| "widen_value ndpi_serialization_int16 = ndpi_serialization_int32"
| "widen_value t = t"

text \<open>The type of the value and the type of the key, with short numbers reported as 32-bit ones.\<close>

definition ndpi_deserialize_get_item_type ::
  "serializer \<Rightarrow> (ndpi_serialization_type \<times> ndpi_serialization_type) option" where
  "ndpi_deserialize_get_item_type d =
     do {
       kt \<leftarrow> ndpi_deserialize_get_key_subtype d;
       et \<leftarrow> ndpi_deserialize_get_value_subtype d;
       Some (widen_value et, widen_key kt)
     }"

definition ndpi_deserialize_get_single_string_size :: "serializer \<Rightarrow> nat \<Rightarrow> int option" where
  "ndpi_deserialize_get_single_string_size d offset =
     (let diff = diff32 (sb_size (ss_buffer d)) offset
      in if diff < 2 then Some (-2)
         else do {
           str_len \<leftarrow> rd16 (ser_data d) offset;
           let expected = (2 + str_len) mod 65536;
           if diff < expected then Some (-2) else Some (int expected)
         })"

text \<open>The size goes through a variable of type \<open>u_int16_t\<close>, so the error \<open>-2\<close> of a truncated string
  comes out as \<open>65534\<close>.\<close>

definition ndpi_deserialize_get_single_size :: "serializer \<Rightarrow> ndpi_serialization_type \<Rightarrow> nat \<Rightarrow> int option" where
  "ndpi_deserialize_get_single_size d type offset =
     (case type of
        ndpi_serialization_uint8 \<Rightarrow> Some 1
      | ndpi_serialization_int8 \<Rightarrow> Some 1
      | ndpi_serialization_uint16 \<Rightarrow> Some 2
      | ndpi_serialization_int16 \<Rightarrow> Some 2
      | ndpi_serialization_uint32 \<Rightarrow> Some 4
      | ndpi_serialization_int32 \<Rightarrow> Some 4
      | ndpi_serialization_uint64 \<Rightarrow> Some 8
      | ndpi_serialization_int64 \<Rightarrow> Some 8
      | ndpi_serialization_float \<Rightarrow> Some 4
      | ndpi_serialization_double \<Rightarrow> Some 8
      | ndpi_serialization_string \<Rightarrow>
          map_option (\<lambda>n. n mod 65536) (ndpi_deserialize_get_single_string_size d offset)
      | ndpi_serialization_start_of_block \<Rightarrow>
          map_option (\<lambda>n. n mod 65536) (ndpi_deserialize_get_single_string_size d offset)
      | ndpi_serialization_start_of_list \<Rightarrow>
          map_option (\<lambda>n. n mod 65536) (ndpi_deserialize_get_single_string_size d offset)
      | ndpi_serialization_end_of_record \<Rightarrow> Some 0
      | ndpi_serialization_end_of_block \<Rightarrow> Some 0
      | ndpi_serialization_end_of_list \<Rightarrow> Some 0
      | ndpi_serialization_unknown \<Rightarrow> Some 0)"

text \<open>The opening lines of the functions below: the room for the type byte, the size of the key (and of the
  value), and \<open>expected\<close>, a \<open>u_int16_t\<close>. \<open>Inl\<close> is the early return.\<close>

definition key_position :: "serializer \<Rightarrow> (int + (ndpi_serialization_type \<times> nat \<times> int)) option" where
  "key_position d =
     (if buff_diff d < 1 then Some (Inl (-2))
      else do {
        kt \<leftarrow> ndpi_deserialize_get_key_subtype d;
        sz \<leftarrow> ndpi_deserialize_get_single_size d kt (used d + 1);
        if sz < 0 then Some (Inl (-2)) else Some (Inr (kt, used d + 1, sz))
      })"

definition value_position :: "serializer \<Rightarrow> (int + (ndpi_serialization_type \<times> nat \<times> int)) option" where
  "value_position d =
     do {
       k \<leftarrow> key_position d;
       (case k of
          Inl rc \<Rightarrow> Some (Inl rc)
        | Inr (kt, _, ksize) \<Rightarrow>
            (let expected = (1 + nat ksize) mod 65536
             in do {
                  et \<leftarrow> ndpi_deserialize_get_value_subtype d;
                  sz \<leftarrow> ndpi_deserialize_get_single_size d et (used d + expected);
                  if sz < 0 then Some (Inl (-2)) else Some (Inr (et, expected, sz))
                }))
     }"

definition ndpi_deserialize_next :: ser_step where
  "ndpi_deserialize_next d =
     do {
       v \<leftarrow> value_position d;
       (case v of
          Inl rc \<Rightarrow> Some (rc, d)
        | Inr (et, expected, sz) \<Rightarrow> Some (0, set_used (used d + (expected + nat sz) mod 65536) d))
     }"

section \<open>Keys and values\<close>

definition ndpi_deserialize_key_uint32 :: "serializer \<Rightarrow> u32 \<Rightarrow> (int \<times> u32) option" where
  "ndpi_deserialize_key_uint32 d old =
     do {
       k \<leftarrow> key_position d;
       (case k of
          Inl rc \<Rightarrow> Some (rc, old)
        | Inr (kt, offset, _) \<Rightarrow>
            (case kt of
               ndpi_serialization_uint32 \<Rightarrow> map_option (\<lambda>v. (0, v)) (ndpi_deserialize_single_uint32 d offset)
             | ndpi_serialization_uint16 \<Rightarrow> map_option (\<lambda>v. (0, ucast v)) (ndpi_deserialize_single_uint16 d offset)
             | ndpi_serialization_uint8 \<Rightarrow> map_option (\<lambda>v. (0, ucast v)) (ndpi_deserialize_single_uint8 d offset)
             | _ \<Rightarrow> Some (-1, old)))
     }"

definition ndpi_deserialize_key_string :: "serializer \<Rightarrow> (int \<times> (nat \<times> nat) option) option" where
  "ndpi_deserialize_key_string d =
     do {
       k \<leftarrow> key_position d;
       (case k of
          Inl rc \<Rightarrow> Some (rc, None)
        | Inr (kt, offset, _) \<Rightarrow> map_option (\<lambda>v. (0, Some v)) (ndpi_deserialize_single_string d offset))
     }"

definition ndpi_deserialize_value_uint32 :: "serializer \<Rightarrow> (int \<times> u32) option" where
  "ndpi_deserialize_value_uint32 d =
     do {
       v \<leftarrow> value_position d;
       (case v of
          Inl rc \<Rightarrow> Some (rc, 0)
        | Inr (et, expected, _) \<Rightarrow>
            (let offset = used d + expected
             in case et of
                  ndpi_serialization_uint32 \<Rightarrow> map_option (\<lambda>v. (0, v)) (ndpi_deserialize_single_uint32 d offset)
                | ndpi_serialization_uint16 \<Rightarrow> map_option (\<lambda>v. (0, ucast v)) (ndpi_deserialize_single_uint16 d offset)
                | ndpi_serialization_uint8 \<Rightarrow> map_option (\<lambda>v. (0, ucast v)) (ndpi_deserialize_single_uint8 d offset)
                | _ \<Rightarrow> Some (0, 0)))
     }"

definition ndpi_deserialize_value_uint64 :: "serializer \<Rightarrow> u64 \<Rightarrow> (int \<times> u64) option" where
  "ndpi_deserialize_value_uint64 d old =
     do {
       v \<leftarrow> value_position d;
       (case v of
          Inl rc \<Rightarrow> Some (rc, old)
        | Inr (et, expected, _) \<Rightarrow>
            if et \<noteq> ndpi_serialization_uint64
            then map_option (\<lambda>(rc, v32). (rc, ucast v32)) (ndpi_deserialize_value_uint32 d)
            else map_option (\<lambda>v. (0, v)) (ndpi_deserialize_single_uint64 d (used d + expected)))
     }"

definition ndpi_deserialize_value_int32 :: "serializer \<Rightarrow> (int \<times> u32) option" where
  "ndpi_deserialize_value_int32 d =
     do {
       v \<leftarrow> value_position d;
       (case v of
          Inl rc \<Rightarrow> Some (rc, 0)
        | Inr (et, expected, _) \<Rightarrow>
            (let offset = used d + expected
             in case et of
                  ndpi_serialization_int32 \<Rightarrow> map_option (\<lambda>v. (0, v)) (ndpi_deserialize_single_int32 d offset)
                | ndpi_serialization_int16 \<Rightarrow> map_option (\<lambda>v. (0, scast v)) (ndpi_deserialize_single_int16 d offset)
                | ndpi_serialization_int8 \<Rightarrow> map_option (\<lambda>v. (0, scast v)) (ndpi_deserialize_single_int8 d offset)
                | _ \<Rightarrow> Some (0, 0)))
     }"

definition ndpi_deserialize_value_int64 :: "serializer \<Rightarrow> (int \<times> u64) option" where
  "ndpi_deserialize_value_int64 d =
     do {
       v \<leftarrow> value_position d;
       (case v of
          Inl rc \<Rightarrow> Some (rc, 0)
        | Inr (et, expected, _) \<Rightarrow>
            if et \<noteq> ndpi_serialization_int64
            then map_option (\<lambda>(rc, v32). (rc, scast v32)) (ndpi_deserialize_value_int32 d)
            else map_option (\<lambda>v. (0, v)) (ndpi_deserialize_single_int64 d (used d + expected)))
     }"

definition ndpi_deserialize_value_float :: "serializer \<Rightarrow> (int \<times> u32) option" where
  "ndpi_deserialize_value_float d =
     do {
       v \<leftarrow> value_position d;
       (case v of
          Inl rc \<Rightarrow> Some (rc, 0)
        | Inr (et, expected, _) \<Rightarrow>
            if et \<noteq> ndpi_serialization_float then Some (-1, 0)
            else map_option (\<lambda>v. (0, v)) (ndpi_deserialize_single_float d (used d + expected)))
     }"

definition ndpi_deserialize_value_double :: "serializer \<Rightarrow> (int \<times> bytes) option" where
  "ndpi_deserialize_value_double d =
     do {
       v \<leftarrow> value_position d;
       (case v of
          Inl rc \<Rightarrow> Some (rc, replicate 8 0)
        | Inr (et, expected, _) \<Rightarrow>
            if et \<noteq> ndpi_serialization_double then Some (-1, replicate 8 0)
            else map_option (\<lambda>v. (0, v)) (ndpi_deserialize_single_double d (used d + expected)))
     }"

definition ndpi_deserialize_value_string :: "serializer \<Rightarrow> (int \<times> (nat \<times> nat) option) option" where
  "ndpi_deserialize_value_string d =
     do {
       v \<leftarrow> value_position d;
       (case v of
          Inl rc \<Rightarrow> Some (rc, None)
        | Inr (et, expected, _) \<Rightarrow>
            if et \<noteq> ndpi_serialization_string then Some (-1, None)
            else map_option (\<lambda>v. (0, Some v)) (ndpi_deserialize_single_string d (used d + expected)))
     }"

section \<open>Copying\<close>

text \<open>The current item is copied to a TLV serializer. The pair returned is the return code and the
  serializer.\<close>

definition ndpi_deserialize_clone_item :: "(nat \<Rightarrow> bool) \<Rightarrow> serializer \<Rightarrow> ser_step" where
  "ndpi_deserialize_clone_item A d s =
     (if \<not> is_tlv s then Some (-3, s)
      else do {
        v \<leftarrow> value_position d;
        (case v of
           Inl rc \<Rightarrow> Some (rc, s)
         | Inr (et, expected, sz) \<Rightarrow>
             (let n = (expected + nat sz) mod 65536
              in chain
                   [ensure_room A n,
                    \<lambda>s. case rdn (ser_data d) (used d) n of None \<Rightarrow> None | Some bs \<Rightarrow> put_bytes bs s] s))
      })"

text \<open>The characters of a string of the deserializer, from its pointer to the end of the object. NULL
  has no characters.\<close>

definition string_object :: "serializer \<Rightarrow> (nat \<times> nat) option \<Rightarrow> bytes" where
  "string_object d v = (case v of None \<Rightarrow> [] | Some (off, _) \<Rightarrow> drop off (ser_data d))"

definition string_len :: "(nat \<times> nat) option \<Rightarrow> nat" where
  "string_len v = (case v of None \<Rightarrow> 0 | Some (_, n) \<Rightarrow> n)"

text \<open>A call whose return code is ignored.\<close>

definition ignore_rc :: "ser_step \<Rightarrow> serializer \<Rightarrow> serializer option" where
  "ignore_rc f s = map_option snd (f s)"

text \<open>A key as the loop holds it: a string, or a number.\<close>

type_synonym clone_key = "(nat \<times> nat) option + u32"

text \<open>The value of the current item of \<open>d\<close> under a key, appended to \<open>s\<close>. \<open>print_float\<close> is what the
  C library prints with \<open>%.3f\<close>. \<open>None\<close> in the first component is the return of \<open>-2\<close>.\<close>

definition clone_value ::
  "(nat \<Rightarrow> bool) \<Rightarrow> (u32 \<Rightarrow> bytes) \<Rightarrow> ndpi_serialization_type \<Rightarrow> clone_key \<Rightarrow> u64 \<Rightarrow> serializer \<Rightarrow> serializer \<Rightarrow>
   (bool \<times> u64 \<times> serializer) option" where
  "clone_value A print_float et key u64_old d s =
     (case et of
        ndpi_serialization_uint32 \<Rightarrow>
          do {
            (rc, u32) \<leftarrow> ndpi_deserialize_value_uint32 d;
            s \<leftarrow> ignore_rc (case key of
                   Inl ks \<Rightarrow> ndpi_serialize_binary_uint32 A (string_object d ks) (string_len ks) u32
                 | Inr k32 \<Rightarrow> ndpi_serialize_uint32_uint32 A k32 u32) s;
            Some (True, u64_old, s)
          }
      | ndpi_serialization_uint64 \<Rightarrow>
          do {
            (rc, u64) \<leftarrow> ndpi_deserialize_value_uint64 d u64_old;
            s \<leftarrow> ignore_rc (case key of
                   Inl ks \<Rightarrow> ndpi_serialize_binary_uint64 A (string_object d ks) (string_len ks) u64
                 | Inr k32 \<Rightarrow> ndpi_serialize_uint32_uint64 A k32 u64) s;
            Some (True, u64, s)
          }
      | ndpi_serialization_int32 \<Rightarrow>
          do {
            (rc, i32) \<leftarrow> ndpi_deserialize_value_int32 d;
            s \<leftarrow> ignore_rc (case key of
                   Inl ks \<Rightarrow> ndpi_serialize_binary_int32 A (string_object d ks) (string_len ks) i32
                 | Inr k32 \<Rightarrow> ndpi_serialize_uint32_int32 A k32 i32) s;
            Some (True, u64_old, s)
          }
      | ndpi_serialization_int64 \<Rightarrow>
          do {
            (rc, i64) \<leftarrow> ndpi_deserialize_value_int64 d;
            s \<leftarrow> ignore_rc (case key of
                   Inl ks \<Rightarrow> ndpi_serialize_binary_int64 A (string_object d ks) (string_len ks) i64
                 | Inr k32 \<Rightarrow> ndpi_serialize_uint32_int64 A k32 i64) s;
            Some (True, u64_old, s)
          }
      | ndpi_serialization_float \<Rightarrow>
          do {
            (rc, f) \<leftarrow> ndpi_deserialize_value_float d;
            s \<leftarrow> ignore_rc (case key of
                   Inl ks \<Rightarrow> ndpi_serialize_binary_float A (string_object d ks) (string_len ks) f (print_float f)
                 | Inr k32 \<Rightarrow> ndpi_serialize_uint32_float A k32 f (print_float f)) s;
            Some (True, u64_old, s)
          }
      | ndpi_serialization_string \<Rightarrow>
          do {
            (rc, vs) \<leftarrow> ndpi_deserialize_value_string d;
            s \<leftarrow> ignore_rc (case key of
                   Inl ks \<Rightarrow> ndpi_serialize_binary_binary A (string_object d ks) (string_len ks)
                               (if vs = None then None else Some (string_object d vs)) (string_len vs)
                 | Inr k32 \<Rightarrow> ndpi_serialize_uint32_binary A k32 (string_object d vs) (string_len vs)) s;
            Some (True, u64_old, s)
          }
      | _ \<Rightarrow> Some (False, u64_old, s))"

text \<open>The markers of records, blocks and lists; \<open>None\<close> when the item is not one.\<close>

definition clone_marker ::
  "(nat \<Rightarrow> bool) \<Rightarrow> ndpi_serialization_type \<Rightarrow> serializer \<Rightarrow> (serializer \<Rightarrow> serializer option) option" where
  "clone_marker A et d =
     (case et of
        ndpi_serialization_end_of_record \<Rightarrow> Some (ignore_rc (ndpi_serialize_end_of_record A))
      | ndpi_serialization_start_of_block \<Rightarrow>
          Some (\<lambda>s. do {
            (rc, ks) \<leftarrow> ndpi_deserialize_key_string d;
            ignore_rc (ndpi_serialize_start_of_block_binary A (string_object d ks) (string_len ks)) s
          })
      | ndpi_serialization_end_of_block \<Rightarrow> Some (ignore_rc (ndpi_serialize_end_of_block A))
      | ndpi_serialization_start_of_list \<Rightarrow>
          Some (\<lambda>s. do {
            (rc, ks) \<leftarrow> ndpi_deserialize_key_string d;
            ignore_rc (ndpi_serialize_start_of_list_binary A (string_object d ks) (string_len ks)) s
          })
      | ndpi_serialization_end_of_list \<Rightarrow> Some (ignore_rc ndpi_serialize_end_of_list)
      | _ \<Rightarrow> None)"

text \<open>The loop of \<open>ndpi_deserialize_clone_all\<close>, for at most \<open>fuel\<close> items; \<open>Inl ()\<close> is the loop that has
  not ended. \<open>k32\<close> and \<open>u64\<close> keep their values from item to item.\<close>

fun clone_loop ::
  "nat \<Rightarrow> (nat \<Rightarrow> bool) \<Rightarrow> (u32 \<Rightarrow> bytes) \<Rightarrow> u32 \<Rightarrow> u64 \<Rightarrow> serializer \<Rightarrow> serializer \<Rightarrow>
   (unit + int \<times> serializer \<times> serializer) option" where
  "clone_loop 0 A print_float k32 u64 d s = Some (Inl ())"
| "clone_loop (Suc fuel) A print_float k32 u64 d s =
     do {
       (et, kt) \<leftarrow> ndpi_deserialize_get_item_type d;
       if et = ndpi_serialization_unknown then Some (Inr (0, d, s))
       else
         (case clone_marker A et d of
            Some mark \<Rightarrow>
              do {
                s \<leftarrow> mark s;
                (rc, d) \<leftarrow> ndpi_deserialize_next d;
                clone_loop fuel A print_float k32 u64 d s
              }
          | None \<Rightarrow>
              (if kt \<noteq> ndpi_serialization_uint32 \<and> kt \<noteq> ndpi_serialization_string then Some (Inr (-1, d, s))
               else do {
                 (key, k32) \<leftarrow>
                   (if kt = ndpi_serialization_uint32
                    then map_option (\<lambda>(rc, k). (Inr k, k)) (ndpi_deserialize_key_uint32 d k32)
                    else map_option (\<lambda>(rc, ks). (Inl ks, k32)) (ndpi_deserialize_key_string d));
                 (known, u64, s) \<leftarrow> clone_value A print_float et key u64 d s;
                 if \<not> known then Some (Inr (-2, d, s))
                 else do {
                   (rc, d) \<leftarrow> ndpi_deserialize_next d;
                   clone_loop fuel A print_float k32 u64 d s
                 }
               }))
     }"

definition ndpi_deserialize_clone_all ::
  "nat \<Rightarrow> (nat \<Rightarrow> bool) \<Rightarrow> (u32 \<Rightarrow> bytes) \<Rightarrow> serializer \<Rightarrow> serializer \<Rightarrow>
   (unit + int \<times> serializer \<times> serializer) option" where
  "ndpi_deserialize_clone_all fuel A print_float d s = clone_loop fuel A print_float 0 0 d s"

end
