(* ===== verification/Serializer_Tlv.thy ===== *)
theory Serializer_Tlv
  imports Deserializer
begin

text \<open>
  Correctness of the TLV format: every function that serializes an item appends the encoding of the
  item and nothing else, whatever the allocator does, and the deserializer reads back the items that
  were written. The specification is a list of items and their encoding.
\<close>

section \<open>Well-formed serializers\<close>

definition ser_ok :: "serializer \<Rightarrow> bool" where
  "ser_ok s \<longleftrightarrow>
     (\<exists>d. sb_data (ss_buffer s) = Some d \<and> length d = sb_size (ss_buffer s)) \<and>
     used s \<le> sb_size (ss_buffer s) \<and> sb_size (ss_buffer s) < 2 ^ 32"

definition content :: "serializer \<Rightarrow> bytes" where
  "content s = take (used s) (ser_data s)"

definition settings :: "serializer \<Rightarrow> ndpi_serialization_format \<times> bool \<times> bool \<times> u8" where
  "settings s = (ss_fmt s, ss_multiline_json_array s, ss_inner_json s, ss_csv_separator s)"

named_theorems ser_simps \<open>the fields of a serializer after an update\<close>

lemma used_simps [ser_simps, simp]:
  "used (set_used n s) = n" "used (set_header_used n s) = used s" "used (set_flag k s) = used s"
  "used (clear_flag k s) = used s" "used (s\<lparr>ss_buffer := b\<rparr>) = used s" "used (s\<lparr>ss_header := b\<rparr>) = used s"
  by (simp_all add: used_def set_used_def set_header_used_def set_flag_def clear_flag_def)

lemma header_used_simps [ser_simps, simp]:
  "header_used (set_used n s) = header_used s" "header_used (set_header_used n s) = n"
  "header_used (set_flag k s) = header_used s" "header_used (clear_flag k s) = header_used s"
  "header_used (s\<lparr>ss_buffer := b\<rparr>) = header_used s" "header_used (s\<lparr>ss_header := b\<rparr>) = header_used s"
  by (simp_all add: header_used_def set_used_def set_header_used_def set_flag_def clear_flag_def)

lemma ser_fields [ser_simps, simp]:
  "ss_buffer (set_used n s) = ss_buffer s" "ss_buffer (set_header_used n s) = ss_buffer s"
  "ss_buffer (set_flag k s) = ss_buffer s" "ss_buffer (clear_flag k s) = ss_buffer s"
  "ss_header (set_used n s) = ss_header s" "ss_header (set_header_used n s) = ss_header s"
  "ss_header (set_flag k s) = ss_header s" "ss_header (clear_flag k s) = ss_header s"
  by (simp_all add: set_used_def set_header_used_def set_flag_def clear_flag_def)

lemma settings_simps [ser_simps, simp]:
  "settings (set_used n s) = settings s" "settings (set_header_used n s) = settings s"
  "settings (set_flag k s) = settings s" "settings (clear_flag k s) = settings s"
  "settings (s\<lparr>ss_buffer := b\<rparr>) = settings s" "settings (s\<lparr>ss_header := b\<rparr>) = settings s"
  by (simp_all add: settings_def set_used_def set_header_used_def set_flag_def clear_flag_def)

lemma has_simps [ser_simps, simp]:
  "has j (set_used n s) = has j s" "has j (set_header_used n s) = has j s"
  "has j (s\<lparr>ss_buffer := b\<rparr>) = has j s" "has j (s\<lparr>ss_header := b\<rparr>) = has j s"
  "j < 32 \<Longrightarrow> has j (set_flag k s) = (has j s \<or> j = k)" "has j (clear_flag k s) = (has j s \<and> j \<noteq> k)"
  by (auto simp: has_def set_used_def set_header_used_def set_flag_def clear_flag_def bit_set_bit_iff
      bit_unset_bit_iff possible_bit_word)

lemma settings_fmt: "settings s' = settings s \<Longrightarrow> ss_fmt s' = ss_fmt s"
  by (simp add: settings_def)

lemma ser_data_simps [ser_simps, simp]:
  "ser_data (set_used n s) = ser_data s" "ser_data (set_header_used n s) = ser_data s"
  "ser_data (set_flag k s) = ser_data s" "ser_data (clear_flag k s) = ser_data s"
  "ser_data (s\<lparr>ss_header := b\<rparr>) = ser_data s"
  by (simp_all add: ser_data_def)

lemma content_flags [simp]: "content (set_flag k s) = content s" "content (clear_flag k s) = content s"
  by (simp_all add: content_def)

lemma ser_ok_flags [simp]: "ser_ok (set_flag k s) = ser_ok s" "ser_ok (clear_flag k s) = ser_ok s"
  by (simp_all add: ser_ok_def)

lemma ser_ok_data: "ser_ok s \<Longrightarrow> sb_data (ss_buffer s) = Some (ser_data s) \<and> length (ser_data s) = sb_size (ss_buffer s)"
  by (auto simp: ser_ok_def ser_data_def)

lemma length_content: "ser_ok s \<Longrightarrow> length (content s) = used s"
  using ser_ok_data [of s] by (simp add: content_def ser_ok_def)

lemma diff32_le: "b \<le> a \<Longrightarrow> a < 2 ^ 32 \<Longrightarrow> diff32 a b = a - b"
proof -
  assume "b \<le> a" "a < 2 ^ 32"
  then have "a + 2 ^ 32 - b = (a - b) + 2 ^ 32" by simp
  then show ?thesis using \<open>a < 2 ^ 32\<close> unfolding diff32_def by (simp only: mod_add_self2) simp
qed

lemma buff_diff_ok: "ser_ok s \<Longrightarrow> buff_diff s = sb_size (ss_buffer s) - used s"
  unfolding buff_diff_def ser_ok_def by (intro diff32_le) auto

section \<open>What a step adds\<close>

text \<open>A step that returns \<open>0\<close>, keeps the serializer well formed, its settings and its size, and appends
  bytes to what it holds.\<close>

definition adds :: "bytes \<Rightarrow> serializer \<Rightarrow> (int \<times> serializer) option \<Rightarrow> bool" where
  "adds bs s r \<longleftrightarrow>
     (\<exists>s'. r = Some (0, s') \<and> ser_ok s' \<and> content s' = content s @ bs \<and>
        sb_size (ss_buffer s') = sb_size (ss_buffer s) \<and> settings s' = settings s)"

lemma put_bytes_adds:
  assumes "ser_ok s" "used s + length bs \<le> sb_size (ss_buffer s)"
  shows "adds bs s (put_bytes bs s)"
proof -
  obtain d where "sb_data (ss_buffer s) = Some d" "length d = sb_size (ss_buffer s)"
    using assms(1) by (auto simp: ser_ok_def)
  then show ?thesis
    using assms by (simp add: adds_def put_bytes_def buf_write_def ser_ok_def content_def ser_data_def)
qed

lemma adds_used: "adds bs s (Some (rc, s')) \<Longrightarrow> ser_ok s \<Longrightarrow> used s' = used s + length bs"
  using length_content [of s] length_content [of s'] by (simp add: adds_def)

lemma adds_chain_Nil: "ser_ok s \<Longrightarrow> adds [] s (chain [] s)"
  by (simp add: adds_def)

lemma adds_chain_Cons:
  assumes f: "adds b1 s (f s)" and s: "ser_ok s"
    and fs: "\<And>s'. ser_ok s' \<Longrightarrow> used s' = used s + length b1 \<Longrightarrow> sb_size (ss_buffer s') = sb_size (ss_buffer s) \<Longrightarrow>
        settings s' = settings s \<Longrightarrow> adds b2 s' (chain fs s')"
  shows "adds (b1 @ b2) s (chain (f # fs) s)"
proof -
  obtain s' where s': "f s = Some (0, s')" "ser_ok s'" "content s' = content s @ b1"
      "sb_size (ss_buffer s') = sb_size (ss_buffer s)" "settings s' = settings s"
    using f by (auto simp: adds_def)
  have "used s' = used s + length b1" using adds_used [of b1 s 0 s'] f s s'(1) by simp
  then have "adds b2 s' (chain fs s')" using fs s' by simp
  then show ?thesis using s' by (auto simp: adds_def)
qed

lemma adds_chain_last: "adds bs s (f s) \<Longrightarrow> adds bs s (chain [f] s)"
  by (auto simp: adds_def)

lemma flag_on_adds: "ser_ok s \<Longrightarrow> adds [] s (flag_on k s)"
  by (simp add: adds_def flag_on_def)

lemma put_at_content:
  assumes "ser_ok s" "i < used s"
  shows "\<exists>s'. put_at i v s = Some (0, s') \<and> ser_ok s' \<and> content s' = (content s)[i := v] \<and>
           sb_size (ss_buffer s') = sb_size (ss_buffer s) \<and> settings s' = settings s"
proof -
  obtain d where d: "sb_data (ss_buffer s) = Some d" "length d = sb_size (ss_buffer s)" "used s \<le> length d"
    using assms(1) by (auto simp: ser_ok_def)
  have "take i d @ [v] @ drop (i + 1) d = d[i := v]"
    using d assms(2) by (simp add: upd_conv_take_nth_drop)
  then show ?thesis
    using d assms by (simp add: put_at_def buf_write_def ser_ok_def content_def ser_data_def take_update_swap)
qed

lemma length_be_bytes [simp]:
  "length (be_bytes16 a) = 2" "length (be_bytes32 b) = 4" "length (ndpi_htonll c) = 8"
  by (simp_all add: be_bytes16_def be_bytes32_def ndpi_htonll_def)

lemma single_adds:
  assumes "ser_ok s"
  shows "used s + 1 \<le> sb_size (ss_buffer s) \<Longrightarrow> adds [a] s (ndpi_serialize_single_uint8 a s)"
    "used s + 2 \<le> sb_size (ss_buffer s) \<Longrightarrow> adds (be_bytes16 b) s (ndpi_serialize_single_uint16 b s)"
    "used s + 4 \<le> sb_size (ss_buffer s) \<Longrightarrow> adds (be_bytes32 c) s (ndpi_serialize_single_uint32 c s)"
    "used s + 8 \<le> sb_size (ss_buffer s) \<Longrightarrow> adds (ndpi_htonll d) s (ndpi_serialize_single_uint64 d s)"
    "used s + 4 \<le> sb_size (ss_buffer s) \<Longrightarrow> adds (rev (be_bytes32 f)) s (ndpi_serialize_single_float f s)"
  using put_bytes_adds [OF assms, of "[a]"] put_bytes_adds [OF assms, of "be_bytes16 b"]
    put_bytes_adds [OF assms, of "be_bytes32 c"] put_bytes_adds [OF assms, of "ndpi_htonll d"]
    put_bytes_adds [OF assms, of "rev (be_bytes32 f)"]
  by (simp_all add: ndpi_serialize_single_uint8_def ndpi_serialize_single_uint16_def
      ndpi_serialize_single_uint32_def ndpi_serialize_single_uint64_def ndpi_serialize_single_float_def)

lemma single_string_adds:
  assumes "ser_ok s" "used s + 2 + n \<le> sb_size (ss_buffer s)" "n \<le> length v"
  shows "adds (be_bytes16 (word_of_nat n) @ take n v) s (ndpi_serialize_single_string v n s)"
  unfolding ndpi_serialize_single_string_def
  using assms by (auto intro!: adds_chain_Cons adds_chain_last put_bytes_adds simp del: chain.simps)

text \<open>The outcome of a function that may fail for want of memory: either the bytes are appended, or
  what the serializer holds is as before.\<close>

definition appends :: "(nat \<Rightarrow> bool) \<Rightarrow> bytes \<Rightarrow> serializer \<Rightarrow> (int \<times> serializer) option \<Rightarrow> bool" where
  "appends A bs s r \<longleftrightarrow>
     (\<exists>rc s'. r = Some (rc, s') \<and> ser_ok s' \<and> settings s' = settings s \<and>
        content s' = (if rc = 0 then content s @ bs else content s) \<and> ((\<forall>n. A n) \<longrightarrow> rc = 0))"

lemma adds_appends: "adds bs s r \<Longrightarrow> appends A bs s r"
  by (auto simp: adds_def appends_def)

lemma appends_then_adds:
  assumes f: "appends A bs s (f s)"
    and fs: "\<And>s'. ser_ok s' \<Longrightarrow> settings s' = settings s \<Longrightarrow> adds [] s' (chain fs s')"
  shows "appends A bs s (chain (f # fs) s)"
proof -
  obtain rc s' where s': "f s = Some (rc, s')" "ser_ok s'" "settings s' = settings s"
      "content s' = (if rc = 0 then content s @ bs else content s)" "(\<forall>n. A n) \<longrightarrow> rc = 0"
    using f by (auto simp: appends_def)
  then show ?thesis using fs [of s'] by (auto simp: appends_def adds_def)
qed

lemma round_up: fixes a :: nat shows "a < (a div 4 + 1) * 4" "(a div 4 + 1) * 4 \<le> a + 4"
  by presburger+

lemma extend_ok:
  assumes "sb_size b + max min_len 1024 + 4 < 2 ^ 32"
  shows "\<exists>n. sb_size b + min_len \<le> n \<and> n < 2 ^ 32 \<and> n \<le> sb_size b + max min_len 1024 + 4 \<and>
    ndpi_extend_serializer_buffer A b min_len =
      (if A n then (0, b\<lparr>sb_data := Some (take n (case_option [] id (sb_data b) @ replicate (n - length (case_option [] id (sb_data b))) 0)), sb_size := n\<rparr>)
       else (-1, b))"
proof -
  define m where "m = (if min_len < NDPI_SERIALIZER_DEFAULT_BUFFER_INCR then
               (if sb_initial_size b < NDPI_SERIALIZER_DEFAULT_BUFFER_INCR then
                  (if min_len < sb_initial_size b then sb_initial_size b else min_len)
                else NDPI_SERIALIZER_DEFAULT_BUFFER_INCR)
             else min_len)"
  have m: "min_len \<le> m" "m \<le> max min_len 1024"
    by (auto simp: m_def NDPI_SERIALIZER_DEFAULT_BUFFER_INCR_def)
  let ?n = "((sb_size b + m) div 4 + 1) * 4"
  have n: "sb_size b + m < 2 ^ 32" "?n < 2 ^ 32" "sb_size b + min_len \<le> ?n" "?n \<le> sb_size b + max min_len 1024 + 4"
    using assms m round_up [of "sb_size b + m"] by linarith+
  have "(sb_size b + m) mod 2 ^ 32 = sb_size b + m" "?n mod 2 ^ 32 = ?n" using n by simp_all
  then have "ndpi_extend_serializer_buffer A b min_len =
      (if A ?n then (0, b\<lparr>sb_data := Some (take ?n (case_option [] id (sb_data b) @ replicate (?n - length (case_option [] id (sb_data b))) 0)), sb_size := ?n\<rparr>)
       else (-1, b))"
    unfolding ndpi_extend_serializer_buffer_def m_def [symmetric] Let_def by (simp only: id_def)
  then show ?thesis using n by blast
qed

lemma ensure_room_ok:
  assumes s: "ser_ok s" and n: "used s + needed + 1028 < 2 ^ 32"
  obtains rc s' where "ensure_room A needed s = Some (rc, s')" "ser_ok s'" "settings s' = settings s"
    "content s' = content s" "used s' = used s" "(\<forall>n. A n) \<longrightarrow> rc = 0" "\<And>k. has k s' = has k s"
    "ss_header s' = ss_header s" "header_used s' = header_used s"
    "rc = 0 \<longrightarrow> used s + needed \<le> sb_size (ss_buffer s')"
proof (cases "buff_diff s < needed")
  case False
  then have "used s + needed \<le> sb_size (ss_buffer s)"
    using buff_diff_ok [OF s] s unfolding ser_ok_def by linarith
  then show ?thesis using that [of 0 s] s False by (simp add: ensure_room_def)
next
  case True
  let ?b = "ss_buffer s"
  obtain d where d: "sb_data ?b = Some d" "length d = sb_size ?b" "used s \<le> sb_size ?b" "sb_size ?b < 2 ^ 32"
    using s by (auto simp: ser_ok_def)
  have diff: "sb_size ?b + (needed - buff_diff s) = used s + needed" using True s d by (simp add: buff_diff_ok)
  have "sb_size ?b + max (needed - buff_diff s) 1024 + 4 < 2 ^ 32" using diff n True d buff_diff_ok [OF s] by linarith
  then obtain k where k: "used s + needed \<le> k" "k < 2 ^ 32"
      "ndpi_extend_serializer_buffer A ?b (needed - buff_diff s) =
        (if A k then (0, ?b\<lparr>sb_data := Some (take k (d @ replicate (k - length d) 0)), sb_size := k\<rparr>) else (-1, ?b))"
    using extend_ok [of ?b "needed - buff_diff s" A] d(1) diff by auto
  show ?thesis
  proof (cases "A k")
    case False
    then show ?thesis using that [of "-1" s] s k True by (auto simp: ensure_room_def)
  next
    case A: True
    let ?s = "s\<lparr>ss_buffer := ?b\<lparr>sb_data := Some (take k (d @ replicate (k - length d) 0)), sb_size := k\<rparr>\<rparr>"
    have "length d \<le> k" using k d True buff_diff_ok [OF s] by linarith
    then have "take (used s) (take k (d @ replicate (k - length d) 0)) = take (used s) d" using d by simp
    then have "ser_ok ?s" "content ?s = content s"
      using k d \<open>length d \<le> k\<close> by (simp_all add: ser_ok_def content_def ser_data_def)
    moreover have "ensure_room A needed s = Some (0, ?s)" using A k True by (simp add: ensure_room_def)
    ultimately show ?thesis using that [of 0 ?s] k by simp
  qed
qed

lemma appends_same: "appends A bs s' r \<Longrightarrow> content s' = content s \<Longrightarrow> settings s' = settings s \<Longrightarrow> appends A bs s r"
  by (simp only: appends_def)

lemma ensure_then_adds:
  assumes s: "ser_ok s" and n: "used s + needed + 1028 < 2 ^ 32"
    and fs: "\<And>s'. ser_ok s' \<Longrightarrow> settings s' = settings s \<Longrightarrow> used s' = used s \<Longrightarrow>
        used s + needed \<le> sb_size (ss_buffer s') \<Longrightarrow> appends A bs s' (chain fs s')"
  shows "appends A bs s (chain (ensure_room A needed # fs) s)"
proof -
  obtain rc s' where s': "ensure_room A needed s = Some (rc, s')" "ser_ok s'" "settings s' = settings s"
      "content s' = content s" "used s' = used s" "(\<forall>n. A n) \<longrightarrow> rc = 0"
      "rc = 0 \<longrightarrow> used s + needed \<le> sb_size (ss_buffer s')"
    using ensure_room_ok [OF s n, of A] by metis
  show ?thesis
  proof (cases "rc = 0")
    case True
    then have "chain (ensure_room A needed # fs) s = chain fs s'" using s' by simp
    then show ?thesis using fs [of s'] s' True by (auto intro: appends_same)
  next
    case False
    then show ?thesis using s' by (auto simp: appends_def)
  qed
qed

section \<open>Items and their encoding\<close>

datatype ser_key = Num_Key u32 | Str_Key bytes

datatype ser_value = Uint32 u32 | Uint64 u64 | Int32 u32 | Int64 u64 | Float u32 | Bytes bytes

datatype ser_item =
  Item ser_key ser_value | End_Record | Start_Block bytes | End_Block | Start_List bytes | End_List

definition enc_unsigned :: "u32 \<Rightarrow> ndpi_serialization_type \<times> bytes" where
  "enc_unsigned v =
     (if v \<le> 0xff then (ndpi_serialization_uint8, [ucast v])
      else if v \<le> 0xffff then (ndpi_serialization_uint16, be_bytes16 (ucast v))
      else (ndpi_serialization_uint32, be_bytes32 v))"

definition enc_signed :: "u32 \<Rightarrow> ndpi_serialization_type \<times> bytes" where
  "enc_signed v =
     (if sint v \<le> 127 \<and> sint v \<ge> -128 then (ndpi_serialization_int8, [ucast v])
      else if sint v \<le> 32767 \<and> sint v \<ge> -32768 then (ndpi_serialization_int16, be_bytes16 (ucast v))
      else (ndpi_serialization_int32, be_bytes32 v))"

definition enc_string :: "bytes \<Rightarrow> bytes" where
  "enc_string s = be_bytes16 (word_of_nat (length s)) @ s"

fun enc_key :: "ser_key \<Rightarrow> ndpi_serialization_type \<times> bytes" where
  "enc_key (Num_Key k) = enc_unsigned k"
| "enc_key (Str_Key k) = (ndpi_serialization_string, enc_string k)"

fun enc_value :: "ser_value \<Rightarrow> ndpi_serialization_type \<times> bytes" where
  "enc_value (Uint32 v) = enc_unsigned v"
| "enc_value (Uint64 v) = (if v \<le> 0xffffffff then enc_unsigned (ucast v) else (ndpi_serialization_uint64, ndpi_htonll v))"
| "enc_value (Int32 v) = enc_signed v"
| "enc_value (Int64 v) =
     (if v AND 0xFFFFFFFF = v then enc_signed (ucast v) else (ndpi_serialization_int64, ndpi_htonll v))"
| "enc_value (Float v) = (ndpi_serialization_float, rev (be_bytes32 v))"
| "enc_value (Bytes b) = (ndpi_serialization_string, enc_string b)"

fun encode :: "ser_item \<Rightarrow> bytes" where
  "encode (Item k v) = type_byte (fst (enc_key k)) (fst (enc_value v)) # snd (enc_key k) @ snd (enc_value v)"
| "encode End_Record = [1]"
| "encode (Start_Block k) = 12 # enc_string k"
| "encode End_Block = [13]"
| "encode (Start_List k) = 14 # enc_string k"
| "encode End_List = [15]"

text \<open>The call that writes an item. A key that is a string is passed with its length, in an object
  that ends with its NUL.\<close>

fun write_item :: "(nat \<Rightarrow> bool) \<Rightarrow> (u32 \<Rightarrow> bytes) \<Rightarrow> ser_item \<Rightarrow> ser_step" where
  "write_item A pf (Item (Num_Key k) (Uint32 v)) = ndpi_serialize_uint32_uint32 A k v"
| "write_item A pf (Item (Num_Key k) (Uint64 v)) = ndpi_serialize_uint32_uint64 A k v"
| "write_item A pf (Item (Num_Key k) (Int32 v)) = ndpi_serialize_uint32_int32 A k v"
| "write_item A pf (Item (Num_Key k) (Int64 v)) = ndpi_serialize_uint32_int64 A k v"
| "write_item A pf (Item (Num_Key k) (Float v)) = ndpi_serialize_uint32_float A k v (pf v)"
| "write_item A pf (Item (Num_Key k) (Bytes b)) = ndpi_serialize_uint32_binary A k b (length b)"
| "write_item A pf (Item (Str_Key k) (Uint32 v)) = ndpi_serialize_binary_uint32 A (k @ [0]) (length k) v"
| "write_item A pf (Item (Str_Key k) (Uint64 v)) = ndpi_serialize_binary_uint64 A (k @ [0]) (length k) v"
| "write_item A pf (Item (Str_Key k) (Int32 v)) = ndpi_serialize_binary_int32 A (k @ [0]) (length k) v"
| "write_item A pf (Item (Str_Key k) (Int64 v)) = ndpi_serialize_binary_int64 A (k @ [0]) (length k) v"
| "write_item A pf (Item (Str_Key k) (Float v)) = ndpi_serialize_binary_float A (k @ [0]) (length k) v (pf v)"
| "write_item A pf (Item (Str_Key k) (Bytes b)) = ndpi_serialize_binary_binary A (k @ [0]) (length k) (Some b) (length b)"
| "write_item A pf End_Record = ndpi_serialize_end_of_record A"
| "write_item A pf (Start_Block k) = ndpi_serialize_start_of_block_binary A k (length k)"
| "write_item A pf End_Block = ndpi_serialize_end_of_block A"
| "write_item A pf (Start_List k) = ndpi_serialize_start_of_list_binary A k (length k)"
| "write_item A pf End_List = ndpi_serialize_end_of_list"

text \<open>Strings fit their 16-bit length; a string key has no NUL in it and is not made of digits only,
  which the library would turn into a number.\<close>

fun wf_key :: "ser_key \<Rightarrow> bool" where
  "wf_key (Num_Key k) = True"
| "wf_key (Str_Key k) = (length k < 65536 \<and> 0 \<notin> set k \<and> (\<exists>c \<in> set k. \<not> ndpi_isdigit c))"

fun wf_value :: "ser_value \<Rightarrow> bool" where
  "wf_value (Bytes b) = (length b < 65536)"
| "wf_value v = True"

fun wf_item :: "ser_item \<Rightarrow> bool" where
  "wf_item (Item k v) = (wf_key k \<and> wf_value v)"
| "wf_item (Start_Block k) = (length k < 65536)"
| "wf_item (Start_List k) = (length k < 65536)"
| "wf_item it = True"

section \<open>Every function appends the encoding of its item\<close>

lemma key_uint32_adds:
  assumes "ser_ok s" "used s + 4 \<le> sb_size (ss_buffer s)"
  shows "\<exists>s'. ndpi_serialize_key_uint32 key s = Some (fst (enc_unsigned key), s') \<and>
      adds (snd (enc_unsigned key)) s (Some (0, s'))"
  using single_adds(1) [OF assms(1), of "ucast key"] single_adds(2) [OF assms(1), of "ucast key"]
    single_adds(3) [OF assms(1), of key] assms(2)
  by (auto simp: ndpi_serialize_key_uint32_def enc_unsigned_def adds_def)

lemma length_enc_unsigned: "length (snd (enc_unsigned v)) \<le> 4"
  by (simp add: enc_unsigned_def)

lemma tlv_uint32_item_adds:
  assumes s: "ser_ok s" and room: "used s + 5 + n \<le> sb_size (ss_buffer s)"
    and w: "\<And>s'. ser_ok s' \<Longrightarrow> used s' + n \<le> sb_size (ss_buffer s') \<Longrightarrow> adds vb s' (w s')"
  shows "adds (type_byte (fst (enc_unsigned key)) vt # snd (enc_unsigned key) @ vb) s (tlv_uint32_item key vt w s)"
proof -
  let ?kb = "snd (enc_unsigned key)"
  define s0 where "s0 = set_used (used s + 1) s"
  obtain g where c0: "content s0 = content s @ [g]"
    using room s ser_ok_data [OF s] by (simp add: s0_def content_def take_Suc_conv_app_nth)
  have s0: "ser_ok s0" "settings s0 = settings s" "sb_size (ss_buffer s0) = sb_size (ss_buffer s)" "used s0 = used s + 1"
    using s room by (simp_all add: s0_def ser_ok_def)
  obtain s1 where k: "ndpi_serialize_key_uint32 key s0 = Some (fst (enc_unsigned key), s1)" "adds ?kb s0 (Some (0, s1))"
    using key_uint32_adds [OF s0(1), of key] room s0 by auto
  have u1: "used s1 = used s + 1 + length ?kb" "ser_ok s1" "sb_size (ss_buffer s1) = sb_size (ss_buffer s)"
      "content s1 = content s @ g # ?kb" "settings s1 = settings s"
    using adds_used [OF k(2) s0(1)] k(2) s0 c0 by (simp_all add: adds_def)
  have "used s1 + n \<le> sb_size (ss_buffer s1)" using u1 room length_enc_unsigned [of key] by simp
  from w [OF u1(2) this] obtain s2 where v: "w s1 = Some (0, s2)" "adds vb s1 (Some (0, s2))"
    by (auto simp: adds_def)
  have u2: "used s2 = used s + 1 + length ?kb + length vb" "ser_ok s2" "sb_size (ss_buffer s2) = sb_size (ss_buffer s)"
      "content s2 = content s @ g # ?kb @ vb" "settings s2 = settings s"
    using adds_used [OF v(2) u1(2)] v(2) u1 by (simp_all add: adds_def)
  obtain s3 where t: "put_at (used s) (type_byte (fst (enc_unsigned key)) vt) s2 = Some (0, s3)" "ser_ok s3"
      "content s3 = (content s2)[used s := type_byte (fst (enc_unsigned key)) vt]"
      "sb_size (ss_buffer s3) = sb_size (ss_buffer s2)" "settings s3 = settings s2"
    using put_at_content [OF u2(2), of "used s"] u2(1) by auto
  have "tlv_uint32_item key vt w s = Some (0, s3)"
    using k v t by (simp add: tlv_uint32_item_def s0_def)
  then show ?thesis using t u2 length_content [OF s] by (simp add: adds_def list_update_append)
qed

lemma tlv_unsigned_adds:
  assumes "ser_ok s" "used s + 4 \<le> sb_size (ss_buffer s)"
  shows "adds (snd (enc_unsigned v)) s (snd (tlv_unsigned v) s)"
  using single_adds(1) [OF assms(1), of "ucast v"] single_adds(2) [OF assms(1), of "ucast v"]
    single_adds(3) [OF assms(1), of v] assms(2) by (simp add: tlv_unsigned_def enc_unsigned_def)

lemma tlv_signed_adds:
  assumes "ser_ok s" "used s + 4 \<le> sb_size (ss_buffer s)"
  shows "adds (snd (enc_signed v)) s (snd (tlv_signed v) s)"
  using single_adds(1) [OF assms(1), of "ucast v"] single_adds(2) [OF assms(1), of "ucast v"]
    single_adds(3) [OF assms(1), of v] assms(2) by (simp add: tlv_signed_def enc_signed_def)

lemma tlv_types: "fst (tlv_unsigned v) = fst (enc_unsigned v)" "fst (tlv_signed v) = fst (enc_signed v)"
  by (simp_all add: tlv_unsigned_def enc_unsigned_def tlv_signed_def enc_signed_def)

lemma tlv_string_item_adds:
  assumes s: "ser_ok s" and room: "used s + 3 + klen + n \<le> sb_size (ss_buffer s)" "klen \<le> length key"
    and w: "\<And>s'. ser_ok s' \<Longrightarrow> used s' + n \<le> sb_size (ss_buffer s') \<Longrightarrow> adds vb s' (w s')"
  shows "adds (type_byte ndpi_serialization_string vt # enc_string (take klen key) @ vb) s (tlv_string_item key klen vt w s)"
proof -
  have "adds ([type_byte ndpi_serialization_string vt] @
      (be_bytes16 (word_of_nat klen) @ take klen key) @ vb) s (tlv_string_item key klen vt w s)"
    unfolding tlv_string_item_def
    using assms by (intro adds_chain_Cons adds_chain_last put_bytes_adds single_string_adds w) simp_all
  then show ?thesis using room by (simp add: enc_string_def min_absorb2)
qed

text \<open>The shape of the functions in the TLV format.\<close>

lemma is_tlv_settings: "settings s' = settings s \<Longrightarrow> is_tlv s \<Longrightarrow> is_tlv s'"
  by (simp add: settings_def)

lemma tlv_op_any:
  assumes s: "ser_ok s" "is_tlv s" and n: "used s + needed + 1028 < 2 ^ 32"
    and h: "\<And>s'. ser_ok s' \<Longrightarrow> is_tlv s' \<Longrightarrow> used s' = used s \<Longrightarrow> used s' + needed \<le> sb_size (ss_buffer s') \<Longrightarrow>
        appends A bs s' (h s')"
    and fs: "\<And>s'. ser_ok s' \<Longrightarrow> adds [] s' (chain fs s')"
  shows "appends A bs s (chain (ensure_room A needed # h # fs) s)"
proof (rule ensure_then_adds [OF s(1) n])
  fix s' assume s': "ser_ok s'" "settings s' = settings s" "used s' = used s" "used s + needed \<le> sb_size (ss_buffer s')"
  then have "appends A bs s' (h s')" using h [of s'] s is_tlv_settings [of s' s] by simp
  then show "appends A bs s' (chain (h # fs) s')" by (rule appends_then_adds) (rule fs)
qed

lemma tlv_op:
  assumes "ser_ok s" "is_tlv s" "used s + needed + 1028 < 2 ^ 32"
    and "\<And>s'. ser_ok s' \<Longrightarrow> is_tlv s' \<Longrightarrow> used s' = used s \<Longrightarrow> used s' + needed \<le> sb_size (ss_buffer s') \<Longrightarrow>
        appends A bs s' (h s')"
  shows "appends A bs s (chain [ensure_room A needed, ifelse is_json f (ifelse is_csv g h), flag_on k] s)"
  using assms by (intro tlv_op_any adds_chain_last flag_on_adds) (simp_all add: ifelse_def)

lemma append_item:
  assumes "fst e = vt" "snd e = vb"
    and "ser_ok s" "used s + 5 + n \<le> sb_size (ss_buffer s)"
    and "\<And>s'. ser_ok s' \<Longrightarrow> used s' + n \<le> sb_size (ss_buffer s') \<Longrightarrow> adds vb s' (w s')"
  shows "appends A (type_byte (fst (enc_unsigned key)) (fst e) # snd (enc_unsigned key) @ snd e) s (tlv_uint32_item key vt w s)"
  using tlv_uint32_item_adds [of s n vb w key vt] assms by (auto intro: adds_appends)

lemma uint32_uint32_appends:
  assumes "ser_ok s" "is_tlv s" "used s + 2000 < 2 ^ 32"
  shows "appends A (encode (Item (Num_Key k) (Uint32 v))) s (ndpi_serialize_uint32_uint32 A k v s)"
  unfolding ndpi_serialize_uint32_uint32_def
  by (rule tlv_op)
    (use assms in \<open>auto simp: tlv_types split_beta intro!: append_item [where n = 4] tlv_unsigned_adds\<close>)

lemma uint32_int32_appends:
  assumes "ser_ok s" "is_tlv s" "used s + 2000 < 2 ^ 32"
  shows "appends A (encode (Item (Num_Key k) (Int32 v))) s (ndpi_serialize_uint32_int32 A k v s)"
  unfolding ndpi_serialize_uint32_int32_def
  by (rule tlv_op)
    (use assms in \<open>auto simp: tlv_types split_beta intro!: append_item [where n = 4] tlv_signed_adds\<close>)

lemma uint32_uint64_appends:
  assumes "ser_ok s" "is_tlv s" "used s + 2000 < 2 ^ 32"
  shows "appends A (encode (Item (Num_Key k) (Uint64 v))) s (ndpi_serialize_uint32_uint64 A k v s)"
proof (cases "v \<le> 0xffffffff")
  case True
  then show ?thesis unfolding ndpi_serialize_uint32_uint64_def
    using assms uint32_uint32_appends [of _ A k "ucast v"] by (intro tlv_op) simp_all
next
  case False
  then show ?thesis unfolding ndpi_serialize_uint32_uint64_def
    using assms append_item [where n = 8 and e = "enc_value (Uint64 v)" and key = k] single_adds(4)
    by (intro tlv_op) simp_all
qed

lemma uint32_int64_appends:
  assumes "ser_ok s" "is_tlv s" "used s + 2000 < 2 ^ 32"
  shows "appends A (encode (Item (Num_Key k) (Int64 v))) s (ndpi_serialize_uint32_int64 A k v s)"
proof (cases "v AND 0xFFFFFFFF = v")
  case True
  then show ?thesis unfolding ndpi_serialize_uint32_int64_def
    using assms uint32_int32_appends [of _ A k "ucast v"] by (intro tlv_op) simp_all
next
  case False
  then show ?thesis unfolding ndpi_serialize_uint32_int64_def
    using assms append_item [where n = 8 and e = "enc_value (Int64 v)" and key = k] single_adds(4)
    by (intro tlv_op) simp_all
qed

lemma uint32_float_appends:
  assumes "ser_ok s" "is_tlv s" "used s + 2000 < 2 ^ 32"
  shows "appends A (encode (Item (Num_Key k) (Float v))) s (ndpi_serialize_uint32_float A k v text s)"
  unfolding ndpi_serialize_uint32_float_def
  using assms append_item [where n = 4 and e = "enc_value (Float v)" and key = k] single_adds(5)
  by (intro tlv_op) simp_all

lemma uint32_binary_appends:
  assumes "ser_ok s" "is_tlv s" "used s + n + 2000 < 2 ^ 32" "n \<le> length b"
  shows "appends A (encode (Item (Num_Key k) (Bytes (take n b)))) s (ndpi_serialize_uint32_binary A k b n s)"
  unfolding ndpi_serialize_uint32_binary_def
  using assms append_item [where n = "2 + n" and e = "enc_value (Bytes (take n b))" and key = k]
    single_string_adds [of _ n b]
  by (intro tlv_op) (simp_all add: enc_string_def min_absorb2)

lemma not_number: "k \<le> length key \<Longrightarrow> \<exists>c \<in> set (take k key). \<not> ndpi_isdigit c \<Longrightarrow> ndpi_is_number key k = Some False"
  by (auto simp: ndpi_is_number_def find_None_iff split: option.splits)

lemma numeric_key_skip:
  "k \<le> length key \<Longrightarrow> \<exists>c \<in> set (take k key). \<not> ndpi_isdigit c \<Longrightarrow> numeric_key key k f g s = g s"
  by (simp add: numeric_key_def not_number)

lemma append_string_item:
  assumes "fst e = vt" "snd e = vb"
    and "ser_ok s" "used s + 3 + klen + n \<le> sb_size (ss_buffer s)" "klen \<le> length key"
    and "\<And>s'. ser_ok s' \<Longrightarrow> used s' + n \<le> sb_size (ss_buffer s') \<Longrightarrow> adds vb s' (w s')"
  shows "appends A (type_byte ndpi_serialization_string (fst e) # enc_string (take klen key) @ snd e) s
      (tlv_string_item key klen vt w s)"
  using tlv_string_item_adds [of s klen n key vb w vt] assms by (auto intro: adds_appends)

lemma strlen_cstring: "0 \<notin> set k \<Longrightarrow> length k < 65536 \<Longrightarrow> with_strlen (k @ 0 # r) f s = f (length k) s"
proof -
  assume k: "0 \<notin> set k" "length k < 65536"
  then have "takeWhile (\<lambda>b. b \<noteq> 0) (k @ 0 # r) = k" by (subst takeWhile_append2) auto
  then show ?thesis using k by (simp add: with_strlen_def strlen16_def strlen_def)
qed

lemma wf_str_key:
  assumes "wf_key (Str_Key k)"
  shows "numeric_key (k @ r) (length k) f g s = g s" "length k \<le> length (k @ r)"
  using assms by (auto intro!: numeric_key_skip)

lemma binary_uint32_appends:
  assumes "ser_ok s" "is_tlv s" "used s + length k + 2000 < 2 ^ 32" "wf_key (Str_Key k)"
  shows "appends A (encode (Item (Str_Key k) (Uint32 v))) s (ndpi_serialize_binary_uint32 A (k @ r) (length k) v s)"
proof -
  note item = append_string_item [where n = 4 and klen = "length k" and key = "k @ r" and e = "enc_unsigned v"]
  have "appends A (encode (Item (Str_Key k) (Uint32 v))) s (chain [ensure_room A (1 + 2 + length k + 4 + 20 + 16),
      ifelse is_json f (case tlv_unsigned v of (vt, w) \<Rightarrow> tlv_string_item (k @ r) (length k) vt w), flag_on j] s)" for f j
    using assms item tlv_unsigned_adds
    by (intro tlv_op_any adds_chain_last flag_on_adds) (simp_all add: split_beta tlv_types ifelse_def)
  then show ?thesis
    using assms(2) wf_str_key(1) [OF assms(4)] unfolding ndpi_serialize_binary_uint32_def by (simp del: chain.simps)
qed

lemma binary_int32_appends:
  assumes "ser_ok s" "is_tlv s" "used s + length k + 2000 < 2 ^ 32" "wf_key (Str_Key k)"
  shows "appends A (encode (Item (Str_Key k) (Int32 v))) s (ndpi_serialize_binary_int32 A (k @ r) (length k) v s)"
  unfolding ndpi_serialize_binary_int32_def wf_str_key(1) [OF assms(4)]
  using assms append_string_item [where n = 4 and klen = "length k" and key = "k @ r" and e = "enc_signed v"] tlv_signed_adds
  by (intro tlv_op) (simp_all add: split_beta tlv_types)

lemma binary_uint64_appends:
  assumes "ser_ok s" "is_tlv s" "used s + length k + 2000 < 2 ^ 32" "wf_key (Str_Key k)"
    and "v \<le> 0xffffffff \<Longrightarrow> r = 0 # r'"
  shows "appends A (encode (Item (Str_Key k) (Uint64 v))) s (ndpi_serialize_binary_uint64 A (k @ r) (length k) v s)"
proof (cases "v \<le> 0xffffffff")
  case True
  then show ?thesis unfolding ndpi_serialize_binary_uint64_def wf_str_key(1) [OF assms(4)]
    using assms binary_uint32_appends [of _ k A "ucast v" r] strlen_cstring [of k]
    by (intro tlv_op) (simp_all add: ndpi_serialize_string_uint32_def)
next
  case False
  then show ?thesis unfolding ndpi_serialize_binary_uint64_def wf_str_key(1) [OF assms(4)]
    using assms append_string_item [where n = 8 and klen = "length k" and key = "k @ r" and e = "enc_value (Uint64 v)"]
      single_adds(4)
    by (intro tlv_op) simp_all
qed

lemma binary_int64_appends:
  assumes "ser_ok s" "is_tlv s" "used s + length k + 2000 < 2 ^ 32" "wf_key (Str_Key k)"
    and "v AND 0xFFFFFFFF = v \<Longrightarrow> r = 0 # r'"
  shows "appends A (encode (Item (Str_Key k) (Int64 v))) s (ndpi_serialize_binary_int64 A (k @ r) (length k) v s)"
proof (cases "v AND 0xFFFFFFFF = v")
  case True
  then show ?thesis unfolding ndpi_serialize_binary_int64_def wf_str_key(1) [OF assms(4)]
    using assms binary_int32_appends [of _ k A "ucast v" r] strlen_cstring [of k]
    by (intro tlv_op) (simp_all add: ndpi_serialize_string_int32_def ifelse_def)
next
  case False
  then show ?thesis unfolding ndpi_serialize_binary_int64_def wf_str_key(1) [OF assms(4)]
    using assms append_string_item [where n = 8 and klen = "length k" and key = "k @ r" and e = "enc_value (Int64 v)"]
      single_adds(4)
    by (intro tlv_op) simp_all
qed

lemma binary_float_appends:
  assumes "ser_ok s" "is_tlv s" "used s + length k + 2000 < 2 ^ 32" "wf_key (Str_Key k)"
  shows "appends A (encode (Item (Str_Key k) (Float v))) s (ndpi_serialize_binary_float A (k @ r) (length k) v text s)"
  unfolding ndpi_serialize_binary_float_def wf_str_key(1) [OF assms(4)]
  using assms append_string_item [where n = 4 and klen = "length k" and key = "k @ r" and e = "enc_value (Float v)"]
    single_adds(5)
  by (intro tlv_op) simp_all

lemma binary_binary_appends:
  assumes "ser_ok s" "is_tlv s" "used s + length k + n + 2000 < 2 ^ 32" "wf_key (Str_Key k)" "n \<le> length b"
  shows "appends A (encode (Item (Str_Key k) (Bytes (take n b)))) s
      (ndpi_serialize_binary_binary A (k @ r) (length k) (Some b) n s)"
  unfolding ndpi_serialize_binary_binary_def wf_str_key(1) [OF assms(4)] ndpi_serialize_binary_raw_def string_or_empty_def
  using assms single_string_adds [of _ n b]
    append_string_item [where n = "2 + n" and klen = "length k" and key = "k @ r" and e = "enc_value (Bytes (take n b))"]
  by (intro tlv_op) (simp_all add: enc_string_def min_absorb2)

text \<open>The markers.\<close>

lemma type_codes [simp]:
  "type_byte ndpi_serialization_unknown ndpi_serialization_end_of_record = 1"
  by (simp add: type_byte_def)

lemma end_of_record_appends:
  assumes "ser_ok s" "is_tlv s" "used s + 2000 < 2 ^ 32"
  shows "appends A (encode End_Record) s (ndpi_serialize_end_of_record A s)"
  unfolding ndpi_serialize_end_of_record_def
  using assms put_bytes_adds [where bs = "[1]"]
  by (intro tlv_op_any adds_chain_last adds_appends) (simp_all add: ifelse_def adds_def flag_off_def)

lemma not_refused: "is_tlv s \<Longrightarrow> chain (onlyif not_json_nor_tlv f # fs) s = chain fs s"
  by (simp add: onlyif_def not_json_nor_tlv_def)

lemma start_adds:
  assumes "ser_ok s" "used s + 16 + n \<le> sb_size (ss_buffer s)" "n \<le> length k"
  shows "adds (c # enc_string (take n k)) s (chain [put_byte c, ndpi_serialize_single_string k n] s)"
proof -
  have "adds ([c] @ be_bytes16 (word_of_nat n) @ take n k) s (chain [put_byte c, ndpi_serialize_single_string k n] s)"
    using assms by (intro adds_chain_Cons adds_chain_last put_bytes_adds single_string_adds) simp_all
  then show ?thesis using assms by (simp add: enc_string_def min_absorb2)
qed

lemma start_of_block_appends:
  assumes "ser_ok s" "is_tlv s" "used s + n + 2000 < 2 ^ 32" "n \<le> length k"
  shows "appends A (encode (Start_Block (take n k))) s (ndpi_serialize_start_of_block_binary A k n s)"
  unfolding ndpi_serialize_start_of_block_binary_def not_refused [OF assms(2)]
  using assms start_adds [of _ n k 12]
  by (intro tlv_op_any adds_chain_Nil) (auto simp: ifelse_def intro: adds_appends simp del: chain.simps)

lemma start_of_list_appends:
  assumes "ser_ok s" "is_tlv s" "used s + n + 2000 < 2 ^ 32" "n \<le> length k"
  shows "appends A (encode (Start_List (take n k))) s (ndpi_serialize_start_of_list_binary A k n s)"
  unfolding ndpi_serialize_start_of_list_binary_def not_refused [OF assms(2)]
  using assms start_adds [of _ n k 14]
  by (intro tlv_op_any adds_chain_Nil) (auto simp: ifelse_def intro: adds_appends simp del: chain.simps)

lemma end_of_block_appends:
  assumes "ser_ok s" "is_tlv s" "used s + 2000 < 2 ^ 32"
  shows "appends A (encode End_Block) s (ndpi_serialize_end_of_block A s)"
  unfolding ndpi_serialize_end_of_block_def not_refused [OF assms(2)]
  using assms put_bytes_adds [where bs = "[13]"]
  by (intro tlv_op_any adds_chain_Nil adds_appends) (simp_all add: ifelse_def)

lemma end_of_list_appends:
  assumes "ser_ok s" "is_tlv s" "used s < sb_size (ss_buffer s)"
  shows "adds (encode End_List) s (ndpi_serialize_end_of_list s)"
  unfolding ndpi_serialize_end_of_list_def not_refused [OF assms(2)]
  using assms put_bytes_adds [of s "[15]"]
  by (intro adds_chain_last) (auto simp: ifelse_def onlyif_def adds_def)

text \<open>Any of the calls: it returns, and either appends the encoding of its item or changes nothing
  that was written before.\<close>

lemma write_num_item:
  assumes s: "ser_ok s" "is_tlv s" and wf: "wf_value v" and u: "used s + length (encode (Item (Num_Key n) v)) + 2000 < 2 ^ 32"
  shows "appends A (encode (Item (Num_Key n) v)) s (write_item A pf (Item (Num_Key n) v) s)"
proof -
  have u': "used s + 2000 < 2 ^ 32" using u by linarith
  note simps = write_item.simps
  show ?thesis
  proof (cases v)
    case (Uint32 x) show ?thesis unfolding Uint32 simps by (rule uint32_uint32_appends [OF s u'])
  next
    case (Uint64 x) show ?thesis unfolding Uint64 simps by (rule uint32_uint64_appends [OF s u'])
  next
    case (Int32 x) show ?thesis unfolding Int32 simps by (rule uint32_int32_appends [OF s u'])
  next
    case (Int64 x) show ?thesis unfolding Int64 simps by (rule uint32_int64_appends [OF s u'])
  next
    case (Float x) show ?thesis unfolding Float simps by (rule uint32_float_appends [OF s u'])
  next
    case (Bytes b)
    have "used s + length b + 2000 < 2 ^ 32" using u by (simp add: Bytes enc_string_def)
    from uint32_binary_appends [OF s this, of b A n] show ?thesis unfolding Bytes simps by simp
  qed
qed

lemma write_str_item:
  assumes s: "ser_ok s" "is_tlv s" and wf: "wf_key (Str_Key k)" "wf_value v"
    and u: "used s + length (encode (Item (Str_Key k) v)) + 2000 < 2 ^ 32"
  shows "appends A (encode (Item (Str_Key k) v)) s (write_item A pf (Item (Str_Key k) v) s)"
proof -
  have u': "used s + length k + 2000 < 2 ^ 32" using u by (simp add: enc_string_def)
  note simps = write_item.simps
  show ?thesis
  proof (cases v)
    case (Uint32 x) show ?thesis unfolding Uint32 simps by (rule binary_uint32_appends [OF s u' wf(1)])
  next
    case (Uint64 x) show ?thesis unfolding Uint64 simps by (rule binary_uint64_appends [OF s u' wf(1)]) simp
  next
    case (Int32 x) show ?thesis unfolding Int32 simps by (rule binary_int32_appends [OF s u' wf(1)])
  next
    case (Int64 x) show ?thesis unfolding Int64 simps by (rule binary_int64_appends [OF s u' wf(1)]) simp
  next
    case (Float x) show ?thesis unfolding Float simps by (rule binary_float_appends [OF s u' wf(1)])
  next
    case (Bytes b)
    have "used s + length k + length b + 2000 < 2 ^ 32" using u by (simp add: Bytes enc_string_def)
    from binary_binary_appends [OF s this wf(1), of b A "[0]"] show ?thesis unfolding Bytes simps by simp
  qed
qed

lemma write_item_appends:
  assumes s: "ser_ok s" "is_tlv s" and wf: "wf_item it" and u: "used s + length (encode it) + 2000 < 2 ^ 32"
    and "it \<noteq> End_List"
  shows "appends A (encode it) s (write_item A pf it s)"
proof -
  have u': "used s + 2000 < 2 ^ 32" using u by linarith
  show ?thesis
  proof (cases it)
    case (Item k v)
    then show ?thesis using write_num_item [OF s, of v] write_str_item [OF s, of _ v] wf u by (cases k) (auto simp only: wf_item.simps)
  next
    case End_Record show ?thesis unfolding End_Record write_item.simps by (rule end_of_record_appends [OF s u'])
  next
    case (Start_Block k)
    then have "used s + length k + 2000 < 2 ^ 32" using u by (simp add: enc_string_def)
    from start_of_block_appends [OF s this, of k A] show ?thesis unfolding Start_Block write_item.simps by simp
  next
    case End_Block show ?thesis unfolding End_Block write_item.simps by (rule end_of_block_appends [OF s u'])
  next
    case (Start_List k)
    then have "used s + length k + 2000 < 2 ^ 32" using u by (simp add: enc_string_def)
    from start_of_list_appends [OF s this, of k A] show ?thesis unfolding Start_List write_item.simps by simp
  next
    case End_List then show ?thesis using assms(5) by simp
  qed
qed

end
