(* ===== verification/Serializer_Roundtrip.thy ===== *)
theory Serializer_Roundtrip
  imports Serializer_Tlv
begin

text \<open>
  Reading back what the TLV serializer wrote: the deserializer finds every item, with its key and its
  value, in the order of the calls, and copying a buffer item by item reproduces it.
\<close>

section \<open>Bytes and words\<close>

lemma nibbles: "\<forall>a\<in>set [0..<16]. \<forall>b\<in>set [0..<16].
    unat (drop_bit 4 (push_bit 4 (word_of_nat a) OR word_of_nat b :: u8)) = a \<and>
    unat ((push_bit 4 (word_of_nat a) OR word_of_nat b :: u8) AND 0xf) = b"
  by code_simp

lemma type_of_code: "type_code t < 16 \<Longrightarrow> type_of (type_code t) = t"
  by (cases t) (simp_all add: type_of_def)

lemma type_byte_nibbles:
  assumes "type_code kt < 16" "type_code vt < 16"
  shows "type_of (unat (drop_bit 4 (type_byte kt vt))) = kt" "type_of (unat (type_byte kt vt AND 0xf)) = vt"
proof -
  have "type_code kt \<in> set [0..<16]" "type_code vt \<in> set [0..<16]" using assms by simp_all
  then have n: "unat (drop_bit 4 (type_byte kt vt)) = type_code kt" "unat (type_byte kt vt AND 0xf) = type_code vt"
    using nibbles unfolding type_byte_def by blast+
  show "type_of (unat (drop_bit 4 (type_byte kt vt))) = kt" "type_of (unat (type_byte kt vt AND 0xf)) = vt"
    unfolding n using type_of_code assms by blast+
qed

lemma unat_ucast8: "unat (ucast v :: u8) = unat (v :: 'a::len word) mod 256"
  by (simp add: unsigned_ucast_eq take_bit_eq_mod)

lemma unat_drop: "unat (drop_bit n v) = unat (v :: 'a::len word) div 2 ^ n"
proof -
  have "take_bit LENGTH('a) (unat v) = unat v"
    using unsigned_less [where 'a = nat and w = v] by (simp add: take_bit_nat_eq_self)
  then show ?thesis unfolding unsigned_drop_bit_eq by (simp add: drop_bit_eq_div)
qed

lemma be16_bytes: "be16 (ucast (drop_bit 8 v)) (ucast v) = unat (v :: u16)"
proof -
  have "unat v < 65536" using unsigned_less [where 'a = nat and w = v] by simp
  then show ?thesis unfolding be16_def unat_ucast8 unat_drop by simp
qed

lemma split16: "x < 65536 \<Longrightarrow> 256 * (x div 256 mod 256) + x mod 256 = (x :: nat)"
  by simp

lemma be32_bytes: "be32 (ucast (drop_bit 24 v)) (ucast (drop_bit 16 v)) (ucast (drop_bit 8 v)) (ucast v) = unat (v :: u32)"
proof -
  define n where "n = unat v"
  have n: "n < 4294967296" using unsigned_less [where 'a = nat and w = v] by (simp add: n_def)
  have 1: "n div 2 ^ 24 = n div 65536 div 256" by (simp add: div_mult2_eq [symmetric])
  have 2: "n div 2 ^ 8 mod 256 = n mod 65536 div 256 mod 256" "n mod 256 = n mod 65536 mod 256"
    using mod_mult2_eq [of n 256 256] by (simp_all add: mod_mod_cancel)
  have "256 * (n div 65536 div 256 mod 256) + n div 65536 mod 256 = n div 65536"
    "256 * (n mod 65536 div 256 mod 256) + n mod 65536 mod 256 = n mod 65536"
    using n by (intro split16; simp)+
  then show ?thesis unfolding be32_def be16_def unat_ucast8 unat_drop n_def [symmetric] 1 2 by simp
qed

lemma and_low32: "v AND 0xFFFFFFFF = take_bit 32 (v :: u64)"
proof -
  have "(0xFFFFFFFF :: u64) = mask 32" by (simp add: mask_eq_exp_minus_1)
  then show ?thesis by (simp only: take_bit_eq_mask)
qed

lemma ntohll_htonll: "ndpi_ntohll (ucast (drop_bit 32 v)) (ucast (v AND 0xFFFFFFFF)) = (v :: u64)"
  unfolding and_low32 ndpi_ntohll_def
proof (rule bit_word_eqI)
  fix n assume "n < LENGTH(64)"
  then show "bit (push_bit 32 (ucast (ucast (drop_bit 32 v) :: u32) :: u64) OR ucast (ucast (take_bit 32 v) :: u32)) n = bit v n"
    by (cases "n < 32") (simp_all add: bit_simps, linarith)
qed
section \<open>Sizes of the parts of an item\<close>

text \<open>The bytes that follow the type byte for a key or value of a type.\<close>

fun shape :: "ndpi_serialization_type \<Rightarrow> bytes \<Rightarrow> bool" where
  "shape ndpi_serialization_uint8 bs = (length bs = 1)"
| "shape ndpi_serialization_int8 bs = (length bs = 1)"
| "shape ndpi_serialization_uint16 bs = (length bs = 2)"
| "shape ndpi_serialization_int16 bs = (length bs = 2)"
| "shape ndpi_serialization_uint32 bs = (length bs = 4)"
| "shape ndpi_serialization_int32 bs = (length bs = 4)"
| "shape ndpi_serialization_float bs = (length bs = 4)"
| "shape ndpi_serialization_uint64 bs = (length bs = 8)"
| "shape ndpi_serialization_int64 bs = (length bs = 8)"
| "shape ndpi_serialization_string bs = (\<exists>s. bs = enc_string s \<and> length bs < 65536)"
| "shape ndpi_serialization_start_of_block bs = (\<exists>s. bs = enc_string s \<and> length bs < 65536)"
| "shape ndpi_serialization_start_of_list bs = (\<exists>s. bs = enc_string s \<and> length bs < 65536)"
| "shape ndpi_serialization_double bs = False"
| "shape t bs = (bs = [])"

lemma enc_value_shape: "length (snd (enc_value v)) < 65536 \<Longrightarrow> shape (fst (enc_value v)) (snd (enc_value v))"
  by (cases v) (auto simp: enc_unsigned_def enc_signed_def)

lemma enc_key_shape: "length (snd (enc_key k)) < 65536 \<Longrightarrow> shape (fst (enc_key k)) (snd (enc_key k))"
  by (cases k) (auto simp: enc_unsigned_def)

lemma shape_code: "shape t bs \<Longrightarrow> type_code t < 16"
  by (cases t) auto

text \<open>A buffer that is read: its length is the size of its object, or less.\<close>

definition readable :: "serializer \<Rightarrow> bool" where
  "readable d \<longleftrightarrow> sb_size (ss_buffer d) \<le> length (ser_data d) \<and> sb_size (ss_buffer d) < 2 ^ 32"

text \<open>\<open>bs\<close> stands at an offset of the buffer.\<close>

definition bytes_at :: "serializer \<Rightarrow> nat \<Rightarrow> bytes \<Rightarrow> bool" where
  "bytes_at d off bs \<longleftrightarrow> off + length bs \<le> sb_size (ss_buffer d) \<and> take (length bs) (drop off (ser_data d)) = bs"

lemma bytes_at_append: "bytes_at d off (a @ b) \<longleftrightarrow> bytes_at d off a \<and> bytes_at d (off + length a) b" if "readable d"
proof -
  have "take (length a + length b) (drop off (ser_data d)) =
      take (length a) (drop off (ser_data d)) @ take (length b) (drop (off + length a) (ser_data d))"
    by (simp add: take_add add.commute)
  moreover have "off + length a + length b \<le> sb_size (ss_buffer d) \<Longrightarrow> length (take (length a) (drop off (ser_data d))) = length a"
    using that by (auto simp: readable_def min_def)
  ultimately show ?thesis by (auto simp: bytes_at_def)
qed

lemma bytes_at_nth: "readable d \<Longrightarrow> bytes_at d off bs \<Longrightarrow> i < length bs \<Longrightarrow> off + i < length (ser_data d) \<and> ser_data d ! (off + i) = bs ! i"
proof -
  assume a: "readable d" "bytes_at d off bs" "i < length bs"
  then have len: "off + length bs \<le> length (ser_data d)" by (simp add: bytes_at_def readable_def)
  have "bs ! i = take (length bs) (drop off (ser_data d)) ! i" using a by (simp add: bytes_at_def)
  also have "\<dots> = ser_data d ! (off + i)" using a len by simp
  finally show ?thesis using a len by simp
qed

lemma rd_at:
  assumes "readable d"
  shows "bytes_at d off [b] \<Longrightarrow> rd8 (ser_data d) off = Some b"
    "bytes_at d off (be_bytes16 v) \<Longrightarrow> rd16 (ser_data d) off = Some (unat v)"
    "bytes_at d off (be_bytes32 w) \<Longrightarrow> rd32 (ser_data d) off = Some (unat w)"
    "bytes_at d off (rev (be_bytes32 w)) \<Longrightarrow> rdle32 (ser_data d) off = Some (unat w)"
    "bytes_at d off bs \<Longrightarrow> rdn (ser_data d) off (length bs) = Some bs"
proof -
  note n = bytes_at_nth [OF assms]
  show "bytes_at d off [b] \<Longrightarrow> rd8 (ser_data d) off = Some b"
    using n [of off "[b]" 0] by (simp add: rd8_in)
  show "bytes_at d off (be_bytes16 v) \<Longrightarrow> rd16 (ser_data d) off = Some (unat v)"
    using n [of off "be_bytes16 v" 0] n [of off "be_bytes16 v" 1] be16_bytes [of v] by (simp add: rd16_in be_bytes16_def)
  show "bytes_at d off (be_bytes32 w) \<Longrightarrow> rd32 (ser_data d) off = Some (unat w)"
    using n [of off "be_bytes32 w" 0] n [of off "be_bytes32 w" 1] n [of off "be_bytes32 w" 2] n [of off "be_bytes32 w" 3]
      be32_bytes [of w] by (simp add: rd32_in be_bytes32_def numeral_2_eq_2 numeral_3_eq_3)
  show "bytes_at d off (rev (be_bytes32 w)) \<Longrightarrow> rdle32 (ser_data d) off = Some (unat w)"
    using n [of off "rev (be_bytes32 w)" 0] n [of off "rev (be_bytes32 w)" 1] n [of off "rev (be_bytes32 w)" 2]
      n [of off "rev (be_bytes32 w)" 3] be32_bytes [of w]
    by (simp add: rdle32_in be_bytes32_def numeral_2_eq_2 numeral_3_eq_3)
  show "bytes_at d off bs \<Longrightarrow> rdn (ser_data d) off (length bs) = Some bs"
    using assms by (simp add: rdn_in bytes_at_def readable_def)
qed

lemma string_size_at:
  assumes d: "readable d" and at: "bytes_at d off (enc_string s)" and n: "length (enc_string s) < 65536"
  shows "ndpi_deserialize_get_single_string_size d off = Some (int (length (enc_string s)))"
proof -
  have len: "unat (word_of_nat (length s) :: u16) = length s" using n by (simp add: enc_string_def take_bit_nat_eq_self unsigned_of_nat)
  have "bytes_at d off (be_bytes16 (word_of_nat (length s)))" using at d by (simp add: enc_string_def bytes_at_append)
  then have r: "rd16 (ser_data d) off = Some (length s)" using rd_at(2) [OF d] len by metis
  have off: "off + length (enc_string s) \<le> sb_size (ss_buffer d)" using at by (simp add: bytes_at_def)
  then have "diff32 (sb_size (ss_buffer d)) off = sb_size (ss_buffer d) - off"
    using d by (intro diff32_le) (simp_all add: readable_def)
  then show ?thesis using r off n by (simp add: ndpi_deserialize_get_single_string_size_def Let_def enc_string_def)
qed

lemma single_size_at:
  assumes "readable d" "bytes_at d off bs" "shape t bs"
  shows "ndpi_deserialize_get_single_size d t off = Some (int (length bs))"
  using assms string_size_at [OF assms(1)]
  by (cases t) (auto simp: ndpi_deserialize_get_single_size_def)

section \<open>The parts of an item\<close>

text \<open>The type and the bytes of the key and of the value. A marker has no key; the name of a block or
  list stands where the value of an item does.\<close>

fun item_parts :: "ser_item \<Rightarrow> (ndpi_serialization_type \<times> bytes) \<times> (ndpi_serialization_type \<times> bytes)" where
  "item_parts (Item k v) = (enc_key k, enc_value v)"
| "item_parts End_Record = ((ndpi_serialization_unknown, []), (ndpi_serialization_end_of_record, []))"
| "item_parts (Start_Block k) = ((ndpi_serialization_unknown, []), (ndpi_serialization_start_of_block, enc_string k))"
| "item_parts End_Block = ((ndpi_serialization_unknown, []), (ndpi_serialization_end_of_block, []))"
| "item_parts (Start_List k) = ((ndpi_serialization_unknown, []), (ndpi_serialization_start_of_list, enc_string k))"
| "item_parts End_List = ((ndpi_serialization_unknown, []), (ndpi_serialization_end_of_list, []))"

lemma encode_parts:
  "item_parts it = ((kt, kb), (vt, vb)) \<Longrightarrow> encode it = type_byte kt vt # kb @ vb"
  by (cases it) (auto simp: type_byte_def)

lemma parts_shape:
  assumes "item_parts it = ((kt, kb), (vt, vb))" "length (encode it) < 65536"
  shows "shape kt kb" "shape vt vb"
proof -
  have len: "length kb < 65536" "length vb < 65536" using assms encode_parts [OF assms(1)] by simp_all
  show "shape kt kb"
    using assms(1) len enc_key_shape by (cases it) (auto, metis fst_conv snd_conv)
  show "shape vt vb"
    using assms(1) len enc_value_shape by (cases it) (auto simp: enc_string_def, metis fst_conv snd_conv)
qed

text \<open>The current item of a deserializer.\<close>

definition item_at :: "serializer \<Rightarrow> ser_item \<Rightarrow> bool" where
  "item_at d it \<longleftrightarrow> readable d \<and> bytes_at d (used d) (encode it) \<and> length (encode it) < 65536"

lemma item_bytes:
  assumes "item_at d it" "item_parts it = ((kt, kb), (vt, vb))"
  shows "readable d" "bytes_at d (used d) [type_byte kt vt]" "bytes_at d (used d + 1) kb"
    "bytes_at d (used d + 1 + length kb) vb" "used d < sb_size (ss_buffer d)" "sb_size (ss_buffer d) < 2 ^ 32"
proof -
  show r: "readable d" using assms(1) by (simp add: item_at_def)
  have "bytes_at d (used d) ([type_byte kt vt] @ kb @ vb)" using assms encode_parts [OF assms(2)] by (simp add: item_at_def)
  then show t: "bytes_at d (used d) [type_byte kt vt]" and "bytes_at d (used d + 1) kb" "bytes_at d (used d + 1 + length kb) vb"
    unfolding bytes_at_append [OF r] by simp_all
  show "used d < sb_size (ss_buffer d)" "sb_size (ss_buffer d) < 2 ^ 32" using t r by (simp_all add: bytes_at_def readable_def)
qed

lemma item_subtypes:
  assumes "item_at d it" "item_parts it = ((kt, kb), (vt, vb))"
  shows "ndpi_deserialize_get_key_subtype d = Some kt" "ndpi_deserialize_get_value_subtype d = Some vt"
proof -
  have "rd8 (ser_data d) (used d) = Some (type_byte kt vt)" using rd_at(1) item_bytes(1,2) [OF assms] by blast
  moreover have "type_code kt < 16" "type_code vt < 16"
    using parts_shape [OF assms(2)] assms(1) shape_code by (auto simp: item_at_def)
  ultimately show "ndpi_deserialize_get_key_subtype d = Some kt" "ndpi_deserialize_get_value_subtype d = Some vt"
    using item_bytes(5) [OF assms] type_byte_nibbles [of kt vt]
    by (simp_all add: ndpi_deserialize_get_key_subtype_def ndpi_deserialize_get_value_subtype_def)
qed

lemma item_key_position:
  assumes "item_at d it" "item_parts it = ((kt, kb), (vt, vb))"
  shows "key_position d = Some (Inr (kt, used d + 1, int (length kb)))"
proof -
  have "shape kt kb" using parts_shape [OF assms(2)] assms(1) by (simp add: item_at_def)
  then have "ndpi_deserialize_get_single_size d kt (used d + 1) = Some (int (length kb))"
    using single_size_at item_bytes(1,3) [OF assms] by blast
  moreover have "buff_diff d \<ge> 1"
    using item_bytes(5,6) [OF assms] diff32_le [of "used d" "sb_size (ss_buffer d)"] by (simp add: buff_diff_def)
  ultimately show ?thesis by (simp add: key_position_def item_subtypes [OF assms])
qed

lemma item_value_position:
  assumes "item_at d it" "item_parts it = ((kt, kb), (vt, vb))"
  shows "value_position d = Some (Inr (vt, 1 + length kb, int (length vb)))"
proof -
  have "shape vt vb" using parts_shape [OF assms(2)] assms(1) by (simp add: item_at_def)
  then have "ndpi_deserialize_get_single_size d vt (used d + 1 + length kb) = Some (int (length vb))"
    using single_size_at item_bytes(1,4) [OF assms] by blast
  moreover have "(1 + length kb) mod 65536 = 1 + length kb"
    using assms(1) encode_parts [OF assms(2)] by (simp add: item_at_def)
  ultimately show ?thesis by (simp add: value_position_def item_key_position [OF assms] item_subtypes [OF assms] Let_def)
qed

lemma item_next:
  assumes "item_at d it"
  shows "ndpi_deserialize_next d = Some (0, set_used (used d + length (encode it)) d)"
proof -
  obtain kt kb vt vb where p: "item_parts it = ((kt, kb), (vt, vb))" by (metis surj_pair)
  show ?thesis
    using assms encode_parts [OF p]
    by (simp add: ndpi_deserialize_next_def item_value_position [OF assms p] item_at_def)
qed

section \<open>Reading keys and values\<close>

lemma ucast_ucast_id:
  assumes "unat (v :: 'a::len word) < 2 ^ LENGTH('b::len)" 
  shows "(ucast (ucast v :: 'b word) :: 'a word) = v"
proof (rule bit_word_eqI)
  fix n assume "n < LENGTH('a)"
  have "take_bit LENGTH('b) (unat v) = unat v" using assms by (simp add: take_bit_nat_eq_self)
  then have "bit (unat v) n = (n < LENGTH('b) \<and> bit (unat v) n)" by (metis bit_take_bit_iff)
  then have "bit v n \<Longrightarrow> n < LENGTH('b)" by (simp add: bit_unsigned_iff possible_bit_def)
  then show "bit (ucast (ucast v :: 'b word) :: 'a word) n = bit v n"
    using bit_imp_le_length [of v n] by (auto simp: bit_simps)
qed

lemma scast_ucast_id:
  assumes "- (2 ^ (LENGTH('b::len) - 1)) \<le> sint (v :: 'a::len word)" "sint v < 2 ^ (LENGTH('b) - 1)" "LENGTH('b) \<le> LENGTH('a)"
  shows "(scast (ucast v :: 'b word) :: 'a word) = v"
proof -
  have "(ucast v :: 'b word) = word_of_int (sint v)"
  proof (rule bit_word_eqI)
    fix n assume "n < LENGTH('b)"
    then show "bit (ucast v :: 'b word) n = bit (word_of_int (sint v) :: 'b word) n"
      using assms(3) by (auto simp: bit_simps bit_signed_iff)
  qed
  then have "sint (ucast v :: 'b word) = signed_take_bit (LENGTH('b) - 1) (sint v)" by (simp only: signed_of_int of_int_eq_id id_apply One_nat_def)
  also have "\<dots> = sint v" using assms by (simp add: signed_take_bit_int_eq_self)
  finally have "(word_of_int (sint (ucast v :: 'b word)) :: 'a word) = word_of_int (sint v)" by (simp only:)
  then show ?thesis by simp
qed

lemma short_unsigned:
  "v \<le> 0xff \<Longrightarrow> ucast (ucast v :: u8) = (v :: u32)" "v \<le> 0xffff \<Longrightarrow> ucast (ucast v :: u16) = (v :: u32)"
  "w \<le> 0xffffffff \<Longrightarrow> ucast (ucast w :: u32) = (w :: u64)"
  by (intro ucast_ucast_id; simp add: word_le_nat_alt)+

lemma short_signed:
  "sint v \<le> 127 \<Longrightarrow> sint v \<ge> -128 \<Longrightarrow> scast (ucast v :: u8) = (v :: u32)"
  "sint v \<le> 32767 \<Longrightarrow> sint v \<ge> -32768 \<Longrightarrow> scast (ucast v :: u16) = (v :: u32)"
  by (intro scast_ucast_id; simp)+

lemma key_uint32_at:
  assumes "item_at d (Item (Num_Key k) v)"
  shows "ndpi_deserialize_key_uint32 d old = Some (0, k)"
proof -
  obtain vt vb where p: "item_parts (Item (Num_Key k) v) = ((fst (enc_unsigned k), snd (enc_unsigned k)), (vt, vb))"
    by (metis item_parts.simps(1) enc_key.simps(1) prod.collapse)
  note rd = rd_at(1-3) [OF item_bytes(1) [OF assms p]] and at = item_bytes(3) [OF assms p]
  show ?thesis
    using rd at short_unsigned(1,2) [of k] item_key_position [OF assms p]
    by (auto simp: ndpi_deserialize_key_uint32_def enc_unsigned_def ndpi_deserialize_single_uint8_def
        ndpi_deserialize_single_uint16_def ndpi_deserialize_single_uint32_def split: if_splits)
qed

lemma string_at:
  assumes "readable d" "bytes_at d off (enc_string s)" "length s < 65536"
  shows "ndpi_deserialize_single_string d off = Some (off + 2, length s)" "rdn (ser_data d) (off + 2) (length s) = Some s"
proof -
  have b: "bytes_at d off (be_bytes16 (word_of_nat (length s)))" "bytes_at d (off + 2) s"
    using assms(2) bytes_at_append [OF assms(1), of off "be_bytes16 (word_of_nat (length s))" s] by (simp_all add: enc_string_def)
  have "unat (word_of_nat (length s) :: u16) = length s" using assms(3) by (simp add: take_bit_nat_eq_self unsigned_of_nat)
  then show "ndpi_deserialize_single_string d off = Some (off + 2, length s)"
    using rd_at(2) [OF assms(1) b(1)] by (simp add: ndpi_deserialize_single_string_def)
  show "rdn (ser_data d) (off + 2) (length s) = Some s" by (rule rd_at(5) [OF assms(1) b(2)])
qed

text \<open>The name of a key, a block or a list.\<close>

lemma key_string_at:
  assumes "item_at d it" "it = Item (Str_Key k) v \<or> it = Start_Block k \<or> it = Start_List k"
  shows "ndpi_deserialize_key_string d = Some (0, Some (used d + 3, length k))"
    "rdn (ser_data d) (used d + 3) (length k) = Some k"
proof -
  obtain kt kb vt vb where p: "item_parts it = ((kt, kb), (vt, vb))" by (metis surj_pair)
  note b = item_bytes [OF assms(1) p]
  have "bytes_at d (used d + 1) (enc_string k)"
    using assms(2) p b(3,4) by auto
  moreover have "length k < 65536" using assms by (auto simp: item_at_def enc_string_def)
  ultimately have s: "ndpi_deserialize_single_string d (used d + 1) = Some (used d + 3, length k)"
      "rdn (ser_data d) (used d + 3) (length k) = Some k"
    using string_at [OF b(1), of "used d + 1" k] unfolding add.assoc one_plus_numeral add_num_simps by blast+
  then show "ndpi_deserialize_key_string d = Some (0, Some (used d + 3, length k))"
    using item_key_position [OF assms(1) p] by (simp add: ndpi_deserialize_key_string_def)
  show "rdn (ser_data d) (used d + 3) (length k) = Some k" by (rule s(2))
qed

lemma unsigned_at:
  assumes at: "item_at d (Item k v)" and e: "enc_value v = enc_unsigned w"
  shows "ndpi_deserialize_value_uint32 d = Some (0, w)" "ndpi_deserialize_value_uint64 d old = Some (0, ucast w)"
proof -
  have p: "item_parts (Item k v) = ((fst (enc_key k), snd (enc_key k)), (fst (enc_unsigned w), snd (enc_unsigned w)))"
    using e by simp
  note rd = rd_at(1-3) [OF item_bytes(1) [OF at p]] and b = item_bytes(4) [OF at p]
  show r: "ndpi_deserialize_value_uint32 d = Some (0, w)"
    using rd b short_unsigned(1,2) [of w] item_value_position [OF at p]
    by (auto simp: ndpi_deserialize_value_uint32_def enc_unsigned_def ndpi_deserialize_single_uint8_def
        ndpi_deserialize_single_uint16_def ndpi_deserialize_single_uint32_def Let_def add.assoc split: if_splits)
  have "fst (enc_unsigned w) \<noteq> ndpi_serialization_uint64" by (simp add: enc_unsigned_def)
  then show "ndpi_deserialize_value_uint64 d old = Some (0, ucast w)"
    using r item_value_position [OF at p] by (simp add: ndpi_deserialize_value_uint64_def)
qed

lemma signed_at:
  assumes at: "item_at d (Item k v)" and e: "enc_value v = enc_signed w"
  shows "ndpi_deserialize_value_int32 d = Some (0, w)" "ndpi_deserialize_value_int64 d = Some (0, scast w)"
proof -
  have p: "item_parts (Item k v) = ((fst (enc_key k), snd (enc_key k)), (fst (enc_signed w), snd (enc_signed w)))"
    using e by simp
  note rd = rd_at(1-3) [OF item_bytes(1) [OF at p]] and b = item_bytes(4) [OF at p]
  show r: "ndpi_deserialize_value_int32 d = Some (0, w)"
    using rd b short_signed [of w] item_value_position [OF at p]
    by (auto simp: ndpi_deserialize_value_int32_def enc_signed_def ndpi_deserialize_single_int8_def
        ndpi_deserialize_single_int16_def ndpi_deserialize_single_int32_def Let_def add.assoc split: if_splits)
  have "fst (enc_signed w) \<noteq> ndpi_serialization_int64" by (simp add: enc_signed_def)
  then show "ndpi_deserialize_value_int64 d = Some (0, scast w)"
    using r item_value_position [OF at p] by (simp add: ndpi_deserialize_value_int64_def)
qed

lemma long_at:
  assumes at: "item_at d (Item k v)"
  shows "enc_value v = (ndpi_serialization_uint64, ndpi_htonll w) \<Longrightarrow> ndpi_deserialize_value_uint64 d old = Some (0, w)"
    "enc_value v = (ndpi_serialization_int64, ndpi_htonll w) \<Longrightarrow> ndpi_deserialize_value_int64 d = Some (0, w)"
    "enc_value v = (ndpi_serialization_float, rev (be_bytes32 f)) \<Longrightarrow> ndpi_deserialize_value_float d = Some (0, f)"
    "enc_value v = (ndpi_serialization_string, enc_string b) \<Longrightarrow>
      ndpi_deserialize_value_string d = Some (0, Some (used d + 1 + length (snd (enc_key k)) + 2, length b)) \<and>
      rdn (ser_data d) (used d + 1 + length (snd (enc_key k)) + 2) (length b) = Some b"
proof -
  have p: "item_parts (Item k v) = ((fst (enc_key k), snd (enc_key k)), enc_value v)" by simp
  have wide: "rd32 (ser_data d) off = Some (unat (ucast (drop_bit 32 w) :: u32)) \<and>
      rd32 (ser_data d) (off + 4) = Some (unat (ucast (w AND 0xFFFFFFFF) :: u32))"
    if "readable d" "bytes_at d off (ndpi_htonll w)" for off
    using that rd_at(3) [OF that(1)] bytes_at_append [OF that(1)] by (simp add: ndpi_htonll_def)
  let ?off = "used d + 1 + length (snd (enc_key k))"
  show "ndpi_deserialize_value_uint64 d old = Some (0, w)" if e: "enc_value v = (ndpi_serialization_uint64, ndpi_htonll w)"
    using wide [OF item_bytes(1,4) [OF at p [unfolded e]]] item_value_position [OF at p [unfolded e]] ntohll_htonll [of w]
    by (simp add: ndpi_deserialize_value_uint64_def ndpi_deserialize_single_uint64_def ac_simps)
  show "ndpi_deserialize_value_int64 d = Some (0, w)" if e: "enc_value v = (ndpi_serialization_int64, ndpi_htonll w)"
    using wide [OF item_bytes(1,4) [OF at p [unfolded e]]] item_value_position [OF at p [unfolded e]] ntohll_htonll [of w]
    by (simp add: ndpi_deserialize_value_int64_def ndpi_deserialize_single_int64_def ac_simps)
  show "ndpi_deserialize_value_float d = Some (0, f)" if e: "enc_value v = (ndpi_serialization_float, rev (be_bytes32 f))"
    using rd_at(4) [OF item_bytes(1,4) [OF at p [unfolded e]]] item_value_position [OF at p [unfolded e]]
    by (simp add: ndpi_deserialize_value_float_def ndpi_deserialize_single_float_def add.assoc)
  show "ndpi_deserialize_value_string d = Some (0, Some (?off + 2, length b)) \<and> rdn (ser_data d) (?off + 2) (length b) = Some b"
    if e: "enc_value v = (ndpi_serialization_string, enc_string b)"
  proof -
    have "length b < 65536" using at e by (simp add: item_at_def enc_string_def)
    from string_at [OF item_bytes(1,4) [OF at p [unfolded e]] this] show ?thesis
      using item_value_position [OF at p [unfolded e]] by (simp add: ndpi_deserialize_value_string_def add.assoc)
  qed
qed

section \<open>A reader\<close>

text \<open>How a client reads the current item: its type, then its key and its value with the functions for
  the type. Integers are read with the 64-bit functions, which accept the shorter encodings.\<close>

definition read_string :: "serializer \<Rightarrow> (int \<times> (nat \<times> nat) option) option \<Rightarrow> bytes option" where
  "read_string d r = (case r of Some (rc, Some (off, n)) \<Rightarrow> rdn (ser_data d) off n | _ \<Rightarrow> None)"

definition read_key :: "serializer \<Rightarrow> ndpi_serialization_type \<Rightarrow> ser_key option" where
  "read_key d kt =
     (if kt = ndpi_serialization_uint32 then map_option (\<lambda>(rc, k). Num_Key k) (ndpi_deserialize_key_uint32 d 0)
      else if kt = ndpi_serialization_string then map_option Str_Key (read_string d (ndpi_deserialize_key_string d))
      else None)"

definition read_value :: "serializer \<Rightarrow> ndpi_serialization_type \<Rightarrow> ser_value option" where
  "read_value d et =
     (case et of
        ndpi_serialization_uint32 \<Rightarrow> map_option (\<lambda>(rc, v). Uint64 v) (ndpi_deserialize_value_uint64 d 0)
      | ndpi_serialization_uint64 \<Rightarrow> map_option (\<lambda>(rc, v). Uint64 v) (ndpi_deserialize_value_uint64 d 0)
      | ndpi_serialization_int32 \<Rightarrow> map_option (\<lambda>(rc, v). Int64 v) (ndpi_deserialize_value_int64 d)
      | ndpi_serialization_int64 \<Rightarrow> map_option (\<lambda>(rc, v). Int64 v) (ndpi_deserialize_value_int64 d)
      | ndpi_serialization_float \<Rightarrow> map_option (\<lambda>(rc, v). Float v) (ndpi_deserialize_value_float d)
      | ndpi_serialization_string \<Rightarrow> map_option Bytes (read_string d (ndpi_deserialize_value_string d))
      | _ \<Rightarrow> None)"

definition read_item :: "serializer \<Rightarrow> ser_item option option" where
  "read_item d =
     do {
       (et, kt) \<leftarrow> ndpi_deserialize_get_item_type d;
       (case et of
          ndpi_serialization_unknown \<Rightarrow> Some None
        | ndpi_serialization_end_of_record \<Rightarrow> Some (Some End_Record)
        | ndpi_serialization_start_of_block \<Rightarrow>
            map_option (\<lambda>k. Some (Start_Block k)) (read_string d (ndpi_deserialize_key_string d))
        | ndpi_serialization_end_of_block \<Rightarrow> Some (Some End_Block)
        | ndpi_serialization_start_of_list \<Rightarrow>
            map_option (\<lambda>k. Some (Start_List k)) (read_string d (ndpi_deserialize_key_string d))
        | ndpi_serialization_end_of_list \<Rightarrow> Some (Some End_List)
        | _ \<Rightarrow> do { k \<leftarrow> read_key d kt; v \<leftarrow> read_value d et; Some (Some (Item k v)) })
     }"

fun read_all :: "nat \<Rightarrow> serializer \<Rightarrow> ser_item list option" where
  "read_all 0 d = None"
| "read_all (Suc fuel) d =
     do {
       r \<leftarrow> read_item d;
       (case r of
          None \<Rightarrow> Some []
        | Some it \<Rightarrow> do {
            (rc, d) \<leftarrow> ndpi_deserialize_next d;
            its \<leftarrow> read_all fuel d;
            Some (it # its)
          })
     }"

text \<open>What the reader returns for an item: the same item, with integers in 64 bits. The \<open>int64_t\<close> values
  that \<open>ndpi_serialize_*_int64\<close> does not encode exactly are left out.\<close>

fun meaning :: "ser_item \<Rightarrow> ser_item" where
  "meaning (Item k (Uint32 v)) = Item k (Uint64 (ucast v))"
| "meaning (Item k (Int32 v)) = Item k (Int64 (scast v))"
| "meaning it = it"

fun exact_item :: "ser_item \<Rightarrow> bool" where
  "exact_item (Item k (Int64 v)) = (v < 0x80000000 \<or> v > 0xFFFFFFFF)"
| "exact_item it = True"

lemma fits_32: "v AND 0xFFFFFFFF = v \<longleftrightarrow> v \<le> (0xFFFFFFFF :: u64)"
proof -
  have "take_bit 32 v = v \<longleftrightarrow> unat v < 2 ^ 32"
  proof -
    have "unat (take_bit 32 v) = take_bit 32 (unat v)" by (simp add: unsigned_take_bit_eq)
    then show ?thesis by (metis take_bit_nat_eq_self_iff word_unat_eq_iff)
  qed
  moreover have "unat v < 2 ^ 32 \<longleftrightarrow> unat v \<le> unat (0xFFFFFFFF :: u64)" by simp linarith
  ultimately show ?thesis unfolding and_low32 word_le_nat_alt by blast
qed

lemma small_int64: "v < 0x80000000 \<Longrightarrow> scast (ucast v :: u32) = (v :: u64)"
proof (rule scast_ucast_id)
  assume "v < 0x80000000"
  then have "unat v < 2 ^ 31" by (simp add: word_less_nat_alt)
  then have "int (unat v) < int (2 ^ 31)" by (simp only: of_nat_less_iff)
  then have lt: "uint v < 2 ^ 31" by (simp only: of_nat_unat of_nat_power of_nat_numeral)
  have ge: "- (2 ^ k) \<le> uint v" for k :: nat by (rule order_trans [of _ 0]) simp_all
  have "signed_take_bit 63 (uint v) = uint v" using lt ge [of 63] by (intro signed_take_bit_int_eq_self) simp_all
  then have "sint v = uint v" by (simp add: sint_uint)
  then show "- (2 ^ (LENGTH(32) - 1)) \<le> sint v" "sint v < 2 ^ (LENGTH(32) - 1)"
    using lt ge [of 31] by simp_all
qed simp


lemma item_type_at:
  assumes "item_at d it" "item_parts it = ((kt, kb), (vt, vb))"
  shows "ndpi_deserialize_get_item_type d = Some (widen_value vt, widen_key kt)"
  by (simp add: ndpi_deserialize_get_item_type_def item_subtypes [OF assms])

lemma read_key_at:
  assumes "item_at d (Item k v)"
  shows "read_key d (widen_key (fst (enc_key k))) = Some k"
proof (cases k)
  case (Num_Key n)
  have "widen_key (fst (enc_unsigned n)) = ndpi_serialization_uint32" by (simp add: enc_unsigned_def)
  then show ?thesis using assms key_uint32_at [of d n v] by (simp add: read_key_def Num_Key)
next
  case (Str_Key s)
  then show ?thesis using assms key_string_at [of d "Item k v" s v] by (simp add: read_key_def read_string_def)
qed

lemma read_value_at:
  assumes at: "item_at d (Item k v)" and "exact_item (Item k v)"
  shows "read_value d (widen_value (fst (enc_value v))) = Some (case meaning (Item k v) of Item _ w \<Rightarrow> w)"
proof -
  have u: "widen_value (fst (enc_unsigned w)) = ndpi_serialization_uint32"
    and s: "widen_value (fst (enc_signed w)) = ndpi_serialization_int32" for w
    by (simp_all add: enc_unsigned_def enc_signed_def)
  show ?thesis
  proof (cases v)
    case (Uint32 w)
    then show ?thesis using unsigned_at [OF at, of w] u by (simp add: read_value_def)
  next
    case (Uint64 w)
    show ?thesis
    proof (cases "w \<le> 0xffffffff")
      case True
      then show ?thesis using unsigned_at [OF at, of "ucast w"] u short_unsigned(3) [of w] Uint64 by (simp add: read_value_def)
    next
      case False
      then show ?thesis using long_at(1) [OF at, of w] Uint64 by (simp add: read_value_def)
    qed
  next
    case (Int32 w)
    then show ?thesis using signed_at [OF at, of w] s by (simp add: read_value_def)
  next
    case (Int64 w)
    show ?thesis
    proof (cases "w \<le> 0xffffffff")
      case True
      then have "w < 0x80000000" using assms(2) Int64 by auto
      then show ?thesis using signed_at [OF at, of "ucast w"] s small_int64 [of w] Int64 True fits_32 [of w]
        by (simp add: read_value_def)
    next
      case False
      then show ?thesis using long_at(2) [OF at, of w] Int64 fits_32 [of w] by (simp add: read_value_def)
    qed
  next
    case (Float w)
    then show ?thesis using long_at(3) [OF at, of w] by (simp add: read_value_def)
  next
    case (Bytes b)
    then show ?thesis using long_at(4) [OF at, of b] by (simp add: read_value_def read_string_def)
  qed
qed

lemma value_is_no_marker:
  "widen_value (fst (enc_value v)) \<in> {ndpi_serialization_uint32, ndpi_serialization_uint64, ndpi_serialization_int32,
     ndpi_serialization_int64, ndpi_serialization_float, ndpi_serialization_string}"
  by (cases v) (auto simp: enc_unsigned_def enc_signed_def)

lemma meaning_Item: "\<exists>w. meaning (Item k v) = Item k w"
  by (cases v) auto

lemma read_item_at:
  assumes at: "item_at d it" and ex: "exact_item it"
  shows "read_item d = Some (Some (meaning it))"
proof (cases it)
  case (Item k v)
  have t: "ndpi_deserialize_get_item_type d = Some (widen_value (fst (enc_value v)), widen_key (fst (enc_key k)))"
    using item_type_at [OF at, of "fst (enc_key k)" "snd (enc_key k)" "fst (enc_value v)" "snd (enc_value v)"] Item by simp
  obtain w where w: "meaning it = Item k w" using meaning_Item [of k v] Item by auto
  have "read_key d (widen_key (fst (enc_key k))) = Some k" "read_value d (widen_value (fst (enc_value v))) = Some w"
    using read_key_at [of d k v] read_value_at [of d k v] at ex Item w by simp_all
  then show ?thesis using t w value_is_no_marker [of v] by (auto simp: read_item_def)
qed (use item_type_at [OF at] key_string_at [OF at] in \<open>simp_all add: read_item_def read_string_def\<close>)

section \<open>Sequences of items\<close>

lemma end_of_list_total:
  assumes "ser_ok s" "is_tlv s"
  shows "\<exists>rc s'. ndpi_serialize_end_of_list s = Some (rc, s') \<and> ser_ok s' \<and> is_tlv s' \<and>
      (rc = 0 \<longrightarrow> content s' = content s @ [15])"
proof (cases "used s = sb_size (ss_buffer s)")
  case True
  then show ?thesis
    using assms by (simp add: ndpi_serialize_end_of_list_def not_refused onlyif_def not_json_nor_tlv_def ifelse_def fail_def)
next
  case False
  then have "used s < sb_size (ss_buffer s)" using assms(1) by (simp add: ser_ok_def)
  then show ?thesis
    using end_of_list_appends [OF assms] is_tlv_settings assms(2) by (auto simp: adds_def)
qed

definition encode_all :: "ser_item list \<Rightarrow> bytes" where
  "encode_all its = concat (map encode its)"

lemma encode_all_simps [simp]: "encode_all [] = []" "encode_all (it # its) = encode it @ encode_all its"
  by (simp_all add: encode_all_def)

lemma at_set_used [simp]: "bytes_at (set_used n d) off bs = bytes_at d off bs" "readable (set_used n d) = readable d"
  by (simp_all add: bytes_at_def readable_def)

lemma read_all_items:
  assumes "readable d" "bytes_at d (used d) (encode_all its)" "used d + length (encode_all its) = sb_size (ss_buffer d)"
    and "\<forall>it \<in> set its. exact_item it \<and> length (encode it) < 65536" "length its < fuel"
  shows "read_all fuel d = Some (map meaning its)"
  using assms
proof (induction its arbitrary: d fuel)
  case Nil
  then obtain n where "fuel = Suc n" by (cases fuel) auto
  moreover have "ndpi_deserialize_get_item_type d = Some (ndpi_serialization_unknown, ndpi_serialization_unknown)"
    using Nil by (simp add: ndpi_deserialize_get_item_type_def ndpi_deserialize_get_key_subtype_def
        ndpi_deserialize_get_value_subtype_def)
  ultimately show ?case by (simp add: read_item_def)
next
  case (Cons it its)
  then obtain n where n: "fuel = Suc n" "length its < n" by (cases fuel) auto
  have b: "bytes_at d (used d) (encode it)" "bytes_at d (used d + length (encode it)) (encode_all its)"
    using Cons.prems(1,2) by (simp_all add: bytes_at_append)
  then have at: "item_at d it" using Cons.prems(1,4) by (simp add: item_at_def)
  have "read_all n (set_used (used d + length (encode it)) d) = Some (map meaning its)"
    using Cons.prems b(2) n(2) by (intro Cons.IH) simp_all
  then show ?case using n(1) read_item_at [OF at] item_next [OF at] Cons.prems(4) by simp
qed

lemma write_items:
  assumes "ser_ok s" "is_tlv s" "\<forall>it \<in> set its. wf_item it" "used s + length (encode_all its) + 2000 < 2 ^ 32"
  shows "\<exists>rc s'. chain (map (write_item A pf) its) s = Some (rc, s') \<and> ser_ok s' \<and> is_tlv s' \<and>
      (rc = 0 \<longrightarrow> content s' = content s @ encode_all its) \<and> ((\<forall>n. A n) \<and> End_List \<notin> set its \<longrightarrow> rc = 0)"
  using assms
proof (induction its arbitrary: s)
  case (Cons it its)
  have u: "used s + length (encode it) + 2000 < 2 ^ 32" using Cons.prems(4) by simp
  have "\<exists>rc s'. write_item A pf it s = Some (rc, s') \<and> ser_ok s' \<and> is_tlv s' \<and>
      (rc = 0 \<longrightarrow> content s' = content s @ encode it) \<and> ((\<forall>n. A n) \<and> it \<noteq> End_List \<longrightarrow> rc = 0)"
  proof (cases "it = End_List")
    case False
    then obtain rc s' where "write_item A pf it s = Some (rc, s')" "ser_ok s'" "settings s' = settings s"
        "content s' = (if rc = 0 then content s @ encode it else content s)" "(\<forall>n. A n) \<longrightarrow> rc = 0"
      using write_item_appends [of s it A pf] Cons.prems u by (auto simp: appends_def)
    then show ?thesis using is_tlv_settings [of s' s] Cons.prems(2) by auto
  next
    case True
    then show ?thesis using end_of_list_total [of s] Cons.prems(1,2) by simp
  qed
  then obtain rc s' where w: "write_item A pf it s = Some (rc, s')" "ser_ok s'" "is_tlv s'"
      "rc = 0 \<longrightarrow> content s' = content s @ encode it" "(\<forall>n. A n) \<and> it \<noteq> End_List \<longrightarrow> rc = 0" by blast
  show ?case
  proof (cases "rc = 0")
    case True
    have "used s' = used s + length (encode it)"
      using w True length_content [OF w(2)] length_content [OF Cons.prems(1)] by simp
    then show ?thesis using Cons.IH [OF w(2,3)] Cons.prems w True by auto
  qed (use w in auto)
qed simp

end
