(* ===== verification/Serializer_Theorems.thy ===== *)
theory Serializer_Theorems
  imports Serializer_Roundtrip
begin

text \<open>
  What the serializer and the deserializer promise together, from the initialization of a TLV
  serializer to the last item read from its buffer, and the inputs for which the promise is broken.
\<close>

section \<open>From the first call to the last\<close>

lemma init_tlv:
  assumes "3 \<le> n" "n < 2 ^ 32" "A n"
  shows "\<exists>s. ndpi_init_serializer_ll A ndpi_serialization_format_tlv n = Some (0, s) \<and> ser_ok s \<and> is_tlv s \<and>
      content s = [1, 1] \<and> used s = 2"
proof -
  obtain m where "n = Suc (Suc (Suc m))" using assms(1) by (metis le_Suc_ex add_Suc add_0 numeral_3_eq_3)
  then show ?thesis
    using assms by (simp add: ndpi_init_serializer_ll_def ndpi_init_serializer_buffer_def ifelse_def put_at_def buf_write_def
        ndpi_reset_serializer_def zero_serializer_def ser_ok_def content_def ser_data_def set_used_def used_def empty_status_def)
qed

lemma init_deserializer_at:
  assumes "ser_ok s" "content s = 1 # 1 # bs"
  shows "\<exists>d. ndpi_init_deserializer d0 s = Some (0, d) \<and> readable d \<and> bytes_at d (used d) bs \<and> used d = 2 \<and>
      used d + length bs = sb_size (ss_buffer d)"
proof -
  obtain b where b: "sb_data (ss_buffer s) = Some b" "used s \<le> length b" "length b = sb_size (ss_buffer s)"
    using assms(1) by (auto simp: ser_ok_def)
  have u: "used s = 2 + length bs" using length_content [OF assms(1)] assms(2) by simp
  have t: "take (used s) b = 1 # 1 # bs" using assms(2) b by (simp add: content_def ser_data_def)
  obtain r where r: "b = 1 # 1 # bs @ r" using t by (metis append_Cons append_take_drop_id)
  have "used s < 2 ^ 32" using assms(1) by (simp add: ser_ok_def)
  then show ?thesis
    using b u r by (simp add: ndpi_init_deserializer_def ndpi_init_deserializer_buf_def rd8_def format_of_def
        ndpi_reset_serializer_def readable_def bytes_at_def ser_data_def set_used_def used_def)
qed

section \<open>Copying item by item\<close>

lemma appends_all:
  "appends A bs s r \<Longrightarrow> \<forall>n. A n \<Longrightarrow>
     \<exists>s'. r = Some (0, s') \<and> ser_ok s' \<and> settings s' = settings s \<and> content s' = content s @ bs"
  by (auto simp: appends_def)

text \<open>Values with the same encoding are the same to the deserializer; every value has one in which
  the library does not look for a shorter form.\<close>

fun canonical :: "ser_value \<Rightarrow> bool" where
  "canonical (Uint64 v) = (v > 0xFFFFFFFF)"
| "canonical (Int64 v) = (v > 0xFFFFFFFF)"
| "canonical v = True"

lemma canonical_exists: "\<exists>w. canonical w \<and> enc_value w = enc_value v \<and> (wf_value v \<longrightarrow> wf_value w)"
proof (cases v)
  case (Uint64 x)
  then show ?thesis by (cases "x \<le> 0xffffffff") (auto intro: exI [of _ "Uint32 (ucast x)"] exI [of _ v])
next
  case (Int64 x)
  then show ?thesis
    using fits_32 [of x] by (cases "x \<le> 0xffffffff") (auto intro: exI [of _ "Int32 (ucast x)"] exI [of _ v])
qed (auto intro: exI [of _ v])

text \<open>The key as the loop of the copy holds it.\<close>

definition clone_key_of :: "serializer \<Rightarrow> ser_key \<Rightarrow> clone_key" where
  "clone_key_of d k = (case k of Num_Key n \<Rightarrow> Inr n | Str_Key s \<Rightarrow> Inl (Some (used d + 3, length s)))"

lemma drop_split: "rdn b off n = Some k \<Longrightarrow> drop off b = k @ drop (off + n) b \<and> length k = n"
  by (auto simp: rdn_def min_def split: if_splits) (metis append_take_drop_id drop_drop add.commute)

lemma widened:
  "widen_value (fst (enc_unsigned w)) = ndpi_serialization_uint32" "widen_value (fst (enc_signed w)) = ndpi_serialization_int32"
  by (simp_all add: enc_unsigned_def enc_signed_def)

lemma canonical_big:
  "canonical (Uint64 w) \<Longrightarrow> \<not> w \<le> 0xffffffff" "canonical (Int64 w) \<Longrightarrow> \<not> w AND 0xFFFFFFFF = w"
  using fits_32 [of w] by auto

lemma clone_num_value:
  assumes at: "item_at d (Item (Num_Key n) v)" and v: "canonical v" and A: "\<forall>n. A n"
    and s: "ser_ok s" "is_tlv s" and u: "used s + length (encode (Item (Num_Key n) v)) + 2000 < 2 ^ 32"
  shows "\<exists>u64' s'. clone_value A pf (widen_value (fst (enc_value v))) (Inr n) u64 d s = Some (True, u64', s') \<and>
      ser_ok s' \<and> settings s' = settings s \<and> content s' = content s @ encode (Item (Num_Key n) v)"
proof -
  have u': "used s + 2000 < 2 ^ 32" using u by linarith
  show ?thesis
  proof (cases v)
    case (Uint32 w)
    then show ?thesis
      using appends_all [OF uint32_uint32_appends [OF s u', of A n w] A]
        unsigned_at(1) [OF at, of w] widened(1) [of w]
      by (clarsimp simp: clone_value_def ignore_rc_def clone_key_of_def)
  next
    case (Uint64 w)
    then show ?thesis
      using appends_all [OF uint32_uint64_appends [OF s u', of A n w] A]
        long_at(1) [OF at, of w] canonical_big(1) [of w] v
      by (clarsimp simp: clone_value_def ignore_rc_def clone_key_of_def)
  next
    case (Int32 w)
    then show ?thesis
      using appends_all [OF uint32_int32_appends [OF s u', of A n w] A]
        signed_at(1) [OF at, of w] widened(2) [of w]
      by (clarsimp simp: clone_value_def ignore_rc_def clone_key_of_def)
  next
    case (Int64 w)
    then show ?thesis
      using appends_all [OF uint32_int64_appends [OF s u', of A n w] A]
        long_at(2) [OF at, of w] canonical_big(2) [of w] v
      by (clarsimp simp: clone_value_def ignore_rc_def clone_key_of_def)
  next
    case (Float w)
    then show ?thesis
      using appends_all [OF uint32_float_appends [OF s u', of A n w "pf w"] A]
        long_at(3) [OF at, of w] 
      by (clarsimp simp: clone_value_def ignore_rc_def clone_key_of_def)
  next
    case (Bytes b)
    obtain off where o: "ndpi_deserialize_value_string d = Some (0, Some (off, length b))" "rdn (ser_data d) off (length b) = Some b"
      using long_at(4) [OF at, of b] Bytes by auto
    have "used s + length b + 2000 < 2 ^ 32" using u by (simp add: Bytes enc_string_def)
    then have "appends A (encode (Item (Num_Key n) (Bytes b))) s
        (ndpi_serialize_uint32_binary A n (drop off (ser_data d)) (length b) s)"
      using uint32_binary_appends [OF s, of "length b" "drop off (ser_data d)" A n] drop_split [OF o(2)] by auto
    from appends_all [OF this A] show ?thesis
      using o Bytes by (clarsimp simp: clone_value_def ignore_rc_def string_object_def string_len_def)
  qed
qed

lemma clone_str_value:
  assumes at: "item_at d (Item (Str_Key k) v)" and v: "canonical v" and wf: "wf_key (Str_Key k)" and A: "\<forall>n. A n"
    and s: "ser_ok s" "is_tlv s" and u: "used s + length (encode (Item (Str_Key k) v)) + 2000 < 2 ^ 32"
  shows "\<exists>u64' s'. clone_value A pf (widen_value (fst (enc_value v))) (Inl (Some (used d + 3, length k))) u64 d s =
      Some (True, u64', s') \<and> ser_ok s' \<and> settings s' = settings s \<and> content s' = content s @ encode (Item (Str_Key k) v)"
proof -
  have u': "used s + length k + 2000 < 2 ^ 32" using u by (simp add: enc_string_def)
  define r where "r = drop (used d + 3 + length k) (ser_data d)"
  have "rdn (ser_data d) (used d + 3) (length k) = Some k" by (rule key_string_at(2) [OF at]) blast
  from drop_split [OF this] have r: "string_object d (Some (used d + 3, length k)) = k @ r"
    by (simp only: string_object_def option.case prod.case r_def)
  note obj = string_len_def r
  show ?thesis
  proof (cases v)
    case (Uint32 w)
    then show ?thesis
      using appends_all [OF binary_uint32_appends [OF s u' wf, of A w r] A]
        unsigned_at(1) [OF at, of w] widened(1) [of w]
      by (clarsimp simp: clone_value_def ignore_rc_def clone_key_of_def obj)
  next
    case (Uint64 w)
    then show ?thesis
      using appends_all [OF binary_uint64_appends [OF s u' wf, of w r r A] A]
        long_at(1) [OF at, of w] canonical_big(1) [of w] v
      by (clarsimp simp: clone_value_def ignore_rc_def clone_key_of_def obj)
  next
    case (Int32 w)
    then show ?thesis
      using appends_all [OF binary_int32_appends [OF s u' wf, of A w r] A]
        signed_at(1) [OF at, of w] widened(2) [of w]
      by (clarsimp simp: clone_value_def ignore_rc_def clone_key_of_def obj)
  next
    case (Int64 w)
    then show ?thesis
      using appends_all [OF binary_int64_appends [OF s u' wf, of w r r A] A]
        long_at(2) [OF at, of w] canonical_big(2) [of w] v
      by (clarsimp simp: clone_value_def ignore_rc_def clone_key_of_def obj)
  next
    case (Float w)
    then show ?thesis
      using appends_all [OF binary_float_appends [OF s u' wf, of A w r "pf w"] A]
        long_at(3) [OF at, of w] 
      by (clarsimp simp: clone_value_def ignore_rc_def clone_key_of_def obj)
  next
    case (Bytes b)
    obtain off where o: "ndpi_deserialize_value_string d = Some (0, Some (off, length b))" "rdn (ser_data d) off (length b) = Some b"
      using long_at(4) [OF at, of b] Bytes by auto
    have "used s + length k + length b + 2000 < 2 ^ 32" using u by (simp add: Bytes enc_string_def)
    then have "appends A (encode (Item (Str_Key k) (Bytes b))) s
        (ndpi_serialize_binary_binary A (k @ r) (length k) (Some (drop off (ser_data d))) (length b) s)"
      using binary_binary_appends [OF s, of k "length b" "drop off (ser_data d)" A r] wf drop_split [OF o(2)] by auto
    from appends_all [OF this A] show ?thesis
      using o Bytes r by (clarsimp simp: clone_value_def ignore_rc_def string_object_def string_len_def)
  qed
qed

lemma clone_pair_step:
  assumes at: "item_at d (Item k v)" and wf: "wf_key k" "wf_value v" and A: "\<forall>n. A n"
    and s: "ser_ok s" "is_tlv s" and u: "used s + length (encode (Item k v)) + 2000 < 2 ^ 32"
  shows "\<exists>k32' u64' s'. clone_loop (Suc fuel) A pf k32 u64 d s =
      clone_loop fuel A pf k32' u64' (set_used (used d + length (encode (Item k v))) d) s' \<and>
      ser_ok s' \<and> settings s' = settings s \<and> content s' = content s @ encode (Item k v)"
proof -
  obtain w where w: "canonical w" "enc_value w = enc_value v" using canonical_exists by blast
  have e: "encode (Item k w) = encode (Item k v)" using w(2) by simp
  have at': "item_at d (Item k w)" using at e by (simp only: item_at_def)
  have t: "ndpi_deserialize_get_item_type d = Some (widen_value (fst (enc_value w)), widen_key (fst (enc_key k)))"
    using item_type_at [OF at', of "fst (enc_key k)" "snd (enc_key k)" "fst (enc_value w)" "snd (enc_value w)"] by simp
  have no_mark: "clone_marker A (widen_value (fst (enc_value w))) d = None"
      "widen_value (fst (enc_value w)) \<noteq> ndpi_serialization_unknown"
    using value_is_no_marker [of w] by (auto simp: clone_marker_def)
  note next_item = item_next [OF at', unfolded e]
  show ?thesis
  proof (cases k)
    case (Num_Key n)
    have "used s + length (encode (Item (Num_Key n) w)) + 2000 < 2 ^ 32" using u e Num_Key by simp
    from clone_num_value [OF _ w(1) A s this] obtain u64' s' where
      c: "clone_value A pf (widen_value (fst (enc_value w))) (Inr n) u64 d s = Some (True, u64', s')"
        "ser_ok s'" "settings s' = settings s" "content s' = content s @ encode (Item (Num_Key n) w)"
      using at' Num_Key by blast
    have "ndpi_deserialize_key_uint32 d k32 = Some (0, n)" using key_uint32_at [of d n w] at' Num_Key by simp
    moreover have "widen_key (fst (enc_key k)) = ndpi_serialization_uint32" by (simp add: Num_Key enc_unsigned_def)
    ultimately have "clone_loop (Suc fuel) A pf k32 u64 d s =
        clone_loop fuel A pf n u64' (set_used (used d + length (encode (Item k v))) d) s'"
      using t no_mark c(1) next_item by simp
    then show ?thesis using c e Num_Key by metis
  next
    case (Str_Key kk)
    have "used s + length (encode (Item (Str_Key kk) w)) + 2000 < 2 ^ 32" using u e Str_Key by simp
    from clone_str_value [OF _ w(1) _ A s this] obtain u64' s' where
      c: "clone_value A pf (widen_value (fst (enc_value w))) (Inl (Some (used d + 3, length kk))) u64 d s = Some (True, u64', s')"
        "ser_ok s'" "settings s' = settings s" "content s' = content s @ encode (Item (Str_Key kk) w)"
      using at' wf(1) Str_Key by blast
    have "ndpi_deserialize_key_string d = Some (0, Some (used d + 3, length kk))"
      using key_string_at(1) [OF at', of kk w] Str_Key by simp
    then have "clone_loop (Suc fuel) A pf k32 u64 d s =
        clone_loop fuel A pf k32 u64' (set_used (used d + length (encode (Item k v))) d) s'"
      using t no_mark c(1) next_item Str_Key by simp
    then show ?thesis using c e Str_Key by metis
  qed
qed

lemma clone_marker_step:
  assumes at: "item_at d it" and it: "it = End_Record \<or> it = Start_Block k \<or> it = End_Block \<or> it = Start_List k"
    and A: "\<forall>n. A n" and s: "ser_ok s" "is_tlv s" and u: "used s + length (encode it) + 2000 < 2 ^ 32"
  shows "\<exists>s'. clone_loop (Suc fuel) A pf k32 u64 d s =
      clone_loop fuel A pf k32 u64 (set_used (used d + length (encode it)) d) s' \<and>
      ser_ok s' \<and> settings s' = settings s \<and> content s' = content s @ encode it"
proof -
  obtain kt kb vt vb where p: "item_parts it = ((kt, kb), (vt, vb))" by (metis surj_pair)
  have u': "used s + 2000 < 2 ^ 32" using u by linarith
  have name: "it = Start_Block k \<or> it = Start_List k \<Longrightarrow>
      ndpi_deserialize_key_string d = Some (0, Some (used d + 3, length k)) \<and> used s + length k + 2000 < 2 ^ 32 \<and>
      length k \<le> length (drop (used d + 3) (ser_data d)) \<and> take (length k) (drop (used d + 3) (ser_data d)) = k"
    using key_string_at [OF at, of k undefined] drop_split [of "ser_data d" "used d + 3" "length k" k] u
    by (auto simp: enc_string_def)
  obtain mark where "clone_marker A vt d = Some mark" "vt \<noteq> ndpi_serialization_unknown" "widen_value vt = vt"
      "\<exists>s'. mark s = Some s' \<and> ser_ok s' \<and> settings s' = settings s \<and> content s' = content s @ encode it"
    using it p appends_all [OF end_of_record_appends [OF s u', of A] A] appends_all [OF end_of_block_appends [OF s u', of A] A]
      name appends_all [OF start_of_block_appends [OF s, of "length k" "drop (used d + 3) (ser_data d)" A] A]
      appends_all [OF start_of_list_appends [OF s, of "length k" "drop (used d + 3) (ser_data d)" A] A]
    by (elim disjE) (auto simp: clone_marker_def ignore_rc_def string_object_def string_len_def)
  then show ?thesis using item_type_at [OF at p] item_next [OF at] by auto
qed

lemma clone_items:
  assumes "readable d" "bytes_at d (used d) (encode_all its)" "used d + length (encode_all its) = sb_size (ss_buffer d)"
    and "\<forall>it \<in> set its. wf_item it \<and> length (encode it) < 65536" "End_List \<notin> set its" "length its < fuel" "\<forall>n. A n"
    and "ser_ok s" "is_tlv s" "used s + length (encode_all its) + 2000 < 2 ^ 32"
  shows "\<exists>d' s'. clone_loop fuel A pf k32 u64 d s = Some (Inr (0, d', s')) \<and> ser_ok s' \<and> content s' = content s @ encode_all its"
  using assms
proof (induction its arbitrary: d s fuel k32 u64)
  case Nil
  then obtain n where "fuel = Suc n" by (cases fuel) auto
  moreover have "ndpi_deserialize_get_item_type d = Some (ndpi_serialization_unknown, ndpi_serialization_unknown)"
    using Nil by (simp add: ndpi_deserialize_get_item_type_def ndpi_deserialize_get_key_subtype_def
        ndpi_deserialize_get_value_subtype_def)
  ultimately show ?case using Nil by simp
next
  case (Cons it its)
  then obtain n where n: "fuel = Suc n" "length its < n" by (cases fuel) auto
  have b: "bytes_at d (used d) (encode it)" "bytes_at d (used d + length (encode it)) (encode_all its)"
    using Cons.prems(1,2) by (simp_all add: bytes_at_append)
  then have at: "item_at d it" using Cons.prems(1,4) by (simp add: item_at_def)
  have u: "used s + length (encode it) + 2000 < 2 ^ 32" using Cons.prems(10) by simp
  have "\<exists>k32' u64' s'. clone_loop fuel A pf k32 u64 d s =
      clone_loop n A pf k32' u64' (set_used (used d + length (encode it)) d) s' \<and>
      ser_ok s' \<and> settings s' = settings s \<and> content s' = content s @ encode it"
  proof (cases it)
    case (Item k v)
    then show ?thesis
      using clone_pair_step [of d k v A s n pf k32 u64] at u Cons.prems n(1) by auto
  qed (use clone_marker_step [OF at _ Cons.prems(7,8,9) u, of _ n pf k32 u64] n(1) Cons.prems(5) in fastforce)+
  then obtain k32' u64' s' where c: "clone_loop fuel A pf k32 u64 d s =
      clone_loop n A pf k32' u64' (set_used (used d + length (encode it)) d) s'"
      "ser_ok s'" "settings s' = settings s" "content s' = content s @ encode it" by blast
  have "used s' = used s + length (encode it)"
    using c length_content [OF c(2)] length_content [OF Cons.prems(8)] by simp
  then have "\<exists>d'' s''. clone_loop n A pf k32' u64' (set_used (used d + length (encode it)) d) s' = Some (Inr (0, d'', s'')) \<and>
      ser_ok s'' \<and> content s'' = content s' @ encode_all its"
    using Cons.prems b(2) n(2) c is_tlv_settings [OF c(3)] by (intro Cons.IH) simp_all
  then show ?case using c by auto
qed

section \<open>The contract of the TLV format\<close>




section \<open>Where the contract is broken\<close>

lemma sign_lost:
  assumes "0x80000000 \<le> (v :: u64)" "v \<le> 0xFFFFFFFF"
  shows "(scast (ucast v :: u32) :: u64) = v - 0x100000000"
proof -
  have v: "2 ^ 31 \<le> uint v" "uint v < 2 ^ 32" using assms by (simp_all add: word_le_def)
  have "sint (ucast v :: u32) = signed_take_bit 31 (uint v)"
    by (simp add: sint_uint unsigned_ucast_eq signed_take_bit_take_bit)
  also have "\<dots> = take_bit 32 (uint v + 2 ^ 31) - 2 ^ 31" by (simp add: signed_take_bit_eq_take_bit_shift)
  also have "take_bit 32 (uint v + 2 ^ 31) = uint v + 2 ^ 31 - 2 ^ 32"
  proof -
    define x where "x = uint v + 2 ^ 31 - 2 ^ 32"
    have "0 \<le> x" "x < 2 ^ 32" using v by (simp_all add: x_def)
    then have "(x + 2 ^ 32) mod 2 ^ 32 = x" by (simp only: mod_add_self2 mod_pos_pos_trivial)
    then show ?thesis by (simp add: x_def take_bit_eq_mod add.commute)
  qed
  finally have s: "sint (ucast v :: u32) = uint v - 2 ^ 32" by simp
  have "(word_of_int (sint (ucast v :: u32)) :: u64) = word_of_int (uint v - 2 ^ 32)" using s by (simp only:)
  then show ?thesis by simp
qed

text \<open>C32. An \<open>int64_t\<close> between \<open>2^31\<close> and \<open>2^32 - 1\<close> does not survive: \<open>ndpi_serialize_uint32_int64\<close>
  takes it for a 32-bit value and writes it as an \<open>int32_t\<close>, so the deserializer reads it back lower by
  \<open>2^32\<close>.\<close>

theorem int64_loses_its_sign:
  assumes "0x80000000 \<le> v" "v \<le> 0xFFFFFFFF" "ser_ok s" "is_tlv s" "content s = [1, 1]" "\<forall>n. A n"
  shows "\<exists>s' d. ndpi_serialize_uint32_int64 A key v s = Some (0, s') \<and> ndpi_init_deserializer d0 s' = Some (0, d) \<and>
      ndpi_deserialize_value_int64 d = Some (0, v - 0x100000000)"
proof -
  have "used s = 2" using length_content [OF assms(3)] assms(5) by simp
  then obtain s' where s': "ndpi_serialize_uint32_int64 A key v s = Some (0, s')" "ser_ok s'"
      "content s' = 1 # 1 # encode (Item (Num_Key key) (Int64 v))"
    using appends_all [OF uint32_int64_appends [OF assms(3,4), of A key v] assms(6)] assms(5) by auto
  obtain d where d: "ndpi_init_deserializer d0 s' = Some (0, d)" "readable d"
      "bytes_at d (used d) (encode (Item (Num_Key key) (Int64 v)))"
    using init_deserializer_at [OF s'(2,3), of d0] by blast
  have e: "enc_value (Int64 v) = enc_signed (ucast v)" using fits_32 [of v] assms(2) by simp
  have "length (encode (Item (Num_Key key) (Int64 v))) < 65536"
    unfolding encode.simps e by (simp add: enc_unsigned_def enc_signed_def)
  then have "item_at d (Item (Num_Key key) (Int64 v))" using d by (simp only: item_at_def)
  from signed_at(2) [OF this e] have "ndpi_deserialize_value_int64 d = Some (0, scast (ucast v :: u32))" .
  moreover have "(scast (ucast v :: u32) :: u64) = v - 0x100000000" by (rule sign_lost [OF assms(1,2)])
  ultimately show ?thesis using s' d by auto
qed

text \<open>C33. A truncated buffer is not recognized: the size of a string that does not fit is -2, but
  \<open>ndpi_deserialize_get_single_size\<close> passes it through an unsigned 16-bit variable, so the key is taken to be 65534 bytes long and the
  functions read past the buffer.\<close>

theorem truncated_string_read_past_end:
  assumes "readable d" "length (ser_data d) = sb_size (ss_buffer d)" "used d + 2 = sb_size (ss_buffer d)"
    and "ndpi_deserialize_get_key_subtype d = Some ndpi_serialization_string"
  shows "ndpi_deserialize_get_single_size d ndpi_serialization_string (used d + 1) = Some 65534 \<and>
    ndpi_deserialize_key_string d = None"
proof -
  have "diff32 (sb_size (ss_buffer d)) (used d + 1) = 1" "diff32 (sb_size (ss_buffer d)) (used d) = 2"
    using assms(1,3) diff32_le [of "used d + 1" "sb_size (ss_buffer d)"] diff32_le [of "used d" "sb_size (ss_buffer d)"]
    by (simp_all add: readable_def)
  then have "ndpi_deserialize_get_single_size d ndpi_serialization_string (used d + 1) = Some 65534" "buff_diff d = 2"
    by (simp_all add: ndpi_deserialize_get_single_size_def ndpi_deserialize_get_single_string_size_def buff_diff_def)
  moreover have "rd16 (ser_data d) (used d + 1) = None" using assms(2,3) by simp
  ultimately show ?thesis
    using assms(4) by (simp add: ndpi_deserialize_key_string_def key_position_def ndpi_deserialize_single_string_def)
qed

section \<open>Witnesses\<close>

definition always :: "nat \<Rightarrow> bool" where
  "always n = True"

definition sample_items :: "ser_item list" where
  "sample_items = [Item (Num_Key 7) (Uint32 300), Item (Str_Key (str ''ab'')) (Bytes [1, 2]), Item (Num_Key 70000) (Int64 5), End_Record]"

lemma sample_ok:
  "\<forall>it \<in> set sample_items. wf_item it \<and> exact_item it \<and> length (encode it) < 65536"
  "length (encode_all sample_items) = 20" "End_List \<notin> set sample_items"
  by (simp_all add: sample_items_def enc_unsigned_def enc_signed_def enc_string_def str_def byte_of_def ndpi_isdigit_def)

lemma sample_serializer:
  "\<exists>s. ndpi_init_serializer always ndpi_serialization_format_tlv = Some (0, s) \<and> ser_ok s \<and> is_tlv s \<and> content s = [1, 1] \<and> used s = 2"
  unfolding ndpi_init_serializer_def NDPI_SERIALIZER_DEFAULT_BUFFER_SIZE_def
  by (rule init_tlv) (simp_all add: always_def)




theorem int64_loses_its_sign_witness:
  "\<exists>s s' d. ndpi_serialize_uint32_int64 always 1 3000000000 s = Some (0, s') \<and>
     ndpi_init_deserializer zero_serializer s' = Some (0, d) \<and> ndpi_deserialize_value_int64 d = Some (0, - 1294967296)"
proof -
  obtain s where s: "ser_ok s" "is_tlv s" "content s = [1, 1]" using sample_serializer by blast
  have "\<exists>s' d. ndpi_serialize_uint32_int64 always 1 3000000000 s = Some (0, s') \<and> ndpi_init_deserializer zero_serializer s' = Some (0, d) \<and>
      ndpi_deserialize_value_int64 d = Some (0, 3000000000 - 0x100000000)"
    by (rule int64_loses_its_sign) (use s in \<open>simp_all add: always_def\<close>)
  then show ?thesis by auto
qed

definition truncated_buffer :: serializer where
  "truncated_buffer = zero_serializer\<lparr>ss_fmt := ndpi_serialization_format_tlv,
     ss_buffer := \<lparr>sb_initial_size = 0, sb_size = 4, sb_data = Some [1, 1, 0xB2, 0]\<rparr>,
     ss_status := \<lparr>st_flags = 0, st_buffer_size_used = 2, st_header_size_used = 0\<rparr>\<rparr>"

theorem truncated_string_read_past_end_witness:
  "ndpi_init_deserializer_buf zero_serializer (Some [1, 1, 0xB2, 0]) 4 = Some (0, truncated_buffer) \<and> ndpi_deserialize_key_string truncated_buffer = None"
proof -
  have t: "ndpi_deserialize_get_key_subtype truncated_buffer = Some ndpi_serialization_string"
    by (simp add: ndpi_deserialize_get_key_subtype_def truncated_buffer_def used_def ser_data_def rd8_def type_of_def)
  have "ndpi_init_deserializer_buf zero_serializer (Some [1, 1, 0xB2, 0]) 4 = Some (0, truncated_buffer)"
    by (simp add: ndpi_init_deserializer_buf_def rd8_def format_of_def ndpi_reset_serializer_def truncated_buffer_def
        zero_serializer_def empty_ser_buffer_def empty_status_def set_used_def)
  moreover have "ndpi_deserialize_key_string truncated_buffer = None"
    using truncated_string_read_past_end [OF _ _ _ t]
    by (simp add: truncated_buffer_def readable_def ser_data_def used_def)
  ultimately show ?thesis by blast
qed

end
