(* ===== verification/Search_Tree.thy ===== *)
theory Search_Tree
  imports Ndpi_Prelude "HOL-Library.Tree" "HOL-Library.Multiset"
begin

text \<open>
  The unbalanced binary search tree of \<open>src/lib/ndpi_utils.c\<close> (\<open>ndpi_tsearch\<close>,
  \<open>ndpi_tfind\<close>, \<open>ndpi_tdelete\<close>, \<open>ndpi_twalk\<close>, \<open>ndpi_tdestroy\<close>), which keeps the default
  ports of the library and the flows of the example programs. A tree is the library's
  \<open>tree\<close> of the keys the nodes point to, the null pointer is \<open>Leaf\<close>, and a pointer to a
  root (\<open>rootp\<close>) is an \<open>option\<close>. The comparison function of the caller is a parameter; the
  locale \<open>comparison\<close> states what the functions need of it, and the lemmas of the locale
  show that they implement an ordered list of keys.
\<close>

section \<open>Definitions\<close>

type_synonym 'a compar = "'a \<Rightarrow> 'a \<Rightarrow> int"

datatype ndpi_VISIT = ndpi_preorder | ndpi_postorder | ndpi_endorder | ndpi_leaf

text \<open>
  \<open>ndpi_tsearch\<close> returns the key of the node found, or the caller's own key when a node
  was made for it; the callers tell the two apart by comparing the pointers, so the result
  carries a flag that says whether it is the caller's object. \<open>alloc\<close> says whether
  \<open>ndpi_malloc\<close> succeeds.
\<close>

fun tsearch_loop :: "'a compar \<Rightarrow> bool \<Rightarrow> 'a \<Rightarrow> 'a tree \<Rightarrow> ('a \<times> bool) option \<times> 'a tree" where
  "tsearch_loop compar alloc key Leaf =
     (if alloc then (Some (key, True), Node Leaf key Leaf) else (None, Leaf))"
| "tsearch_loop compar alloc key (Node l k r) =
     (let c = compar key k in
      if c = 0 then (Some (k, False), Node l k r)
      else if c < 0 then (let (ret, l') = tsearch_loop compar alloc key l in (ret, Node l' k r))
      else (let (ret, r') = tsearch_loop compar alloc key r in (ret, Node l k r')))"

definition ndpi_tsearch ::
  "'a compar \<Rightarrow> bool \<Rightarrow> 'a \<Rightarrow> 'a tree option \<Rightarrow> ('a \<times> bool) option \<times> 'a tree option" where
  "ndpi_tsearch compar alloc key rootp =
     (case rootp of None \<Rightarrow> (None, None)
      | Some t \<Rightarrow> (let (ret, t') = tsearch_loop compar alloc key t in (ret, Some t')))"

text \<open>
  \<open>ndpi_tdelete\<close>. \<open>tdelete_min\<close> is the loop \<open>D3\<close>: \<open>q\<close> runs to the leftmost node below a
  node with the children \<open>l\<close> and \<open>r\<close>, and its right child takes its place.
\<close>

fun tdelete_min :: "'a tree \<Rightarrow> 'a \<Rightarrow> 'a tree \<Rightarrow> 'a \<times> 'a tree" where
  "tdelete_min Leaf k r = (k, r)"
| "tdelete_min (Node ll lk lr) k r = (let (q, l') = tdelete_min ll lk lr in (q, Node l' k r))"

definition tdelete_root :: "'a tree \<Rightarrow> 'a tree \<Rightarrow> 'a tree" where
  "tdelete_root l r =
     (case l of Leaf \<Rightarrow> r
      | Node _ _ _ \<Rightarrow>
        (case r of Leaf \<Rightarrow> l
         | Node rl rk rr \<Rightarrow>
           (case rl of Leaf \<Rightarrow> Node l rk rr
            | Node ql qk qr \<Rightarrow> (let (q, rl') = tdelete_min ql qk qr in Node l q (Node rl' rk rr)))))"

fun tdelete_loop :: "'a compar \<Rightarrow> 'a \<Rightarrow> 'a tree \<Rightarrow> 'a option \<times> 'a tree" where
  "tdelete_loop compar key Leaf = (None, Leaf)"
| "tdelete_loop compar key (Node l k r) =
     (let cmp = compar key k in
      if cmp = 0 then (Some k, tdelete_root l r)
      else if cmp < 0 then (let (ret, l') = tdelete_loop compar key l in (ret, Node l' k r))
      else (let (ret, r') = tdelete_loop compar key r in (ret, Node l k r')))"

definition ndpi_tdelete :: "'a compar \<Rightarrow> 'a \<Rightarrow> 'a tree option \<Rightarrow> 'a option \<times> 'a tree option" where
  "ndpi_tdelete compar key rootp =
     (case rootp of None \<Rightarrow> (None, None)
      | Some t \<Rightarrow> (let (ret, t') = tdelete_loop compar key t in (ret, Some t')))"

text \<open>\<open>ndpi_tfind\<close> returns the node; the model returns the key it points to.\<close>

fun tfind_loop :: "'a compar \<Rightarrow> 'a \<Rightarrow> 'a tree \<Rightarrow> 'a option" where
  "tfind_loop compar key Leaf = None"
| "tfind_loop compar key (Node l k r) =
     (let c = compar key k in
      if c = 0 then Some k
      else if c < 0 then tfind_loop compar key l
      else tfind_loop compar key r)"

definition ndpi_tfind :: "'a compar \<Rightarrow> 'a \<Rightarrow> 'a tree option \<Rightarrow> 'a option" where
  "ndpi_tfind compar key rootp = (case rootp of None \<Rightarrow> None | Some t \<Rightarrow> tfind_loop compar key t)"

text \<open>
  \<open>ndpi_twalk\<close> calls \<open>action\<close> with the node, the visit and the level; the user data the
  calls share is the state they thread. The recursion is entered for a node only.
\<close>

fun ndpi_trecurse :: "('a \<Rightarrow> ndpi_VISIT \<Rightarrow> int \<Rightarrow> 's \<Rightarrow> 's) \<Rightarrow> 'a tree \<Rightarrow> int \<Rightarrow> 's \<Rightarrow> 's" where
  "ndpi_trecurse action Leaf level s = s"
| "ndpi_trecurse action (Node l k r) level s =
     (if l = Leaf \<and> r = Leaf then action k ndpi_leaf level s
      else
        (let s = action k ndpi_preorder level s;
             s = ndpi_trecurse action l (level + 1) s;
             s = action k ndpi_postorder level s;
             s = ndpi_trecurse action r (level + 1) s
         in action k ndpi_endorder level s))"

definition ndpi_twalk :: "('a \<Rightarrow> ndpi_VISIT \<Rightarrow> int \<Rightarrow> 's \<Rightarrow> 's) option \<Rightarrow> 'a tree \<Rightarrow> 's \<Rightarrow> 's" where
  "ndpi_twalk action root s = (case action of None \<Rightarrow> s | Some f \<Rightarrow> ndpi_trecurse f root 0 s)"

text \<open>\<open>ndpi_tdestroy\<close> calls the caller's \<open>freefct\<close> on every key; the calls thread a state.\<close>

fun ndpi_tdestroy_recurse :: "('a \<Rightarrow> 's \<Rightarrow> 's) \<Rightarrow> 'a tree \<Rightarrow> 's \<Rightarrow> 's" where
  "ndpi_tdestroy_recurse free_action Leaf s = s"
| "ndpi_tdestroy_recurse free_action (Node l k r) s =
     free_action k (ndpi_tdestroy_recurse free_action r (ndpi_tdestroy_recurse free_action l s))"

definition ndpi_tdestroy :: "('a \<Rightarrow> 's \<Rightarrow> 's) \<Rightarrow> 'a tree \<Rightarrow> 's \<Rightarrow> 's" where
  "ndpi_tdestroy freefct root s = ndpi_tdestroy_recurse freefct root s"

section \<open>Lists of keys in the order of the comparison\<close>

text \<open>The abstract container: a list of keys, strictly ascending.\<close>

fun key_insert :: "'a compar \<Rightarrow> 'a \<Rightarrow> 'a list \<Rightarrow> 'a list" where
  "key_insert cmp x [] = [x]"
| "key_insert cmp x (y # ys) =
     (if cmp x y < 0 then x # y # ys else if cmp x y = 0 then y # ys else y # key_insert cmp x ys)"

definition key_delete :: "'a compar \<Rightarrow> 'a \<Rightarrow> 'a list \<Rightarrow> 'a list" where
  "key_delete cmp x ys = filter (\<lambda>y. cmp x y \<noteq> 0) ys"

definition key_find :: "'a compar \<Rightarrow> 'a \<Rightarrow> 'a list \<Rightarrow> 'a option" where
  "key_find cmp x ys = List.find (\<lambda>y. cmp x y = 0) ys"

definition ascending :: "'a compar \<Rightarrow> 'a list \<Rightarrow> bool" where
  "ascending cmp xs \<longleftrightarrow> sorted_wrt (\<lambda>x y. cmp x y < 0) xs"

definition search_tree :: "'a compar \<Rightarrow> 'a tree \<Rightarrow> bool" where
  "search_tree cmp t \<longleftrightarrow> ascending cmp (inorder t)"

lemma ascending_append:
  "ascending cmp (xs @ ys) \<longleftrightarrow>
     ascending cmp xs \<and> ascending cmp ys \<and> (\<forall>x\<in>set xs. \<forall>y\<in>set ys. cmp x y < 0)"
  by (simp add: ascending_def sorted_wrt_append)

lemma ascending_Cons:
  "ascending cmp (x # xs) \<longleftrightarrow> (\<forall>y\<in>set xs. cmp x y < 0) \<and> ascending cmp xs"
  by (simp add: ascending_def)

lemma ascending_Nil [simp]: "ascending cmp []"
  by (simp add: ascending_def)

lemmas ascending_simps = ascending_append ascending_Cons

lemma tdelete_min_inorder:
  "tdelete_min l k r = (q, t) \<Longrightarrow> q # inorder t = inorder l @ k # inorder r"
  by (induction l k r arbitrary: q t rule: tdelete_min.induct) (auto split: prod.splits)

lemma tdelete_root_inorder: "inorder (tdelete_root l r) = inorder l @ inorder r"
  by (auto simp: tdelete_root_def tdelete_min_inorder [symmetric] split: tree.splits prod.splits
      dest!: tdelete_min_inorder)

section \<open>What the functions need of the comparison\<close>

locale comparison =
  fixes cmp :: "'a compar"
  assumes cmp_swap: "cmp x y < 0 \<longleftrightarrow> cmp y x > 0"
    and cmp_trans: "cmp x y \<le> 0 \<Longrightarrow> cmp y z \<le> 0 \<Longrightarrow> cmp x z \<le> 0"
begin

lemma cmp_pos: "cmp x y > 0 \<longleftrightarrow> cmp y x < 0"
  using cmp_swap by blast

lemma cmp_refl [simp]: "cmp x x = 0"
  using cmp_swap [of x x] by linarith

lemma cmp_zero_sym: "cmp x y = 0 \<Longrightarrow> cmp y x = 0"
  using cmp_swap [of x y] cmp_swap [of y x] by linarith

lemma cmp_less_trans: "cmp x y < 0 \<Longrightarrow> cmp y z \<le> 0 \<Longrightarrow> cmp x z < 0"
  using cmp_trans [of x y z] cmp_trans [of y z x] cmp_swap [of x y] cmp_zero_sym [of x z] by linarith

lemma cmp_le_less_trans: "cmp x y \<le> 0 \<Longrightarrow> cmp y z < 0 \<Longrightarrow> cmp x z < 0"
  using cmp_trans [of x y z] cmp_trans [of z x y] cmp_swap [of y z] cmp_zero_sym [of x z] by linarith

lemma cmp_zero_left: "cmp x y = 0 \<Longrightarrow> cmp x z < 0 \<longleftrightarrow> cmp y z < 0"
  using cmp_le_less_trans [of x y z] cmp_le_less_trans [of y x z] cmp_zero_sym [of x y] by auto

lemma cmp_zero_trans: "cmp x y = 0 \<Longrightarrow> cmp y z = 0 \<Longrightarrow> cmp x z = 0"
  using cmp_trans [of x y z] cmp_trans [of z y x] cmp_zero_sym [of x y] cmp_zero_sym [of y z]
    cmp_swap [of x z] by linarith

lemma cmp_zero_both: "cmp x y = 0 \<Longrightarrow> cmp x z = 0 \<longleftrightarrow> cmp y z = 0"
  using cmp_zero_trans cmp_zero_sym by blast

text \<open>Insertion and lookup split at a key of the list.\<close>

lemma key_insert_left: "cmp x k < 0 \<Longrightarrow> key_insert cmp x (xs @ k # ys) = key_insert cmp x xs @ k # ys"
  by (induction xs) auto

lemma above_all:
  assumes "\<forall>y\<in>set xs. cmp y k < 0" "cmp x k \<ge> 0" "y \<in> set xs"
  shows "cmp x y > 0"
proof -
  have "cmp k x \<le> 0" using assms(2) cmp_swap [of k x] cmp_zero_sym [of x k] by linarith
  then have "cmp y x < 0" using assms(1,3) cmp_less_trans by blast
  then show ?thesis using cmp_swap by blast
qed

lemma key_insert_right:
  assumes "\<forall>y\<in>set xs. cmp y k < 0" "cmp x k > 0"
  shows "key_insert cmp x (xs @ k # ys) = xs @ k # key_insert cmp x ys"
  using assms
proof (induction xs)
  case (Cons z zs)
  have "cmp x z > 0" using Cons.prems above_all [of "z # zs" k x z] by simp
  then show ?case using Cons by simp
qed simp

lemma key_insert_here:
  assumes "\<forall>y\<in>set xs. cmp y k < 0" "cmp x k = 0"
  shows "key_insert cmp x (xs @ k # ys) = xs @ k # ys"
  using assms
proof (induction xs)
  case (Cons z zs)
  have "cmp x z > 0" using Cons.prems above_all [of "z # zs" k x z] by simp
  then show ?case using Cons by simp
qed simp

lemma below_all:
  assumes "\<forall>y\<in>set ys. cmp k y < 0" "cmp x k \<le> 0" "y \<in> set ys"
  shows "cmp x y < 0"
  using assms cmp_le_less_trans by blast

lemma not_zero_left: "\<forall>y\<in>set xs. cmp y k < 0 \<Longrightarrow> cmp x k \<ge> 0 \<Longrightarrow> \<forall>y\<in>set xs. cmp x y \<noteq> 0"
  using above_all by fastforce

lemma not_zero_right: "\<forall>y\<in>set ys. cmp k y < 0 \<Longrightarrow> cmp x k \<le> 0 \<Longrightarrow> \<forall>y\<in>set ys. cmp x y \<noteq> 0"
  using below_all by fastforce

lemma key_find_append:
  "key_find cmp x (xs @ ys) = (case key_find cmp x xs of None \<Rightarrow> key_find cmp x ys | Some y \<Rightarrow> Some y)"
  by (induction xs) (auto simp: key_find_def)

lemma key_find_none: "\<forall>y\<in>set xs. cmp x y \<noteq> 0 \<Longrightarrow> key_find cmp x xs = None"
  by (simp add: key_find_def find_None_iff)

lemma key_find_Cons: "key_find cmp x (y # ys) = (if cmp x y = 0 then Some y else key_find cmp x ys)"
  by (simp add: key_find_def)

lemmas split_at =
  key_find_append key_find_Cons key_find_none not_zero_left not_zero_right
  key_insert_left key_insert_right key_insert_here

lemma find_at_node:
  assumes "ascending cmp (xs @ k # ys)"
  shows "key_find cmp x (xs @ k # ys) =
    (if cmp x k = 0 then Some k else if cmp x k < 0 then key_find cmp x xs else key_find cmp x ys)"
proof -
  have "key_find cmp x xs = None" if "cmp x k \<ge> 0"
    using assms that by (intro key_find_none not_zero_left) (auto simp: ascending_simps)
  moreover have "key_find cmp x ys = None" if "cmp x k \<le> 0"
    using assms that by (intro key_find_none not_zero_right) (auto simp: ascending_simps)
  ultimately show ?thesis by (auto simp: key_find_append key_find_Cons split: option.splits)
qed

lemma key_delete_none: "\<forall>y\<in>set xs. cmp x y \<noteq> 0 \<Longrightarrow> key_delete cmp x xs = xs"
  by (simp add: key_delete_def)

lemma del_at_node:
  assumes "ascending cmp (xs @ k # ys)"
  shows "key_delete cmp x (xs @ k # ys) =
    (if cmp x k = 0 then xs @ ys
     else if cmp x k < 0 then key_delete cmp x xs @ k # ys else xs @ k # key_delete cmp x ys)"
proof -
  have "key_delete cmp x xs = xs" if "cmp x k \<ge> 0"
    using assms that by (intro key_delete_none not_zero_left) (auto simp: ascending_simps)
  moreover have "key_delete cmp x ys = ys" if "cmp x k \<le> 0"
    using assms that by (intro key_delete_none not_zero_right) (auto simp: ascending_simps)
  ultimately show ?thesis by (auto simp: key_delete_def)
qed

lemma ins_at_node:
  assumes "ascending cmp (xs @ k # ys)"
  shows "key_insert cmp x (xs @ k # ys) =
    (if cmp x k = 0 then xs @ k # ys
     else if cmp x k < 0 then key_insert cmp x xs @ k # ys else xs @ k # key_insert cmp x ys)"
  using assms key_insert_left [of x k xs ys] key_insert_right [of xs k x ys] key_insert_here [of xs k x ys]
  by (auto simp: ascending_simps)

text \<open>The three functions on the tree are the three functions on the list of its keys.\<close>

lemma tfind_find: "search_tree cmp t \<Longrightarrow> tfind_loop cmp x t = key_find cmp x (inorder t)"
proof (induction t)
  case (Node l k r)
  then have "search_tree cmp l" "search_tree cmp r" by (auto simp: search_tree_def ascending_simps)
  then show ?case using Node find_at_node [of "inorder l" k "inorder r" x]
    by (simp add: search_tree_def)
qed (simp add: key_find_def)

lemma tsearch_ins:
  "search_tree cmp t \<Longrightarrow>
     inorder (snd (tsearch_loop cmp alloc x t)) = (if alloc then key_insert cmp x (inorder t) else inorder t)"
proof (induction t)
  case (Node l k r)
  then have "search_tree cmp l" "search_tree cmp r" by (auto simp: search_tree_def ascending_simps)
  then show ?case using Node ins_at_node [of "inorder l" k "inorder r" x]
    by (cases alloc) (simp_all add: search_tree_def Let_def split_beta)
qed simp

lemma tsearch_result:
  "search_tree cmp t \<Longrightarrow> fst (tsearch_loop cmp alloc x t) =
     (case key_find cmp x (inorder t) of
        Some k \<Rightarrow> Some (k, False) | None \<Rightarrow> if alloc then Some (x, True) else None)"
proof (induction t)
  case (Node l k r)
  then have "search_tree cmp l" "search_tree cmp r" by (auto simp: search_tree_def ascending_simps)
  then show ?case using Node find_at_node [of "inorder l" k "inorder r" x]
    by (simp add: search_tree_def Let_def split_beta)
qed (simp add: key_find_def)

lemma tdelete_del:
  "search_tree cmp t \<Longrightarrow> inorder (snd (tdelete_loop cmp x t)) = key_delete cmp x (inorder t)"
proof (induction t)
  case (Node l k r)
  then have "search_tree cmp l" "search_tree cmp r" by (auto simp: search_tree_def ascending_simps)
  then show ?case using Node del_at_node [of "inorder l" k "inorder r" x]
    by (simp add: search_tree_def Let_def split_beta tdelete_root_inorder)
qed (simp add: key_delete_def)

lemma tdelete_result:
  "search_tree cmp t \<Longrightarrow> fst (tdelete_loop cmp x t) = key_find cmp x (inorder t)"
proof (induction t)
  case (Node l k r)
  then have "search_tree cmp l" "search_tree cmp r" by (auto simp: search_tree_def ascending_simps)
  then show ?case using Node find_at_node [of "inorder l" k "inorder r" x]
    by (simp add: search_tree_def Let_def split_beta)
qed (simp add: key_find_def)

text \<open>The list operations keep the order, and lookup after them.\<close>

lemma key_insert_set: "set (key_insert cmp x xs) \<subseteq> insert x (set xs)"
  by (induction xs) auto

lemma key_insert_ascending: "ascending cmp xs \<Longrightarrow> ascending cmp (key_insert cmp x xs)"
proof (induction xs)
  case (Cons y ys)
  have "\<forall>z\<in>set ys. cmp x z < 0" if "cmp x y < 0"
    using Cons.prems that cmp_less_trans [of x y] by (fastforce simp: ascending_simps)
  moreover have "cmp y x < 0" if "cmp x y > 0" using that cmp_swap by blast
  ultimately show ?case using Cons key_insert_set [of x ys] by (auto simp: ascending_simps)
qed (simp add: ascending_simps)

lemma key_delete_ascending: "ascending cmp xs \<Longrightarrow> ascending cmp (key_delete cmp x xs)"
  by (simp add: ascending_def key_delete_def sorted_wrt_filter)

lemma find_ins:
  assumes "ascending cmp xs"
  shows "key_find cmp z (key_insert cmp x xs) =
     (if cmp z x = 0 \<and> key_find cmp x xs = None then Some x else key_find cmp z xs)"
  using assms
proof (induction xs)
  case (Cons y ys)
  then have IH: "key_find cmp z (key_insert cmp x ys) =
      (if cmp z x = 0 \<and> key_find cmp x ys = None then Some x else key_find cmp z ys)"
    by (simp add: ascending_simps)
  have below: "key_find cmp x (y # ys) = None" if "cmp x y < 0"
    using Cons.prems that not_zero_right [of ys y x] by (intro key_find_none) (simp add: ascending_simps)
  consider "cmp x y < 0" | "cmp x y = 0" | "cmp x y > 0" by linarith
  then show ?case
  proof cases
    case 3
    moreover have "cmp z y \<noteq> 0" if "cmp z x = 0" using that 3 cmp_zero_both [of z x y] by linarith
    ultimately show ?thesis using IH by (auto simp: key_find_Cons)
  qed (use below in \<open>auto simp: key_find_Cons\<close>)
qed (auto simp: key_find_def)

lemma find_del:
  "key_find cmp z (key_delete cmp x xs) = (if cmp z x = 0 then None else key_find cmp z xs)"
  by (induction xs) (auto simp: key_find_def key_delete_def dest: cmp_zero_both cmp_zero_sym)

lemma tsearch_keeps: "search_tree cmp t \<Longrightarrow> search_tree cmp (snd (tsearch_loop cmp alloc x t))"
  unfolding search_tree_def
  by (subst tsearch_ins) (simp_all add: search_tree_def key_insert_ascending)

lemma tdelete_keeps: "search_tree cmp t \<Longrightarrow> search_tree cmp (snd (tdelete_loop cmp x t))"
  unfolding search_tree_def
  by (subst tdelete_del) (simp_all add: search_tree_def key_delete_ascending)

end

text \<open>A comparison that orders its arguments by a key of a linear order.\<close>

locale keyed =
  fixes cmp :: "'a compar" and key :: "'a \<Rightarrow> 'k::linorder"
  assumes cmp_less: "cmp x y < 0 \<longleftrightarrow> key x < key y"
    and cmp_zero: "cmp x y = 0 \<longleftrightarrow> key x = key y"
begin

lemma cmp_greater: "cmp x y > 0 \<longleftrightarrow> key y < key x"
  using cmp_less [of x y] cmp_zero [of x y] by (metis less_int_code(1) linorder_cases not_less_iff_gr_or_eq)

lemma cmp_le: "cmp x y \<le> 0 \<longleftrightarrow> key x \<le> key y"
  using cmp_greater [of x y] by (simp add: not_less [symmetric])

end

sublocale keyed \<subseteq> comparison cmp
  by unfold_locales (auto simp: cmp_less cmp_greater cmp_le)

section \<open>Walking and destroying\<close>

text \<open>
  The keys a walk shows in the visits \<open>postorder\<close> and \<open>leaf\<close>, which the callers use, and
  the keys a destruction hands to the caller's function.
\<close>

definition collect_visits :: "'a \<Rightarrow> ndpi_VISIT \<Rightarrow> int \<Rightarrow> 'a list \<Rightarrow> 'a list" where
  "collect_visits k v level s = (if v = ndpi_postorder \<or> v = ndpi_leaf then s @ [k] else s)"

definition collect_freed :: "'a \<Rightarrow> 'a list \<Rightarrow> 'a list" where
  "collect_freed k s = s @ [k]"

lemma trecurse_collects: "ndpi_trecurse collect_visits t level s = s @ inorder t"
  by (induction t arbitrary: level s) (auto simp: collect_visits_def Let_def)

lemma twalk_collects: "ndpi_twalk (Some collect_visits) t [] = inorder t"
  by (simp add: ndpi_twalk_def trecurse_collects)

lemma tdestroy_frees: "ndpi_tdestroy_recurse collect_freed t s = s @ postorder t"
  by (induction t arbitrary: s) (simp_all add: collect_freed_def)

lemma mset_postorder: "mset (postorder t) = mset (inorder t)"
  by (induction t) simp_all

section \<open>Sequences of calls\<close>

text \<open>The calls of a user, their results, and the same calls on a list of keys.\<close>

datatype 'a tree_call = Search bool 'a | Delete 'a | Find 'a

datatype 'a tree_result = Searched "('a \<times> bool) option" | Deleted "'a option" | Found "'a option"

fun tree_step :: "'a compar \<Rightarrow> 'a tree_call \<Rightarrow> 'a tree option \<Rightarrow> 'a tree_result \<times> 'a tree option" where
  "tree_step cmp (Search alloc k) rootp = (let (r, t) = ndpi_tsearch cmp alloc k rootp in (Searched r, t))"
| "tree_step cmp (Delete k) rootp = (let (r, t) = ndpi_tdelete cmp k rootp in (Deleted r, t))"
| "tree_step cmp (Find k) rootp = (Found (ndpi_tfind cmp k rootp), rootp)"

fun list_step :: "'a compar \<Rightarrow> 'a tree_call \<Rightarrow> 'a list \<Rightarrow> 'a tree_result \<times> 'a list" where
  "list_step cmp (Search alloc k) xs =
     (case key_find cmp k xs of
        Some k' \<Rightarrow> (Searched (Some (k', False)), xs)
      | None \<Rightarrow> if alloc then (Searched (Some (k, True)), key_insert cmp k xs) else (Searched None, xs))"
| "list_step cmp (Delete k) xs = (Deleted (key_find cmp k xs), key_delete cmp k xs)"
| "list_step cmp (Find k) xs = (Found (key_find cmp k xs), xs)"

fun run_calls :: "('c \<Rightarrow> 's \<Rightarrow> 'r \<times> 's) \<Rightarrow> 'c list \<Rightarrow> 's \<Rightarrow> 'r list \<times> 's" where
  "run_calls step [] s = ([], s)"
| "run_calls step (c # cs) s =
     (let (r, s') = step c s; (rs, s'') = run_calls step cs s' in (r # rs, s''))"

context comparison
begin

lemma key_insert_found: "ascending cmp xs \<Longrightarrow> key_find cmp x xs = Some y \<Longrightarrow> key_insert cmp x xs = xs"
proof (induction xs)
  case (Cons z zs)
  have "cmp x z \<ge> 0"
    using Cons.prems not_zero_right [of zs z x] key_find_none [of zs x]
    by (cases "cmp x z < 0") (auto simp: key_find_Cons ascending_simps)
  then show ?case using Cons by (auto simp: key_find_Cons ascending_simps)
qed (simp add: key_find_def)

lemma step_refines:
  assumes "search_tree cmp t"
  shows "\<exists>t'. tree_step cmp c (Some t) = (fst (list_step cmp c (inorder t)), Some t') \<and>
    search_tree cmp t' \<and> inorder t' = snd (list_step cmp c (inorder t))"
proof (cases c)
  case (Search alloc k)
  have "key_insert cmp k (inorder t) = inorder t" if "key_find cmp k (inorder t) \<noteq> None"
    using that key_insert_found assms by (auto simp: search_tree_def)
  then show ?thesis using assms Search
    by (auto simp: ndpi_tsearch_def split_beta tsearch_result tsearch_ins tsearch_keeps split: option.splits)
qed (use assms in \<open>auto simp: ndpi_tdelete_def ndpi_tfind_def split_beta tdelete_result tdelete_del
       tdelete_keeps tfind_find\<close>)

lemma run_refines:
  assumes "search_tree cmp t"
  shows "\<exists>t'. run_calls (tree_step cmp) cs (Some t) = (fst (run_calls (list_step cmp) cs (inorder t)), Some t') \<and>
    search_tree cmp t' \<and> inorder t' = snd (run_calls (list_step cmp) cs (inorder t))"
  using assms
proof (induction cs arbitrary: t)
  case (Cons c cs)
  obtain t1 where t1: "tree_step cmp c (Some t) = (fst (list_step cmp c (inorder t)), Some t1)"
    "search_tree cmp t1" "inorder t1 = snd (list_step cmp c (inorder t))"
    using step_refines [OF Cons.prems] by blast
  then show ?case using Cons.IH [OF t1(2)] by (auto simp: split_beta)
qed simp

end

end
