(* ===== verification/Default_Ports.thy ===== *)
theory Default_Ports
  imports Search_Tree Proto_Table
begin

text \<open>
  The default ports of the protocols (\<open>default_ports_tree_node_t_cmp\<close>, \<open>addDefaultPort\<close>,
  \<open>load_default_ports\<close>) and the guess of a protocol from the ports of a flow
  (\<open>ndpi_get_guessed_protocol_id\<close>, \<open>guess_protocol_id\<close>), all in \<open>src/lib/ndpi_main.c\<close>. The
  ports live in two search trees of \<open>Search_Tree\<close>, one for TCP and one for UDP; the
  comparison of ports interprets the locale \<open>comparison\<close> of that theory.
\<close>

section \<open>Definitions\<close>

record default_ports_tree_node =
  dp_proto_idx :: nat
  dp_customUserProto :: bool
  dp_default_port :: nat

text \<open>The fields of the detection module that hold the trees and configure the guess.\<close>

record port_module =
  pm_tcpRoot :: "default_ports_tree_node tree"
  pm_udpRoot :: "default_ports_tree_node tree"
  pm_direction_detect_enabled :: bool
  pm_use_client_port_in_guess :: bool

definition default_ports_tree_node_t_cmp :: "default_ports_tree_node compar" where
  "default_ports_tree_node_t_cmp fa fb =
     (if dp_default_port fa = dp_default_port fb then 0
      else if dp_default_port fa < dp_default_port fb then -1 else 1)"

text \<open>The assignments through \<open>ret\<close>, the key of the node with the same port.\<close>

fun overwrite_node ::
  "default_ports_tree_node \<Rightarrow> (default_ports_tree_node \<Rightarrow> default_ports_tree_node)
     \<Rightarrow> default_ports_tree_node tree \<Rightarrow> default_ports_tree_node tree" where
  "overwrite_node node f Leaf = Leaf"
| "overwrite_node node f (Node l k r) =
     (let c = default_ports_tree_node_t_cmp node k in
      if c = 0 then Node l (f k) r
      else if c < 0 then Node (overwrite_node node f l) k r
      else Node l k (overwrite_node node f r))"

text \<open>
  The loop over the ports of a range, with a 32-bit counter that cannot wrap below 65536.
  \<open>A port\<close> says whether the allocations of the key and of the tree node succeed.
\<close>

fun addDefaultPort_loop ::
  "(nat \<Rightarrow> bool \<times> bool) \<Rightarrow> ndpi_port_range \<Rightarrow> nat \<Rightarrow> bool \<Rightarrow> nat list
     \<Rightarrow> default_ports_tree_node tree \<Rightarrow> int \<times> default_ports_tree_node tree" where
  "addDefaultPort_loop A rng proto_idx customUserProto [] root = (0, root)"
| "addDefaultPort_loop A rng proto_idx customUserProto (port # ports) root =
     (if \<not> fst (A port) then (0, root)
      else
        (let node = \<lparr>dp_proto_idx = proto_idx,
                     dp_customUserProto = (customUserProto \<or> pr_is_custom rng),
                     dp_default_port = port\<rparr>;
             (ret, rootp) = ndpi_tsearch default_ports_tree_node_t_cmp (snd (A port)) node (Some root)
         in case ret of
              None \<Rightarrow> (0, the rootp)
            | Some (_, own) \<Rightarrow>
                if \<not> own
                then (-1, overwrite_node node
                       (\<lambda>k. k\<lparr>dp_customUserProto := (dp_customUserProto k \<or> customUserProto \<or> pr_is_custom rng),
                              dp_proto_idx := proto_idx\<rparr>) (the rootp))
                else addDefaultPort_loop A rng proto_idx customUserProto ports (the rootp)))"

definition addDefaultPort ::
  "(nat \<Rightarrow> bool \<times> bool) \<Rightarrow> ndpi_port_range \<Rightarrow> nat \<Rightarrow> bool
     \<Rightarrow> default_ports_tree_node tree \<Rightarrow> int \<times> default_ports_tree_node tree" where
  "addDefaultPort A rng proto_idx customUserProto root =
     addDefaultPort_loop A rng proto_idx customUserProto
       [pr_port_low rng ..< Suc (pr_port_high rng)] root"

text \<open>
  \<open>load_default_ports\<close>. \<open>A protoId j tcp\<close> gives the allocations of one call of
  \<open>addDefaultPort\<close>; \<open>None\<close> is an access outside the table or a port array.
\<close>

definition rd_range :: "ndpi_port_range list \<Rightarrow> nat \<Rightarrow> ndpi_port_range option" where
  "rd_range rs j = (if j < length rs then Some (rs ! j) else None)"

definition load_port_pair ::
  "(nat \<Rightarrow> nat \<Rightarrow> bool \<Rightarrow> nat \<Rightarrow> bool \<times> bool) \<Rightarrow> nat \<Rightarrow> ndpi_proto_defaults \<Rightarrow> nat
     \<Rightarrow> port_module \<Rightarrow> port_module option" where
  "load_port_pair A protoId d j s =
     do { u \<leftarrow> rd_range (pd_udp_default_ports d) j;
          let s = (if pr_port_low u \<noteq> 0
                   then s\<lparr>pm_udpRoot := snd (addDefaultPort (A protoId j False) u (protoId mod 65536)
                            (pd_isCustomProto d) (pm_udpRoot s))\<rparr>
                   else s);
          t \<leftarrow> rd_range (pd_tcp_default_ports d) j;
          Some (if pr_port_low t \<noteq> 0
                then s\<lparr>pm_tcpRoot := snd (addDefaultPort (A protoId j True) t (protoId mod 65536)
                         (pd_isCustomProto d) (pm_tcpRoot s))\<rparr>
                else s) }"

fun load_port_pairs ::
  "(nat \<Rightarrow> nat \<Rightarrow> bool \<Rightarrow> nat \<Rightarrow> bool \<times> bool) \<Rightarrow> nat \<Rightarrow> ndpi_proto_defaults \<Rightarrow> nat list
     \<Rightarrow> port_module \<Rightarrow> port_module option" where
  "load_port_pairs A protoId d [] s = Some s"
| "load_port_pairs A protoId d (j # js) s =
     do { s \<leftarrow> load_port_pair A protoId d j s; load_port_pairs A protoId d js s }"

fun load_protos ::
  "(nat \<Rightarrow> nat \<Rightarrow> bool \<Rightarrow> nat \<Rightarrow> bool \<times> bool) \<Rightarrow> ndpi_module \<Rightarrow> nat list
     \<Rightarrow> port_module \<Rightarrow> port_module option" where
  "load_protos A m [] s = Some s"
| "load_protos A m (protoId # ids) s =
     do { e \<leftarrow> is_proto_enabled m (int protoId);
          if \<not> e then load_protos A m ids s
          else do { d \<leftarrow> rd_proto m protoId;
                    s \<leftarrow> load_port_pairs A protoId d [0..<5] s;
                    load_protos A m ids s } }"

definition load_default_ports ::
  "(nat \<Rightarrow> nat \<Rightarrow> bool \<Rightarrow> nat \<Rightarrow> bool \<times> bool) \<Rightarrow> ndpi_module \<Rightarrow> port_module \<Rightarrow> port_module option" where
  "load_default_ports A m s = load_protos A m [0..<nd_num_supported_protocols m] s"

text \<open>The key on the stack with which the trees are searched; only its port is set.\<close>

definition probe :: "nat \<Rightarrow> default_ports_tree_node" where
  "probe port = \<lparr>dp_proto_idx = 0, dp_customUserProto = False, dp_default_port = port\<rparr>"

definition ndpi_get_guessed_protocol_id ::
  "port_module \<Rightarrow> nat \<Rightarrow> nat \<Rightarrow> nat \<Rightarrow> default_ports_tree_node option" where
  "ndpi_get_guessed_protocol_id s proto sport dport =
     (let use_sport = (if pm_direction_detect_enabled s then pm_use_client_port_in_guess s else True);
          root = (if proto = IPPROTO_TCP then Some (pm_tcpRoot s) else Some (pm_udpRoot s))
      in if sport \<noteq> 0 \<and> dport \<noteq> 0
         then let ret = ndpi_tfind default_ports_tree_node_t_cmp (probe dport) root
              in if ret = None \<and> use_sport
                 then ndpi_tfind default_ports_tree_node_t_cmp (probe sport) root
                 else ret
         else None)"

text \<open>One case of the switch on the IP protocol.\<close>

definition if_enabled :: "ndpi_module \<Rightarrow> nat \<Rightarrow> (nat \<times> bool) option" where
  "if_enabled m p = map_option (\<lambda>e. (if e then p else NDPI_PROTOCOL_UNKNOWN, False)) (is_proto_enabled m (int p))"

definition guess_protocol_id ::
  "ndpi_module \<Rightarrow> port_module \<Rightarrow> nat \<Rightarrow> nat \<Rightarrow> nat \<Rightarrow> (nat \<times> bool) option" where
  "guess_protocol_id m s proto sport dport =
     (if sport \<noteq> 0 \<and> dport \<noteq> 0
      then (case ndpi_get_guessed_protocol_id s proto sport dport of
              Some found \<Rightarrow> Some (dp_proto_idx found, dp_customUserProto found)
            | None \<Rightarrow> Some (NDPI_PROTOCOL_UNKNOWN, False))
      else if proto = 50 then if_enabled m NDPI_PROTOCOL_IP_ESP
      else if proto = 51 then if_enabled m NDPI_PROTOCOL_IP_AH
      else if proto = 0x2F then if_enabled m NDPI_PROTOCOL_IP_GRE
      else if proto = 0x71 then if_enabled m NDPI_PROTOCOL_IP_PGM
      else if proto = 0x67 then if_enabled m NDPI_PROTOCOL_IP_PIM
      else if proto = 0x01 then if_enabled m NDPI_PROTOCOL_IP_ICMP
      else if proto = 0x02 then if_enabled m NDPI_PROTOCOL_IP_IGMP
      else if proto = 0x08 then if_enabled m NDPI_PROTOCOL_IP_EGP
      else if proto = 132 then if_enabled m NDPI_PROTOCOL_IP_SCTP
      else if proto = 0x59 then if_enabled m NDPI_PROTOCOL_IP_OSPF
      else if proto = 0x04 then if_enabled m NDPI_PROTOCOL_IP_IP_IN_IP
      else if proto = 0x3a then if_enabled m NDPI_PROTOCOL_IP_ICMPV6
      else if proto = 112 then if_enabled m NDPI_PROTOCOL_IP_VRRP
      else Some (NDPI_PROTOCOL_UNKNOWN, False))"

section \<open>The comparison of ports\<close>

interpretation ports: keyed default_ports_tree_node_t_cmp dp_default_port
  by unfold_locales (auto simp: default_ports_tree_node_t_cmp_def)

lemma cmp_zero_port [simp]: "default_ports_tree_node_t_cmp a b = 0 \<longleftrightarrow> dp_default_port a = dp_default_port b"
  by (simp add: default_ports_tree_node_t_cmp_def)

lemma default_ports_tree_node_t_cmp_less:
  "default_ports_tree_node_t_cmp a b < 0 \<longleftrightarrow> dp_default_port a < dp_default_port b"
  by (simp add: default_ports_tree_node_t_cmp_def)

abbreviation port_tree :: "default_ports_tree_node tree \<Rightarrow> bool" where
  "port_tree \<equiv> search_tree default_ports_tree_node_t_cmp"

text \<open>The map from ports to nodes that a tree represents, read as the code reads it.\<close>

definition port_map :: "default_ports_tree_node tree \<Rightarrow> nat \<Rightarrow> default_ports_tree_node option" where
  "port_map t p = ndpi_tfind default_ports_tree_node_t_cmp (probe p) (Some t)"

lemma find_port:
  "key_find default_ports_tree_node_t_cmp n xs = List.find (\<lambda>k. dp_default_port k = dp_default_port n) xs"
  by (simp add: key_find_def eq_commute [of "dp_default_port n"])

lemma port_map_find: "port_tree t \<Longrightarrow> port_map t p = List.find (\<lambda>k. dp_default_port k = p) (inorder t)"
  by (simp add: port_map_def ndpi_tfind_def ports.tfind_find find_port probe_def)

lemma port_map_port: "port_tree t \<Longrightarrow> port_map t p = Some n \<Longrightarrow> dp_default_port n = p \<and> n \<in> set_tree t"
  using find_Some_iff [of "\<lambda>k. dp_default_port k = p" "inorder t" n] nth_mem [of _ "inorder t"]
  by (auto simp: port_map_find)

lemmas tsearch_port_tree = ports.tsearch_keeps

lemma tsearch_port_map:
  assumes "port_tree t"
  shows "port_map (snd (tsearch_loop default_ports_tree_node_t_cmp True n t)) p =
    (if p = dp_default_port n \<and> port_map t p = None then Some n else port_map t p)"
  using assms tsearch_port_tree [OF assms, of True n]
    ports.find_ins [of "inorder t" "probe p" n]
  by (auto simp: port_map_find ports.tsearch_ins find_port probe_def search_tree_def)

lemma tsearch_port_result:
  "port_tree t \<Longrightarrow> fst (tsearch_loop default_ports_tree_node_t_cmp True n t) =
    (case port_map t (dp_default_port n) of Some k \<Rightarrow> Some (k, False) | None \<Rightarrow> Some (n, True))"
  by (simp add: ports.tsearch_result port_map_find find_port)

lemma overwrite_inorder:
  assumes "port_tree t"
  shows "inorder (overwrite_node n f t) =
    map (\<lambda>k. if dp_default_port k = dp_default_port n then f k else k) (inorder t)"
  using assms
proof (induction t)
  case (Node l k r)
  then have sub: "port_tree l" "port_tree r" by (auto simp: search_tree_def ascending_simps)
  have "\<forall>y\<in>set_tree l. dp_default_port y < dp_default_port k"
    and above: "\<forall>y\<in>set_tree r. dp_default_port k < dp_default_port y"
    using Node.prems by (auto simp: search_tree_def ascending_simps default_ports_tree_node_t_cmp_def split: if_splits)
  then have "map (\<lambda>k. if dp_default_port k = dp_default_port n then f k else k) (inorder l) = inorder l"
    if "dp_default_port k \<le> dp_default_port n"
    using that by (intro map_idI) auto
  moreover have "map (\<lambda>k. if dp_default_port k = dp_default_port n then f k else k) (inorder r) = inorder r"
    if "dp_default_port n \<le> dp_default_port k"
    using that above by (intro map_idI) auto
  ultimately show ?case using Node.IH sub
    by (auto simp: Let_def default_ports_tree_node_t_cmp_less)
qed simp

lemma find_map_same:
  "(\<And>k. Q (g k) \<longleftrightarrow> Q k) \<Longrightarrow> List.find Q (map g xs) = map_option g (List.find Q xs)"
  by (induction xs) auto

lemma ascending_ports: "ascending default_ports_tree_node_t_cmp xs \<longleftrightarrow> sorted_wrt (<) (map dp_default_port xs)"
  by (auto simp: ascending_def sorted_wrt_map default_ports_tree_node_t_cmp_def elim!: sorted_wrt_mono_rel [rotated]
      split: if_splits)

lemma overwrite_port_tree:
  assumes "port_tree t" "\<And>k. dp_default_port (f k) = dp_default_port k"
  shows "port_tree (overwrite_node n f t)"
  using assms by (simp add: search_tree_def ascending_ports overwrite_inorder o_def if_distrib cong: if_cong)

lemma overwrite_port_map:
  assumes "port_tree t" "\<And>k. dp_default_port (f k) = dp_default_port k"
  shows "port_map (overwrite_node n f t) p =
    (if p = dp_default_port n then map_option f (port_map t p) else port_map t p)"
proof -
  have "port_map (overwrite_node n f t) p =
      map_option (\<lambda>k. if dp_default_port k = dp_default_port n then f k else k) (port_map t p)"
    using assms by (simp add: port_map_find overwrite_port_tree overwrite_inorder find_map_same)
  then show ?thesis using port_map_port [OF assms(1), of p]
    by (cases "port_map t p") auto
qed

section \<open>Registration of a range\<close>

text \<open>The node a call of \<open>addDefaultPort\<close> makes, and what it leaves of an older one.\<close>

definition new_node :: "ndpi_port_range \<Rightarrow> nat \<Rightarrow> bool \<Rightarrow> nat \<Rightarrow> default_ports_tree_node" where
  "new_node rng proto_idx custom p =
     \<lparr>dp_proto_idx = proto_idx, dp_customUserProto = (custom \<or> pr_is_custom rng), dp_default_port = p\<rparr>"

definition old_node :: "ndpi_port_range \<Rightarrow> nat \<Rightarrow> bool \<Rightarrow> default_ports_tree_node \<Rightarrow> default_ports_tree_node" where
  "old_node rng proto_idx custom k =
     k\<lparr>dp_customUserProto := (dp_customUserProto k \<or> custom \<or> pr_is_custom rng), dp_proto_idx := proto_idx\<rparr>"

lemma new_node_port [simp]: "dp_default_port (new_node rng i c p) = p"
  by (simp add: new_node_def)

lemma old_node_port [simp]: "dp_default_port (old_node rng i c k) = dp_default_port k"
  by (simp add: old_node_def)

lemma addDefaultPort_step:
  assumes "port_tree t" "A p = (True, True)"
  shows "addDefaultPort_loop A rng i c (p # ps) t =
    (let t' = snd (tsearch_loop default_ports_tree_node_t_cmp True (new_node rng i c p) t)
     in if port_map t p = None then addDefaultPort_loop A rng i c ps t'
        else (-1, overwrite_node (new_node rng i c p) (old_node rng i c) t'))"
  using assms tsearch_port_result [OF assms(1), of "new_node rng i c p"]
  by (auto simp: new_node_def old_node_def [abs_def] ndpi_tsearch_def Let_def split_beta split: option.splits)

text \<open>Until the first port that is taken the range is registered; that port is overwritten.\<close>

definition registered ::
  "ndpi_port_range \<Rightarrow> nat \<Rightarrow> bool \<Rightarrow> nat list \<Rightarrow> (nat \<Rightarrow> default_ports_tree_node option)
     \<Rightarrow> nat \<Rightarrow> default_ports_tree_node option" where
  "registered rng i c ps m q =
     (if q \<in> set (takeWhile (\<lambda>p. m p = None) ps) then Some (new_node rng i c q)
      else if List.find (\<lambda>p. m p \<noteq> None) ps = Some q then map_option (old_node rng i c) (m q)
      else m q)"

lemma addDefaultPort_loop_registers:
  assumes "port_tree t" "\<forall>p\<in>set ps. A p = (True, True)" "distinct ps"
  shows "\<exists>rc t'. addDefaultPort_loop A rng i c ps t = (rc, t') \<and> port_tree t' \<and>
    rc = (if \<forall>p\<in>set ps. port_map t p = None then 0 else -1) \<and>
    (\<forall>q. port_map t' q = registered rng i c ps (port_map t) q)"
  using assms
proof (induction ps arbitrary: t)
  case Nil
  then show ?case by (simp add: registered_def)
next
  case (Cons p ps)
  define t1 where "t1 = snd (tsearch_loop default_ports_tree_node_t_cmp True (new_node rng i c p) t)"
  have t1: "port_tree t1" using Cons.prems by (simp add: t1_def tsearch_port_tree)
  have m1: "port_map t1 q = (if q = p \<and> port_map t q = None then Some (new_node rng i c p) else port_map t q)" for q
    using Cons.prems by (simp add: t1_def tsearch_port_map)
  have step: "addDefaultPort_loop A rng i c (p # ps) t =
      (if port_map t p = None then addDefaultPort_loop A rng i c ps t1
       else (-1, overwrite_node (new_node rng i c p) (old_node rng i c) t1))"
    using Cons.prems by (subst addDefaultPort_step) (simp_all add: t1_def Let_def)
  show ?case
  proof (cases "port_map t p")
    case (Some k)
    then show ?thesis using t1 m1
      by (auto simp: step overwrite_port_tree overwrite_port_map registered_def
          simp del: addDefaultPort_loop.simps)
  next
    case None
    have same: "\<forall>q\<in>set ps. port_map t1 q = port_map t q" using Cons.prems m1 by auto
    then have "takeWhile (\<lambda>p. port_map t1 p = None) ps = takeWhile (\<lambda>p. port_map t p = None) ps"
      "List.find (\<lambda>p. port_map t1 p \<noteq> None) ps = List.find (\<lambda>p. port_map t p \<noteq> None) ps"
      by (auto intro!: takeWhile_cong find_cong)
    moreover have "p \<notin> set (takeWhile (\<lambda>p. port_map t p = None) ps)"
      using Cons.prems set_takeWhileD by fastforce
    moreover have "List.find (\<lambda>p. port_map t p \<noteq> None) ps \<noteq> Some p"
      using None by (auto simp: find_Some_iff)
    moreover obtain rc t' where "addDefaultPort_loop A rng i c ps t1 = (rc, t')" "port_tree t'"
      "rc = (if \<forall>p\<in>set ps. port_map t1 p = None then 0 else -1)"
      "\<forall>q. port_map t' q = registered rng i c ps (port_map t1) q"
      using Cons.IH [OF t1] Cons.prems by auto
    ultimately show ?thesis using None m1 same
      by (auto simp: step registered_def simp del: addDefaultPort_loop.simps)
  qed
qed

lemma takeWhile_upt:
  assumes "List.find Q [a..<b] = Some d"
  shows "set (takeWhile (\<lambda>p. \<not> Q p) [a..<b]) = {a..<d} \<and> Q d \<and> a \<le> d \<and> d < b"
proof -
  obtain i where i: "i < b - a" "Q (a + i)" "d = a + i" "\<forall>j<i. \<not> Q (a + j)"
    using assms by (auto simp: find_Some_iff)
  have "takeWhile (\<lambda>p. \<not> Q p) [a..<b] = take i [a..<b]"
    using i by (intro takeWhile_eq_take_P_nth) auto
  then show ?thesis using i by (simp add: take_upt)
qed



section \<open>Loading the ports and guessing a protocol\<close>

text \<open>
  What the nodes of a tree say of the table: the protocol is enabled and one of its ranges
  for the transport holds the port.
\<close>

definition covers :: "ndpi_port_range list \<Rightarrow> nat \<Rightarrow> bool" where
  "covers rs p \<longleftrightarrow> (\<exists>r\<in>set (take 5 rs). pr_port_low r \<noteq> 0 \<and> pr_port_low r \<le> p \<and> p \<le> pr_port_high r)"

definition justified :: "ndpi_module \<Rightarrow> (ndpi_proto_defaults \<Rightarrow> ndpi_port_range list) \<Rightarrow> nat \<Rightarrow> nat \<Rightarrow> bool" where
  "justified m ranges g p \<longleftrightarrow> is_proto_enabled m (int g) = Some True \<and>
     (\<exists>d. rd_proto m g = Some d \<and> covers (ranges d) p)"

definition node_ok :: "ndpi_module \<Rightarrow> (ndpi_proto_defaults \<Rightarrow> ndpi_port_range list) \<Rightarrow> default_ports_tree_node \<Rightarrow> bool" where
  "node_ok m ranges n \<longleftrightarrow> justified m ranges (dp_proto_idx n) (dp_default_port n)"

definition tree_ok :: "ndpi_module \<Rightarrow> (ndpi_proto_defaults \<Rightarrow> ndpi_port_range list)
    \<Rightarrow> default_ports_tree_node tree \<Rightarrow> bool" where
  "tree_ok m ranges t \<longleftrightarrow> port_tree t \<and> (\<forall>n\<in>set_tree t. node_ok m ranges n)"

definition ports_ok :: "ndpi_module \<Rightarrow> port_module \<Rightarrow> bool" where
  "ports_ok m s \<longleftrightarrow> tree_ok m pd_tcp_default_ports (pm_tcpRoot s) \<and> tree_ok m pd_udp_default_ports (pm_udpRoot s)"

lemma tsearch_set: "set_tree (snd (tsearch_loop cmp a n t)) \<subseteq> insert n (set_tree t)"
  by (induction t) (auto simp: Let_def split_beta)

lemma overwrite_set:
  "k \<in> set_tree (overwrite_node n f t) \<Longrightarrow>
     k \<in> set_tree t \<or> (\<exists>k'. k = f k' \<and> dp_default_port k' = dp_default_port n)"
  by (induction t) (auto simp: Let_def split: if_splits)

lemma addDefaultPort_loop_ok:
  assumes "tree_ok m ranges t" "\<forall>p\<in>set ps. justified m ranges i p"
  shows "tree_ok m ranges (snd (addDefaultPort_loop A rng i c ps t))"
  using assms
proof (induction ps arbitrary: t)
  case (Cons p ps)
  define t1 where "t1 = snd (tsearch_loop default_ports_tree_node_t_cmp (snd (A p)) (new_node rng i c p) t)"
  have ok: "node_ok m ranges (new_node rng i c p)"
    using Cons.prems by (simp add: node_ok_def new_node_def)
  then have t1: "tree_ok m ranges t1"
    using Cons.prems tsearch_set [of default_ports_tree_node_t_cmp "snd (A p)" "new_node rng i c p" t]
    by (auto simp: tree_ok_def t1_def tsearch_port_tree)
  have "tree_ok m ranges (overwrite_node (new_node rng i c p) (old_node rng i c) t1)"
    using t1 Cons.prems(2) overwrite_set [of _ "new_node rng i c p" "old_node rng i c" t1]
    by (fastforce simp: tree_ok_def overwrite_port_tree node_ok_def old_node_def)
  then show ?case using Cons t1
    by (auto simp: new_node_def old_node_def [abs_def] t1_def ndpi_tsearch_def Let_def split_beta
        split: option.splits)
qed simp

lemma addDefaultPort_ok:
  assumes "tree_ok m ranges t" "is_proto_enabled m (int i) = Some True" "rd_proto m i = Some d"
    "rd_range (ranges d) j = Some rng" "j < 5" "pr_port_low rng \<noteq> 0"
  shows "tree_ok m ranges (snd (addDefaultPort A rng i c t))"
proof -
  have "rng \<in> set (take 5 (ranges d))"
    using assms(4,5) by (auto simp: rd_range_def in_set_conv_nth split: if_splits)
  then have "justified m ranges i p" if "pr_port_low rng \<le> p" "p \<le> pr_port_high rng" for p
    using assms that unfolding justified_def covers_def by blast
  then show ?thesis unfolding addDefaultPort_def
    by (intro addDefaultPort_loop_ok assms(1)) (simp del: upt_Suc)
qed

lemma load_port_pair_ok:
  assumes "ports_ok m s" "is_proto_enabled m (int i) = Some True" "rd_proto m i = Some d" "i < 65536"
    "j < length (pd_tcp_default_ports d)" "j < length (pd_udp_default_ports d)" "j < 5"
  shows "\<exists>s'. load_port_pair A i d j s = Some s' \<and> ports_ok m s' \<and>
    pm_direction_detect_enabled s' = pm_direction_detect_enabled s \<and>
    pm_use_client_port_in_guess s' = pm_use_client_port_in_guess s"
  using assms addDefaultPort_ok [OF _ assms(2,3) _ assms(7), of pd_tcp_default_ports]
    addDefaultPort_ok [OF _ assms(2,3) _ assms(7), of pd_udp_default_ports]
  by (simp add: load_port_pair_def rd_range_def ports_ok_def Let_def)

lemma load_port_pairs_ok:
  assumes "ports_ok m s" "is_proto_enabled m (int i) = Some True" "rd_proto m i = Some d" "i < 65536"
    "length (pd_tcp_default_ports d) = 5" "length (pd_udp_default_ports d) = 5" "set js \<subseteq> {..<5}"
  shows "\<exists>s'. load_port_pairs A i d js s = Some s' \<and> ports_ok m s' \<and>
    pm_direction_detect_enabled s' = pm_direction_detect_enabled s \<and>
    pm_use_client_port_in_guess s' = pm_use_client_port_in_guess s"
  using assms
proof (induction js arbitrary: s)
  case (Cons j js)
  then have j: "j < 5" "set js \<subseteq> {..<5}" by auto
  obtain s1 where s1: "load_port_pair A i d j s = Some s1" "ports_ok m s1"
    "pm_direction_detect_enabled s1 = pm_direction_detect_enabled s"
    "pm_use_client_port_in_guess s1 = pm_use_client_port_in_guess s"
    using load_port_pair_ok [of m s i d j A] Cons.prems j by auto
  then show ?case using Cons.IH [OF s1(2)] Cons.prems j by simp
qed simp

text \<open>The configuration answers for every protocol, and every entry has its five ranges.\<close>

definition ports_table :: "ndpi_module \<Rightarrow> bool" where
  "ports_table m \<longleftrightarrow> table_wf m \<and> bitmask_wf (cfg_detection_bitmask (nd_cfg m)) \<and>
     (\<forall>d\<in>set (nd_proto_defaults m). length (pd_tcp_default_ports d) = 5 \<and> length (pd_udp_default_ports d) = 5)"

lemma ports_table_enabled: "ports_table m \<Longrightarrow> \<exists>e. is_proto_enabled m i = Some e"
  using bitmask_is_set_total by (auto simp: ports_table_def is_proto_enabled_def)

lemma load_protos_ok:
  assumes "ports_table m" "ports_ok m s" "set ids \<subseteq> {..<nd_num_supported_protocols m}"
  shows "\<exists>s'. load_protos A m ids s = Some s' \<and> ports_ok m s' \<and>
    pm_direction_detect_enabled s' = pm_direction_detect_enabled s \<and>
    pm_use_client_port_in_guess s' = pm_use_client_port_in_guess s"
  using assms
proof (induction ids arbitrary: s)
  case (Cons i ids)
  obtain e where e: "is_proto_enabled m (int i) = Some e"
    using ports_table_enabled [OF Cons.prems(1)] by blast
  have i: "i < length (nd_proto_defaults m)" "i < 65536"
    using Cons.prems table_wf_valid_readable [of m i]
    by (auto simp: ports_table_def table_wf_def ndpi_is_valid_protoId_def)
  then obtain d where d: "rd_proto m i = Some d" "d \<in> set (nd_proto_defaults m)"
    by (auto simp: rd_proto_def)
  show ?case
  proof (cases e)
    case True
    then obtain s1 where s1: "load_port_pairs A i d [0..<5] s = Some s1" "ports_ok m s1"
      "pm_direction_detect_enabled s1 = pm_direction_detect_enabled s"
      "pm_use_client_port_in_guess s1 = pm_use_client_port_in_guess s"
      using load_port_pairs_ok [of m s i d "[0..<5]" A] Cons.prems d e i by (auto simp: ports_table_def atLeast0LessThan)
    then show ?thesis using Cons.IH [OF Cons.prems(1) s1(2)] Cons.prems(3) e d True by simp
  qed (use Cons e in simp)
qed simp

lemma tree_ok_find:
  "tree_ok m ranges t \<Longrightarrow> port_map t p = Some n \<Longrightarrow> justified m ranges (dp_proto_idx n) p"
  using port_map_port [of t p n] by (auto simp: tree_ok_def node_ok_def)

text \<open>The tree a guess searches, and the ranges of the table it was loaded from.\<close>

definition guess_root :: "port_module \<Rightarrow> nat \<Rightarrow> default_ports_tree_node tree" where
  "guess_root s proto = (if proto = IPPROTO_TCP then pm_tcpRoot s else pm_udpRoot s)"

definition guess_ranges :: "nat \<Rightarrow> ndpi_proto_defaults \<Rightarrow> ndpi_port_range list" where
  "guess_ranges proto = (if proto = IPPROTO_TCP then pd_tcp_default_ports else pd_udp_default_ports)"

lemma guess_root_ok: "ports_ok m s \<Longrightarrow> tree_ok m (guess_ranges proto) (guess_root s proto)"
  by (simp add: ports_ok_def guess_root_def guess_ranges_def)

lemma guessed_node:
  assumes "sport \<noteq> 0" "dport \<noteq> 0"
  shows "ndpi_get_guessed_protocol_id s proto sport dport =
    (if port_map (guess_root s proto) dport = None \<and> (pm_direction_detect_enabled s \<longrightarrow> pm_use_client_port_in_guess s)
     then port_map (guess_root s proto) sport else port_map (guess_root s proto) dport)"
  using assms by (auto simp: ndpi_get_guessed_protocol_id_def port_map_def guess_root_def Let_def)

lemma if_enabled_sound:
  "is_proto_enabled m (int p) = Some e \<Longrightarrow>
     \<exists>g. if_enabled m p = Some (g, False) \<and> (g = NDPI_PROTOCOL_UNKNOWN \<or> is_proto_enabled m (int g) = Some True)"
  by (cases e) (auto simp: if_enabled_def)

lemma guess_by_ip_protocol:
  assumes "ports_table m" "sport = 0 \<or> dport = 0"
  shows "\<exists>g u. guess_protocol_id m s proto sport dport = Some (g, u) \<and>
    (g = NDPI_PROTOCOL_UNKNOWN \<or> is_proto_enabled m (int g) = Some True)"
proof -
  define P where "P r \<longleftrightarrow> (\<exists>g u. r = Some (g, u) \<and>
    (g = NDPI_PROTOCOL_UNKNOWN \<or> is_proto_enabled m (int g) = Some True))" for r :: "(nat \<times> bool) option"
  have "P (if_enabled m p)" for p
    using if_enabled_sound ports_table_enabled [OF assms(1)] unfolding P_def by blast
  moreover have "P (Some (NDPI_PROTOCOL_UNKNOWN, False))" unfolding P_def by blast
  ultimately have "P (guess_protocol_id m s proto sport dport)"
    using assms(2) unfolding guess_protocol_id_def by auto
  then show ?thesis unfolding P_def .
qed

lemma guess_by_port:
  assumes "ports_ok m s" "sport \<noteq> 0" "dport \<noteq> 0" "guess_protocol_id m s proto sport dport = Some (g, u)"
    "g \<noteq> NDPI_PROTOCOL_UNKNOWN"
  shows "justified m (guess_ranges proto) g dport \<or>
    port_map (guess_root s proto) dport = None \<and> justified m (guess_ranges proto) g sport \<and>
    (pm_direction_detect_enabled s \<longrightarrow> pm_use_client_port_in_guess s)"
  using assms tree_ok_find [OF guess_root_ok [OF assms(1), of proto]]
  by (auto simp: guess_protocol_id_def guessed_node split: option.splits if_splits)


text \<open>A table with one protocol, which has TCP port 80.\<close>

definition web_module :: ndpi_module where
  "web_module = empty_module\<lparr>
     nd_proto_defaults := [empty_proto\<lparr>pd_protoName := [119], pd_isCustomProto := True,
       pd_tcp_default_ports := \<lparr>pr_port_low = 80, pr_port_high = 80, pr_is_custom = False\<rparr> # replicate 4 empty_port_range\<rparr>],
     nd_num_supported_protocols := 1, nd_num_internal_protocols := 1\<rparr>"


end
