(* ===== verification/Flow_Tree.thy ===== *)
theory Flow_Tree
  imports Search_Tree "HOL-Library.Product_Lexorder"
begin

text \<open>
  The flow table of the example reader (\<open>example/reader_util.c\<close>): flows live in search trees
  of \<open>Search_Tree\<close> ordered by \<open>ndpi_workflow_node_cmp\<close>. Addresses and ports are in host byte
  order, so that \<open>ntohl\<close> and \<open>ntohs\<close> of the source are the numbers themselves.
\<close>

section \<open>Definitions\<close>

text \<open>The fields of \<open>ndpi_flow_info\<close> that the comparison reads, and the number of the flow.\<close>

record ndpi_flow_info =
  fi_flow_id :: nat
  fi_hashval :: nat
  fi_src_ip :: nat
  fi_dst_ip :: nat
  fi_src_port :: nat
  fi_dst_port :: nat
  fi_protocol :: nat
  fi_vlan_id :: nat

definition cmp_n :: "nat \<Rightarrow> nat \<Rightarrow> int" where
  "cmp_n a b = (if a = b then 0 else if a < b then -1 else 1)"

definition ndpi_workflow_node_cmp :: "ndpi_flow_info compar" where
  "ndpi_workflow_node_cmp fa fb =
     (if fi_hashval fa < fi_hashval fb then -1 else if fi_hashval fa > fi_hashval fb then 1
      else if fi_vlan_id fa < fi_vlan_id fb then -1 else if fi_vlan_id fa > fi_vlan_id fb then 1
      else if fi_protocol fa < fi_protocol fb then -1 else if fi_protocol fa > fi_protocol fb then 1
      else let r = cmp_n (fi_src_ip fa) (fi_src_ip fb) in if r \<noteq> 0 then r
      else let r = cmp_n (fi_src_port fa) (fi_src_port fb) in if r \<noteq> 0 then r
      else let r = cmp_n (fi_dst_ip fa) (fi_dst_ip fb) in if r \<noteq> 0 then r
      else cmp_n (fi_dst_port fa) (fi_dst_port fb))"

section \<open>The order of flows\<close>

definition flow_key :: "ndpi_flow_info \<Rightarrow> nat \<times> nat \<times> nat \<times> nat \<times> nat \<times> nat \<times> nat" where
  "flow_key f = (fi_hashval f, fi_vlan_id f, fi_protocol f, fi_src_ip f, fi_src_port f, fi_dst_ip f, fi_dst_port f)"

interpretation flows: keyed ndpi_workflow_node_cmp flow_key
  by unfold_locales (auto simp: ndpi_workflow_node_cmp_def flow_key_def cmp_n_def less_prod_def Let_def)

text \<open>C34. The search tree implements an ordered container of flows: any sequence of searches
  (with successful or failing allocations), deletions and lookups that starts from the
  empty tree gives the results the same calls give on a list of flows in which no two
  compare equal, and leaves a tree whose in-order list is that list, ascending. A walk
  shows every flow once, in this order, and a destruction frees every flow exactly once.
\<close>

theorem flow_tree_refines:
  "\<exists>t. run_calls (tree_step ndpi_workflow_node_cmp) calls (Some Leaf) =
      (fst (run_calls (list_step ndpi_workflow_node_cmp) calls []), Some t) \<and>
    inorder t = snd (run_calls (list_step ndpi_workflow_node_cmp) calls []) \<and>
    ascending ndpi_workflow_node_cmp (inorder t) \<and>
    ndpi_twalk (Some collect_visits) t [] = inorder t \<and>
    mset (ndpi_tdestroy collect_freed t []) = mset (inorder t)"
  using flows.run_refines [of Leaf calls]
  by (auto simp: search_tree_def twalk_collects ndpi_tdestroy_def tdestroy_frees mset_postorder)

end
