(* ===== verification/L4_Parse.thy ===== *)
theory L4_Parse
  imports Flow_Types
begin

text \<open>
  Location of the transport header in a packet (\<open>src/lib/ndpi_main.c\<close>):
  \<open>ndpi_handle_ipv6_extension_headers\<close>, \<open>iph_is_valid_and_not_fragmented\<close> and
  \<open>ndpi_detection_get_l4_internal\<close>. A packet is the list of its bytes from the IP header on;
  a pointer into it is an offset; fields of headers are in host byte order. \<open>None\<close> is a read
  outside the packet.
\<close>

section \<open>Definitions\<close>

text \<open>The reads through \<open>iph\<close> and \<open>iph_v6\<close>.\<close>

definition rd_version :: "bytes \<Rightarrow> nat option" where
  "rd_version l3 = map_option (\<lambda>b. unat b div 16) (rd8 l3 0)"

definition rd_iphdr :: "bytes \<Rightarrow> ndpi_iphdr option" where
  "rd_iphdr l3 = do {
     b \<leftarrow> rd8 l3 0; tot \<leftarrow> rd16 l3 2; frag \<leftarrow> rd16 l3 6; ttl \<leftarrow> rd8 l3 8; proto \<leftarrow> rd8 l3 9;
     saddr \<leftarrow> rd32 l3 12; daddr \<leftarrow> rd32 l3 16;
     Some \<lparr>ip_ihl = unat b mod 16, ip_tot_len = tot, ip_frag_off = frag, ip_ttl = unat ttl,
           ip_protocol = unat proto, ip_saddr = of_nat saddr, ip_daddr = of_nat daddr\<rparr> }"

definition rd_ipv6hdr :: "bytes \<Rightarrow> ndpi_ipv6hdr option" where
  "rd_ipv6hdr l3 = do {
     hlim \<leftarrow> rd8 l3 7; src \<leftarrow> rdn l3 8 16; dst \<leftarrow> rdn l3 24 16;
     Some \<lparr>ip6_hlim = unat hlim, ip6_src = src, ip6_dst = dst\<rparr> }"

text \<open>
  The loop over the extension headers: the result is the return code with the offset and
  length of what follows and the number of the next header. The reads go to \<open>(*l4ptr)[..]\<close>.
\<close>

definition is_extension :: "nat \<Rightarrow> bool" where
  "is_extension n \<longleftrightarrow> n = 0 \<or> n = 43 \<or> n = 44 \<or> n = 60 \<or> n = 135 \<or> n = 59"

function ndpi_handle_ipv6_extension_headers ::
  "bytes \<Rightarrow> nat \<Rightarrow> nat \<Rightarrow> nat \<Rightarrow> nat \<Rightarrow> (nat \<times> nat \<times> nat \<times> nat) option" where
  "ndpi_handle_ipv6_extension_headers p l3len l4ptr l4len nxt_hdr =
     (if l3len > 1 \<and> is_extension nxt_hdr then
        if nxt_hdr = 59 then Some (1, l4ptr, l4len, nxt_hdr)
        else if nxt_hdr = 44 then
          if l4len < 8 then Some (1, l4ptr, l4len, nxt_hdr)
          else if l3len < 5 then Some (1, l4ptr, l4len, nxt_hdr)
          else do {
            n \<leftarrow> rd8 p l4ptr;
            f \<leftarrow> rd16 p (l4ptr + 2);
            if f div 8 \<noteq> 0 then Some (1, l4ptr, l4len, unat n)
            else ndpi_handle_ipv6_extension_headers p (l3len - 5) (l4ptr + 8) (l4len - 8) (unat n) }
        else if l4len < 2 then Some (1, l4ptr, l4len, nxt_hdr)
        else do {
          b \<leftarrow> rd8 p (l4ptr + 1);
          if unat b * 8 + 8 > l3len then Some (1, l4ptr, l4len, nxt_hdr)
          else if l4len < unat b * 8 + 8 then Some (1, l4ptr, l4len, nxt_hdr)
          else do {
            n \<leftarrow> rd8 p l4ptr;
            ndpi_handle_ipv6_extension_headers p (l3len - (unat b * 8 + 8)) (l4ptr + (unat b * 8 + 8))
              (l4len - (unat b * 8 + 8)) (unat n) } }
      else Some (0, l4ptr, l4len, nxt_hdr))"
  by pat_completeness auto

termination
  by (relation "measure (\<lambda>(p, l3len, l4ptr, l4len, nxt_hdr). l4len)") auto

declare ndpi_handle_ipv6_extension_headers.simps [simp del]

definition iph_is_valid_and_not_fragmented :: "ndpi_iphdr \<Rightarrow> nat \<Rightarrow> bool" where
  "iph_is_valid_and_not_fragmented iph ipsize =
     (if ip_protocol iph = IPPROTO_UDP then
        \<not> (ipsize < ip_ihl iph * 4 \<or> ipsize < ip_tot_len iph \<or> ip_tot_len iph < ip_ihl iph * 4 \<or>
           ip_frag_off iph mod 0x2000 \<noteq> 0)
      else True)"

text \<open>
  \<open>Some None\<close> is the return value 1, with the output parameters left alone; otherwise the
  outputs are the offset and length of the transport header and its protocol. \<open>flags\<close> may
  restrict the packets to IPv4 (bit 0) or IPv6 (bit 1).
\<close>

definition l4_of_ipv4 :: "ndpi_iphdr \<Rightarrow> nat \<Rightarrow> nat \<times> nat \<times> nat" where
  "l4_of_ipv4 iph l3_len =
     (let len = min (ip_tot_len iph) l3_len;
          hlen = ip_ihl iph * 4;
          len = (if len = 0 then l3_len else len)
      in (ip_ihl iph * 4, if len > hlen then len - hlen else 0, ip_protocol iph))"

definition ndpi_detection_get_l4_internal ::
  "bytes option \<Rightarrow> nat \<Rightarrow> u32 \<Rightarrow> (nat \<times> nat \<times> nat) option option" where
  "ndpi_detection_get_l4_internal l3ptr l3_len flags =
     (case l3ptr of None \<Rightarrow> Some None
      | Some l3 \<Rightarrow>
        if l3_len < 20 then Some None
        else do {
          v \<leftarrow> rd_version l3;
          iph \<leftarrow> rd_iphdr l3;
          if v = 4 \<and> ip_ihl iph \<ge> 5 then
            if bit flags 1 then Some None
            else if iph_is_valid_and_not_fragmented iph l3_len then Some (Some (l4_of_ipv4 iph l3_len))
            else Some None
          else if v = 6 \<and> l3_len \<ge> 40 then
            if bit flags 0 then Some None
            else do {
              plen \<leftarrow> rd16 l3 4;
              if l3_len - 40 \<ge> plen then do {
                nxt \<leftarrow> rd8 l3 6;
                (rc, l4ptr, l4len, l4protocol) \<leftarrow>
                  ndpi_handle_ipv6_extension_headers l3 (l3_len - 40) 40 plen (unat nxt);
                if rc \<noteq> 0 then Some None else Some (Some (l4ptr, l4len, l4protocol)) }
              else Some None }
          else Some None })"

definition ndpi_detection_get_l4 :: "bytes option \<Rightarrow> nat \<Rightarrow> u32 \<Rightarrow> (nat \<times> nat \<times> nat) option option" where
  "ndpi_detection_get_l4 l3 l3_len flags = ndpi_detection_get_l4_internal l3 l3_len flags"

section \<open>Reads and the extension headers\<close>

lemma rd_iphdr_total: "20 \<le> length l3 \<Longrightarrow> \<exists>iph. rd_iphdr l3 = Some iph \<and> ip_ihl iph = unat (l3 ! 0) mod 16"
  unfolding rd_iphdr_def rd32_def rd16_def rd8_def by (cases "l3 = []") (simp_all add: less_le_trans [of _ 20])

lemma rd_ipv6hdr_total: "40 \<le> length l3 \<Longrightarrow> \<exists>h. rd_ipv6hdr l3 = Some h"
  by (auto simp: rd_ipv6hdr_def rd8_in rdn_def)

text \<open>
  The extension headers as the protocol defines them: each names the next header in its
  first byte; a fragment header has 8 bytes, any other header gives its length beyond the
  first 8 bytes in its second byte.
\<close>

inductive ext_chain :: "bytes \<Rightarrow> nat \<Rightarrow> nat \<Rightarrow> nat \<Rightarrow> nat \<Rightarrow> bool" for p where
  chain_end: "ext_chain p off n off n"
| chain_fragment: "be16 (p ! (off + 2)) (p ! (off + 3)) div 8 = 0 \<Longrightarrow>
    ext_chain p (off + 8) (unat (p ! off)) off' n' \<Longrightarrow> ext_chain p off 44 off' n'"
| chain_header: "n \<in> {0, 43, 60, 135} \<Longrightarrow>
    ext_chain p (off + (unat (p ! (off + 1)) * 8 + 8)) (unat (p ! off)) off' n' \<Longrightarrow> ext_chain p off n off' n'"

text \<open>What a result of the walk says.\<close>

definition walked :: "bytes \<Rightarrow> nat \<Rightarrow> nat \<Rightarrow> nat \<Rightarrow> nat \<Rightarrow> nat \<times> nat \<times> nat \<times> nat \<Rightarrow> bool" where
  "walked p l3len l4ptr l4len nxt_hdr = (\<lambda>(rc, ptr, len, n).
     rc \<le> 1 \<and> l4ptr \<le> ptr \<and> ptr + len = l4ptr + l4len \<and>
     (rc = 0 \<longrightarrow> ext_chain p l4ptr nxt_hdr ptr n \<and> (is_extension n \<longrightarrow> l3len \<le> 1 + (ptr - l4ptr))))"

lemma walked_fragment:
  assumes "walked p (l3len - 5) (off + 8) (l4len - 8) (unat (p ! off)) r" "8 \<le> l4len"
    "be16 (p ! (off + 2)) (p ! (off + 3)) div 8 = 0"
  shows "walked p l3len off l4len 44 r"
  using assms chain_fragment [of p off] by (auto simp: walked_def)

lemma walked_header:
  assumes "walked p (l3len - h) (off + h) (l4len - h) (unat (p ! off)) r" "h \<le> l4len"
    "h = unat (p ! (off + 1)) * 8 + 8" "n \<in> {0, 43, 60, 135}"
  shows "walked p l3len off l4len n r"
  using assms chain_header [of n p off] by (auto simp: walked_def)

lemma ipv6_extension_headers_walk:
  assumes "l4ptr + l4len \<le> length p"
  shows "\<exists>r. ndpi_handle_ipv6_extension_headers p l3len l4ptr l4len nxt_hdr = Some r \<and>
    walked p l3len l4ptr l4len nxt_hdr r"
  using assms
proof (induction p l3len l4ptr l4len nxt_hdr rule: ndpi_handle_ipv6_extension_headers.induct)
  case (1 p l3len l4ptr l4len nxt_hdr)
  note eq = ndpi_handle_ipv6_extension_headers.simps [of p l3len l4ptr l4len nxt_hdr]
  have stop: "walked p l3len l4ptr l4len nxt_hdr (1, l4ptr, l4len, n)" for n by (simp add: walked_def)
  consider "\<not> (l3len > 1 \<and> is_extension nxt_hdr)"
    | "l3len > 1" "nxt_hdr = 59" | "l3len > 1" "nxt_hdr = 44"
    | "l3len > 1" "nxt_hdr \<in> {0, 43, 60, 135}"
    unfolding is_extension_def by blast
  then show ?case
  proof cases
    case 1
    then show ?thesis by (subst eq) (auto simp: walked_def chain_end)
  next
    case 2
    then show ?thesis using stop by (subst eq) (simp add: is_extension_def)
  next
    case 3
    show ?thesis
    proof (cases "8 \<le> l4len \<and> 5 \<le> l3len \<and> be16 (p ! (l4ptr + 2)) (p ! (l4ptr + 3)) div 8 = 0")
      case True
      then have rd: "rd8 p l4ptr = Some (p ! l4ptr)"
        "rd16 p (l4ptr + 2) = Some (be16 (p ! (l4ptr + 2)) (p ! (l4ptr + 3)))"
        using "1.prems" by (simp_all add: rd8_in rd16_in numeral_3_eq_3)
      obtain r where r: "ndpi_handle_ipv6_extension_headers p (l3len - 5) (l4ptr + 8) (l4len - 8) (unat (p ! l4ptr)) = Some r"
        "walked p (l3len - 5) (l4ptr + 8) (l4len - 8) (unat (p ! l4ptr)) r"
        using "1.IH"(1) rd True 3 "1.prems" by (fastforce simp: is_extension_def)
      then show ?thesis using 3 rd True walked_fragment [OF r(2)]
        by (intro exI [of _ r] conjI, subst eq) (simp_all add: is_extension_def)
    next
      case False
      then show ?thesis using 3 stop "1.prems"
        by (subst eq) (auto simp: is_extension_def rd8_in rd16_in numeral_3_eq_3)
    qed
  next
    case 4
    define h where "h = unat (p ! (l4ptr + 1)) * 8 + 8"
    have n: "nxt_hdr \<noteq> 59" "nxt_hdr \<noteq> 44" "is_extension nxt_hdr" using 4 by (auto simp: is_extension_def)
    show ?thesis
    proof (cases "h \<le> l4len \<and> h \<le> l3len")
      case True
      then have rd: "rd8 p l4ptr = Some (p ! l4ptr)" "rd8 p (l4ptr + 1) = Some (p ! (l4ptr + 1))" "2 \<le> l4len"
        using "1.prems" by (simp_all add: rd8_in h_def)
      obtain r where r: "ndpi_handle_ipv6_extension_headers p (l3len - h) (l4ptr + h) (l4len - h) (unat (p ! l4ptr)) = Some r"
        "walked p (l3len - h) (l4ptr + h) (l4len - h) (unat (p ! l4ptr)) r"
        using "1.IH"(2) rd True 4 n "1.prems" unfolding h_def by fastforce
      then show ?thesis using 4 n rd True walked_header [OF r(2) _ h_def]
        by (intro exI [of _ r] conjI, subst eq) (simp_all add: h_def)
    next
      case False
      then show ?thesis using 4 n stop "1.prems"
        by (subst eq) (auto simp: rd8_in h_def)
    qed
  qed
qed

section \<open>Location of the transport header\<close>

definition l4_found_v4 :: "bytes \<Rightarrow> nat \<times> nat \<times> nat \<Rightarrow> bool" where
  "l4_found_v4 l3 = (\<lambda>(off, len, proto). \<exists>iph. rd_iphdr l3 = Some iph \<and> proto = ip_protocol iph \<and>
     off = 4 * ip_ihl iph \<and> 20 \<le> off \<and> (len \<noteq> 0 \<longrightarrow> off + len \<le> length l3) \<and>
     (len \<noteq> 0 \<longrightarrow> ip_tot_len iph \<noteq> 0 \<longrightarrow> off + len \<le> ip_tot_len iph) \<and>
     (proto = IPPROTO_UDP \<longrightarrow> ip_frag_off iph mod 8192 = 0 \<and> off + len = ip_tot_len iph))"

definition l4_found_v6 :: "bytes \<Rightarrow> nat \<times> nat \<times> nat \<Rightarrow> bool" where
  "l4_found_v6 l3 = (\<lambda>(off, len, proto). ext_chain l3 40 (unat (l3 ! 6)) off proto \<and>
     off + len = 40 + be16 (l3 ! 4) (l3 ! 5) \<and> off + len \<le> length l3 \<and> (is_extension proto \<longrightarrow> len \<le> 1))"

lemma l4_of_ipv4_found:
  assumes "rd_iphdr l3 = Some iph" "5 \<le> ip_ihl iph" "iph_is_valid_and_not_fragmented iph (length l3)"
  shows "l4_found_v4 l3 (l4_of_ipv4 iph (length l3))"
  using assms by (auto simp: l4_found_v4_def l4_of_ipv4_def iph_is_valid_and_not_fragmented_def Let_def
      split: if_splits)

lemma walked_found_v6:
  assumes "walked l3 (length l3 - 40) 40 (be16 (l3 ! 4) (l3 ! 5)) (unat (l3 ! 6)) (0, off, len, proto)"
    "be16 (l3 ! 4) (l3 ! 5) \<le> length l3 - 40" "40 \<le> length l3"
  shows "l4_found_v6 l3 (off, len, proto)"
  using assms by (auto simp: walked_def l4_found_v6_def)

lemma get_l4_found:
  "\<exists>r. ndpi_detection_get_l4 (Some l3) (length l3) flags = Some r \<and>
    (\<forall>x. r = Some x \<longrightarrow> 20 \<le> length l3 \<and>
       (unat (l3 ! 0) div 16 = 4 \<and> \<not> bit flags 1 \<and> l4_found_v4 l3 x \<or>
        unat (l3 ! 0) div 16 = 6 \<and> \<not> bit flags 0 \<and> 40 \<le> length l3 \<and> l4_found_v6 l3 x))"
proof (cases "20 \<le> length l3")
  case True
  then have ne: "l3 \<noteq> []" by auto
  have v: "rd_version l3 = Some (unat (l3 ! 0) div 16)" using ne by (simp add: rd_version_def rd8_in)
  obtain iph where iph: "rd_iphdr l3 = Some iph" using rd_iphdr_total [OF True] by blast
  note eq = ndpi_detection_get_l4_def ndpi_detection_get_l4_internal_def
  consider "unat (l3 ! 0) div 16 = 4" "5 \<le> ip_ihl iph"
    | "\<not> (unat (l3 ! 0) div 16 = 4 \<and> 5 \<le> ip_ihl iph)" "unat (l3 ! 0) div 16 = 6" "40 \<le> length l3"
    | "\<not> (unat (l3 ! 0) div 16 = 4 \<and> 5 \<le> ip_ihl iph)" "\<not> (unat (l3 ! 0) div 16 = 6 \<and> 40 \<le> length l3)"
    by blast
  then show ?thesis
  proof cases
    case 1
    then show ?thesis using True v iph l4_of_ipv4_found [OF iph] by (auto simp: eq)
  next
    case 2
    then have rd: "rd16 l3 4 = Some (be16 (l3 ! 4) (l3 ! 5))" "rd8 l3 6 = Some (l3 ! 6)"
      by (simp_all add: rd16_in rd8_in)
    show ?thesis
    proof (cases "be16 (l3 ! 4) (l3 ! 5) \<le> length l3 - 40")
      case le: True
      then have fits: "40 + be16 (l3 ! 4) (l3 ! 5) \<le> length l3" using 2 by simp
      obtain rc off len n where w: "ndpi_handle_ipv6_extension_headers l3 (length l3 - 40) 40
          (be16 (l3 ! 4) (l3 ! 5)) (unat (l3 ! 6)) = Some (rc, off, len, n)"
        "walked l3 (length l3 - 40) 40 (be16 (l3 ! 4) (l3 ! 5)) (unat (l3 ! 6)) (rc, off, len, n)"
        using ipv6_extension_headers_walk [OF fits, of "length l3 - 40" "unat (l3 ! 6)"] by auto
      then show ?thesis using True v iph 2 rd le walked_found_v6 [of l3 off len n]
        by (cases "rc = 0") (simp_all add: eq)
    qed (use True v iph 2 rd in \<open>simp add: eq\<close>)
  next
    case 3
    then show ?thesis using True v iph by (simp only: eq) force
  qed
qed (simp add: ndpi_detection_get_l4_def ndpi_detection_get_l4_internal_def)

lemma l4_in_packet:
  "\<exists>r. ndpi_detection_get_l4_internal (Some p) (length p) 0 = Some r \<and>
    (\<forall>off len proto. r = Some (off, len, proto) \<longrightarrow> len \<noteq> 0 \<longrightarrow> off + len \<le> length p)"
  using get_l4_found [of p 0]
  by (fastforce simp: ndpi_detection_get_l4_def l4_found_v4_def l4_found_v6_def)

text \<open>C37. The location of the transport header stays inside the packet: for every packet and
  every restriction, the search returns, reads nothing outside the packet, and what it
  finds lies inside it. In an IPv4 packet the transport part starts behind the header
  length, stops at the total length, and a UDP packet is complete and no later fragment.
  In an IPv6 packet the protocol is reached by following the chain of extension headers,
  the part ends at the payload length, and an extension header is named only when at most
  one byte is left.\<close>

theorem get_l4_inside_packet:
  "\<exists>r. ndpi_detection_get_l4 (Some l3) (length l3) flags = Some r \<and>
    (\<forall>x. r = Some x \<longrightarrow> 20 \<le> length l3 \<and>
       (unat (l3 ! 0) div 16 = 4 \<and> \<not> bit flags 1 \<and> l4_found_v4 l3 x \<or>
        unat (l3 ! 0) div 16 = 6 \<and> \<not> bit flags 0 \<and> 40 \<le> length l3 \<and> l4_found_v6 l3 x))"
  by (rule get_l4_found)

theorem get_l4_inside_packet_witness:
  "l4_found_v4 [0x45, 0, 0, 28, 0, 0, 0, 0, 64, 17, 0, 0, 0, 0, 0, 0, 0, 0, 0, 0, 0, 0, 0, 0, 0, 0, 0, 0] (20, 8, 17)"
proof -
  let ?p = "[0x45, 0, 0, 28, 0, 0, 0, 0, 64, 17, 0, 0, 0, 0, 0, 0, 0, 0, 0, 0, 0, 0, 0, 0, 0, 0, 0, 0] :: bytes"
  have found: "ndpi_detection_get_l4 (Some ?p) (length ?p) 0 = Some (Some (20, 8, 17))"
    by (simp add: ndpi_detection_get_l4_def ndpi_detection_get_l4_internal_def rd_version_def rd_iphdr_def
        rd8_def rd16_def rd32_def be16_def be32_def iph_is_valid_and_not_fragmented_def l4_of_ipv4_def
        IPPROTO_UDP_def)
  have "unat (?p ! 0) div 16 \<noteq> 6" by simp
  then show ?thesis
    using get_l4_inside_packet [of ?p 0] unfolding found by blast
qed

end
