(* ===== verification/Packet_Init.thy ===== *)
theory Packet_Init
  imports L4_Parse Dissector_Interface Serializer
begin

text \<open>
  Preparation of a packet for detection: \<open>ndpi_init_packet\<close> of \<open>src/lib/ndpi_main.c\<close>, with the
  fingerprint of TCP SYN packets it computes, and \<open>ndpi_get_os_from_tcp_fingerprint\<close> of
  \<open>src/lib/ndpi_fingerprint.c\<close>. The fields of the flow that hold the fingerprint are the
  record \<open>flow_fingerprint\<close>; of the parsed lines of text, which the function resets, the
  packet record has those the modelled dissectors use. SHA-256 and the hash table of known
  fingerprints are third-party code and arguments of the definitions.
\<close>

section \<open>Definitions\<close>

datatype ndpi_tcp_fingerprint_format = NDPI_NATIVE_TCP_FINGERPRINT | NDPI_MUONFP_TCP_FINGERPRINT

text \<open>The configuration the function reads, and the two third-party functions.\<close>

record parse_config =
  pc_ip_version_limit :: u8
  pc_tcp_fingerprint_enabled :: bool
  pc_tcp_fingerprint_format :: ndpi_tcp_fingerprint_format
  pc_tcp_fingerprint_raw_enabled :: bool
  pc_ndpi_sha256 :: "bytes \<Rightarrow> bytes"
  pc_tcp_fingerprint_hashmap :: "(bytes \<Rightarrow> nat option) option"

record flow_fingerprint =
  ff_fingerprint :: "bytes option"
  ff_fingerprint_raw :: "bytes option"
  ff_os_hint :: nat

text \<open>The reads through \<open>packet->tcp\<close> and \<open>packet->udp\<close> at an offset.\<close>

definition rd_tcphdr :: "bytes \<Rightarrow> nat \<Rightarrow> ndpi_tcphdr option" where
  "rd_tcphdr p o4 = do {
     s \<leftarrow> rd16 p o4; d \<leftarrow> rd16 p (o4 + 2); sq \<leftarrow> rd32 p (o4 + 4); ak \<leftarrow> rd32 p (o4 + 8);
     b \<leftarrow> rd8 p (o4 + 12); f \<leftarrow> rd8 p (o4 + 13); w \<leftarrow> rd16 p (o4 + 14);
     Some \<lparr>th_source = s, th_dest = d, th_seq = of_nat sq, th_ack_seq = of_nat ak, th_doff = unat b div 16,
           th_fin = bit f 0, th_syn = bit f 1, th_rst = bit f 2, th_psh = bit f 3, th_ack = bit f 4,
           th_window = w\<rparr> }"

definition rd_udphdr :: "bytes \<Rightarrow> nat \<Rightarrow> ndpi_udphdr option" where
  "rd_udphdr p o4 = do {
     s \<leftarrow> rd16 p o4; d \<leftarrow> rd16 p (o4 + 2); l \<leftarrow> rd16 p (o4 + 4);
     Some \<lparr>uh_source = s, uh_dest = d, uh_len = l\<rparr> }"

definition ndpi_get_os_from_tcp_fingerprint :: "parse_config \<Rightarrow> bytes option \<Rightarrow> nat" where
  "ndpi_get_os_from_tcp_fingerprint c fp =
     (case (fp, pc_tcp_fingerprint_hashmap c) of
        (Some t, Some find_entry) \<Rightarrow> (case find_entry t of Some ret \<Rightarrow> ret | None \<Rightarrow> 0)
      | _ \<Rightarrow> 0)"

text \<open>
  \<open>snprintf(&buf[idx], sizeof(buf) - idx, ...)\<close> into a buffer of 128 bytes, of which the model
  keeps the text before the terminating NUL: \<open>None\<close> when the index is past the end, where
  the size would wrap around.
\<close>

definition print_at :: "nat \<Rightarrow> bytes \<Rightarrow> bytes \<Rightarrow> bytes option" where
  "print_at idx buf t =
     (if idx > 128 then None else if idx = 128 then Some buf else Some (take idx buf @ take (127 - idx) t))"

definition hex_digit :: "nat \<Rightarrow> u8" where
  "hex_digit n = (if n < 10 then of_nat (48 + n) else of_nat (87 + n))"

definition hex2 :: "u8 \<Rightarrow> bytes" where
  "hex2 b = [hex_digit (unat b div 16), hex_digit (unat b mod 16)]"

text \<open>The local variables of the loop over the TCP options.\<close>

record options_state =
  os_i :: nat
  os_options_fp :: bytes
  os_options_fp_len :: nat
  os_fingerprint :: bytes
  os_fp_idx :: nat
  os_tcp_mss :: nat
  os_tcp_wscale :: nat

text \<open>Printing the kind of an option; \<open>True\<close> leaves the loop.\<close>

definition print_hex :: "u8 \<Rightarrow> options_state \<Rightarrow> (bool \<times> options_state) option" where
  "print_hex b s = do {
     buf \<leftarrow> print_at (os_options_fp_len s) (os_options_fp s) (hex2 b);
     let s = s\<lparr>os_options_fp := buf\<rparr>;
     Some (if os_options_fp_len s + 2 = 128 then (True, s)
           else (False, s\<lparr>os_options_fp_len := (os_options_fp_len s + 2) mod 256\<rparr>)) }"

definition print_kind :: "ndpi_tcp_fingerprint_format \<Rightarrow> u8 \<Rightarrow> options_state \<Rightarrow> (bool \<times> options_state) option" where
  "print_kind fmt kind s =
     (case fmt of
        NDPI_NATIVE_TCP_FINGERPRINT \<Rightarrow> print_hex kind s
      | NDPI_MUONFP_TCP_FINGERPRINT \<Rightarrow>
          if os_fp_idx s \<ge> 128 then Some (True, s)
          else do {
            let t = (if os_i s > 0 then str ''-'' else []) @ decimal (unat kind);
            buf \<leftarrow> print_at (os_fp_idx s) (os_fingerprint s) t;
            let s = s\<lparr>os_fingerprint := buf\<rparr>;
            Some (if os_fp_idx s + length t = 128 then (True, s)
                  else (False, s\<lparr>os_fp_idx := (os_fp_idx s + length t) mod 256\<rparr>)) })"

text \<open>The value of an option, and the loop that prints its bytes.\<close>

definition option_value :: "bytes \<Rightarrow> nat \<Rightarrow> nat \<Rightarrow> nat option" where
  "option_value options j opt_len =
     (if opt_len = 1 then map_option unat (rd8 options j)
      else if opt_len = 2 then rd16 options j
      else if opt_len = 3 then do { a \<leftarrow> rd8 options j; b \<leftarrow> rd16 options (j + 1); Some (65536 * unat a + b) }
      else if opt_len = 4 then rd32 options j
      else Some 0)"

fun print_bytes :: "bytes \<Rightarrow> options_state \<Rightarrow> options_state option" where
  "print_bytes [] s = Some s"
| "print_bytes (b # bs) s = do { (stop, s) \<leftarrow> print_hex b s; if stop then Some s else print_bytes bs s }"

definition option_body ::
  "ndpi_tcp_fingerprint_format \<Rightarrow> bytes \<Rightarrow> u8 \<Rightarrow> nat \<Rightarrow> nat \<Rightarrow> options_state \<Rightarrow> options_state option" where
  "option_body fmt options kind j opt_len s = do {
     s \<leftarrow> (if (kind = 2 \<or> kind = 3) \<and> j + opt_len - 1 < length options
          then map_option (\<lambda>v. if kind = 2 then s\<lparr>os_tcp_mss := v\<rparr> else s\<lparr>os_tcp_wscale := v\<rparr>)
                 (option_value options j opt_len)
          else Some s);
     if fmt = NDPI_NATIVE_TCP_FINGERPRINT then print_bytes (take opt_len (drop j options)) s else Some s }"

text \<open>One round of the loop, whose index has 8 bits; an option of length 0 does not advance it.\<close>

definition option_round ::
  "ndpi_tcp_fingerprint_format \<Rightarrow> bytes \<Rightarrow> options_state \<Rightarrow> (bool \<times> options_state) option" where
  "option_round fmt options s =
     (if \<not> os_i s < length options then Some (True, s)
      else do {
        kind \<leftarrow> rd8 options (os_i s);
        (stop, s) \<leftarrow> print_kind fmt kind s;
        if stop then Some (True, s)
        else if kind = 0 \<or> kind = 1 then Some (False, s\<lparr>os_i := (os_i s + 1) mod 256\<rparr>)
        else if os_i s + 1 < length options then do {
          len \<leftarrow> rd8 options (os_i s + 1);
          if len = 0 then Some (False, s)
          else do {
            s \<leftarrow> (if kind \<noteq> 8 \<and> len > 2 then option_body fmt options kind (os_i s + 2) (unat len - 2) s
                 else Some s);
            Some (False, s\<lparr>os_i := (os_i s + unat len) mod 256\<rparr>) } }
        else Some (True, s) })"

partial_function (option) options_loop ::
  "ndpi_tcp_fingerprint_format \<Rightarrow> bytes \<Rightarrow> options_state \<Rightarrow> options_state option" where
  "options_loop fmt options s = do {
     (stop, s') \<leftarrow> option_round fmt options s;
     if stop then Some s' else options_loop fmt options s' }"

text \<open>The part of the fingerprint before the options, and the part behind them.\<close>

definition ttl_class :: "nat \<Rightarrow> nat" where
  "ttl_class t = (if t \<le> 32 then 32 else if t \<le> 64 then 64 else if t \<le> 128 then 128
     else if t \<le> 192 then 192 else 255)"

definition fingerprint_head :: "ndpi_tcp_fingerprint_format \<Rightarrow> nat \<Rightarrow> nat \<Rightarrow> nat \<Rightarrow> bytes" where
  "fingerprint_head fmt flags ttl win =
     (case fmt of
        NDPI_NATIVE_TCP_FINGERPRINT \<Rightarrow>
          decimal flags @ str ''_'' @ decimal ttl @ str ''_'' @ decimal win @ str ''_''
      | NDPI_MUONFP_TCP_FINGERPRINT \<Rightarrow> decimal win @ str '':'')"

definition colon_number :: "nat \<Rightarrow> bytes" where
  "colon_number v = (if v > 0 then str '':'' @ decimal v else str '':'')"

definition fingerprint_tail :: "parse_config \<Rightarrow> options_state \<Rightarrow> bytes option" where
  "fingerprint_tail c s =
     (case pc_tcp_fingerprint_format c of
        NDPI_NATIVE_TCP_FINGERPRINT \<Rightarrow> do {
          text \<leftarrow> rdn (os_options_fp s) 0 (os_options_fp_len s);
          sha \<leftarrow> rdn (pc_ndpi_sha256 c text) 0 6;
          print_at (os_fp_idx s) (os_fingerprint s) (concat (map hex2 sha)) }
      | NDPI_MUONFP_TCP_FINGERPRINT \<Rightarrow>
          if os_fp_idx s < 128 then do {
            buf \<leftarrow> print_at (os_fp_idx s) (os_fingerprint s) (colon_number (os_tcp_mss s));
            let idx = (os_fp_idx s + length (colon_number (os_tcp_mss s))) mod 256;
            if idx < 128 then print_at idx buf (colon_number (os_tcp_wscale s)) else Some buf }
          else Some (os_fingerprint s))"

definition scanner_message :: "nat \<Rightarrow> bytes" where
  "scanner_message win =
     (if win = 1024 then str ''Massive scanner detected (probably masscan)''
      else if win = 65535 then str ''Massive scanner detected (probably zmap)''
      else str ''Massive scanner detected'')"

text \<open>
  The options of a SYN packet and the risks they raise: no options at all, or a maximum
  segment size only, unless an IPv4 sender is private.
\<close>

definition scan_options ::
  "parse_config \<Rightarrow> ndpi_module \<Rightarrow> bytes \<Rightarrow> nat \<Rightarrow> options_state \<Rightarrow> ndpi_flow
     \<Rightarrow> (options_state \<times> ndpi_flow) option" where
  "scan_options c m options win s flow =
     (if options = [] then do {
        flow \<leftarrow> ndpi_set_risk (nd_strdup_ok m) m flow NDPI_MALICIOUS_FINGERPRINT (Some (scanner_message win));
        Some (s, flow) }
      else do {
        s \<leftarrow> options_loop (pc_tcp_fingerprint_format c) options s;
        flow \<leftarrow> (if length options = 4 \<and> os_tcp_mss s > 0 \<and>
                    (pk_iphv6 (nd_packet m) \<noteq> None \<or>
                     (case pk_iph (nd_packet m) of Some h \<Rightarrow> ndpi_is_public_ipv4 (ip_saddr h) | None \<Rightarrow> False))
                 then ndpi_set_risk (nd_strdup_ok m) m flow NDPI_MALICIOUS_FINGERPRINT
                        (Some (str ''Unusual TCP fingerprint (scanner detected?)''))
                 else Some flow);
        Some (s, flow) })"

text \<open>
  The fingerprint of the TCP header at \<open>o4\<close>. A segment counts when it has one of the flags
  SYN, ECE and CWR (mask \<open>0xC2\<close>) but not ACK (bit 4).
\<close>

definition tcp_fingerprint ::
  "parse_config \<Rightarrow> ndpi_module \<Rightarrow> bytes \<Rightarrow> nat \<Rightarrow> nat \<Rightarrow> ndpi_flow \<Rightarrow> flow_fingerprint
     \<Rightarrow> (ndpi_flow \<times> flow_fingerprint) option" where
  "tcp_fingerprint c m p o4 tcp_header_len flow ff = do {
     w \<leftarrow> rd16 p (o4 + 12);
     let flags = w mod 4096;
     if (of_nat flags :: u16) AND 0xC2 \<noteq> 0 \<and> \<not> bit flags 4 \<and> tcp_header_len \<ge> 20 then do {
       options \<leftarrow> rdn p (o4 + 20) (tcp_header_len - 20);
       win \<leftarrow> rd16 p (o4 + 14);
       ttl \<leftarrow> (case pk_iph (nd_packet m) of Some h \<Rightarrow> Some (ip_ttl h)
              | None \<Rightarrow> map_option ip6_hlim (pk_iphv6 (nd_packet m)));
       let head = fingerprint_head (pc_tcp_fingerprint_format c) flags (ttl_class ttl) win;
       (s, flow) \<leftarrow> scan_options c m options win
          \<lparr>os_i = 0, os_options_fp = [], os_options_fp_len = 0, os_fingerprint = head,
           os_fp_idx = length head, os_tcp_mss = 0, os_tcp_wscale = 0\<rparr> flow;
       fingerprint \<leftarrow> fingerprint_tail c s;
       let fp = (if nd_strdup_ok m then Some fingerprint else None);
       Some (flow,
         \<lparr>ff_fingerprint = fp,
          ff_fingerprint_raw =
            (if pc_tcp_fingerprint_raw_enabled c \<and> os_options_fp_len s \<noteq> 0
             then if nd_strdup_ok m then Some (os_options_fp s) else None
             else ff_fingerprint_raw ff),
          ff_os_hint = ndpi_get_os_from_tcp_fingerprint c fp\<rparr>) }
     else Some (flow, ff) }"

text \<open>
  \<open>ndpi_init_packet\<close>: the result is the return code with the module, whose packet is set, the
  flow and its fingerprint. \<open>packet_data\<close> has \<open>packetlen\<close> bytes.
\<close>

definition ndpi_reset_packet_line_info :: "ndpi_packet \<Rightarrow> ndpi_packet" where
  "ndpi_reset_packet_line_info pk =
     pk\<lparr>pk_content_line := empty_line, pk_user_agent_line := empty_line, pk_http_url_name := empty_line\<rparr>"

definition set_packet :: "(ndpi_packet \<Rightarrow> ndpi_packet) \<Rightarrow> ndpi_module \<Rightarrow> ndpi_module" where
  "set_packet f m = m\<lparr>nd_packet := f (nd_packet m)\<rparr>"

definition init_transport ::
  "parse_config \<Rightarrow> ndpi_module \<Rightarrow> bytes \<Rightarrow> nat \<Rightarrow> nat \<Rightarrow> nat \<Rightarrow> ndpi_flow \<Rightarrow> flow_fingerprint
     \<Rightarrow> (nat \<times> ndpi_module \<times> ndpi_flow \<times> flow_fingerprint) option" where
  "init_transport c m p l4ptr l4_packet_len l4protocol flow ff =
     (if l4protocol = IPPROTO_TCP then
        if l4_packet_len < 20 then Some (1, m, flow, ff)
        else do {
          tcp \<leftarrow> rd_tcphdr p l4ptr;
          let m = set_packet (pk_tcp_update (\<lambda>_. Some tcp)) m;
          let tcp_header_len = th_doff tcp * 4;
          if l4_packet_len \<ge> tcp_header_len then do {
            (flow, ff) \<leftarrow> (if pc_tcp_fingerprint_enabled c \<and> ff_fingerprint ff = None
                          then tcp_fingerprint c m p l4ptr tcp_header_len flow ff else Some (flow, ff));
            payload \<leftarrow> rdn p (l4ptr + tcp_header_len) (l4_packet_len - tcp_header_len);
            Some (0, set_packet (pk_payload_update (\<lambda>_. payload)) m, flow, ff) }
          else Some (1, m, flow, ff) }
      else if l4protocol = IPPROTO_UDP then
        if l4_packet_len < 8 then Some (1, m, flow, ff)
        else do {
          udp \<leftarrow> rd_udphdr p l4ptr;
          payload \<leftarrow> rdn p (l4ptr + 8) (l4_packet_len - 8);
          Some (0, set_packet (\<lambda>pk. pk\<lparr>pk_udp := Some udp, pk_payload := payload\<rparr>) m, flow, ff) }
      else if (l4protocol = 1 \<or> l4protocol = 58) \<and> l4_packet_len < 8 then Some (1, m, flow, ff)
      else do {
        payload \<leftarrow> (if l4_packet_len = 0 then Some [] else rdn p l4ptr l4_packet_len);
        Some (0, set_packet (pk_payload_update (\<lambda>_. payload)) m, flow, ff) })"

definition ndpi_init_packet ::
  "parse_config \<Rightarrow> ndpi_module \<Rightarrow> ndpi_flow \<Rightarrow> flow_fingerprint \<Rightarrow> u64 \<Rightarrow> bytes \<Rightarrow> nat
     \<Rightarrow> (nat \<times> ndpi_module \<times> ndpi_flow \<times> flow_fingerprint) option" where
  "ndpi_init_packet c m flow ff current_time_ms packet_data packetlen =
     (if packetlen < 20 then Some (1, m, flow, ff)
      else do {
        v \<leftarrow> rd_version packet_data;
        iph \<leftarrow> rd_iphdr packet_data;
        let m = set_packet (\<lambda>pk. ndpi_reset_packet_line_info (pk\<lparr>pk_current_time_ms := current_time_ms,
          pk_iph := Some iph, pk_payload := [], pk_l3_packet_len := packetlen,
          pk_tcp := None, pk_udp := None, pk_iphv6 := None\<rparr>)) m;
        if v = 4 \<and> ip_ihl iph \<ge> 5 \<or> v = 6 \<and> packetlen \<ge> 40 \<and> \<not> bit (pc_ip_version_limit c) 0 then do {
          iphv6 \<leftarrow> (if v = 4 then Some None else map_option Some (rd_ipv6hdr packet_data));
          let m = (if v = 4 then m else set_packet (\<lambda>pk. pk\<lparr>pk_iphv6 := iphv6, pk_iph := None\<rparr>) m);
          l4 \<leftarrow> ndpi_detection_get_l4_internal (Some packet_data) packetlen 0;
          case l4 of
            None \<Rightarrow> Some (1, m, flow, ff)
          | Some (l4ptr, l4len, l4protocol) \<Rightarrow>
              init_transport c m packet_data l4ptr l4len l4protocol (flow\<lparr>fl_l4_proto := l4protocol\<rparr>) ff }
        else Some (1, set_packet (pk_iph_update (\<lambda>_. None)) m, flow, ff) })"

section \<open>The loop over the options ends\<close>

lemma print_at_length: "print_at idx buf t = Some buf' \<Longrightarrow> length buf \<le> 127 \<Longrightarrow> length buf' \<le> 127"
  by (auto simp: print_at_def split: if_splits)

lemma print_at_total: "idx \<le> 128 \<Longrightarrow> length buf \<le> 127 \<Longrightarrow> \<exists>b. print_at idx buf t = Some b \<and> length b \<le> 127"
  by (auto simp: print_at_def)

lemma decimal_nonempty: "decimal n \<noteq> []"
  by (subst decimal.simps) simp

lemma decimal_length: "n < 10 ^ k \<Longrightarrow> 0 < k \<Longrightarrow> length (decimal n) \<le> k"
proof (induction k arbitrary: n)
  case (Suc k)
  show ?case
  proof (cases "n < 10")
    case False
    then have "0 < k" using Suc.prems by (cases k) auto
    moreover have "n div 10 < 10 ^ k" using Suc.prems by (simp add: less_mult_imp_div_less)
    ultimately show ?thesis using Suc.IH False by (subst decimal.simps) simp
  qed (subst decimal.simps, simp)
qed simp

text \<open>
  In the native format every round prints two hexadecimal digits into the buffer of 128
  bytes, so that its length stays even and the loop stops when 126 are reached; in the
  other format every round prints at least one character into \<open>fingerprint\<close>.
\<close>

definition options_inv :: "ndpi_tcp_fingerprint_format \<Rightarrow> options_state \<Rightarrow> bool" where
  "options_inv fmt s \<longleftrightarrow> length (os_fingerprint s) \<le> 127 \<and> length (os_options_fp s) \<le> 127 \<and>
     os_options_fp_len s \<le> length (os_options_fp s) \<and>
     (fmt = NDPI_NATIVE_TCP_FINGERPRINT \<longrightarrow>
        even (os_options_fp_len s) \<and> os_options_fp_len s \<le> 126 \<and> os_fp_idx s \<le> 128) \<and>
     (fmt = NDPI_MUONFP_TCP_FINGERPRINT \<longrightarrow> os_fp_idx s \<le> 132)"

definition options_left :: "ndpi_tcp_fingerprint_format \<Rightarrow> options_state \<Rightarrow> nat" where
  "options_left fmt s = (case fmt of
     NDPI_NATIVE_TCP_FINGERPRINT \<Rightarrow> 128 - os_options_fp_len s | NDPI_MUONFP_TCP_FINGERPRINT \<Rightarrow> 133 - os_fp_idx s)"

lemma print_hex_step:
  assumes "options_inv NDPI_NATIVE_TCP_FINGERPRINT s"
  shows "\<exists>stop s'. print_hex b s = Some (stop, s') \<and> options_inv NDPI_NATIVE_TCP_FINGERPRINT s' \<and> os_i s' = os_i s \<and>
    options_left NDPI_NATIVE_TCP_FINGERPRINT s' \<le> options_left NDPI_NATIVE_TCP_FINGERPRINT s \<and>
    (\<not> stop \<longrightarrow> options_left NDPI_NATIVE_TCP_FINGERPRINT s' < options_left NDPI_NATIVE_TCP_FINGERPRINT s)"
proof -
  have len: "os_options_fp_len s \<le> 126" "even (os_options_fp_len s)" "os_options_fp_len s \<le> length (os_options_fp s)"
    using assms by (auto simp: options_inv_def)
  show ?thesis
  proof (cases "os_options_fp_len s = 126")
    case False
    then have "os_options_fp_len s \<le> 124" using len(1,2) by presburger
    then show ?thesis using assms len
      by (intro exI [of _ False] exI [of _ "s\<lparr>os_options_fp := take (os_options_fp_len s) (os_options_fp s) @ hex2 b,
            os_options_fp_len := os_options_fp_len s + 2\<rparr>"])
        (simp add: print_hex_def print_at_def options_inv_def options_left_def hex2_def Let_def, arith)
  qed (use assms len in \<open>simp add: print_hex_def print_at_def options_inv_def options_left_def hex2_def Let_def, blast\<close>)
qed

lemma print_kind_step:
  assumes "options_inv fmt s"
  shows "\<exists>stop s'. print_kind fmt kind s = Some (stop, s') \<and> options_inv fmt s' \<and> os_i s' = os_i s \<and>
    (\<not> stop \<longrightarrow> options_left fmt s' < options_left fmt s)"
proof (cases fmt)
  case NDPI_NATIVE_TCP_FINGERPRINT
  then show ?thesis using print_hex_step [of s kind] assms by (auto simp: print_kind_def)
next
  case NDPI_MUONFP_TCP_FINGERPRINT
  define t where "t = (if os_i s > 0 then str ''-'' else []) @ decimal (unat kind)"
  have "length (decimal (unat kind)) \<le> 3"
    using unsigned_less [of kind, where ?'a = nat] by (intro decimal_length) simp_all
  then have t: "0 < length t" "length t \<le> 4" using decimal_nonempty by (auto simp: t_def str_def)
  show ?thesis
  proof (cases "os_fp_idx s < 128")
    case True
    then obtain buf where buf: "print_at (os_fp_idx s) (os_fingerprint s) t = Some buf" by (auto simp: print_at_def)
    have "length buf \<le> 127" using print_at_length [OF buf] assms by (simp add: options_inv_def)
    then have inv: "options_inv fmt (s\<lparr>os_fingerprint := buf\<rparr>)"
      "options_inv fmt (s\<lparr>os_fingerprint := buf, os_fp_idx := os_fp_idx s + length t\<rparr>)"
      using assms True t NDPI_MUONFP_TCP_FINGERPRINT by (simp_all add: options_inv_def)
    have eq: "print_kind fmt kind s = Some (if os_fp_idx s + length t = 128 then (True, s\<lparr>os_fingerprint := buf\<rparr>)
        else (False, s\<lparr>os_fingerprint := buf, os_fp_idx := os_fp_idx s + length t\<rparr>))"
      using True t buf NDPI_MUONFP_TCP_FINGERPRINT unfolding print_kind_def t_def [symmetric] by simp
    have "options_left fmt (s\<lparr>os_fingerprint := buf, os_fp_idx := os_fp_idx s + length t\<rparr>) < options_left fmt s"
      using True t NDPI_MUONFP_TCP_FINGERPRINT by (simp add: options_left_def, arith)
    then show ?thesis unfolding eq using inv by (cases "os_fp_idx s + length t = 128") auto
  qed (use NDPI_MUONFP_TCP_FINGERPRINT assms in \<open>auto simp: print_kind_def\<close>)
qed

lemma print_bytes_step:
  assumes "options_inv NDPI_NATIVE_TCP_FINGERPRINT s"
  shows "\<exists>s'. print_bytes bs s = Some s' \<and> options_inv NDPI_NATIVE_TCP_FINGERPRINT s' \<and> os_i s' = os_i s \<and>
    options_left NDPI_NATIVE_TCP_FINGERPRINT s' \<le> options_left NDPI_NATIVE_TCP_FINGERPRINT s"
  using assms
proof (induction bs arbitrary: s)
  case (Cons b bs)
  obtain stop s1 where s1: "print_hex b s = Some (stop, s1)" "options_inv NDPI_NATIVE_TCP_FINGERPRINT s1"
    "os_i s1 = os_i s" "options_left NDPI_NATIVE_TCP_FINGERPRINT s1 \<le> options_left NDPI_NATIVE_TCP_FINGERPRINT s"
    using print_hex_step [OF Cons.prems] by blast
  then show ?case using Cons.IH [OF s1(2)] by (cases stop) fastforce+
qed simp

lemma option_value_total: "j + n - 1 < length options \<Longrightarrow> \<exists>v. option_value options j n = Some v"
  by (auto simp: option_value_def rd8_in rd16_in rd32_def)

lemma option_body_step:
  assumes "options_inv fmt s"
  shows "\<exists>s'. option_body fmt options kind j n s = Some s' \<and> options_inv fmt s' \<and> os_i s' = os_i s \<and>
    options_left fmt s' \<le> options_left fmt s"
proof -
  obtain s1 where s1: "(if (kind = 2 \<or> kind = 3) \<and> j + n - 1 < length options
      then map_option (\<lambda>v. if kind = 2 then s\<lparr>os_tcp_mss := v\<rparr> else s\<lparr>os_tcp_wscale := v\<rparr>) (option_value options j n)
      else Some s) = Some s1" "options_inv fmt s1" "os_i s1 = os_i s" "options_left fmt s1 = options_left fmt s"
    using option_value_total [of j n options] assms
    by (cases "(kind = 2 \<or> kind = 3) \<and> j + n - 1 < length options")
      (auto simp: options_inv_def options_left_def split: ndpi_tcp_fingerprint_format.splits)
  show ?thesis
  proof (cases fmt)
    case NDPI_NATIVE_TCP_FINGERPRINT
    then show ?thesis using s1 print_bytes_step [of s1 "take n (drop j options)"]
      unfolding option_body_def s1(1) by auto
  next
    case NDPI_MUONFP_TCP_FINGERPRINT
    then show ?thesis using s1 unfolding option_body_def s1(1) by auto
  qed
qed

lemma options_index [simp]:
  "options_inv fmt (s\<lparr>os_i := i\<rparr>) = options_inv fmt s" "options_left fmt (s\<lparr>os_i := i\<rparr>) = options_left fmt s"
  by (cases fmt, simp_all add: options_inv_def options_left_def)+

lemma option_round_step:
  assumes "options_inv fmt s"
  shows "\<exists>stop s'. option_round fmt options s = Some (stop, s') \<and> options_inv fmt s' \<and>
    (\<not> stop \<longrightarrow> options_left fmt s' < options_left fmt s)"
proof (cases "os_i s < length options")
  case True
  define kind where "kind = options ! os_i s"
  obtain stop s1 where s1: "print_kind fmt kind s = Some (stop, s1)" "options_inv fmt s1" "os_i s1 = os_i s"
    "\<not> stop \<longrightarrow> options_left fmt s1 < options_left fmt s"
    using print_kind_step [OF assms] by blast
  define n where "n = unat (options ! (os_i s + 1)) - 2"
  obtain s2 where s2: "option_body fmt options kind (os_i s + 2) n s1 = Some s2" "options_inv fmt s2"
    "os_i s2 = os_i s1" "options_left fmt s2 \<le> options_left fmt s1"
    using option_body_step [OF s1(2)] by blast
  have kind: "rd8 options (os_i s) = Some kind" using True by (simp add: rd8_in kind_def)
  consider "stop" | "\<not> stop" "kind = 0 \<or> kind = 1"
    | "\<not> stop" "\<not> (kind = 0 \<or> kind = 1)" "os_i s + 1 < length options"
    | "\<not> stop" "\<not> (kind = 0 \<or> kind = 1)" "\<not> os_i s + 1 < length options" by blast
  then show ?thesis
  proof cases
    case 3
    then have len: "rd8 options (os_i s + 1) = Some (options ! (os_i s + 1))" by (simp add: rd8_in)
    show ?thesis using 3 True kind s1 s2 len
      by (cases "kind \<noteq> 8 \<and> options ! (os_i s + 1) > 2") (auto simp: option_round_def n_def)
  qed (use True kind s1 in \<open>auto simp: option_round_def\<close>)
qed (use assms in \<open>auto simp: option_round_def\<close>)

lemma options_loop_ends:
  assumes "options_inv fmt s"
  shows "\<exists>s'. options_loop fmt options s = Some s' \<and> options_inv fmt s'"
  using assms
proof (induction "options_left fmt s" arbitrary: s rule: less_induct)
  case less
  obtain stop s1 where s1: "option_round fmt options s = Some (stop, s1)" "options_inv fmt s1"
    "\<not> stop \<longrightarrow> options_left fmt s1 < options_left fmt s"
    using option_round_step [OF less.prems] by blast
  show ?case using s1 less.hyps [of s1] by (subst options_loop.simps) (cases stop, auto)
qed

section \<open>The fingerprint\<close>

lemma fingerprint_head_length:
  assumes "flags < 4096" "win < 65536"
  shows "length (fingerprint_head fmt flags (ttl_class ttl) win) \<le> 15"
proof -
  have "length (decimal flags) \<le> 4" "length (decimal win) \<le> 5" "length (decimal (ttl_class ttl)) \<le> 3"
    using assms by (auto intro!: decimal_length simp: ttl_class_def)
  then show ?thesis by (cases fmt) (simp_all add: fingerprint_head_def)
qed

lemma fingerprint_tail_total:
  assumes "options_inv (pc_tcp_fingerprint_format c) s" "\<And>t. 6 \<le> length (pc_ndpi_sha256 c t)"
  shows "\<exists>t. fingerprint_tail c s = Some t \<and> length t \<le> 127"
proof (cases "pc_tcp_fingerprint_format c")
  case NDPI_NATIVE_TCP_FINGERPRINT
  then show ?thesis using assms
    by (auto simp: fingerprint_tail_def rdn_def options_inv_def print_at_def)
next
  case NDPI_MUONFP_TCP_FINGERPRINT
  show ?thesis
  proof (cases "os_fp_idx s < 128")
    case True
    then obtain b where b: "print_at (os_fp_idx s) (os_fingerprint s) (colon_number (os_tcp_mss s)) = Some b" "length b \<le> 127"
      using print_at_total [of "os_fp_idx s" "os_fingerprint s"] assms(1) by (auto simp: options_inv_def)
    define idx where "idx = (os_fp_idx s + length (colon_number (os_tcp_mss s))) mod 256"
    have "\<exists>t. (if idx < 128 then print_at idx b (colon_number (os_tcp_wscale s)) else Some b) = Some t \<and> length t \<le> 127"
      using print_at_total [of idx b] b(2) by auto
    then show ?thesis using True b(1) NDPI_MUONFP_TCP_FINGERPRINT
      unfolding fingerprint_tail_def idx_def Let_def by simp
  qed (use NDPI_MUONFP_TCP_FINGERPRINT assms in \<open>simp add: fingerprint_tail_def options_inv_def\<close>)
qed

lemma set_risk_total:
  "cfg_wf m \<Longrightarrow> \<exists>k. ndpi_set_risk alloc m flow r msg = Some (flow\<lparr>fl_rsk := k\<rparr>)"
  using set_risk_rsk by blast

lemma scan_options_total:
  assumes "cfg_wf m" "options_inv (pc_tcp_fingerprint_format c) s"
  shows "\<exists>s' k. scan_options c m options win s flow = Some (s', flow\<lparr>fl_rsk := k\<rparr>) \<and>
    options_inv (pc_tcp_fingerprint_format c) s'"
proof (cases "options = []")
  case True
  obtain k where "ndpi_set_risk (nd_strdup_ok m) m flow NDPI_MALICIOUS_FINGERPRINT (Some (scanner_message win))
      = Some (flow\<lparr>fl_rsk := k\<rparr>)"
    using set_risk_total [OF assms(1)] by blast
  then have "scan_options c m options win s flow = Some (s, flow\<lparr>fl_rsk := k\<rparr>)"
    using True unfolding scan_options_def by simp
  then show ?thesis using assms(2) by blast
next
  case False
  obtain s1 where s1: "options_loop (pc_tcp_fingerprint_format c) options s = Some s1"
    "options_inv (pc_tcp_fingerprint_format c) s1"
    using options_loop_ends [OF assms(2)] by blast
  obtain k where k: "ndpi_set_risk (nd_strdup_ok m) m flow NDPI_MALICIOUS_FINGERPRINT
      (Some (str ''Unusual TCP fingerprint (scanner detected?)'')) = Some (flow\<lparr>fl_rsk := k\<rparr>)"
    using set_risk_total [OF assms(1)] by blast
  have "scan_options c m options win s flow = Some (s1, flow\<lparr>fl_rsk := k\<rparr>) \<or>
      scan_options c m options win s flow = Some (s1, flow\<lparr>fl_rsk := fl_rsk flow\<rparr>)"
    using False s1(1) k unfolding scan_options_def by simp
  then show ?thesis using s1(2) by blast
qed

definition fingerprint_fits :: "flow_fingerprint \<Rightarrow> bool" where
  "fingerprint_fits ff \<longleftrightarrow> (\<forall>t. ff_fingerprint ff = Some t \<longrightarrow> length t < 128)"

lemma tcp_fingerprint_total:
  assumes "cfg_wf m" "\<And>t. 6 \<le> length (pc_ndpi_sha256 c t)" "o4 + 20 \<le> length p" "o4 + hlen \<le> length p"
    "pk_iph (nd_packet m) \<noteq> None \<or> pk_iphv6 (nd_packet m) \<noteq> None" "fingerprint_fits ff"
  shows "\<exists>k ff'. tcp_fingerprint c m p o4 hlen flow ff = Some (flow\<lparr>fl_rsk := k\<rparr>, ff') \<and> fingerprint_fits ff'"
proof -
  obtain w where w: "rd16 p (o4 + 12) = Some w" using assms(3) by (simp add: rd16_in)
  obtain win where win: "rd16 p (o4 + 14) = Some win" using assms(3) by (simp add: rd16_in)
  obtain ttl where ttl: "(case pk_iph (nd_packet m) of Some h \<Rightarrow> Some (ip_ttl h)
      | None \<Rightarrow> map_option ip6_hlim (pk_iphv6 (nd_packet m))) = Some ttl"
    using assms(5) by (cases "pk_iph (nd_packet m)") auto
  define head where "head = fingerprint_head (pc_tcp_fingerprint_format c) (w mod 4096) (ttl_class ttl) win"
  have "length head \<le> 15" unfolding head_def
    by (rule fingerprint_head_length) (use rd16_less [OF win] in simp_all)
  then have inv: "options_inv (pc_tcp_fingerprint_format c)
      \<lparr>os_i = 0, os_options_fp = [], os_options_fp_len = 0, os_fingerprint = head,
       os_fp_idx = length head, os_tcp_mss = 0, os_tcp_wscale = 0\<rparr>" by (simp add: options_inv_def)
  show ?thesis
  proof (cases "(of_nat (w mod 4096) :: u16) AND 0xC2 \<noteq> 0 \<and> \<not> bit (w mod 4096) 4 \<and> 20 \<le> hlen")
    case True
    then have opt: "rdn p (o4 + 20) (hlen - 20) = Some (take (hlen - 20) (drop (o4 + 20) p))"
      using assms(4) by (simp add: rdn_def)
    obtain s k where s: "scan_options c m (take (hlen - 20) (drop (o4 + 20) p)) win
        \<lparr>os_i = 0, os_options_fp = [], os_options_fp_len = 0, os_fingerprint = head,
         os_fp_idx = length head, os_tcp_mss = 0, os_tcp_wscale = 0\<rparr> flow = Some (s, flow\<lparr>fl_rsk := k\<rparr>)"
      "options_inv (pc_tcp_fingerprint_format c) s"
      using scan_options_total [OF assms(1) inv] by blast
    obtain t where t: "fingerprint_tail c s = Some t" "length t \<le> 127"
      using fingerprint_tail_total [OF s(2) assms(2)] by blast
    define fp where "fp = (if nd_strdup_ok m then Some t else None)"
    define ff' where "ff' = \<lparr>ff_fingerprint = fp,
          ff_fingerprint_raw = (if pc_tcp_fingerprint_raw_enabled c \<and> os_options_fp_len s \<noteq> 0
             then if nd_strdup_ok m then Some (os_options_fp s) else None else ff_fingerprint_raw ff),
          ff_os_hint = ndpi_get_os_from_tcp_fingerprint c fp\<rparr>"
    have "tcp_fingerprint c m p o4 hlen flow ff = Some (flow\<lparr>fl_rsk := k\<rparr>, ff')"
      using True w win ttl opt s(1) t(1)
      unfolding tcp_fingerprint_def ff'_def fp_def by (simp add: head_def [symmetric] Let_def)
    moreover have "fingerprint_fits ff'" using t(2) by (simp add: fingerprint_fits_def ff'_def fp_def)
    ultimately show ?thesis by blast
  next
    case False
    then have "tcp_fingerprint c m p o4 hlen flow ff = Some (flow\<lparr>fl_rsk := fl_rsk flow\<rparr>, ff)"
      using w unfolding tcp_fingerprint_def Let_def by auto
    then show ?thesis using assms(6) by blast
  qed
qed

section \<open>The packet\<close>

text \<open>What the packet shows of the transport part that was found.\<close>

definition transport_view :: "bytes \<Rightarrow> nat \<Rightarrow> nat \<Rightarrow> nat \<Rightarrow> ndpi_packet \<Rightarrow> bool" where
  "transport_view p l4ptr l4len proto pk \<longleftrightarrow>
     (if proto = IPPROTO_TCP then \<exists>h. rd_tcphdr p l4ptr = Some h \<and> pk_tcp pk = Some h \<and> pk_udp pk = None \<and>
        20 \<le> l4len \<and> 4 * th_doff h + length (pk_payload pk) = l4len \<and> l4ptr + l4len \<le> length p \<and>
        pk_payload pk = take (l4len - 4 * th_doff h) (drop (l4ptr + 4 * th_doff h) p)
      else if proto = IPPROTO_UDP then \<exists>h. rd_udphdr p l4ptr = Some h \<and> pk_udp pk = Some h \<and> pk_tcp pk = None \<and>
        8 + length (pk_payload pk) = l4len \<and> l4ptr + l4len \<le> length p \<and>
        pk_payload pk = take (l4len - 8) (drop (l4ptr + 8) p)
      else pk_tcp pk = None \<and> pk_udp pk = None \<and> length (pk_payload pk) = l4len \<and>
        (l4len \<noteq> 0 \<longrightarrow> l4ptr + l4len \<le> length p) \<and> pk_payload pk = take l4len (drop l4ptr p))"

lemma rd_tcphdr_total: "o4 + 20 \<le> length p \<Longrightarrow> \<exists>h. rd_tcphdr p o4 = Some h"
  by (simp add: rd_tcphdr_def rd8_in rd16_in rd32_def)

lemma rd_udphdr_total: "o4 + 8 \<le> length p \<Longrightarrow> \<exists>h. rd_udphdr p o4 = Some h"
  by (simp add: rd_udphdr_def rd16_in)

lemma set_packet_simps [simp]:
  "nd_packet (set_packet f m) = f (nd_packet m)" "cfg_wf (set_packet f m) = cfg_wf m"
  by (simp_all add: set_packet_def cfg_wf_def)

text \<open>A successful or failed end of the preparation.\<close>

definition prepared ::
  "bytes \<Rightarrow> nat \<Rightarrow> nat \<Rightarrow> nat \<Rightarrow> ndpi_flow \<Rightarrow> nat \<times> ndpi_module \<times> ndpi_flow \<times> flow_fingerprint \<Rightarrow> bool" where
  "prepared p l4ptr l4len proto flow = (\<lambda>(rc, m', flow', ff'). rc \<le> 1 \<and> fingerprint_fits ff' \<and>
     (rc = 0 \<longrightarrow> transport_view p l4ptr l4len proto (nd_packet m')) \<and> (\<exists>k. flow' = flow\<lparr>fl_rsk := k\<rparr>))"

lemma prepared_fail: "fingerprint_fits ff \<Longrightarrow> prepared p o4 l proto flow (1, m, flow, ff)"
  by (auto simp: prepared_def intro: exI [of _ "fl_rsk flow"])

lemma prepared_ok:
  "fingerprint_fits ff \<Longrightarrow> transport_view p o4 l proto (nd_packet m) \<Longrightarrow> prepared p o4 l proto flow (0, m, flow, ff)"
  by (auto simp: prepared_def intro: exI [of _ "fl_rsk flow"])

lemma init_tcp_total:
  assumes "cfg_wf m" "\<And>t. 6 \<le> length (pc_ndpi_sha256 c t)" "fingerprint_fits ff"
    "pk_iph (nd_packet m) \<noteq> None \<or> pk_iphv6 (nd_packet m) \<noteq> None" "pk_udp (nd_packet m) = None"
    "20 \<le> l4len" "l4ptr + l4len \<le> length p"
  shows "\<exists>r. init_transport c m p l4ptr l4len IPPROTO_TCP flow ff = Some r \<and> prepared p l4ptr l4len IPPROTO_TCP flow r"
proof -
  obtain h where h: "rd_tcphdr p l4ptr = Some h" using rd_tcphdr_total assms(6,7) by fastforce
  define m1 where "m1 = set_packet (pk_tcp_update (\<lambda>_. Some h)) m"
  show ?thesis
  proof (cases "th_doff h * 4 \<le> l4len")
    case True
    have "\<exists>k ff'. tcp_fingerprint c m1 p l4ptr (th_doff h * 4) flow ff = Some (flow\<lparr>fl_rsk := k\<rparr>, ff') \<and> fingerprint_fits ff'"
      by (rule tcp_fingerprint_total [OF _ assms(2)]) (use True assms in \<open>auto simp: m1_def\<close>)
    then have "\<exists>k ff'. (if pc_tcp_fingerprint_enabled c \<and> ff_fingerprint ff = None
        then tcp_fingerprint c m1 p l4ptr (th_doff h * 4) flow ff else Some (flow, ff)) = Some (flow\<lparr>fl_rsk := k\<rparr>, ff') \<and>
        fingerprint_fits ff'"
      using assms(3) by (cases "pc_tcp_fingerprint_enabled c \<and> ff_fingerprint ff = None")
        (simp, intro exI [of _ "fl_rsk flow"] exI [of _ ff], auto)
    then obtain k ff' where f: "(if pc_tcp_fingerprint_enabled c \<and> ff_fingerprint ff = None
        then tcp_fingerprint c m1 p l4ptr (th_doff h * 4) flow ff else Some (flow, ff)) = Some (flow\<lparr>fl_rsk := k\<rparr>, ff')"
      "fingerprint_fits ff'" by blast
    define pay where "pay = take (l4len - th_doff h * 4) (drop (l4ptr + th_doff h * 4) p)"
    have pay: "rdn p (l4ptr + th_doff h * 4) (l4len - th_doff h * 4) = Some pay"
      using assms(7) True by (simp add: rdn_def pay_def)
    have "init_transport c m p l4ptr l4len IPPROTO_TCP flow ff =
        Some (0, set_packet (pk_payload_update (\<lambda>_. pay)) m1, flow\<lparr>fl_rsk := k\<rparr>, ff')"
      using assms(6) unfolding init_transport_def m1_def
      by (simp add: h True pay f(1) [unfolded m1_def] Let_def split del: if_split)
    moreover have "transport_view p l4ptr l4len IPPROTO_TCP (nd_packet (set_packet (pk_payload_update (\<lambda>_. pay)) m1))"
    proof -
      have "4 * th_doff h + length pay = l4len" using assms(7) True by (simp add: pay_def)
      moreover have "pay = take (l4len - 4 * th_doff h) (drop (l4ptr + 4 * th_doff h) p)"
        by (simp add: pay_def mult.commute)
      ultimately show ?thesis using h assms(5-7) by (simp add: transport_view_def m1_def)
    qed
    ultimately show ?thesis using f(2) unfolding prepared_def by fastforce
  next
    case False
    then show ?thesis using h assms(6) prepared_fail [OF assms(3)] by (simp add: init_transport_def Let_def)
  qed
qed

lemma init_transport_total:
  assumes "cfg_wf m" "\<And>t. 6 \<le> length (pc_ndpi_sha256 c t)" "fingerprint_fits ff"
    "pk_iph (nd_packet m) \<noteq> None \<or> pk_iphv6 (nd_packet m) \<noteq> None"
    "pk_tcp (nd_packet m) = None" "pk_udp (nd_packet m) = None" "l4len \<noteq> 0 \<longrightarrow> l4ptr + l4len \<le> length p"
  shows "\<exists>r. init_transport c m p l4ptr l4len proto flow ff = Some r \<and> prepared p l4ptr l4len proto flow r"
proof -
  consider (short) "proto = IPPROTO_TCP \<and> l4len < 20 \<or> proto = IPPROTO_UDP \<and> l4len < 8 \<or>
      (proto = 1 \<or> proto = 58) \<and> l4len < 8"
    | (tcp) "proto = IPPROTO_TCP" "20 \<le> l4len" | (udp) "proto = IPPROTO_UDP" "8 \<le> l4len"
    | (other) "proto \<noteq> IPPROTO_TCP" "proto \<noteq> IPPROTO_UDP" "\<not> ((proto = 1 \<or> proto = 58) \<and> l4len < 8)"
    by linarith
  then show ?thesis
  proof cases
    case short
    then show ?thesis using prepared_fail [OF assms(3)]
      by (auto simp: init_transport_def IPPROTO_TCP_def IPPROTO_UDP_def)
  next
    case tcp
    then show ?thesis using init_tcp_total [OF assms(1-4,6)] assms(7) by simp
  next
    case udp
    then obtain h where h: "rd_udphdr p l4ptr = Some h" using rd_udphdr_total assms(7) by fastforce
    have pay: "rdn p (l4ptr + 8) (l4len - 8) = Some (take (l4len - 8) (drop (l4ptr + 8) p))"
      using udp assms(7) by (simp add: rdn_def)
    define m' where "m' = set_packet (\<lambda>pk. pk\<lparr>pk_udp := Some h, pk_payload := take (l4len - 8) (drop (l4ptr + 8) p)\<rparr>) m"
    have "init_transport c m p l4ptr l4len proto flow ff = Some (0, m', flow, ff)"
      using udp h pay by (simp add: init_transport_def m'_def IPPROTO_TCP_def IPPROTO_UDP_def)
    moreover have "transport_view p l4ptr l4len proto (nd_packet m')"
      using udp h assms(5,7) by (simp add: transport_view_def m'_def IPPROTO_TCP_def IPPROTO_UDP_def)
    ultimately show ?thesis using prepared_ok [OF assms(3)] by blast
  next
    case other
    have pay: "(if l4len = 0 then Some [] else rdn p l4ptr l4len) = Some (take l4len (drop l4ptr p))"
      using assms(7) by (simp add: rdn_def)
    have len: "length (take l4len (drop l4ptr p)) = l4len" using assms(7) by auto
    define m' where "m' = set_packet (pk_payload_update (\<lambda>_. take l4len (drop l4ptr p))) m"
    have "init_transport c m p l4ptr l4len proto flow ff = Some (0, m', flow, ff)"
      unfolding init_transport_def m'_def if_not_P [OF other(1)] if_not_P [OF other(2)] if_not_P [OF other(3)] pay
      by simp
    moreover have "transport_view p l4ptr l4len proto (nd_packet m')"
      using other assms(5-7) len by (simp add: transport_view_def m'_def)
    ultimately show ?thesis using prepared_ok [OF assms(3)] by blast
  qed
qed

text \<open>The module once the packet has been reset, and the test of the IP header.\<close>

definition packet_start :: "u64 \<Rightarrow> bytes \<Rightarrow> ndpi_iphdr \<Rightarrow> ndpi_module \<Rightarrow> ndpi_module" where
  "packet_start now p iph = set_packet (\<lambda>pk. ndpi_reset_packet_line_info (pk\<lparr>pk_current_time_ms := now,
    pk_iph := Some iph, pk_payload := [], pk_l3_packet_len := length p,
    pk_tcp := None, pk_udp := None, pk_iphv6 := None\<rparr>))"

definition ip_accepted :: "parse_config \<Rightarrow> bytes \<Rightarrow> ndpi_iphdr \<Rightarrow> bool" where
  "ip_accepted c p iph \<longleftrightarrow> unat (p ! 0) div 16 = 4 \<and> ip_ihl iph \<ge> 5 \<or>
    unat (p ! 0) div 16 = 6 \<and> length p \<ge> 40 \<and> \<not> bit (pc_ip_version_limit c) 0"

lemma init_packet_head:
  assumes "20 \<le> length p" "rd_version p = Some (unat (p ! 0) div 16)" "rd_iphdr p = Some iph"
  shows "ndpi_init_packet c m flow ff now p (length p) =
    (if ip_accepted c p iph then do {
       iphv6 \<leftarrow> (if unat (p ! 0) div 16 = 4 then Some None else map_option Some (rd_ipv6hdr p));
       l4 \<leftarrow> ndpi_detection_get_l4_internal (Some p) (length p) 0;
       let m2 = (if unat (p ! 0) div 16 = 4 then packet_start now p iph m
                 else set_packet (\<lambda>pk. pk\<lparr>pk_iphv6 := iphv6, pk_iph := None\<rparr>) (packet_start now p iph m));
       case l4 of None \<Rightarrow> Some (1, m2, flow, ff)
       | Some (off, len, proto) \<Rightarrow> init_transport c m2 p off len proto (flow\<lparr>fl_l4_proto := proto\<rparr>) ff }
     else Some (1, set_packet (pk_iph_update (\<lambda>_. None)) (packet_start now p iph m), flow, ff))"
  using assms(1) unfolding ndpi_init_packet_def ip_accepted_def packet_start_def Let_def
  by (simp add: assms(2,3) split del: if_split)

lemma unchanged_flow: "\<exists>l4 k. flow = flow\<lparr>fl_l4_proto := l4, fl_rsk := k\<rparr>"
  by (intro exI [of _ "fl_l4_proto flow"] exI [of _ "fl_rsk flow"]) simp

text \<open>C38. Preparation of a packet is total and memory safe: for every packet, every
  configuration and every flow, with SHA-256 giving at least the six bytes that are
  printed, the function returns, although the options of a SYN segment may have length 0
  and the 8-bit index of the loop over them may wrap around. It reads only the packet and
  its fingerprint fits the buffer of 128 bytes. On success the packet shows the transport
  header that was located and exactly its payload; of the flow only the transport protocol
  and the risks may have changed.\<close>

theorem init_packet_total:
  assumes "cfg_wf m" "\<And>t. 6 \<le> length (pc_ndpi_sha256 c t)" "fingerprint_fits ff"
  shows "\<exists>rc m' flow' ff'. ndpi_init_packet c m flow ff now p (length p) = Some (rc, m', flow', ff') \<and>
    rc \<le> 1 \<and> fingerprint_fits ff' \<and> (\<exists>l4 k. flow' = flow\<lparr>fl_l4_proto := l4, fl_rsk := k\<rparr>) \<and>
    (rc = 0 \<longrightarrow> (\<exists>off len proto. ndpi_detection_get_l4 (Some p) (length p) 0 = Some (Some (off, len, proto)) \<and>
       transport_view p off len proto (nd_packet m') \<and> fl_l4_proto flow' = proto))"
proof (cases "20 \<le> length p")
  case True
  then have ne: "p \<noteq> []" by auto
  have v: "rd_version p = Some (unat (p ! 0) div 16)" using ne by (simp add: rd_version_def rd8_in)
  obtain iph where iph: "rd_iphdr p = Some iph" using rd_iphdr_total [OF True] by blast
  define m1 where "m1 = packet_start now p iph m"
  define ok where "ok = ip_accepted c p iph"
  note head = init_packet_head [OF True v iph, of c m flow ff now, folded m1_def ok_def]
  show ?thesis
  proof (cases ok)
    case False
    then have "ndpi_init_packet c m flow ff now p (length p) = Some (1, set_packet (pk_iph_update (\<lambda>_. None)) m1, flow, ff)"
      unfolding head by simp
    then show ?thesis using assms(3) unchanged_flow [of flow] by simp
  next
    case ok: True
    then obtain h6 where h6: "(if unat (p ! 0) div 16 = 4 then Some None else map_option Some (rd_ipv6hdr p)) = Some h6"
      "unat (p ! 0) div 16 = 4 \<or> h6 \<noteq> None"
      using rd_ipv6hdr_total [of p] by (auto simp: ok_def ip_accepted_def)
    define m2 where "m2 = (if unat (p ! 0) div 16 = 4 then m1 else set_packet (\<lambda>pk. pk\<lparr>pk_iphv6 := h6, pk_iph := None\<rparr>) m1)"
    obtain l4 where l4: "ndpi_detection_get_l4_internal (Some p) (length p) 0 = Some l4"
      "\<And>off len proto. l4 = Some (off, len, proto) \<Longrightarrow> len \<noteq> 0 \<longrightarrow> off + len \<le> length p"
      using l4_in_packet [of p] by blast
    have eq: "ndpi_init_packet c m flow ff now p (length p) = (case l4 of None \<Rightarrow> Some (1, m2, flow, ff)
        | Some (off, len, proto) \<Rightarrow> init_transport c m2 p off len proto (flow\<lparr>fl_l4_proto := proto\<rparr>) ff)"
      using ok unfolding head h6(1) l4(1) m2_def Let_def by (simp cong: option.case_cong)
    show ?thesis
    proof (cases l4)
      case None
      then show ?thesis using eq assms(3) unchanged_flow [of flow] by simp
    next
      case (Some x)
      obtain off len proto where x: "l4 = Some (off, len, proto)" using Some by (cases x) auto
      have "\<exists>r. init_transport c m2 p off len proto (flow\<lparr>fl_l4_proto := proto\<rparr>) ff = Some r \<and>
          prepared p off len proto (flow\<lparr>fl_l4_proto := proto\<rparr>) r"
        by (rule init_transport_total [OF _ assms(2,3)])
          (use assms(1) h6(2) l4(2) [OF x] in \<open>auto simp: m2_def m1_def packet_start_def ndpi_reset_packet_line_info_def\<close>)
      then obtain rc m' ff' k where r: "init_transport c m2 p off len proto (flow\<lparr>fl_l4_proto := proto\<rparr>) ff =
          Some (rc, m', flow\<lparr>fl_l4_proto := proto, fl_rsk := k\<rparr>, ff')" "rc \<le> 1" "fingerprint_fits ff'"
          "rc = 0 \<longrightarrow> transport_view p off len proto (nd_packet m')"
        by (auto simp: prepared_def)
      have "ndpi_init_packet c m flow ff now p (length p) =
          Some (rc, m', flow\<lparr>fl_l4_proto := proto, fl_rsk := k\<rparr>, ff')"
        using eq r(1) by (simp add: x)
      moreover have "ndpi_detection_get_l4 (Some p) (length p) 0 = Some (Some (off, len, proto))"
        using l4(1) by (simp add: ndpi_detection_get_l4_def x)
      ultimately show ?thesis using r(2-4) by (simp, blast)
    qed
  qed
qed (use assms(3) unchanged_flow [of flow] in \<open>simp add: ndpi_init_packet_def\<close>)

text \<open>A SYN segment whose only option has length 0, over IPv4.\<close>

definition syn_packet :: bytes where
  "syn_packet = [0x45, 0, 0, 44, 0, 0, 0, 0, 64, 6, 0, 0, 192, 168, 0, 1, 192, 168, 0, 2,
     4, 0, 0, 80, 0, 0, 0, 0, 0, 0, 0, 0, 0x60, 2, 4, 0, 0, 0, 0, 0, 2, 0, 5, 180]"

definition syn_config :: "ndpi_tcp_fingerprint_format \<Rightarrow> parse_config" where
  "syn_config fmt = \<lparr>pc_ip_version_limit = 0, pc_tcp_fingerprint_enabled = True, pc_tcp_fingerprint_format = fmt,
     pc_tcp_fingerprint_raw_enabled = True, pc_ndpi_sha256 = (\<lambda>t. replicate 32 0),
     pc_tcp_fingerprint_hashmap = None\<rparr>"

theorem init_packet_total_witness:
  "\<exists>r. ndpi_init_packet (syn_config NDPI_NATIVE_TCP_FINGERPRINT) empty_module empty_flow
     \<lparr>ff_fingerprint = None, ff_fingerprint_raw = None, ff_os_hint = 0\<rparr> 0 syn_packet (length syn_packet) = Some r"
  using init_packet_total [OF empty_cfg_wf, of "syn_config NDPI_NATIVE_TCP_FINGERPRINT"
      "\<lparr>ff_fingerprint = None, ff_fingerprint_raw = None, ff_os_hint = 0\<rparr>" empty_flow 0 syn_packet]
  by (simp add: syn_config_def fingerprint_fits_def, blast)

end
