(* ===== verification/Serializer_Types.thy ===== *)
theory Serializer_Types
  imports Serializer_Ops
begin

text \<open>
  What every call on a serializer keeps, in all three formats and whatever the allocator
  answers. The locale \<open>step_frame\<close> takes a relation between the states before and after that
  the elementary writes respect, and derives it for every function of the interface; the
  relation used here says that each buffer has exactly the size its descriptor records and
  that the format and the settings of the serializer stay the same.
\<close>

section \<open>Relations kept by a step\<close>

definition keeps :: "(serializer \<Rightarrow> serializer \<Rightarrow> bool) \<Rightarrow> serializer \<Rightarrow> (int \<times> serializer) option \<Rightarrow> bool" where
  "keeps R s r \<longleftrightarrow> (\<forall>rc s'. r = Some (rc, s') \<longrightarrow> R s s')"

named_theorems step_keeps

lemma keeps_None [step_keeps]: "keeps R s None"
  by (simp add: keeps_def)

lemma keeps_if [step_keeps]: "(c \<Longrightarrow> keeps R s x) \<Longrightarrow> (\<not> c \<Longrightarrow> keeps R s y) \<Longrightarrow> keeps R s (if c then x else y)"
  by simp

lemma keeps_if_step [step_keeps]: "(c \<Longrightarrow> keeps R s (f s)) \<Longrightarrow> (\<not> c \<Longrightarrow> keeps R s (g s)) \<Longrightarrow> keeps R s ((if c then f else g) s)"
  by simp

lemma keeps_case_option [step_keeps]:
  "(\<And>t. x = Some t \<Longrightarrow> keeps R s (f t)) \<Longrightarrow> keeps R s (case x of None \<Rightarrow> None | Some t \<Rightarrow> f t)"
  by (cases x) (simp_all add: keeps_def)

locale step_frame =
  fixes R :: "serializer \<Rightarrow> serializer \<Rightarrow> bool"
  assumes same: "R s s"
    and trans: "R s t \<Longrightarrow> R t u \<Longrightarrow> R s u"
    and writes: "buf_write (ss_buffer s) i bs = Some b \<Longrightarrow> R s (s\<lparr>ss_buffer := b\<rparr>)"
    and write_header: "buf_write (ss_header s) i bs = Some b \<Longrightarrow> R s (s\<lparr>ss_header := b\<rparr>)"
    and status: "R s (s\<lparr>ss_status := st\<rparr>)"
    and extend: "ndpi_extend_serializer_buffer A (ss_buffer s) n = (rc, b) \<Longrightarrow> R s (s\<lparr>ss_buffer := b\<rparr>)"
    and extend_header: "ndpi_extend_serializer_buffer A (ss_header s) n = (rc, b) \<Longrightarrow> R s (s\<lparr>ss_header := b\<rparr>)"
begin

lemma keeps_same [step_keeps]: "keeps R s (Some (rc, s))"
  by (simp add: keeps_def same)

lemma keeps_status [step_keeps]:
  "keeps R s (Some (rc, set_used n s))" "keeps R s (flag_on n s)" "keeps R s (flag_off n s)"
  "keeps R s (drop_byte s)" "keeps R s (fail rc s)"
  by (simp_all add: keeps_def set_used_def flag_on_def flag_off_def set_flag_def clear_flag_def drop_byte_def
      fail_def same status)

lemma keeps_chain_Nil [step_keeps]: "keeps R s (chain [] s)"
  by (simp add: keeps_def same)

lemma keeps_chain_Cons [step_keeps]:
  "keeps R s (f s) \<Longrightarrow> (\<And>t. keeps R t (chain fs t)) \<Longrightarrow> keeps R s (chain (f # fs) s)"
  by (fastforce simp: keeps_def split: option.splits if_splits intro: trans)

lemma keeps_onlyif [step_keeps]: "keeps R s (f s) \<Longrightarrow> keeps R s (onlyif c f s)"
  by (simp add: onlyif_def keeps_same)

lemma keeps_ifelse [step_keeps]: "keeps R s (f s) \<Longrightarrow> keeps R s (g s) \<Longrightarrow> keeps R s (ifelse c f g s)"
  by (simp add: ifelse_def)

lemma used_after_write:
  "buf_write (ss_buffer s) i bs = Some b \<Longrightarrow> R s (set_used n (s\<lparr>ss_buffer := b\<rparr>))"
  "buf_write (ss_header s) i bs = Some b \<Longrightarrow> R s (set_header_used n (s\<lparr>ss_header := b\<rparr>))"
  using writes [of s i bs b] write_header [of s i bs b] status
  unfolding set_used_def set_header_used_def by (blast intro: trans)+

lemma keeps_put [step_keeps]: "keeps R s (put_at i v s)" "keeps R s (put_bytes bs s)" "keeps R s (put_header bs s)"
  by (auto simp: keeps_def put_at_def put_bytes_def put_header_def writes used_after_write)

lemma snprintf_keeps:
  "buf_snprintf (ss_buffer s) i room t = Some b \<Longrightarrow> R s (s\<lparr>ss_buffer := b\<rparr>)"
  "buf_snprintf (ss_header s) i room t = Some b \<Longrightarrow> R s (s\<lparr>ss_header := b\<rparr>)"
  using same [of s] by (auto simp: buf_snprintf_def writes write_header split: if_splits)

lemma used_after_snprintf:
  "buf_snprintf (ss_buffer s) i room t = Some b \<Longrightarrow> R s (set_used n (s\<lparr>ss_buffer := b\<rparr>))"
  "buf_snprintf (ss_header s) i room t = Some b \<Longrightarrow> R s (set_header_used n (s\<lparr>ss_header := b\<rparr>))"
  using snprintf_keeps [of s i room t b] status
  unfolding set_used_def set_header_used_def by (blast intro: trans)+

lemma keeps_emit [step_keeps]: "keeps R s (emit t s)"
  by (auto simp: keeps_def emit_def snprintf_keeps used_after_snprintf split: if_splits)

lemma keeps_snprintf_used [step_keeps]:
  "keeps R s (map_option (\<lambda>b. (0, set_used n (s\<lparr>ss_buffer := b\<rparr>))) (buf_snprintf (ss_buffer s) i room t))"
  by (auto simp: keeps_def used_after_snprintf)

lemma keeps_extend [step_keeps]:
  "keeps R s (case ndpi_extend_serializer_buffer A (ss_buffer s) n of (rc, b) \<Rightarrow>
     if rc < 0 then Some (-1, s) else Some (0, s\<lparr>ss_buffer := b\<rparr>))"
  by (auto simp: keeps_def same dest: extend split: prod.splits if_splits)

lemma keeps_room [step_keeps]: "keeps R s (ensure_room A n s)"
  unfolding ensure_room_def by (intro step_keeps)

lemma keeps_json [step_keeps]:
  "keeps R s (ndpi_json_string_escape src n s)" "keeps R s (close_with c s)"
  "keeps R s (ndpi_serialize_json_pre s)" "keeps R s (ndpi_serialize_csv_pre s)"
  unfolding ndpi_json_string_escape_def close_with_def ndpi_serialize_json_pre_def ndpi_serialize_csv_pre_def Let_def
  by (intro step_keeps)+

lemma keeps_json_post [step_keeps]: "keeps R s (ndpi_serialize_json_post s)"
  unfolding ndpi_serialize_json_post_def by (intro step_keeps)

lemma header_room_keeps: "ndpi_serializer_check_header_room A s n = (room, t) \<Longrightarrow> R s t"
  by (auto simp: ndpi_serializer_check_header_room_def Let_def same dest: extend_header
      split: if_splits prod.splits)

lemma keeps_header_uint32 [step_keeps]: "keeps R s (ndpi_serializer_header_uint32 A key s)"
  by (auto simp: keeps_def ndpi_serializer_header_uint32_def Let_def same split: if_splits prod.splits
      intro: trans [OF header_room_keeps] used_after_snprintf)

lemma keeps_after: "R s t \<Longrightarrow> keeps R t r \<Longrightarrow> keeps R s r"
  by (auto simp: keeps_def intro: trans)

lemma keeps_chain_from: "R s t \<Longrightarrow> keeps R t (chain fs t) \<Longrightarrow> keeps R s (chain fs t)"
  by (rule keeps_after)

lemma keeps_header_string [step_keeps]: "keeps R s (ndpi_serializer_header_string A key n s)"
proof -
  have nul: "keeps R t (map_option (\<lambda>h. (0, t\<lparr>ss_header := h\<rparr>)) (buf_write (ss_header t) i [0]))" for t i
    by (auto simp: keeps_def write_header)
  obtain room t where t: "ndpi_serializer_check_header_room A s (n + 4) = (room, t)" by fastforce
  show ?thesis unfolding ndpi_serializer_header_string_def t prod.case
    by (intro step_keeps keeps_after [OF header_room_keeps [OF t]] nul)
qed

lemma keeps_single [step_keeps]:
  "keeps R s (ndpi_serialize_single_uint8 a s)" "keeps R s (ndpi_serialize_single_uint16 b s)"
  "keeps R s (ndpi_serialize_single_uint32 c s)" "keeps R s (ndpi_serialize_single_uint64 d s)"
  "keeps R s (ndpi_serialize_single_float c s)" "keeps R s (ndpi_serialize_single_string v n s)"
  unfolding ndpi_serialize_single_uint8_def ndpi_serialize_single_uint16_def ndpi_serialize_single_uint32_def
    ndpi_serialize_single_uint64_def ndpi_serialize_single_float_def ndpi_serialize_single_string_def
  by (intro step_keeps)+

lemma keeps_tlv_number [step_keeps]:
  "keeps R s (snd (tlv_unsigned v) s)" "keeps R s (snd (tlv_signed v) s)"
  by (simp_all add: tlv_unsigned_def tlv_signed_def keeps_single)

lemma key_uint32_keeps: "ndpi_serialize_key_uint32 key s = Some (kt, t) \<Longrightarrow> R s t"
  using keeps_single [of s] by (auto simp: ndpi_serialize_key_uint32_def keeps_def split: if_splits)

lemma keeps_uint32_item [step_keeps]:
  assumes "\<And>t. keeps R t (f t)"
  shows "keeps R s (tlv_uint32_item key vt f s)"
proof -
  have "R s t" if "ndpi_serialize_key_uint32 key (set_used n s) = Some (kt, t)" for kt t n
    using trans [OF status key_uint32_keeps [OF that [unfolded set_used_def]]] .
  then show ?thesis using assms keeps_put(1)
    by (fastforce simp: keeps_def tlv_uint32_item_def Let_def intro: trans split: bind_splits)
qed

lemma keeps_keys [step_keeps]:
  "keeps R s (json_uint32_key key s)" "keeps R s (json_string_key k n s)" "keeps R s (put_first n v s)"
  "(\<And>t. keeps R t (f t)) \<Longrightarrow> keeps R s (tlv_string_item k n vt f s)"
  unfolding json_uint32_key_def json_string_key_def put_first_def tlv_string_item_def
  by (intro step_keeps | assumption)+

lemma keeps_with_strlen [step_keeps]: "(\<And>n t. keeps R t (f n t)) \<Longrightarrow> keeps R s (with_strlen v f s)"
  by (cases "strlen16 v") (simp_all add: with_strlen_def keeps_def)

lemma keeps_numeric_key [step_keeps]:
  "(\<And>k. keeps R s (f k s)) \<Longrightarrow> keeps R s (g s) \<Longrightarrow> keeps R s (numeric_key key n f g s)"
  by (cases "ndpi_is_number key n") (auto simp: numeric_key_def keeps_def split: option.splits)

lemma keeps_uint32_a [step_keeps]:
  "keeps R s (ndpi_serialize_uint32_uint32 A key v s)" 
  "keeps R s (ndpi_serialize_uint32_int32 A key v s)" 
  "keeps R s (ndpi_serialize_uint32_float A key v t s)" 
  "keeps R s (ndpi_serialize_uint32_double A key t s)" 
  "keeps R s (ndpi_serialize_uint32_binary A key b n s)" 
  "keeps R s (ndpi_serialize_uint32_boolean A key c s)"
  unfolding ndpi_serialize_uint32_uint32_def ndpi_serialize_uint32_int32_def ndpi_serialize_uint32_float_def
    ndpi_serialize_uint32_double_def ndpi_serialize_uint32_binary_def ndpi_serialize_uint32_boolean_def split_beta
  by (intro step_keeps)+

lemma keeps_uint32_b [step_keeps]:
  "keeps R s (ndpi_serialize_uint32_uint64 A key w s)" 
  "keeps R s (ndpi_serialize_uint32_int64 A key w s)" 
  "keeps R s (ndpi_serialize_uint32_string A key p s)"
  unfolding ndpi_serialize_uint32_uint64_def ndpi_serialize_uint32_int64_def ndpi_serialize_uint32_string_def split_beta
  by (intro step_keeps)+

lemma keeps_binary_a [step_keeps]:
  "keeps R s (ndpi_serialize_binary_int32 A k n v s)" 
  "keeps R s (ndpi_serialize_binary_uint32 A k n v s)" 
  "keeps R s (ndpi_serialize_binary_float A k n v t s)" 
  "keeps R s (ndpi_serialize_binary_double A k n t s)" 
  "keeps R s (ndpi_serialize_binary_raw A k n b l e s)" 
  "keeps R s (ndpi_serialize_binary_boolean A k n c s)"
  unfolding ndpi_serialize_binary_int32_def ndpi_serialize_binary_uint32_def ndpi_serialize_binary_float_def
    ndpi_serialize_binary_double_def ndpi_serialize_binary_raw_def ndpi_serialize_binary_boolean_def split_beta
  by (intro step_keeps)+

lemma keeps_string_a [step_keeps]:
  "keeps R s (ndpi_serialize_string_int32 A k v s)" 
  "keeps R s (ndpi_serialize_string_uint32 A k v s)" 
  "keeps R s (ndpi_serialize_string_float A k v t s)" 
  "keeps R s (ndpi_serialize_string_double A k t s)" 
  "keeps R s (ndpi_serialize_string_raw A k b l s)" 
  "keeps R s (ndpi_serialize_string_boolean A k c s)" 
  "keeps R s (ndpi_serialize_binary_binary A k n p l s)"
  unfolding ndpi_serialize_string_int32_def ndpi_serialize_string_uint32_def ndpi_serialize_string_float_def
    ndpi_serialize_string_double_def ndpi_serialize_string_raw_def ndpi_serialize_string_boolean_def
    ndpi_serialize_binary_binary_def split_beta
  by (intro step_keeps)+

lemma keeps_binary_b [step_keeps]:
  "keeps R s (ndpi_serialize_binary_int64 A k n w s)" 
  "keeps R s (ndpi_serialize_binary_uint64 A k n w s)" 
  "keeps R s (ndpi_serialize_string_binary A k p l s)" 
  "keeps R s (ndpi_serialize_string_string_len A k b l s)"
  unfolding ndpi_serialize_binary_int64_def ndpi_serialize_binary_uint64_def ndpi_serialize_string_binary_def
    ndpi_serialize_string_string_len_def split_beta Let_def
  by (intro step_keeps)+

lemma keeps_string_b [step_keeps]:
  "keeps R s (ndpi_serialize_string_int64 A k w s)" 
  "keeps R s (ndpi_serialize_string_uint64 A k w s)" 
  "keeps R s (ndpi_serialize_string_string A k p s)"
  unfolding ndpi_serialize_string_int64_def ndpi_serialize_string_uint64_def ndpi_serialize_string_string_def split_beta
  by (intro step_keeps)+

lemma keeps_string_c [step_keeps]:
  "keeps R s (ndpi_serialize_string_uint32_format A k v t s)"
  unfolding ndpi_serialize_string_uint32_format_def split_beta
  by (intro step_keeps)+

lemma keeps_blocks [step_keeps]:
  "keeps R s (ndpi_serialize_start_of_list_binary A k n s)" 
  "keeps R s (ndpi_serialize_end_of_list s)" 
  "keeps R s (ndpi_serialize_start_of_block_binary A k n s)" 
  "keeps R s (ndpi_serialize_end_of_block A s)" 
  "keeps R s (ndpi_serialize_end_of_record A s)"
  unfolding ndpi_serialize_start_of_list_binary_def ndpi_serialize_end_of_list_def
    ndpi_serialize_start_of_block_binary_def ndpi_serialize_end_of_block_def
    ndpi_serialize_end_of_record_def split_beta
  by (intro step_keeps)+

lemma keeps_block_names [step_keeps]:
  "keeps R s (ndpi_serialize_start_of_list A p s)" 
  "keeps R s (ndpi_serialize_start_of_block A p s)" 
  "keeps R s (ndpi_serialize_start_of_block_uint32 A key s)"
  unfolding ndpi_serialize_start_of_list_def ndpi_serialize_start_of_block_def
    ndpi_serialize_start_of_block_uint32_def Let_def
  by (intro step_keeps)+

lemma keeps_raw_record [step_keeps]: "keeps R s (ndpi_serialize_raw_record A b n s)"
proof -
  have end_of_record: "keeps R t (map_option (\<lambda>(_, s). (0, s)) (ndpi_serialize_end_of_record A t))" for t
    using keeps_blocks(5) [of t A] by (auto simp: keeps_def)
  have start: "R s (if c then set_used n s else s)" for c n
    using status same by (simp add: set_used_def)
  show ?thesis unfolding ndpi_serialize_raw_record_def Let_def
    by (rule keeps_chain_from, rule start) (intro step_keeps end_of_record)
qed

lemma reset_keeps: "ndpi_reset_serializer s = Some t \<Longrightarrow> R s t"
proof -
  assume r: "ndpi_reset_serializer s = Some t"
  define s1 where "s1 = s\<lparr>ss_status := (ss_status s)\<lparr>st_flags := 0\<rparr>\<rparr>"
  have "R s s1" by (simp add: s1_def status)
  moreover have "keeps R s1 (map_option (\<lambda>t. (0, t)) (ndpi_reset_serializer s))"
  proof (cases "is_json s1")
    case True
    have "keeps R s1 (chain [\<lambda>s. Some (0, set_used 0 s),
        onlyif (\<lambda>s. \<not> ss_multiline_json_array s) (put_byte (byte_of CHR '' '')),
        onlyif (\<lambda>s. \<not> ss_inner_json s) (\<lambda>s. map_option (\<lambda>b. (0, set_used (used s + 2) (s\<lparr>ss_buffer := b\<rparr>)))
          (buf_snprintf (ss_buffer s) (used s) (buff_diff s) (str ''{}'')))] s1)"
      by (intro step_keeps)
    then show ?thesis using True by (fastforce simp: ndpi_reset_serializer_def s1_def [symmetric] Let_def keeps_def)
  next
    case False
    then show ?thesis using status
      by (simp add: ndpi_reset_serializer_def s1_def [symmetric] Let_def keeps_def set_used_def set_header_used_def)
  qed
  ultimately show ?thesis using r trans by (simp add: keeps_def)
qed

end

section \<open>The calls on a serializer\<close>

text \<open>Every function that serializes, with every argument and every behaviour of the allocator.\<close>

inductive serialize_call :: "ser_step \<Rightarrow> bool" where
  "serialize_call (ndpi_serialize_uint32_uint32 A key v)"
| "serialize_call (ndpi_serialize_uint32_int32 A key v)"
| "serialize_call (ndpi_serialize_uint32_uint64 A key w)"
| "serialize_call (ndpi_serialize_uint32_int64 A key w)"
| "serialize_call (ndpi_serialize_uint32_float A key v t)"
| "serialize_call (ndpi_serialize_uint32_double A key t)"
| "serialize_call (ndpi_serialize_uint32_binary A key b n)"
| "serialize_call (ndpi_serialize_uint32_string A key p)"
| "serialize_call (ndpi_serialize_uint32_boolean A key c)"
| "serialize_call (ndpi_serialize_binary_int32 A k n v)"
| "serialize_call (ndpi_serialize_binary_int64 A k n w)"
| "serialize_call (ndpi_serialize_binary_uint32 A k n v)"
| "serialize_call (ndpi_serialize_binary_uint64 A k n w)"
| "serialize_call (ndpi_serialize_binary_float A k n v t)"
| "serialize_call (ndpi_serialize_binary_double A k n t)"
| "serialize_call (ndpi_serialize_binary_raw A k n b l e)"
| "serialize_call (ndpi_serialize_binary_binary A k n p l)"
| "serialize_call (ndpi_serialize_binary_boolean A k n c)"
| "serialize_call (ndpi_serialize_string_int32 A k v)"
| "serialize_call (ndpi_serialize_string_int64 A k w)"
| "serialize_call (ndpi_serialize_string_uint32 A k v)"
| "serialize_call (ndpi_serialize_string_uint64 A k w)"
| "serialize_call (ndpi_serialize_string_uint32_format A k v t)"
| "serialize_call (ndpi_serialize_string_float A k v t)"
| "serialize_call (ndpi_serialize_string_double A k t)"
| "serialize_call (ndpi_serialize_string_raw A k b l)"
| "serialize_call (ndpi_serialize_string_binary A k p l)"
| "serialize_call (ndpi_serialize_string_string_len A k b l)"
| "serialize_call (ndpi_serialize_string_string A k p)"
| "serialize_call (ndpi_serialize_string_boolean A k c)"
| "serialize_call (ndpi_serialize_start_of_list_binary A k n)"
| "serialize_call (ndpi_serialize_start_of_list A p)"
| "serialize_call (ndpi_serialize_end_of_list)"
| "serialize_call (ndpi_serialize_start_of_block_binary A k n)"
| "serialize_call (ndpi_serialize_start_of_block A p)"
| "serialize_call (ndpi_serialize_start_of_block_uint32 A key)"
| "serialize_call (ndpi_serialize_end_of_block A)"
| "serialize_call (ndpi_serialize_end_of_record A)"
| "serialize_call (ndpi_serialize_raw_record A b l)"

context step_frame
begin

lemma keeps_call: "serialize_call f \<Longrightarrow> keeps R s (f s)"
  by (induction rule: serialize_call.induct) (rule step_keeps)+

lemma serialize_call_keeps: "serialize_call f \<Longrightarrow> f s = Some (rc, t) \<Longrightarrow> R s t"
  using keeps_call [of f s] by (simp add: keeps_def)

end

section \<open>The relation\<close>

text \<open>A buffer descriptor is right when the buffer it points to has the size it records.\<close>

definition sized :: "ndpi_private_serializer_buffer \<Rightarrow> bool" where
  "sized b \<longleftrightarrow> (\<forall>d. sb_data b = Some d \<longrightarrow> length d = sb_size b)"

definition typed :: "serializer \<Rightarrow> bool" where
  "typed s \<longleftrightarrow> sized (ss_buffer s) \<and> sized (ss_header s)"

definition same_kind :: "serializer \<Rightarrow> serializer \<Rightarrow> bool" where
  "same_kind s t \<longleftrightarrow> (typed s \<longrightarrow> typed t) \<and> ss_fmt t = ss_fmt s \<and>
     ss_multiline_json_array t = ss_multiline_json_array s \<and> ss_inner_json t = ss_inner_json s"

lemma sized_write: "buf_write b i bs = Some b' \<Longrightarrow> sized b \<Longrightarrow> sized b'"
  by (auto simp: buf_write_def sized_def split: option.splits if_splits)

lemma sized_extend: "ndpi_extend_serializer_buffer A b n = (rc, b') \<Longrightarrow> sized b \<Longrightarrow> sized b'"
proof -
  assume e: "ndpi_extend_serializer_buffer A b n = (rc, b')" and b: "sized b"
  obtain size d where "ndpi_extend_serializer_buffer A b n =
      (if A size then (0, b\<lparr>sb_data := Some (take size (d @ replicate (size - length d) 0)), sb_size := size\<rparr>) else (-1, b))"
    unfolding ndpi_extend_serializer_buffer_def Let_def by blast
  then show ?thesis using e b by (auto simp: sized_def split: if_splits)
qed

lemma same_kind_buffers:
  "(sized (ss_buffer s) \<Longrightarrow> sized b) \<Longrightarrow> same_kind s (s\<lparr>ss_buffer := b\<rparr>)"
  "(sized (ss_header s) \<Longrightarrow> sized b) \<Longrightarrow> same_kind s (s\<lparr>ss_header := b\<rparr>)"
  by (simp_all add: same_kind_def typed_def)

interpretation kind: step_frame same_kind
proof unfold_locales
  show "same_kind s s" for s by (simp add: same_kind_def)
  show "same_kind s u" if "same_kind s t" "same_kind t u" for s t u using that by (simp add: same_kind_def)
  show "same_kind s (s\<lparr>ss_status := st\<rparr>)" for s st by (simp add: same_kind_def typed_def)
qed (blast intro: same_kind_buffers dest: sized_write sized_extend)+

text \<open>
  The states a program can bring a serializer to: initialization, any calls that serialize,
  each with its own behaviour of the allocator and any return code, and the functions that
  reset, mark, rewind or adjust it.
\<close>

inductive reachable :: "ndpi_serialization_format \<Rightarrow> serializer \<Rightarrow> bool" for fmt where
  reach_init: "ndpi_init_serializer_ll A fmt n = Some (0, s) \<Longrightarrow> reachable fmt s"
| reach_call: "reachable fmt s \<Longrightarrow> serialize_call f \<Longrightarrow> f s = Some (rc, t) \<Longrightarrow> reachable fmt t"
| reach_reset: "reachable fmt s \<Longrightarrow> ndpi_reset_serializer s = Some t \<Longrightarrow> reachable fmt t"
| reach_snapshot: "reachable fmt s \<Longrightarrow> reachable fmt (ndpi_serializer_create_snapshot s)"
| reach_rollback: "reachable fmt s \<Longrightarrow> ndpi_serializer_rollback_snapshot s = Some t \<Longrightarrow> reachable fmt t"
| reach_skip: "reachable fmt s \<Longrightarrow> reachable fmt (ndpi_serializer_skip_header s)"
| reach_separator: "reachable fmt s \<Longrightarrow> reachable fmt (ndpi_serializer_set_csv_separator s c)"
| reach_length: "reachable fmt s \<Longrightarrow> ndpi_serializer_set_buffer_len (Some s) n = (rc, Some t) \<Longrightarrow> reachable fmt t"
| reach_buffer: "reachable fmt s \<Longrightarrow> ndpi_serializer_get_buffer s = Some (k, n, t) \<Longrightarrow> reachable fmt t"
| reach_header: "reachable fmt s \<Longrightarrow> ndpi_serializer_get_header s = Some (h, n, t) \<Longrightarrow> reachable fmt t"
| reach_term: "reachable fmt s \<Longrightarrow> reachable fmt (ndpi_term_serializer s)"

definition kind_of :: "ndpi_serialization_format \<Rightarrow> serializer \<Rightarrow> bool" where
  "kind_of fmt s \<longleftrightarrow> typed s \<and>
     ss_multiline_json_array s = (fmt = ndpi_serialization_format_multiline_json) \<and>
     ss_inner_json s = (fmt = ndpi_serialization_format_inner_json) \<and>
     ss_fmt s = (if fmt = ndpi_serialization_format_multiline_json \<or> fmt = ndpi_serialization_format_inner_json
                 then ndpi_serialization_format_json else fmt)"

lemma kind_of_same: "kind_of fmt s \<Longrightarrow> same_kind s t \<Longrightarrow> kind_of fmt t"
  by (simp add: kind_of_def same_kind_def)

lemma settings_same:
  "same_kind s (ndpi_serializer_create_snapshot s)" "same_kind s (ndpi_serializer_skip_header s)"
  "same_kind s (ndpi_serializer_set_csv_separator s c)" "same_kind s (ndpi_term_serializer s)"
  by (simp_all add: same_kind_def typed_def sized_def ndpi_serializer_create_snapshot_def
      ndpi_serializer_skip_header_def set_flag_def ndpi_serializer_set_csv_separator_def
      ndpi_term_serializer_def Let_def)

lemma set_length_same: "ndpi_serializer_set_buffer_len (Some s) n = (rc, Some t) \<Longrightarrow> same_kind s t"
  using kind.same [of s] kind.status [of s]
  by (simp add: ndpi_serializer_set_buffer_len_def set_used_def split: if_splits) blast

lemma rollback_same: "ndpi_serializer_rollback_snapshot s = Some t \<Longrightarrow> same_kind s t"
proof -
  assume r: "ndpi_serializer_rollback_snapshot s = Some t"
  have start: "keeps same_kind u (Some (0, u\<lparr>ss_status := ss_snapshot u, ss_has_snapshot := False\<rparr>))" for u
    by (simp add: keeps_def same_kind_def typed_def)
  have "keeps same_kind s (map_option (\<lambda>t. (0, t)) (ndpi_serializer_rollback_snapshot s))"
  proof (cases "ss_has_snapshot s")
    case True
    have "keeps same_kind s (chain
        [\<lambda>s. Some (0, s\<lparr>ss_status := ss_snapshot s, ss_has_snapshot := False\<rparr>),
         onlyif is_json
           (ifelse (has NDPI_SERIALIZER_STATUS_ARRAY)
              (onlyif (\<lambda>s. \<not> ss_multiline_json_array s) (\<lambda>s. put_at (diff32 (used s) 1) (byte_of CHR '']'') s))
              (chain
                 [onlyif (\<lambda>s. \<not> ss_multiline_json_array s) (put_at 0 (byte_of CHR '' '')),
                  onlyif (\<lambda>s. \<not> ss_inner_json s) (\<lambda>s. put_at (diff32 (used s) 1) (byte_of CHR ''}'') s)]))] s)"
      by (intro start step_keeps)
    then show ?thesis using True unfolding ndpi_serializer_rollback_snapshot_def keeps_def by auto
  qed (simp add: ndpi_serializer_rollback_snapshot_def keeps_def kind.same)
  then show ?thesis using r by (simp add: keeps_def)
qed

lemma get_buffer_same: "ndpi_serializer_get_buffer s = Some (k, n, t) \<Longrightarrow> same_kind s t"
proof -
  assume r: "ndpi_serializer_get_buffer s = Some (k, n, t)"
  have "keeps same_kind s (onlyif (\<lambda>s. sb_size (ss_buffer s) > used s) (\<lambda>s. put_at (used s) 0 s) s)"
    by (intro step_keeps)
  then show ?thesis using r
    by (auto simp: ndpi_serializer_get_buffer_def keeps_def Let_def split: bind_splits if_splits option.splits)
qed

lemma get_header_same: "ndpi_serializer_get_header s = Some (h, n, t) \<Longrightarrow> same_kind s t"
  using kind.same [of s] kind.write_header [of s]
  by (auto simp: ndpi_serializer_get_header_def split: bind_splits if_splits option.splits)

lemma init_buffer_sized: "sized (snd (ndpi_init_serializer_buffer A n))"
  by (simp add: ndpi_init_serializer_buffer_def sized_def Let_def)

lemma keeps_init_header:
  "keeps same_kind s (case ndpi_init_serializer_buffer A n of (rh, h) \<Rightarrow>
     if rh \<noteq> 0 then Some (-1, ndpi_term_serializer (s\<lparr>ss_header := h\<rparr>)) else Some (0, s\<lparr>ss_header := h\<rparr>))"
proof -
  obtain rh h where h: "ndpi_init_serializer_buffer A n = (rh, h)" by fastforce
  then have "same_kind s (s\<lparr>ss_header := h\<rparr>)"
    using init_buffer_sized [of A n] same_kind_buffers(2) by simp
  then show ?thesis using kind.trans [OF _ settings_same(4)] by (simp add: h keeps_def)
qed

lemma keeps_init_reset:
  "keeps same_kind s (map_option (\<lambda>s. (0, s)) (ndpi_reset_serializer (s\<lparr>ss_csv_separator := c\<rparr>)))"
proof -
  have "same_kind s (s\<lparr>ss_csv_separator := c\<rparr>)"
    using settings_same(3) [of s c] by (simp add: ndpi_serializer_set_csv_separator_def)
  then show ?thesis using kind.trans [OF _ kind.reset_keeps] by (auto simp: keeps_def)
qed

lemma init_kind: "ndpi_init_serializer_ll A fmt n = Some (0, s) \<Longrightarrow> kind_of fmt s"
proof -
  assume r: "ndpi_init_serializer_ll A fmt n = Some (0, s)"
  define F where "F = (if fmt = ndpi_serialization_format_multiline_json \<or> fmt = ndpi_serialization_format_inner_json
    then ndpi_serialization_format_json else fmt)"
  define s0 where "s0 = zero_serializer\<lparr>ss_multiline_json_array := (fmt = ndpi_serialization_format_multiline_json),
    ss_inner_json := (fmt = ndpi_serialization_format_inner_json), ss_fmt := F,
    ss_buffer := snd (ndpi_init_serializer_buffer A n)\<rparr>"
  have "kind_of fmt s0"
    using init_buffer_sized [of A n]
    by (simp add: s0_def F_def kind_of_def typed_def zero_serializer_def empty_ser_buffer_def sized_def)
  moreover have "keeps same_kind s0 (chain
      [ifelse is_json (\<lambda>s. Some (0, s))
         (ifelse is_csv
            (\<lambda>s. case ndpi_init_serializer_buffer A NDPI_SERIALIZER_DEFAULT_HEADER_SIZE of (rh, h) \<Rightarrow>
               if rh \<noteq> 0 then Some (-1, ndpi_term_serializer (s\<lparr>ss_header := h\<rparr>))
               else Some (0, s\<lparr>ss_header := h\<rparr>))
            (chain [put_at 0 1, put_at 1 (format_code F)])),
       \<lambda>s. map_option (\<lambda>s. (0, s)) (ndpi_reset_serializer (s\<lparr>ss_csv_separator := byte_of CHR '',''\<rparr>))] s0)"
    by (intro step_keeps keeps_init_header keeps_init_reset)
  then have "same_kind s0 s" using r
    unfolding ndpi_init_serializer_ll_def Let_def F_def [symmetric] split_beta keeps_def s0_def
    by (auto split: if_split_asm simp del: chain.simps)
  ultimately show ?thesis using kind_of_same by blast
qed

lemma reachable_kind: "reachable fmt s \<Longrightarrow> kind_of fmt s"
proof (induction rule: reachable.induct)
  case (reach_call s f rc t)
  then show ?case using kind_of_same kind.serialize_call_keeps by blast
next
  case (reach_reset s t)
  then show ?case using kind_of_same kind.reset_keeps by blast
qed (blast intro: kind_of_same rollback_same get_buffer_same get_header_same init_kind settings_same
      set_length_same)+

text \<open>C39. Every reachable serializer is well typed: after initialization in any format and any
  sequence of calls, successful or failed, whatever the allocator answered, each buffer has
  exactly the size its descriptor records, so that the room computed from the descriptor is
  the room there is; and the format and its variants are those of the initialization.\<close>

theorem serializer_well_typed:
  assumes "reachable fmt s"
  shows "(\<forall>d. sb_data (ss_buffer s) = Some d \<longrightarrow> length d = sb_size (ss_buffer s)) \<and>
    (\<forall>d. sb_data (ss_header s) = Some d \<longrightarrow> length d = sb_size (ss_header s)) \<and>
    ss_multiline_json_array s = (fmt = ndpi_serialization_format_multiline_json) \<and>
    ss_inner_json s = (fmt = ndpi_serialization_format_inner_json) \<and>
    ss_fmt s = (if fmt = ndpi_serialization_format_multiline_json \<or> fmt = ndpi_serialization_format_inner_json
                then ndpi_serialization_format_json else fmt)"
  using reachable_kind [OF assms] by (simp add: kind_of_def typed_def sized_def)

theorem serializer_well_typed_witness:
  "\<exists>s t. ndpi_init_serializer_ll (\<lambda>_. True) ndpi_serialization_format_tlv 16 = Some (0, s) \<and>
     ndpi_serialize_uint32_uint32 (\<lambda>_. True) 1 2 s = Some (0, t) \<and>
     (\<forall>d. sb_data (ss_buffer t) = Some d \<longrightarrow> length d = sb_size (ss_buffer t))"
proof -
  obtain s where s: "ndpi_init_serializer_ll (\<lambda>_. True) ndpi_serialization_format_tlv 16 = Some (0, s)"
    "used s = 2" "sb_size (ss_buffer s) = 16" "sb_data (ss_buffer s) = Some (1 # format_code ndpi_serialization_format_tlv # replicate 14 0)"
    "ss_fmt s = ndpi_serialization_format_tlv"
    by (simp add: ndpi_init_serializer_ll_def ndpi_init_serializer_buffer_def ndpi_reset_serializer_def zero_serializer_def
        empty_ser_buffer_def empty_status_def ifelse_def put_at_def buf_write_def set_used_def used_def numeral_eq_Suc)
  moreover obtain t where t: "ndpi_serialize_uint32_uint32 (\<lambda>_. True) 1 2 s = Some (0, t)"
    using s(2-5)
    by (simp add: ndpi_serialize_uint32_uint32_def ensure_room_def buff_diff_def diff32_def ifelse_def tlv_unsigned_def
        tlv_uint32_item_def ndpi_serialize_key_uint32_def ndpi_serialize_single_uint8_def put_bytes_def put_at_def
        buf_write_def set_used_def used_def flag_on_def Let_def)
  moreover have "reachable ndpi_serialization_format_tlv t"
    using reach_call [of ndpi_serialization_format_tlv s "ndpi_serialize_uint32_uint32 (\<lambda>_. True) 1 2" 0 t]
      reach_init [OF s(1)] serialize_call.intros(1) t by blast
  ultimately show ?thesis using serializer_well_typed by blast
qed

end
