(* ===== verification/Json_Text.thy ===== *)
theory Json_Text
  imports Serializer
begin

text \<open>
  The string literals of the JSON format: what \<open>ndpi_json_string_escape\<close> of
  \<open>src/lib/ndpi_serializer.c\<close> writes is read back by a reader of JSON strings, which ends
  exactly at the closing quotation mark.
\<close>

section \<open>A reader of JSON strings\<close>

text \<open>The characters an escape stands for, as the grammar of JSON has them.\<close>

definition escaped :: "u8 \<Rightarrow> u8 option" where
  "escaped c =
     (if c = 34 \<or> c = 92 \<or> c = 47 then Some c
      else if c = 98 then Some 8 else if c = 116 then Some 9 else if c = 110 then Some 10
      else if c = 102 then Some 12 else if c = 114 then Some 13 else None)"

text \<open>
  The value of a string and the text behind it; the text starts behind the opening mark.
  Unescaped control characters are refused.
\<close>

fun read_string :: "bytes \<Rightarrow> (bytes \<times> bytes) option" where
  "read_string [] = None"
| "read_string (c # cs) =
     (if c = 34 then Some ([], cs)
      else if c < 32 then None
      else if c = 92 then
        (case cs of [] \<Rightarrow> None
         | d # ds \<Rightarrow> (case escaped d of None \<Rightarrow> None | Some v \<Rightarrow> map_option (\<lambda>(t, r). (v # t, r)) (read_string ds)))
      else map_option (\<lambda>(t, r). (c # t, r)) (read_string cs))"

text \<open>
  A body of a literal with its value: in front of any rest it is read as the value, and
  the reader goes on with the rest.
\<close>

definition reads :: "bytes \<Rightarrow> bytes \<Rightarrow> bool" where
  "reads body v \<longleftrightarrow> (\<forall>rest. read_string (body @ rest) = map_option (\<lambda>(t, r). (v @ t, r)) (read_string rest))"

lemma reads_Nil: "reads [] []"
  by (simp add: reads_def option.map_id0)

lemma reads_append: "reads a v \<Longrightarrow> reads b w \<Longrightarrow> reads (a @ b) (v @ w)"
  by (simp add: reads_def option.map_comp o_def case_prod_unfold)

lemma reads_plain: "32 \<le> c \<Longrightarrow> c \<noteq> 34 \<Longrightarrow> c \<noteq> 92 \<Longrightarrow> reads [c] [c]"
  by (simp add: reads_def leD)

lemma reads_escape: "escaped d = Some v \<Longrightarrow> reads [92, d] [v]"
  by (simp add: reads_def)

section \<open>Escaping\<close>

text \<open>The characters a literal represents: a control character without an escape is left out.\<close>

definition representable :: "u8 \<Rightarrow> bool" where
  "representable c \<longleftrightarrow> 32 \<le> c \<or> c \<in> {8, 9, 10, 12, 13}"

lemma bytes_of_chars: "byte_of CHR 34 = 34" "byte_of CHR 92 = 92" "byte_of CHR ''/'' = 47"
  "str [CHR 92, CHR ''b''] = [92, 98]" "str [CHR 92, CHR ''t''] = [92, 116]" "str [CHR 92, CHR ''n''] = [92, 110]"
  "str [CHR 92, CHR ''f''] = [92, 102]" "str [CHR 92, CHR ''r''] = [92, 114]"
  by (simp_all add: str_def byte_of_def)

lemma json_ascii_reads: "reads (json_ascii c) (if representable c then [c] else [])"
proof -
  consider "c = 92 \<or> c = 34 \<or> c = 47" | "c = 8" | "c = 9" | "c = 10" | "c = 12" | "c = 13"
    | "c < 32" "c \<notin> {8, 9, 10, 12, 13}" | "32 \<le> c" "c \<notin> {34, 47, 92}"
    by fastforce
  then show ?thesis
  proof cases
    case 1
    then have "reads [92, c] [c]" by (intro reads_escape) (auto simp: escaped_def)
    then show ?thesis using 1 by (auto simp: json_ascii_def bytes_of_chars representable_def)
  next
    case 7
    then show ?thesis using reads_Nil
      by (auto simp: json_ascii_def bytes_of_chars representable_def)
  next
    case 8
    then show ?thesis using reads_plain [of c]
      by (auto simp: json_ascii_def bytes_of_chars representable_def)
  qed (use reads_escape [of 98 8] reads_escape [of 116 9] reads_escape [of 110 10] reads_escape [of 102 12]
        reads_escape [of 114 13] in \<open>simp_all add: json_ascii_def bytes_of_chars representable_def escaped_def\<close>)
qed

lemma json_ascii_length: "length (json_ascii c) \<le> 2"
  by (simp add: json_ascii_def bytes_of_chars)

text \<open>Bytes of a UTF-8 sequence are copied.\<close>

lemma reads_high: "\<forall>c\<in>set cs. 128 \<le> c \<Longrightarrow> reads cs cs"
proof (induction cs)
  case (Cons c cs)
  have "reads [c] [c]" using Cons.prems by (intro reads_plain) (auto intro: order_trans [of 32 128])
  then show ?case using Cons reads_append [of "[c]" "[c]" cs cs] by simp
qed (simp add: reads_Nil)

text \<open>
  What the loop adds to its output: a body that reads as some value, of at most two bytes
  per character, at most three of them behind the limit; the value is the source when it is
  plain text and the room suffices.
\<close>

definition plain :: "bytes \<Rightarrow> bool" where
  "plain cs \<longleftrightarrow> (\<forall>c\<in>set cs. representable c \<and> c \<le> 126)"

definition literal_body :: "bytes \<Rightarrow> int \<Rightarrow> bytes \<Rightarrow> bytes \<Rightarrow> bool" where
  "literal_body src limit out r \<longleftrightarrow> (\<exists>body v. r = out @ body \<and> reads body v \<and> length body \<le> 2 * length src \<and>
     (limit \<le> int (length out) \<longrightarrow> body = []) \<and>
     (int (length out) < limit \<longrightarrow> int (length out + length body) \<le> limit + 3) \<and>
     (plain src \<longrightarrow> int (length out + 2 * length src) \<le> limit \<longrightarrow> v = src))"

lemma literal_body_end: "src = [] \<or> limit \<le> int (length out) \<Longrightarrow> literal_body src limit out out"
  using reads_Nil by (cases src) (auto simp: literal_body_def intro!: exI [of _ "[]"])

lemma literal_body_more:
  assumes "literal_body cs limit (out @ piece) r" "reads piece w" "length piece \<le> 2 * length pre" "length piece \<le> 4"
    "int (length out) < limit" "plain (pre @ cs) \<longrightarrow> w = pre"
  shows "literal_body (pre @ cs) limit out r"
proof -
  obtain body v where b: "r = out @ piece @ body" "reads body v" "length body \<le> 2 * length cs"
    "limit \<le> int (length (out @ piece)) \<longrightarrow> body = []"
    "int (length (out @ piece)) < limit \<longrightarrow> int (length (out @ piece) + length body) \<le> limit + 3"
    "plain cs \<longrightarrow> int (length (out @ piece) + 2 * length cs) \<le> limit \<longrightarrow> v = cs"
    using assms(1) by (auto simp: literal_body_def)
  have "reads (piece @ body) (w @ v)" using reads_append assms(2) b(2) by blast
  moreover have "length (piece @ body) \<le> 2 * length (pre @ cs)" using b(3) assms(3) by simp
  moreover have "int (length out + length (piece @ body)) \<le> limit + 3"
    using b(4,5) assms(4,5) by (cases "limit \<le> int (length (out @ piece))") auto
  moreover have "plain (pre @ cs) \<longrightarrow> int (length out + 2 * length (pre @ cs)) \<le> limit \<longrightarrow> w @ v = pre @ cs"
    using assms(3,6) b(6) by (auto simp: plain_def)
  ultimately show ?thesis unfolding literal_body_def using b(1) assms(5) by (intro exI [of _ "piece @ body"] exI [of _ "w @ v"]) simp
qed

lemma split_front1: "1 \<le> length cs \<Longrightarrow> cs = cs ! 0 # drop 1 cs"
  by (cases cs) simp_all

lemma split_front2: "2 \<le> length cs \<Longrightarrow> cs = cs ! 0 # cs ! 1 # drop 2 cs"
  using split_front1 [of cs] Cons_nth_drop_Suc [of 1 cs] by (simp add: numeral_2_eq_2)

lemma split_front3: "3 \<le> length cs \<Longrightarrow> cs = cs ! 0 # cs ! 1 # cs ! 2 # drop 3 cs"
  using split_front2 [of cs] Cons_nth_drop_Suc [of 2 cs] by (simp add: numeral_3_eq_3 numeral_2_eq_2)

lemma literal_body_copied:
  assumes "literal_body cs limit (out @ pre) r" "pre \<noteq> []" "length pre \<le> 4" "\<forall>x\<in>set pre. 128 \<le> x"
    "int (length out) < limit"
  shows "literal_body (pre @ cs) limit out r"
proof -
  have "\<not> x \<le> 126" if "x \<in> set pre" for x
    unfolding not_le by (rule less_le_trans [of 126 128]) (use assms(4) that in simp_all)
  then have "\<not> plain (pre @ cs)" using assms(2) by (cases pre) (auto simp: plain_def)
  then show ?thesis using literal_body_more [OF assms(1) reads_high [OF assms(4)], of pre] assms(3,5) by simp
qed

lemma literal_body_skipped:
  assumes "126 < c" "literal_body cs limit out r" "int (length out) < limit"
  shows "literal_body (c # cs) limit out r"
proof -
  have "\<not> c \<le> 126" using assms(1) by (simp only: not_le)
  then have "\<not> plain ([c] @ cs)" by (simp add: plain_def)
  then show ?thesis using literal_body_more [of cs limit out "[]" r "[]" "[c]"] assms(2,3) reads_Nil by simp
qed

lemma json_escape_loop_literal: "literal_body src limit out (json_escape_loop src limit out)"
proof (induction src limit out rule: json_escape_loop.induct)
  case (1 limit out)
  then show ?case using literal_body_end [of "[]"] by simp
next
  case (2 c cs limit out)
  show ?case
  proof (cases "limit \<le> int (length out)")
    case True
    then show ?thesis using literal_body_end by simp
  next
    case False
    then have room: "int (length out) < limit" by simp
    have high: "128 \<le> c" if "194 \<le> c \<or> 224 \<le> c \<or> 240 \<le> c" for c :: u8
      using that order_trans [of 128 194 c] order_trans [of 128 224 c] order_trans [of 128 240 c] by auto
    have tail: "128 \<le> x" if "utf8_tail x" for x using that by (simp add: utf8_tail_def)
    consider (ascii) "c \<le> 126" | (del) "\<not> c \<le> 126" "c = 127"
      | (two) "\<not> c \<le> 126" "c \<noteq> 127" "194 \<le> c \<and> c \<le> 223 \<and> 1 \<le> length cs \<and> utf8_tail (cs ! 0)"
      | (three) "\<not> c \<le> 126" "c \<noteq> 127" "\<not> (194 \<le> c \<and> c \<le> 223 \<and> 1 \<le> length cs \<and> utf8_tail (cs ! 0))"
          "224 \<le> c \<and> c \<le> 239 \<and> 2 \<le> length cs \<and> utf8_tail (cs ! 0) \<and> utf8_tail (cs ! 1)"
      | (four) "\<not> c \<le> 126" "c \<noteq> 127" "\<not> (194 \<le> c \<and> c \<le> 223 \<and> 1 \<le> length cs \<and> utf8_tail (cs ! 0))"
          "\<not> (224 \<le> c \<and> c \<le> 239 \<and> 2 \<le> length cs \<and> utf8_tail (cs ! 0) \<and> utf8_tail (cs ! 1))"
          "240 \<le> c \<and> c \<le> 244 \<and> 3 \<le> length cs \<and> utf8_tail (cs ! 0) \<and> utf8_tail (cs ! 1) \<and> utf8_tail (cs ! 2)"
      | (other) "\<not> c \<le> 126" "c \<noteq> 127" "\<not> (194 \<le> c \<and> c \<le> 223 \<and> 1 \<le> length cs \<and> utf8_tail (cs ! 0))"
          "\<not> (224 \<le> c \<and> c \<le> 239 \<and> 2 \<le> length cs \<and> utf8_tail (cs ! 0) \<and> utf8_tail (cs ! 1))"
          "\<not> (240 \<le> c \<and> c \<le> 244 \<and> 3 \<le> length cs \<and> utf8_tail (cs ! 0) \<and> utf8_tail (cs ! 1) \<and> utf8_tail (cs ! 2))"
      by blast
    then show ?thesis
    proof cases
      case ascii
      show ?thesis
        using literal_body_more [OF "2.IH"(1) [OF False ascii] json_ascii_reads, of "[c]"] json_ascii_length [of c] False ascii
        by (auto simp: plain_def)
    next
      case del
      then show ?thesis using literal_body_skipped [OF _ "2.IH"(2) [OF False] room] False by simp
    next
      case two
      have "json_escape_loop (c # cs) limit out = json_escape_loop (drop 1 cs) limit (out @ [c, cs ! 0])"
        unfolding json_escape_loop.simps(2) if_not_P [OF False] if_not_P [OF two(1)] if_not_P [OF two(2)] if_P [OF two(3)] ..
      moreover have "c # cs = [c, cs ! 0] @ drop 1 cs" using two split_front1 [of cs] by simp
      moreover have "\<forall>x\<in>set [c, cs ! 0]. 128 \<le> x" using two tail high by simp
      ultimately show ?thesis
        using literal_body_copied [OF "2.IH"(3) [OF False two] _ _ _ room] by (simp del: json_escape_loop.simps)
    next
      case three
      have "json_escape_loop (c # cs) limit out = json_escape_loop (drop 2 cs) limit (out @ [c, cs ! 0, cs ! 1])"
        unfolding json_escape_loop.simps(2) if_not_P [OF False] if_not_P [OF three(1)] if_not_P [OF three(2)] if_not_P [OF three(3)] if_P [OF three(4)] ..
      moreover have "c # cs = [c, cs ! 0, cs ! 1] @ drop 2 cs" using three split_front2 [of cs] by simp
      moreover have "\<forall>x\<in>set [c, cs ! 0, cs ! 1]. 128 \<le> x" using three tail high by simp
      ultimately show ?thesis
        using literal_body_copied [OF "2.IH"(4) [OF False three] _ _ _ room] by (simp del: json_escape_loop.simps)
    next
      case four
      have "json_escape_loop (c # cs) limit out = json_escape_loop (drop 3 cs) limit (out @ [c, cs ! 0, cs ! 1, cs ! 2])"
        unfolding json_escape_loop.simps(2) if_not_P [OF False] if_not_P [OF four(1)] if_not_P [OF four(2)] if_not_P [OF four(3)] if_not_P [OF four(4)] if_P [OF four(5)] ..
      moreover have "c # cs = [c, cs ! 0, cs ! 1, cs ! 2] @ drop 3 cs" using four split_front3 [of cs] by simp
      moreover have "\<forall>x\<in>set [c, cs ! 0, cs ! 1, cs ! 2]. 128 \<le> x" using four tail high by simp
      ultimately show ?thesis
        using literal_body_copied [OF "2.IH"(5) [OF False four] _ _ _ room] by (simp del: json_escape_loop.simps)
    next
      case other
      have "json_escape_loop (c # cs) limit out = json_escape_loop cs limit out"
        unfolding json_escape_loop.simps(2) if_not_P [OF False] if_not_P [OF other(1)] if_not_P [OF other(2)] if_not_P [OF other(3)] if_not_P [OF other(4)] if_not_P [OF other(5)] ..
      then show ?thesis using literal_body_skipped [OF _ "2.IH"(6) [OF False other] room] other(1)
        by (simp only: not_le)
    qed
  qed
qed

lemma json_escape_literal:
  "\<exists>body v. json_escape src limit = 34 # body @ [34] \<and> (\<forall>rest. read_string (body @ 34 # rest) = Some (v, rest)) \<and>
     length body \<le> 2 * length src \<and> (1 < limit \<longrightarrow> int (length body) \<le> limit + 2) \<and>
     (plain src \<longrightarrow> int (1 + 2 * length src) \<le> limit \<longrightarrow> v = src)"
proof -
  obtain body v where b: "json_escape_loop src limit [34] = [34] @ body" "reads body v" "length body \<le> 2 * length src"
    "1 < limit \<longrightarrow> int (length body) \<le> limit + 2" "plain src \<longrightarrow> int (1 + 2 * length src) \<le> limit \<longrightarrow> v = src"
    using json_escape_loop_literal [of src limit "[34]"] by (auto simp: literal_body_def)
  have "read_string (body @ 34 # rest) = Some (v, rest)" for rest using b(2) by (simp add: reads_def)
  then show ?thesis using b by (auto simp: json_escape_def bytes_of_chars)
qed

lemma put_text:
  assumes "sb_data (ss_buffer s) = Some d" "used s + length t + 1 < length d"
  shows "\<exists>s' d'. chain [put_bytes t, \<lambda>s. put_at (used s + 1) 0 s] s = Some (0, s') \<and> used s' = used s + length t \<and>
    sb_data (ss_buffer s') = Some d' \<and> length d' = length d \<and> take (used s') d' = take (used s) d @ t"
  using assms by (simp add: put_bytes_def put_at_def buf_write_def set_used_def used_def)

text \<open>C40. Escaping a string for JSON is bounded and invents no structure: when twice the length
  of the string and four bytes are free (the comment of the function recommends twice the
  length, which leaves out the marks and the final NUL), the function writes inside the buffer and adds at most twice the length and two bytes. What it adds is one
  string literal: a reader of JSON strings consumes it exactly up to its last quotation
  mark whatever follows, so no content of the string can end it early. The value it reads
  is the string itself when that has only printable ASCII characters and the control
  characters JSON has short escapes for.\<close>

theorem json_string_is_one_literal:
  assumes "n \<le> length src" "sb_data (ss_buffer s) = Some d" "length d = sb_size (ss_buffer s)"
    "used s + 2 * n + 4 \<le> sb_size (ss_buffer s)" "sb_size (ss_buffer s) < 2 ^ 31"
  shows "\<exists>s' d' body v. ndpi_json_string_escape src n s = Some (0, s') \<and> sb_data (ss_buffer s') = Some d' \<and>
    length d' = length d \<and> take (used s') d' = take (used s) d @ 34 # body @ [34] \<and>
    used s' = used s + length body + 2 \<and> length body \<le> 2 * n \<and>
    (\<forall>rest. read_string (body @ 34 # rest) = Some (v, rest)) \<and>
    (plain (take n src) \<longrightarrow> v = take n src)"
proof -
  define room where "room = sb_size (ss_buffer s) - used s"
  have "sb_size (ss_buffer s) + 2 ^ 32 - used s = room + 2 ^ 32" "room < 2 ^ 31"
    using assms(4,5) unfolding room_def by linarith+
  then have "buff_diff s = room" unfolding buff_diff_def diff32_def by simp
  with \<open>room < 2 ^ 31\<close> have room: "as_int (buff_diff s) = int room" "2 * n + 4 \<le> room"
    using assms(4) by (simp_all add: room_def as_int_def)
  obtain body v where b: "json_escape (take n src) (int room) = 34 # body @ [34]"
    "\<forall>rest. read_string (body @ 34 # rest) = Some (v, rest)" "length body \<le> 2 * n"
    "plain (take n src) \<longrightarrow> v = take n src"
    using json_escape_literal [of "take n src" "int room"] room(2) assms(1) by fastforce
  obtain s' d' where p: "chain [put_bytes (34 # body @ [34]), \<lambda>s. put_at (used s + 1) 0 s] s = Some (0, s')"
    "used s' = used s + length (34 # body @ [34])" "sb_data (ss_buffer s') = Some d'" "length d' = length d"
    "take (used s') d' = take (used s) d @ 34 # body @ [34]"
    using put_text [OF assms(2), of "34 # body @ [34]"] b(3) assms(3,4) by auto
  have "ndpi_json_string_escape src n s = Some (0, s')"
    using assms(1) p(1) unfolding ndpi_json_string_escape_def room(1) b(1) Let_def by simp
  then show ?thesis using p b(2-4) by auto
qed

theorem json_string_is_one_literal_witness:
  "\<exists>s' d'. ndpi_json_string_escape (str [CHR 34]) 1 (zero_serializer\<lparr>ss_buffer :=
     \<lparr>sb_initial_size = 8, sb_size = 8, sb_data = Some (replicate 8 0)\<rparr>\<rparr>) = Some (0, s') \<and> sb_data (ss_buffer s') = Some d'"
  using json_string_is_one_literal [of 1 "str [CHR 34]" "zero_serializer\<lparr>ss_buffer :=
     \<lparr>sb_initial_size = 8, sb_size = 8, sb_data = Some (replicate 8 0)\<rparr>\<rparr>" "replicate 8 0"]
  by (simp add: used_def zero_serializer_def empty_status_def) blast

end
