(* ===== verification/Spec2Isabelle.thy ===== *)
theory Spec2Isabelle
  imports Lru_Cache Address_Cache Hostname_Cache Bitmask Flow_Types Protocol_Ids Proto_Table Risk Proto_Stack
    C_Strings Classification Dissector_Table Serializer_Theorems Default_Ports Flow_Tree
    L4_Parse Packet_Init Serializer_Types Json_Text
begin

text \<open>
  A model of nDPI, the deep packet inspection library under \<open>src/\<close>, and the theorems that hold
  of it. Paths below are relative to \<open>src/src\<close>, and \<open>src/example\<close> for the example reader.

  \<^bold>\<open>The program.\<close> An application hands packets of a flow to a detection module. The library
  locates the transport header, prepares the packet, and runs the protocol dissectors that are
  registered for packets of this kind until one of them classifies the flow; a dissector that
  rules its protocol out is excluded for the rest of the flow. What no dissector recognises is
  guessed from ports. Classification records a protocol stack, a confidence, a category and a
  set of risks. Caches connect flows; bit sets hold the configuration and the excluded
  dissectors; results are written by a serializer and may be read back by a deserializer.

  \<^bold>\<open>Conventions\<close> (\<open>Ndpi_Prelude\<close>). A \<open>struct\<close> is a record, an enumeration a datatype or its
  number, a function a HOL function on the state it reads and writes. An \<open>option\<close> result is
  \<open>None\<close> where the C program has undefined behaviour: an access outside an object, a
  dereference of \<open>NULL\<close>, a division by zero. So \<open>f x = Some y\<close> says that the code is memory
  safe on \<open>x\<close>, that it returns, and what it returns. Error codes of the source are ordinary
  values. Hashes, keys, flags and masks are machine words; lengths, ports and identifiers are
  \<open>nat\<close> with the wrap-around of C written out where they can leave their width. The outcome of
  an allocation is an argument. Third-party code is an argument as well.

  \<^bold>\<open>The parts.\<close>

  \<^item> Hashes and caches. \<open>Hashing\<close> has the functions of \<open>lib/ndpi_hash.c\<close>; \<open>Lru_Cache\<close>,
    \<open>Address_Cache\<close> and \<open>Hostname_Cache\<close> the three caches of \<open>lib/ndpi_cache.c\<close>.
    \<open>Cache_Interface\<close> states what a client may expect of a cache with expiry, as a locale that
    the LRU cache interprets: a hit is the last value stored under that very key, within its
    time to live. The address cache finds what was inserted; its counter drifts and its flush
    removes the entries that are still valid. The host name filter keeps an entry over one
    swap of its generations.

  \<^item> Bit sets. \<open>Bitmask\<close> has \<open>struct ndpi_bitmask\<close> of \<open>lib/ndpi_utils.c\<close> and the dissector bit
    set of the headers, and shows that the operations are those of a set of numbers.

  \<^item> State. \<open>Flow_Types\<close> has the packet, the flow and the module (\<open>include/ndpi_typedefs.h\<close>,
    \<open>include/ndpi_private.h\<close>), \<open>Protocol_Ids\<close> the identifiers, \<open>Proto_Table\<close> the table of
    protocol defaults of \<open>lib/ndpi_main.c\<close>: registration keeps the table well formed, and fails
    on the last identifier; user identifiers are translated both ways.

  \<^item> Classification. \<open>Proto_Stack\<close>, \<open>Risk\<close> and \<open>Classification\<close> have the protocol stack, the
    risks with their messages and exceptions, and \<open>ndpi_set_detected_protocol\<close> with what it
    calls. The stack refines a list of protocols; setting and clearing a risk changes one bit;
    setting a protocol classifies the flow.

  \<^item> Dissectors. \<open>C_Strings\<close> has the string searches they use, each shown equal to a simple
    specification. \<open>Dissector_Interface\<close> has what the engine offers a dissector and the
    contract it asks for: no undefined behaviour, the packet and the tables of the module
    unchanged, the flow well formed. \<open>Dissectors_A\<close>, \<open>Dissectors_B\<close> and \<open>Dissectors_C\<close> have
    the search functions of \<open>lib/protocols\<close>, from those that look at one packet to those that
    keep a stage in the flow; every one of them keeps the contract.

  \<^item> Dispatch. \<open>Dispatch\<close> has the registration of \<open>lib/ndpi_main.c\<close>, the arrays of callbacks by
    kind of packet and \<open>check_ndpi_detection_func\<close>; \<open>Dispatch_Init\<close> what initialisation leaves
    behind. The locale \<open>dissector_provider\<close> is the interface between dispatcher and
    dissectors; \<open>Dissector_Table\<close> interprets it on all modelled dissectors. Dispatch is safe on
    every packet after initialisation, runs only dissectors whose selection the packet meets,
    and leaves a flow without a guess unclassified only after trying all that apply.

  \<^item> Packets. \<open>L4_Parse\<close> has the location of the transport header (fragments, IPv6 extension
    headers): the result lies inside the packet. \<open>Packet_Init\<close> has \<open>ndpi_init_packet\<close> with the
    fingerprint of TCP SYN segments: it returns for every packet.

  \<^item> Trees. \<open>Search_Tree\<close> has \<open>ndpi_tsearch\<close>, \<open>ndpi_tfind\<close>, \<open>ndpi_tdelete\<close>, \<open>ndpi_twalk\<close> and
    \<open>ndpi_tdestroy\<close> of \<open>lib/ndpi_utils.c\<close>, refined to sorted lists inside the locale
    \<open>comparison\<close>; the locale \<open>keyed\<close> gives that contract for comparisons by a key.
    \<open>Default_Ports\<close> interprets it on the ports of the protocols (registration, and the guess
    by port is justified by a registered range), \<open>Flow_Tree\<close> on the flow table of
    \<open>example/reader_util.c\<close>.

  \<^item> Serializer. \<open>Serializer\<close>, \<open>Serializer_Ops\<close> and \<open>Deserializer\<close> have \<open>lib/ndpi_serializer.c\<close>
    in its three formats. \<open>Serializer_Tlv\<close> shows that a call appends the encoding of its item
    whatever the allocator answers, \<open>Serializer_Roundtrip\<close> and \<open>Serializer_Theorems\<close> that the
    items read back are those written, that copying a buffer reproduces it, and which inputs
    break this. \<open>Serializer_Types\<close> has one frame argument for all calls and formats as the
    locale \<open>step_frame\<close>: each buffer keeps the size its descriptor records. \<open>Json_Text\<close> shows
    that an escaped string is one literal for a reader of JSON.

  \<^bold>\<open>Loops.\<close> Loops are structural recursion or functions with a measure. Two may not end in C.
  \<open>clone_loop\<close> takes fuel, one unit for each item; more fuel than items is shown to be enough.
  \<open>options_loop\<close> of \<open>Packet_Init\<close>, whose 8-bit index may stand still, is a
  partial function whose value \<open>None\<close> would be the endless loop; it is shown to return, since
  every round prints into a buffer of 128 bytes, and the loop ends when that is full.

  \<^bold>\<open>Not modelled.\<close> The large dissectors (TLS, QUIC, HTTP, DNS, STUN, BitTorrent and others)
  with their certificate, cipher and host name parsers, and the chain of calls around detection
  that depends on them (\<open>ndpi_internal_detection_process_packet\<close>, \<open>ndpi_detection_giveup\<close>); lists
  and rules read from files, configuration, plugins, geolocation, which are input and output;
  the floating-point statistics of \<open>lib/ndpi_analyze.c\<close> and \<open>lib/ndpi_classify.c\<close>; third-party code
  (automata, Patricia trees, compressed bitmaps, ciphers); capture and printing of the example
  programs. Mutexes of the shared caches only serialise calls and are left out. Floating-point
  numbers are serialized through an argument for the text of \<open>printf\<close>.
\<close>

end
